(* ===== verification/Prelude.thy ===== *)
theory Prelude
  imports
    Complex_Main
    "HOL-Library.Multiset"
    "HOL-Library.List_Lexorder"
    "HOL-Library.Char_ord"
begin

text \<open>
  Shared vocabulary of the PingMesh development: the machine integers of the Go code, the result of
  a fallible call, the ordering of query results, and the list lemmas that the components share.

  Go's \<open>int\<close> and \<open>int64\<close> (both 64 bits wide on the platforms the program is built for) are
  \<open>int\<close> here; every arithmetic operation of the code that can leave the 64-bit range is written with
  \<open>wrap64\<close>, which is Go's two's complement wrap-around.
\<close>

type_synonym int64 = int

named_theorems store_defs \<open>definitions of the statements of the SQLite store\<close>
named_theorems scan_simps \<open>columns read back after they were bound\<close>
named_theorems frame \<open>what an operation leaves unchanged\<close>

section \<open>Machine integers\<close>

definition wrap64 :: "int \<Rightarrow> int64" where
  "wrap64 x = (x + 2 ^ 63) mod 2 ^ 64 - 2 ^ 63"

definition in_int64 :: "int \<Rightarrow> bool" where
  "in_int64 x \<longleftrightarrow> - (2 ^ 63) \<le> x \<and> x < 2 ^ 63"

lemma wrap64_in_int64 [simp]: "in_int64 (wrap64 x)"
  using pos_mod_bound [of "2 ^ 64 :: int" "x + 2 ^ 63"] pos_mod_sign [of "2 ^ 64 :: int" "x + 2 ^ 63"]
  by (simp add: wrap64_def in_int64_def)

lemma wrap64_id: "in_int64 x \<Longrightarrow> wrap64 x = x"
  by (simp add: wrap64_def in_int64_def)

text \<open>Go's integer division truncates towards zero.\<close>

definition go_div :: "int64 \<Rightarrow> int64 \<Rightarrow> int64" where
  "go_div a b = sgn a * sgn b * (\<bar>a\<bar> div \<bar>b\<bar>)"

lemma go_div_nonneg: "0 \<le> a \<Longrightarrow> 0 < b \<Longrightarrow> go_div a b = a div b"
  by (cases "a = 0") (simp_all add: go_div_def sgn_if)

section \<open>Decimal text\<close>

text \<open>The verb \<open>%d\<close> of \<open>fmt\<close>.\<close>

definition digit_char :: "nat \<Rightarrow> char" where
  "digit_char d = char_of (48 + d)"

fun show_nat :: "nat \<Rightarrow> string" where
  "show_nat n = (if n < 10 then [digit_char n] else show_nat (n div 10) @ [digit_char (n mod 10)])"

declare show_nat.simps [simp del]

definition show_int :: "int \<Rightarrow> string" where
  "show_int x = (if x < 0 then ''-'' @ show_nat (nat (- x)) else show_nat (nat x))"

text \<open>
  \<open>strconv.ParseInt(s, 10, 64)\<close>, which is also \<open>Atoi\<close>: an optional sign and decimal digits. A value out of
  range is an error too, but comes with the nearest bound.
\<close>

datatype parsed_int = IntOk int64 | IntSyntax | IntRange int64

definition is_digit :: "char \<Rightarrow> bool" where
  "is_digit c \<longleftrightarrow> 48 \<le> (of_char c :: nat) \<and> (of_char c :: nat) \<le> 57"

definition digits_value :: "string \<Rightarrow> nat" where
  "digits_value ds = fold (\<lambda>c n. 10 * n + (of_char c - 48)) ds 0"

definition ParseInt :: "string \<Rightarrow> parsed_int" where
  "ParseInt s =
     (let negative = (s \<noteq> [] \<and> hd s = CHR ''-'');
          ds = (if s \<noteq> [] \<and> (hd s = CHR ''-'' \<or> hd s = CHR ''+'') then tl s else s)
      in if ds = [] \<or> \<not> list_all is_digit ds then IntSyntax
         else let v = (if negative then - int (digits_value ds) else int (digits_value ds))
              in if v < - (2 ^ 63) then IntRange (- (2 ^ 63))
                 else if v \<ge> 2 ^ 63 then IntRange (2 ^ 63 - 1) else IntOk v)"

text \<open>The value where the error is ignored, as in \<open>since, _ = strconv.ParseInt(...)\<close>.\<close>

definition parsed_value :: "parsed_int \<Rightarrow> int64" where
  "parsed_value r = (case r of IntOk v \<Rightarrow> v | IntSyntax \<Rightarrow> 0 | IntRange v \<Rightarrow> v)"

lemma digit_char_simps [simp]:
  "d < 10 \<Longrightarrow> (of_char (digit_char d) :: nat) = 48 + d" "d < 10 \<Longrightarrow> is_digit (digit_char d)"
  by (simp_all add: digit_char_def is_digit_def)

lemma digits_value_snoc [simp]: "digits_value (ds @ [c]) = 10 * digits_value ds + (of_char c - 48)"
  by (simp add: digits_value_def)

lemma show_nat_digits: "digits_value (show_nat n) = n \<and> list_all is_digit (show_nat n) \<and> show_nat n \<noteq> []"
proof (induction n rule: show_nat.induct)
  case (1 n)
  show ?case
  proof (cases "n < 10")
    case True
    then have "show_nat n = [digit_char n]" by (subst show_nat.simps) simp
    with True show ?thesis using digits_value_snoc [of "[]" "digit_char n"]
      by (simp add: digits_value_def)
  next
    case False
    then have "show_nat n = show_nat (n div 10) @ [digit_char (n mod 10)]"
      by (subst show_nat.simps) simp
    with False 1 show ?thesis by simp
  qed
qed

lemma digit_not_sign: "is_digit c \<Longrightarrow> c \<noteq> CHR ''-'' \<and> c \<noteq> CHR ''+''"
  by (auto simp: is_digit_def)

lemma ParseInt_show_int:
  assumes "in_int64 v"
  shows "ParseInt (show_int v) = IntOk v"
proof -
  have hd: "hd (show_nat n) \<noteq> CHR ''-'' \<and> hd (show_nat n) \<noteq> CHR ''+''" for n
    using show_nat_digits [of n] digit_not_sign by (cases "show_nat n") auto
  show ?thesis
    using assms show_nat_digits [of "nat v"] show_nat_digits [of "nat (- v)"] hd [of "nat v"]
    by (auto simp: ParseInt_def show_int_def Let_def in_int64_def)
qed

section \<open>Byte strings\<close>

text \<open>
  \<open>Split\<close> at a one-byte separator, \<open>Join\<close>, and \<open>TrimRight\<close>, \<open>TrimPrefix\<close>, \<open>TrimSuffix\<close> of the packages
  \<open>bytes\<close> and \<open>strings\<close>. Splitting the empty string gives one empty part.
\<close>

fun split_on :: "char \<Rightarrow> string \<Rightarrow> string list" where
  "split_on c [] = [[]]"
| "split_on c (x # xs) =
     (if x = c then [] # split_on c xs
      else case split_on c xs of [] \<Rightarrow> [[x]] | y # ys \<Rightarrow> (x # y) # ys)"

fun join_with :: "string \<Rightarrow> string list \<Rightarrow> string" where
  "join_with sep [] = []"
| "join_with sep [x] = x"
| "join_with sep (x # y # ys) = x @ sep @ join_with sep (y # ys)"

definition trim_right :: "char \<Rightarrow> string \<Rightarrow> string" where
  "trim_right c s = rev (dropWhile (\<lambda>x. x = c) (rev s))"

definition has_prefix :: "string \<Rightarrow> string \<Rightarrow> bool" where
  "has_prefix pre s \<longleftrightarrow> take (length pre) s = pre"

definition trim_prefix :: "string \<Rightarrow> string \<Rightarrow> string" where
  "trim_prefix pre s = (if has_prefix pre s then drop (length pre) s else s)"

definition has_suffix :: "string \<Rightarrow> string \<Rightarrow> bool" where
  "has_suffix suf s \<longleftrightarrow> has_prefix (rev suf) (rev s)"

definition trim_suffix :: "string \<Rightarrow> string \<Rightarrow> string" where
  "trim_suffix suf s = (if has_suffix suf s then take (length s - length suf) s else s)"

lemma split_on_nonempty [simp]: "split_on c s \<noteq> []"
  by (induction s) (auto split: list.splits)

lemma split_on_parts: "part \<in> set (split_on c s) \<Longrightarrow> c \<notin> set part"
  by (induction s arbitrary: part) (auto split: list.splits if_splits)

lemma join_split: "join_with [c] (split_on c s) = s"
proof (induction s)
  case (Cons x s)
  then show ?case
    by (cases "split_on c s" rule: list.exhaust; cases "tl (split_on c s)")
      (auto split: list.splits)
qed simp

lemma last_n_append: "length ys \<le> k \<Longrightarrow>
    drop (length (xs @ ys) - k) (xs @ ys) = drop (length xs - (k - length ys)) xs @ ys"
  by auto

section \<open>Loops over lists\<close>

text \<open>\<open>takeWhile\<close> counts the leading run that a loop with a \<open>break\<close> counts.\<close>

lemma takeWhile_exclusive:
  "takeWhile P xs \<noteq> [] \<Longrightarrow> takeWhile (\<lambda>x. \<not> P x) xs = []"
  by (cases xs) (auto split: if_splits)

lemma length_filter_disjoint:
  assumes "\<And>x. x \<in> set xs \<Longrightarrow> \<not> (P x \<and> Q x)"
  shows "length (filter P xs) + length (filter Q xs) \<le> length xs"
  using assms by (induction xs) force+

lemma distinct_map_filter_update:
  assumes "\<And>x. x \<in> set xs \<Longrightarrow> Q (g x) \<Longrightarrow> Q x" and "\<And>x. f (g x) = f x"
    and "distinct (map f (filter Q xs))"
  shows "distinct (map f (filter Q (map g xs)))"
  using assms
proof (induction xs)
  case Nil
  then show ?case by simp
next
  case (Cons a xs)
  have sub: "f ` (set (map g xs) \<inter> Collect Q) \<subseteq> f ` (set xs \<inter> Collect Q)"
    using Cons.prems(1,2) by force
  from Cons have IH: "distinct (map f (filter Q (map g xs)))"
    by (auto split: if_splits)
  show ?case
  proof (cases "Q (g a)")
    case True
    with Cons.prems(1) have "Q a" by simp
    with Cons.prems(3) have "f a \<notin> f ` (set xs \<inter> Collect Q)" by auto
    with sub have "f a \<notin> f ` (set (map g xs) \<inter> Collect Q)" by blast
    with True IH Cons.prems(2) show ?thesis by (auto simp: image_iff)
  next
    case False
    with IH show ?thesis by simp
  qed
qed

lemma distinct_map_unique:
  "distinct (map f xs) \<Longrightarrow> x \<in> set xs \<Longrightarrow> y \<in> set xs \<Longrightarrow> f x = f y \<Longrightarrow> x = y"
  by (auto simp: distinct_map inj_on_def)

lemma find_Some_iff_unique:
  "distinct (map f xs) \<Longrightarrow> x \<in> set xs \<Longrightarrow> f x = k \<Longrightarrow> find (\<lambda>y. f y = k) xs = Some x"
  by (induction xs) auto

section \<open>ORDER BY\<close>

text \<open>
  A query with \<open>ORDER BY\<close> returns the selected rows sorted by the key; rows with equal keys come in
  an order the engine chooses. The choice is a function \<open>scan\<close> that proposes an arrangement of the
  rows, and counts only where it is one (a query returns every matching row exactly once); the sort
  after it is stable, so every result the engine may return is of this form.
\<close>

definition arrange :: "('a list \<Rightarrow> 'a list) \<Rightarrow> 'a list \<Rightarrow> 'a list" where
  "arrange scan xs = (if mset (scan xs) = mset xs then scan xs else xs)"

definition order_by :: "('a list \<Rightarrow> 'a list) \<Rightarrow> ('a \<Rightarrow> 'k::linorder) \<Rightarrow> 'a list \<Rightarrow> 'a list" where
  "order_by scan key xs = sort_key key (arrange scan xs)"

definition order_desc :: "('a list \<Rightarrow> 'a list) \<Rightarrow> ('a \<Rightarrow> int) \<Rightarrow> 'a list \<Rightarrow> 'a list" where
  "order_desc scan key xs = order_by scan (\<lambda>x. - key x) xs"

lemma mset_arrange [simp]: "mset (arrange scan xs) = mset xs"
  by (simp add: arrange_def)

lemma arrange_id [simp]: "arrange (\<lambda>xs. xs) xs = xs"
  by (simp add: arrange_def)

lemma mset_order_by [simp]: "mset (order_by scan key xs) = mset xs"
  by (simp add: order_by_def)

lemma set_order_by [simp]: "set (order_by scan key xs) = set xs"
  by (metis mset_order_by set_mset_mset)

lemma length_order_by [simp]: "length (order_by scan key xs) = length xs"
  by (metis mset_order_by size_mset)

lemma mset_order_desc [simp]: "mset (order_desc scan key xs) = mset xs"
  and set_order_desc [simp]: "set (order_desc scan key xs) = set xs"
  and length_order_desc [simp]: "length (order_desc scan key xs) = length xs"
  by (simp_all add: order_desc_def)

lemma order_empty [simp]: "order_by scan key [] = []" "order_desc scan key' [] = []"
  by (metis length_order_by length_0_conv) (metis length_order_desc length_0_conv)

lemma order_eq_Nil [simp]:
  "order_by scan key xs = [] \<longleftrightarrow> xs = []" "order_desc scan key' xs = [] \<longleftrightarrow> xs = []"
  by (metis length_order_by length_0_conv) (metis length_order_desc length_0_conv)

lemma sorted_order_by: "sorted (map key (order_by scan key xs))"
  by (simp add: order_by_def)

lemma distinct_map_order_by: "distinct (map f (order_by scan key xs)) = distinct (map f xs)"
  by (metis mset_order_by mset_map mset_eq_imp_distinct_iff)

text \<open>
  With pairwise different keys the order is fully determined, whatever the engine's scan.
\<close>

lemma filter_eq_replicate: "filter (\<lambda>x. k = x) zs = replicate (count (mset zs) k) k"
  by (induction zs) auto

lemma sort_key_determined:
  fixes key :: "'a \<Rightarrow> 'k::linorder"
  assumes ms: "mset xs = mset ys" and inj: "inj_on key (set ys)"
  shows "sort_key key xs = sort_key key ys"
proof (rule properties_for_sort_key)
  show "mset (sort_key key ys) = mset xs"
    using ms by simp
  have same: "set xs = set ys"
    using ms by (metis set_mset_mset)
  have flt: "filter (\<lambda>x. key k = key x) zs = replicate (count (mset zs) k) k"
    if "k \<in> set ys" "set zs = set ys" for k zs
  proof -
    have "filter (\<lambda>x. key k = key x) zs = filter (\<lambda>x. k = x) zs"
      using that inj by (intro filter_cong) (auto simp: inj_on_def)
    then show ?thesis by (simp add: filter_eq_replicate)
  qed
  fix k
  assume "k \<in> set (sort_key key ys)"
  then show "filter (\<lambda>x. key k = key x) (sort_key key ys) = filter (\<lambda>x. key k = key x) xs"
    using same ms flt [of k "sort_key key ys"] flt [of k xs] by simp
next
  show "sorted (map key (sort_key key ys))" by simp
qed

lemma order_by_determined: "inj_on key (set xs) \<Longrightarrow> order_by scan key xs = sort_key key xs"
  unfolding order_by_def by (rule sort_key_determined) auto

text \<open>
  A row whose key is strictly smaller than every other key comes first, and the rest is ordered as
  it was before the row was added.
\<close>

lemma order_by_new_minimum:
  fixes key :: "'a \<Rightarrow> 'k::linorder"
  assumes inj: "inj_on key (set xs)" and new: "\<And>y. y \<in> set xs \<Longrightarrow> key x < key y"
  shows "order_by scan key (xs @ [x]) = x # order_by scan key xs"
proof -
  have "inj_on key (set (xs @ [x]))"
    using inj by (auto simp: inj_on_insert dest: new)
  then have "order_by scan key (xs @ [x]) = sort_key key (xs @ [x])"
    by (rule order_by_determined)
  also have "\<dots> = sort_key key (x # xs)"
    using \<open>inj_on key (set (xs @ [x]))\<close> by (intro sort_key_determined) auto
  also have "\<dots> = x # sort_key key xs"
    using new by (auto intro!: insort_is_Cons less_imp_le)
  finally show ?thesis using inj by (simp add: order_by_determined)
qed

section \<open>Fallible calls\<close>

text \<open>
  A Go function that returns \<open>(value, error)\<close> is a value of a sum: \<open>Inl\<close> the error. \<open>is_ok\<close> is the
  test \<open>err == nil\<close>.
\<close>

definition is_ok :: "'e + 'a \<Rightarrow> bool" where
  "is_ok r = (case r of Inl _ \<Rightarrow> False | Inr _ \<Rightarrow> True)"

lemma is_ok_simps [simp]: "is_ok (Inr x)" "\<not> is_ok (Inl e)"
  by (simp_all add: is_ok_def)

lemma is_ok_iff: "is_ok r \<longleftrightarrow> (\<exists>x. r = Inr x)"
  by (cases r) auto

end
