(* ===== verification/Model_Types.thy ===== *)
theory Model_Types
  imports Prelude
begin

text \<open>
  The domain types of \<open>internal/model/types.go\<close>: one \<open>record\<close> per struct, with the fields in the
  struct's order and a prefix per struct (\<open>node_\<close>, \<open>mon_\<close>, \<open>res_\<close>, \<open>inc_\<close>, \<open>ch_\<close>, \<open>rec_\<close>, ...),
  since HOL field names are global.

  The enumerations of the source (\<open>CheckType\<close>, \<open>CheckStatus\<close>, \<open>IncidentStatus\<close>, roles, node
  states) are Go \<^emph>\<open>string\<close> types: a value decoded from JSON can hold any text, and the code compares it with
  the named constants. They are strings here too, with the constants as definitions.

  Strings are byte lists. Timestamps are milliseconds since the epoch. A nil slice is \<open>None\<close> where
  the code tells it from an empty one. \<open>LatencyMS\<close> is an exact rational; the rounding of the
  \<open>float64\<close> is not modelled, and no branch of the code depends on it.
\<close>

section \<open>Nodes\<close>

record node =
  node_id :: string
  node_name :: string
  node_location :: string
  node_address :: string
  node_role :: string
  node_status :: string
  node_last_seen :: int64
  node_created_at :: int64

definition RoleCoordinator :: string where [simp]: "RoleCoordinator = ''coordinator''"
definition RoleNode :: string where [simp]: "RoleNode = ''node''"
definition NodeOnline :: string where [simp]: "NodeOnline = ''online''"
definition NodeOffline :: string where [simp]: "NodeOffline = ''offline''"
definition NodeSuspect :: string where [simp]: "NodeSuspect = ''suspect''"

section \<open>Monitors\<close>

definition CheckICMP :: string where [simp]: "CheckICMP = ''icmp''"
definition CheckTCP :: string where [simp]: "CheckTCP = ''tcp''"
definition CheckHTTP :: string where [simp]: "CheckHTTP = ''http''"
definition CheckHTTPS :: string where [simp]: "CheckHTTPS = ''https''"
definition CheckDNS :: string where [simp]: "CheckDNS = ''dns''"
definition CheckHTTPKeyword :: string where [simp]: "CheckHTTPKeyword = ''http_keyword''"

record monitor =
  mon_id :: string
  mon_name :: string
  mon_group_name :: string
  mon_check_type :: string
  mon_target :: string
  mon_port :: int64
  mon_interval_ms :: int64
  mon_timeout_ms :: int64
  mon_retries :: int64
  mon_expected_status :: int64
  mon_expected_keyword :: string
  mon_dns_record_type :: string
  mon_dns_expected :: string
  mon_failure_threshold :: int64
  mon_recovery_threshold :: int64
  mon_quorum_type :: string
  mon_quorum_n :: int64
  mon_cooldown_ms :: int64
  mon_enabled :: bool
  mon_created_at :: int64
  mon_updated_at :: int64

section \<open>Check results\<close>

definition StatusUp :: string where [simp]: "StatusUp = ''up''"
definition StatusDown :: string where [simp]: "StatusDown = ''down''"
definition StatusDegraded :: string where [simp]: "StatusDegraded = ''degraded''"

record check_result =
  res_id :: int64
  res_monitor_id :: string
  res_node_id :: string
  res_status :: string
  res_latency_ms :: rat
  res_status_code :: int64
  res_error :: string
  res_details :: "string option"
  res_timestamp :: int64

section \<open>Incidents\<close>

definition IncidentSuspect :: string where [simp]: "IncidentSuspect = ''suspect''"
definition IncidentConfirmed :: string where [simp]: "IncidentConfirmed = ''confirmed''"
definition IncidentResolved :: string where [simp]: "IncidentResolved = ''resolved''"

record incident =
  inc_id :: string
  inc_monitor_id :: string
  inc_status :: string
  inc_started_at :: int64
  inc_confirmed_at :: int64
  inc_resolved_at :: int64
  inc_confirming_nodes :: "string list option"
  inc_created_at :: int64
  inc_updated_at :: int64

section \<open>Alerting\<close>

record alert_channel =
  ch_id :: string
  ch_name :: string
  ch_type :: string
  ch_enabled :: bool
  ch_config :: string
  ch_created_at :: int64
  ch_updated_at :: int64

record webhook_config =
  wh_url :: string
  wh_secret :: string

record email_config =
  em_smtp_host :: string
  em_smtp_port :: int64
  em_username :: string
  em_password :: string
  em_from :: string
  em_to :: string
  em_tls :: bool

record alert_record =
  rec_id :: int64
  rec_channel_id :: string
  rec_incident_id :: string
  rec_monitor_id :: string
  rec_event_type :: string
  rec_status :: string
  rec_error :: string
  rec_sent_at :: int64

record incident_detail =
  det_id :: string
  det_status :: string
  det_started_at :: string
  det_confirmed_at :: string
  det_resolved_at :: string
  det_confirming_nodes :: "string list option"
  det_duration_sec :: int64

record monitor_summary =
  sum_id :: string
  sum_name :: string
  sum_check_type :: string
  sum_target :: string
  sum_group :: string

record webhook_payload =
  pay_event :: string
  pay_timestamp :: string
  pay_incident :: incident_detail
  pay_monitor :: monitor_summary

section \<open>Messages between nodes\<close>

text \<open>The messages of the check that a node may ask of its peers; the endpoint is not implemented yet.\<close>

record peer_check_request =
  pq_request_id :: string
  pq_monitor_id :: string
  pq_requested_by :: string
  pq_timestamp :: string

record peer_check_result =
  pk_status :: string
  pk_latency_ms :: rat
  pk_error :: string
  pk_status_code :: "int64 option"
  pk_details :: "string option"
  pk_timestamp :: string

record peer_check_response =
  pp_request_id :: string
  pp_node_id :: string
  pp_result :: peer_check_result

record heartbeat =
  hb_node_id :: string
  hb_timestamp :: string
  hb_active_monitors :: int64
  hb_checks_per_minute :: int64

record config_sync =
  cs_version :: int64
  cs_monitors :: "monitor list"
  cs_nodes :: "node list"

record join_token =
  jt_coordinator_addr :: string
  jt_secret :: string
  jt_expires_at :: int64

record join_request =
  jr_secret :: string
  jr_name :: string
  jr_listen_addr :: string
  jr_cli_addr :: string

record join_response =
  jp_node_id :: string
  jp_ca_cert :: string
  jp_node_cert :: string
  jp_node_key :: string
  jp_coordinator_id :: string

record cluster_status =
  st_node_id :: string
  st_role :: string
  st_nodes :: "node list"
  st_monitor_count :: int64
  st_active_incidents :: "incident list"

section \<open>The life of an incident\<close>

text \<open>
  \<open>IncidentStatus\<close> is documented as ``the lifecycle state of an incident'': suspect, then confirmed,
  then resolved. \<open>phase_of\<close> reads the status text as one of the three, and the phases are ordered by
  the lifecycle, so that ``an incident never goes back'' is an inequality.
\<close>

datatype phase = Suspect | Confirmed | Resolved

fun phase_rank :: "phase \<Rightarrow> nat" where
  "phase_rank Suspect = 0"
| "phase_rank Confirmed = 1"
| "phase_rank Resolved = 2"

instantiation phase :: linorder
begin

definition less_eq_phase :: "phase \<Rightarrow> phase \<Rightarrow> bool" where
  "less_eq_phase p q \<longleftrightarrow> phase_rank p \<le> phase_rank q"

definition less_phase :: "phase \<Rightarrow> phase \<Rightarrow> bool" where
  "less_phase p q \<longleftrightarrow> phase_rank p < phase_rank q"

instance
proof
  fix p q r :: phase
  show "p < q \<longleftrightarrow> p \<le> q \<and> \<not> q \<le> p" by (auto simp: less_eq_phase_def less_phase_def)
  show "p \<le> p" by (simp add: less_eq_phase_def)
  show "p \<le> q \<Longrightarrow> q \<le> r \<Longrightarrow> p \<le> r" by (simp add: less_eq_phase_def)
  show "p \<le> q \<Longrightarrow> q \<le> p \<Longrightarrow> p = q" by (cases p; cases q) (simp_all add: less_eq_phase_def)
  show "p \<le> q \<or> q \<le> p" by (auto simp: less_eq_phase_def)
qed

end

lemma phase_le_Resolved [simp]: "p \<le> Resolved"
  by (cases p) (simp_all add: less_eq_phase_def)

lemma Suspect_le_phase [simp]: "Suspect \<le> p"
  by (cases p) (simp_all add: less_eq_phase_def)

definition phase_of :: "string \<Rightarrow> phase option" where
  "phase_of st =
     (if st = IncidentSuspect then Some Suspect
      else if st = IncidentConfirmed then Some Confirmed
      else if st = IncidentResolved then Some Resolved
      else None)"

lemma phase_of_simps [simp]:
  "phase_of ''suspect'' = Some Suspect"
  "phase_of ''confirmed'' = Some Confirmed"
  "phase_of ''resolved'' = Some Resolved"
  by (simp_all add: phase_of_def)

text \<open>The incidents that \<open>GetActiveIncident\<close> looks for: those with \<open>status != 'resolved'\<close>.\<close>

definition active_incident :: "incident \<Rightarrow> bool" where
  "active_incident i \<longleftrightarrow> inc_status i \<noteq> IncidentResolved"

end
