(* ===== verification/Store_Interface.thy ===== *)
theory Store_Interface
  imports Model_Types
begin

text \<open>
  The persistence interface \<open>store.Store\<close> of \<open>internal/store/store.go\<close>, as a record of operations over
  a state \<open>'s\<close>. The clients of the store (incident manager, cluster manager, dispatcher, agent, API
  server) take such a record as an argument, as the Go structs hold a \<open>store.Store\<close>; the one
  implementation is \<open>sqlite_store\<close> in theory \<open>Sqlite_Store\<close>.

  An operation maps a state to its result and the next state; \<open>Inl\<close> is a non-nil \<open>error\<close>. The two
  token operations read the clock in the code; the time they read is their last argument.
\<close>

datatype store_error = EngineError nat | UniqueViolation | ForeignKeyViolation

type_synonym ('s, 'a) op = "'s \<Rightarrow> (store_error + 'a) \<times> 's"

record 's store =
  CreateNode :: "node \<Rightarrow> ('s, unit) op"
  GetNode :: "string \<Rightarrow> ('s, node option) op"
  ListNodes :: "('s, node list) op"
  UpdateNode :: "node \<Rightarrow> ('s, unit) op"
  DeleteNode :: "string \<Rightarrow> ('s, unit) op"
  UpdateNodeStatus :: "string \<Rightarrow> string \<Rightarrow> int64 \<Rightarrow> ('s, unit) op"
  CreateMonitor :: "monitor \<Rightarrow> ('s, unit) op"
  GetMonitor :: "string \<Rightarrow> ('s, monitor option) op"
  ListMonitors :: "string \<Rightarrow> ('s, monitor list) op"
  UpdateMonitor :: "monitor \<Rightarrow> ('s, unit) op"
  DeleteMonitor :: "string \<Rightarrow> ('s, unit) op"
  ListEnabledMonitors :: "('s, monitor list) op"
  InsertCheckResult :: "check_result \<Rightarrow> ('s, unit) op"
  GetLatestResult :: "string \<Rightarrow> string \<Rightarrow> ('s, check_result option) op"
  CountConsecutiveFailures :: "string \<Rightarrow> string \<Rightarrow> ('s, int64) op"
  CountConsecutiveSuccesses :: "string \<Rightarrow> string \<Rightarrow> ('s, int64) op"
  ListCheckResults :: "string \<Rightarrow> string \<Rightarrow> int64 \<Rightarrow> int64 \<Rightarrow> ('s, check_result list) op"
  CreateIncident :: "incident \<Rightarrow> ('s, unit) op"
  GetIncident :: "string \<Rightarrow> ('s, incident option) op"
  GetActiveIncident :: "string \<Rightarrow> ('s, incident option) op"
  UpdateIncident :: "incident \<Rightarrow> ('s, unit) op"
  ListIncidents :: "bool \<Rightarrow> ('s, incident list) op"
  StoreJoinToken :: "string \<Rightarrow> int64 \<Rightarrow> int64 \<Rightarrow> ('s, unit) op"
  ValidateAndConsumeToken :: "string \<Rightarrow> int64 \<Rightarrow> ('s, bool) op"
  CreateAlertChannel :: "alert_channel \<Rightarrow> ('s, unit) op"
  GetAlertChannel :: "string \<Rightarrow> ('s, alert_channel option) op"
  ListAlertChannels :: "('s, alert_channel list) op"
  ListEnabledAlertChannels :: "('s, alert_channel list) op"
  UpdateAlertChannel :: "alert_channel \<Rightarrow> ('s, unit) op"
  DeleteAlertChannel :: "string \<Rightarrow> ('s, unit) op"
  InsertAlertRecord :: "alert_record \<Rightarrow> ('s, unit) op"
  ListAlertHistory :: "string \<Rightarrow> int64 \<Rightarrow> ('s, alert_record list) op"

end
