(* ===== verification/Scheduler.thy ===== *)
theory Scheduler
  imports Store_Interface "HOL-Library.AList"
begin

text \<open>
  \<open>internal/agent/scheduler.go\<close>: the maps of the scheduler, its goroutines and the execution of a check.

  A context made by \<open>startMonitor\<close> is the number of its goroutine; \<open>sch_cancels\<close> maps a monitor to the
  goroutine that its cancel function stops. The map of tickers is kept as an association list of the
  monitor and the ticker's interval in nanoseconds; Go ranges over a map in any order, and the order
  in which \<open>stopMonitor\<close> is called makes no difference (\<open>stop_commute\<close>). The mutex makes
  \<open>SyncMonitors\<close>, \<open>Stop\<close> and the two locked parts of \<open>executeCheck\<close> one step each.
\<close>

section \<open>State\<close>

text \<open>A goroutine \<open>runLoop\<close>: \<open>lp_busy\<close> while \<open>executeCheck\<close> is past its guard.\<close>

record loop =
  lp_monitor :: string
  lp_cancelled :: bool
  lp_busy :: bool
  lp_exited :: bool

record scheduler =
  sch_timers :: "(string \<times> int64) list"
  sch_cancels :: "string \<Rightarrow> nat option"
  sch_running :: "string \<Rightarrow> bool option"
  sch_loops :: "loop list"

definition NewScheduler :: scheduler where
  "NewScheduler = \<lparr>sch_timers = [], sch_cancels = (\<lambda>_. None), sch_running = (\<lambda>_. None), sch_loops = []\<rparr>"

section \<open>Operations\<close>

definition ticker_interval :: "monitor \<Rightarrow> int64" where
  "ticker_interval m =
     (let interval = wrap64 (mon_interval_ms m * 1000000)
      in if interval < 1000000000 then 1000000000 else interval)"

definition startMonitor :: "monitor \<Rightarrow> scheduler \<Rightarrow> scheduler" where
  "startMonitor m s = s\<lparr>sch_timers := AList.update (mon_id m) (ticker_interval m) (sch_timers s),
     sch_cancels := (sch_cancels s)(mon_id m \<mapsto> length (sch_loops s)),
     sch_loops := sch_loops s @ [\<lparr>lp_monitor = mon_id m, lp_cancelled = False, lp_busy = False,
       lp_exited = False\<rparr>]\<rparr>"

definition cancel_loop :: "nat option \<Rightarrow> loop list \<Rightarrow> loop list" where
  "cancel_loop c loops = (case c of None \<Rightarrow> loops | Some i \<Rightarrow> loops[i := (loops ! i)\<lparr>lp_cancelled := True\<rparr>])"

definition stopMonitor :: "string \<Rightarrow> scheduler \<Rightarrow> scheduler" where
  "stopMonitor k s = s\<lparr>sch_timers := AList.delete k (sch_timers s),
     sch_cancels := (sch_cancels s)(k := None), sch_running := (sch_running s)(k := None),
     sch_loops := cancel_loop (sch_cancels s k) (sch_loops s)\<rparr>"

fun start_new :: "monitor list \<Rightarrow> scheduler \<Rightarrow> scheduler" where
  "start_new [] s = s"
| "start_new (m # ms) s =
     start_new ms (if map_of (sch_timers s) (mon_id m) = None then startMonitor m s else s)"

fun stop_all :: "string list \<Rightarrow> scheduler \<Rightarrow> scheduler" where
  "stop_all [] s = s"
| "stop_all (k # ks) s = stop_all ks (stopMonitor k s)"

definition timer_ids :: "scheduler \<Rightarrow> string list" where
  "timer_ids s = map fst (sch_timers s)"

definition SyncMonitors :: "monitor list \<Rightarrow> scheduler \<Rightarrow> scheduler" where
  "SyncMonitors ms s =
     (let s1 = start_new ms s in stop_all (filter (\<lambda>k. k \<notin> mon_id ` set ms) (timer_ids s1)) s1)"

definition Stop :: "scheduler \<Rightarrow> scheduler" where
  "Stop s = stop_all (timer_ids s) s"

definition ActiveCount :: "scheduler \<Rightarrow> int64" where
  "ActiveCount s = int (length (sch_timers s))"

text \<open>The guard of \<open>executeCheck\<close> and its deferred reset, for the goroutine \<open>i\<close>.\<close>

definition begin_check :: "nat \<Rightarrow> scheduler \<Rightarrow> scheduler" where
  "begin_check i s =
     (let k = lp_monitor (sch_loops s ! i) in
      if sch_running s k = Some True then s
      else s\<lparr>sch_running := (sch_running s)(k \<mapsto> True),
             sch_loops := (sch_loops s)[i := (sch_loops s ! i)\<lparr>lp_busy := True\<rparr>]\<rparr>)"

definition finish_check :: "nat \<Rightarrow> scheduler \<Rightarrow> scheduler" where
  "finish_check i s = s\<lparr>sch_running := (sch_running s)(lp_monitor (sch_loops s ! i) \<mapsto> False),
     sch_loops := (sch_loops s)[i := (sch_loops s ! i)\<lparr>lp_busy := False\<rparr>]\<rparr>"

section \<open>The check itself\<close>

text \<open>
  A \<open>checker.Result\<close> without its details, which the scheduler drops; what \<open>Check\<close> returns is a result
  or nil, and an error or nil. A call of attempt \<open>i\<close> is \<open>chk i\<close>.
\<close>

record checker_result =
  cres_status :: string
  cres_latency_ms :: rat
  cres_status_code :: int64
  cres_error :: string

type_synonym check_reply = "checker_result option \<times> string option"

text \<open>The loop over the attempts: \<open>Inl\<close> is the nil dereference of \<open>lastResult.Status\<close>.\<close>

fun run_attempts :: "(nat \<Rightarrow> check_reply) \<Rightarrow> nat \<Rightarrow> nat \<Rightarrow> check_reply \<Rightarrow> string + check_reply" where
  "run_attempts chk i 0 latest = Inr latest"
| "run_attempts chk i (Suc k) latest =
     (case chk i of
        (r, Some e) \<Rightarrow> run_attempts chk (Suc i) k (r, Some e)
      | (None, None) \<Rightarrow> Inl ''nil pointer dereference''
      | (Some r, None) \<Rightarrow>
          (if cres_status r = StatusUp then Inr (Some r, None)
           else run_attempts chk (Suc i) k (Some r, None)))"

definition attempt_count :: "monitor \<Rightarrow> nat" where
  "attempt_count m = nat (if mon_retries m < 1 then 1 else mon_retries m)"

definition final_result :: "check_reply \<Rightarrow> checker_result" where
  "final_result reply = (case reply of
     (Some r, _) \<Rightarrow> r
   | (None, lastErr) \<Rightarrow> \<lparr>cres_status = StatusDown, cres_latency_ms = 0, cres_status_code = 0,
       cres_error = (case lastErr of None \<Rightarrow> ''all attempts failed'' | Some e \<Rightarrow> e)\<rparr>)"

definition stored_check :: "string \<Rightarrow> string \<Rightarrow> checker_result \<Rightarrow> int64 \<Rightarrow> check_result" where
  "stored_check monitorID nodeID r now = \<lparr>res_id = 0, res_monitor_id = monitorID, res_node_id = nodeID,
     res_status = cres_status r, res_latency_ms = cres_latency_ms r,
     res_status_code = cres_status_code r, res_error = cres_error r, res_details = None,
     res_timestamp = now\<rparr>"

text \<open>
  The part of \<open>executeCheck\<close> between guard and reset. The result is what the callback gets (a node
  pushes it to the coordinator), \<open>None\<close> if the check was skipped; it does not depend on whether the
  insertion succeeded. \<open>registry\<close> is \<open>checker.Get\<close> with the check of the given monitor.
\<close>

definition check_body ::
    "'s store \<Rightarrow> string \<Rightarrow> (string \<Rightarrow> (monitor \<Rightarrow> nat \<Rightarrow> check_reply) option) \<Rightarrow> int64 \<Rightarrow> string \<Rightarrow> 's
     \<Rightarrow> (string + check_result option) \<times> 's" where
  "check_body st nodeID registry now monitorID s =
     (case GetMonitor st monitorID s of
        (Inl e, s1) \<Rightarrow> (Inr None, s1)
      | (Inr None, s1) \<Rightarrow> (Inr None, s1)
      | (Inr (Some m), s1) \<Rightarrow>
          (case registry (mon_check_type m) of
             None \<Rightarrow> (Inr None, s1)
           | Some check \<Rightarrow>
               (case run_attempts (check m) 0 (attempt_count m) (None, None) of
                  Inl p \<Rightarrow> (Inl p, s1)
                | Inr reply \<Rightarrow>
                    (let result = stored_check monitorID nodeID (final_result reply) now
                     in (Inr (Some result), snd (InsertCheckResult st result s1))))))"

section \<open>Goroutines\<close>

text \<open>
  \<open>Begin i\<close> is the immediate check at the start of \<open>runLoop\<close> or the one of a tick. A goroutine whose
  context is cancelled may still begin one: \<open>select\<close> chooses freely between two ready channels.
\<close>

datatype sched_action = Sync "monitor list" | StopScheduler | Begin nat | Finish nat | Exit nat

inductive sched_step :: "scheduler \<Rightarrow> sched_action \<Rightarrow> scheduler \<Rightarrow> bool" where
  sync_step: "sched_step s (Sync ms) (SyncMonitors ms s)"
| stop_step: "sched_step s StopScheduler (Stop s)"
| begin_step: "i < length (sch_loops s) \<Longrightarrow> \<not> lp_exited (sch_loops s ! i) \<Longrightarrow> \<not> lp_busy (sch_loops s ! i) \<Longrightarrow>
    sched_step s (Begin i) (begin_check i s)"
| finish_step: "i < length (sch_loops s) \<Longrightarrow> lp_busy (sch_loops s ! i) \<Longrightarrow>
    sched_step s (Finish i) (finish_check i s)"
| exit_step: "i < length (sch_loops s) \<Longrightarrow> lp_cancelled (sch_loops s ! i) \<Longrightarrow> \<not> lp_busy (sch_loops s ! i) \<Longrightarrow>
    sched_step s (Exit i)
      (s\<lparr>sch_loops := (sch_loops s)[i := (sch_loops s ! i)\<lparr>lp_exited := True\<rparr>]\<rparr>)"

inductive sched_run :: "scheduler \<Rightarrow> sched_action list \<Rightarrow> scheduler \<Rightarrow> bool" where
  sched_done: "sched_run s [] s"
| sched_more: "sched_step s a t \<Longrightarrow> sched_run t as u \<Longrightarrow> sched_run s (a # as) u"

inductive_cases sched_stepE:
  "sched_step s (Sync ms) t" "sched_step s StopScheduler t" "sched_step s (Begin i) t"
  "sched_step s (Finish i) t" "sched_step s (Exit i) t"

inductive_simps sched_run_simps: "sched_run s [] t" "sched_run s (a # as) t"

section \<open>The maps agree\<close>

definition sched_ok :: "scheduler \<Rightarrow> bool" where
  "sched_ok s \<longleftrightarrow> distinct (timer_ids s) \<and> set (timer_ids s) = dom (sch_cancels s) \<and>
     (\<forall>(k, v) \<in> set (sch_timers s). v \<ge> 1000000000) \<and>
     (\<forall>k i. sch_cancels s k = Some i \<longrightarrow> i < length (sch_loops s) \<and> lp_monitor (sch_loops s ! i) = k) \<and>
     (\<forall>i < length (sch_loops s). \<not> lp_cancelled (sch_loops s ! i) \<longleftrightarrow>
        sch_cancels s (lp_monitor (sch_loops s ! i)) = Some i)"

lemma sched_ok_new: "sched_ok NewScheduler"
  by (simp add: sched_ok_def NewScheduler_def timer_ids_def)

lemma timer_ids_simps [simp]:
  "timer_ids (stopMonitor k s) = filter (\<lambda>j. j \<noteq> k) (timer_ids s)"
  by (simp add: timer_ids_def stopMonitor_def AList.delete_eq filter_map comp_def split_def)
    (auto intro!: arg_cong [where f = "map fst"] filter_cong)

lemma start_timer_ids:
  "mon_id m \<notin> set (timer_ids s) \<Longrightarrow> timer_ids (startMonitor m s) = timer_ids s @ [mon_id m]"
  by (simp add: timer_ids_def startMonitor_def update_keys)

lemma no_timer: "map_of (sch_timers s) k = None \<longleftrightarrow> k \<notin> set (timer_ids s)"
  by (auto simp: timer_ids_def map_of_eq_None_iff)

lemma ticker_interval_ge: "ticker_interval m \<ge> 1000000000"
  by (simp add: ticker_interval_def Let_def)

lemma startMonitor_ok:
  assumes ok: "sched_ok s" and new: "mon_id m \<notin> set (timer_ids s)"
  shows "sched_ok (startMonitor m s)"
proof -
  have none: "sch_cancels s (mon_id m) = None" using ok new by (auto simp: sched_ok_def)
  have times: "\<forall>(k, v) \<in> set (sch_timers (startMonitor m s)). v \<ge> 1000000000"
  proof -
    have "set (AList.update (mon_id m) (ticker_interval m) (sch_timers s))
        \<subseteq> insert (mon_id m, ticker_interval m) (set (sch_timers s))"
    proof (induction "sch_timers s" arbitrary: s)
      case (Cons x xs)
      from Cons(1) [of "s\<lparr>sch_timers := xs\<rparr>"] Cons(2) [symmetric] show ?case
        by (cases x) auto
    qed simp
    with ok ticker_interval_ge show ?thesis by (auto simp: sched_ok_def startMonitor_def)
  qed
  show ?thesis
    unfolding sched_ok_def
  proof (intro conjI times)
    show "distinct (timer_ids (startMonitor m s))"
      using ok new by (simp add: start_timer_ids sched_ok_def)
    show "set (timer_ids (startMonitor m s)) = dom (sch_cancels (startMonitor m s))"
      unfolding start_timer_ids [OF new] using ok by (auto simp: sched_ok_def startMonitor_def)
    show "\<forall>k i. sch_cancels (startMonitor m s) k = Some i \<longrightarrow>
        i < length (sch_loops (startMonitor m s)) \<and> lp_monitor (sch_loops (startMonitor m s) ! i) = k"
      using ok by (auto simp: startMonitor_def sched_ok_def nth_append less_Suc_eq)
    show "\<forall>i < length (sch_loops (startMonitor m s)). \<not> lp_cancelled (sch_loops (startMonitor m s) ! i)
        \<longleftrightarrow> sch_cancels (startMonitor m s) (lp_monitor (sch_loops (startMonitor m s) ! i)) = Some i"
      using ok none by (auto simp: startMonitor_def sched_ok_def nth_append less_Suc_eq)
  qed
qed

lemma cancel_loop_nth:
  "i < length loops \<Longrightarrow> cancel_loop c loops ! i
     = (if c = Some i then (loops ! i)\<lparr>lp_cancelled := True\<rparr> else loops ! i)"
  "length (cancel_loop c loops) = length loops"
  by (auto simp: cancel_loop_def nth_list_update split: option.splits)

lemma stopMonitor_ok:
  assumes "sched_ok s"
  shows "sched_ok (stopMonitor k s)"
  unfolding sched_ok_def
proof (intro conjI)
  note ok = assms [unfolded sched_ok_def]
  show "distinct (timer_ids (stopMonitor k s))" using ok by simp
  have "dom (sch_cancels (stopMonitor k s)) = dom (sch_cancels s) - {k}"
    by (simp add: stopMonitor_def)
  with ok show "set (timer_ids (stopMonitor k s)) = dom (sch_cancels (stopMonitor k s))" by auto
  show "\<forall>(k, v) \<in> set (sch_timers (stopMonitor k s)). v \<ge> 1000000000"
    using ok by (auto simp: stopMonitor_def AList.delete_eq)
  show "\<forall>j i. sch_cancels (stopMonitor k s) j = Some i \<longrightarrow>
      i < length (sch_loops (stopMonitor k s)) \<and> lp_monitor (sch_loops (stopMonitor k s) ! i) = j"
    using ok by (auto simp: stopMonitor_def cancel_loop_nth)
  show "\<forall>i < length (sch_loops (stopMonitor k s)). \<not> lp_cancelled (sch_loops (stopMonitor k s) ! i)
      \<longleftrightarrow> sch_cancels (stopMonitor k s) (lp_monitor (sch_loops (stopMonitor k s) ! i)) = Some i"
    using ok by (auto simp: stopMonitor_def cancel_loop_nth split: if_splits)
qed

lemma start_new_ok:
  assumes "sched_ok s"
  shows "sched_ok (start_new ms s)" and "set (timer_ids (start_new ms s)) = set (timer_ids s) \<union> mon_id ` set ms"
  using assms
proof (induction ms arbitrary: s)
  case (Cons m ms)
  {
    case 1
    then show ?case using Cons.IH(1) startMonitor_ok by (simp add: no_timer)
  next
    case 2
    show ?case
      using Cons.IH(2) [OF 2] Cons.IH(2) [of "startMonitor m s"] startMonitor_ok [of s m]
        start_timer_ids [of m s] 2
      by (auto simp: no_timer)
  }
qed simp_all

lemma stop_all_ok:
  assumes "sched_ok s"
  shows "sched_ok (stop_all ks s)" and "timer_ids (stop_all ks s) = filter (\<lambda>j. j \<notin> set ks) (timer_ids s)"
proof -
  have "sched_ok (stop_all ks s) \<and> timer_ids (stop_all ks s) = filter (\<lambda>j. j \<notin> set ks) (timer_ids s)"
    using assms
    by (induction ks arbitrary: s) (auto simp: stopMonitor_ok intro!: filter_cong)
  then show "sched_ok (stop_all ks s)"
    and "timer_ids (stop_all ks s) = filter (\<lambda>j. j \<notin> set ks) (timer_ids s)" by blast+
qed

lemma SyncMonitors_ok: "sched_ok s \<Longrightarrow> sched_ok (SyncMonitors ms s)"
  by (simp add: SyncMonitors_def Let_def start_new_ok(1) stop_all_ok(1))

lemma SyncMonitors_ids:
  assumes "sched_ok s"
  shows "set (timer_ids (SyncMonitors ms s)) = mon_id ` set ms"
  using stop_all_ok(2) [OF start_new_ok(1) [OF assms]] start_new_ok(2) [OF assms]
  by (auto simp: SyncMonitors_def Let_def)

lemma stop_commute:
  assumes "sched_ok s" and "j \<noteq> k"
  shows "stopMonitor j (stopMonitor k s) = stopMonitor k (stopMonitor j s)"
proof -
  have "sch_cancels s j \<noteq> sch_cancels s k \<or> sch_cancels s j = None"
    using assms unfolding sched_ok_def by (cases "sch_cancels s j") metis+
  then have "cancel_loop (sch_cancels s j) (cancel_loop (sch_cancels s k) (sch_loops s))
      = cancel_loop (sch_cancels s k) (cancel_loop (sch_cancels s j) (sch_loops s))"
    by (auto simp: cancel_loop_def list_update_swap split: option.splits)
  with assms(2) show ?thesis
    by (simp add: stopMonitor_def fun_upd_twist AList.delete_twist)
qed

lemma loops_unchanged_ok:
  assumes "sched_ok s" and "sch_timers t = sch_timers s" and "sch_cancels t = sch_cancels s"
    and "length (sch_loops t) = length (sch_loops s)"
    and "\<And>i. i < length (sch_loops s) \<Longrightarrow> lp_monitor (sch_loops t ! i) = lp_monitor (sch_loops s ! i) \<and>
      lp_cancelled (sch_loops t ! i) = lp_cancelled (sch_loops s ! i)"
  shows "sched_ok t"
  using assms by (auto simp: sched_ok_def timer_ids_def)

lemma sched_step_ok: "sched_step s a t \<Longrightarrow> sched_ok s \<Longrightarrow> sched_ok t"
proof (induction rule: sched_step.induct)
  case (sync_step s ms)
  then show ?case by (rule SyncMonitors_ok)
next
  case (stop_step s)
  then show ?case unfolding Stop_def by (rule stop_all_ok(1))
next
  case (begin_step i s)
  from begin_step(4) show ?case
    by (rule loops_unchanged_ok)
      (use begin_step(1) in \<open>auto simp: begin_check_def Let_def nth_list_update\<close>)
next
  case (finish_step i s)
  from finish_step(3) show ?case
    by (rule loops_unchanged_ok)
      (use finish_step(1) in \<open>auto simp: finish_check_def nth_list_update\<close>)
next
  case (exit_step i s)
  from exit_step(4) show ?case
    by (rule loops_unchanged_ok) (use exit_step(1) in \<open>auto simp: nth_list_update\<close>)
qed

lemma sched_run_ok: "sched_run s as t \<Longrightarrow> sched_ok s \<Longrightarrow> sched_ok t"
  by (induction rule: sched_run.induct) (auto intro: sched_step_ok)

section \<open>One check at a time\<close>

definition busy_on :: "string \<Rightarrow> scheduler \<Rightarrow> nat \<Rightarrow> bool" where
  "busy_on k s i \<longleftrightarrow> i < length (sch_loops s) \<and> lp_busy (sch_loops s ! i) \<and> lp_monitor (sch_loops s ! i) = k"

definition one_check :: "scheduler \<Rightarrow> bool" where
  "one_check s \<longleftrightarrow> (\<forall>k i. busy_on k s i \<longrightarrow> sch_running s k = Some True) \<and>
     (\<forall>k i j. busy_on k s i \<longrightarrow> busy_on k s j \<longrightarrow> i = j)"

text \<open>An action is calm if it stops no monitor while a check of it is in flight.\<close>

fun calm :: "sched_action \<Rightarrow> scheduler \<Rightarrow> bool" where
  "calm (Sync ms) s = (\<forall>l \<in> set (sch_loops s). lp_busy l \<longrightarrow> lp_monitor l \<in> mon_id ` set ms)"
| "calm StopScheduler s = (\<forall>l \<in> set (sch_loops s). \<not> lp_busy l)"
| "calm _ s = True"

inductive calm_run :: "scheduler \<Rightarrow> sched_action list \<Rightarrow> scheduler \<Rightarrow> bool" where
  calm_done: "calm_run s [] s"
| calm_more: "sched_step s a t \<Longrightarrow> calm a s \<Longrightarrow> calm_run t as u \<Longrightarrow> calm_run s (a # as) u"

lemma busy_startMonitor [simp]: "busy_on k (startMonitor m s) i = busy_on k s i"
  by (auto simp: busy_on_def startMonitor_def nth_append less_Suc_eq)

lemma busy_stopMonitor [simp]: "busy_on k (stopMonitor j s) i = busy_on k s i"
  by (auto simp: busy_on_def stopMonitor_def cancel_loop_nth split: if_splits)

lemma busy_start_new [simp]: "busy_on k (start_new ms s) i = busy_on k s i"
  by (induction ms arbitrary: s) simp_all

lemma running_start_new [simp]: "sch_running (start_new ms s) = sch_running s"
  by (induction ms arbitrary: s) (simp_all add: startMonitor_def)

lemma one_check_stop:
  assumes "one_check s" and "\<And>i k. k \<in> set ks \<Longrightarrow> \<not> busy_on k s i"
  shows "one_check (stop_all ks s)"
  using assms
proof (induction ks arbitrary: s)
  case (Cons k ks)
  have "one_check (stopMonitor k s)"
    using Cons.prems by (auto simp: one_check_def) (auto simp: stopMonitor_def)
  with Cons show ?case by simp
qed simp

lemma one_check_start: "one_check s \<Longrightarrow> one_check (start_new ms s)"
  by (simp add: one_check_def)

lemma busy_on_loop: "busy_on k s i \<Longrightarrow> \<exists>l \<in> set (sch_loops s). lp_busy l \<and> lp_monitor l = k"
  by (auto simp: busy_on_def)

lemma calm_step_one_check:
  assumes "sched_step s a t" and "calm a s" and "one_check s"
  shows "one_check t"
  using assms
proof (induction rule: sched_step.induct)
  case (sync_step s ms)
  then have "\<not> busy_on k s i" if "k \<notin> mon_id ` set ms" for k i
    using busy_on_loop [of k s i] that by auto
  with sync_step show ?case
    unfolding SyncMonitors_def Let_def by (intro one_check_stop one_check_start) auto
next
  case (stop_step s)
  then have "\<not> busy_on k s i" for k i
    using busy_on_loop [of k s i] by auto
  with stop_step show ?case unfolding Stop_def by (intro one_check_stop) auto
next
  case (begin_step i s)
  let ?k = "lp_monitor (sch_loops s ! i)"
  show ?case
  proof (cases "sch_running s ?k = Some True")
    case True
    with begin_step show ?thesis by (simp add: begin_check_def)
  next
    case False
    with begin_step.prems have idle: "\<not> busy_on ?k s j" for j by (auto simp: one_check_def)
    have "busy_on k (begin_check i s) j \<longleftrightarrow> (if j = i then k = ?k else busy_on k s j)" for k j
      using False begin_step(1) by (auto simp: busy_on_def begin_check_def Let_def nth_list_update)
    with False idle begin_step.prems show ?thesis
      by (auto simp: one_check_def begin_check_def)
  qed
next
  case (finish_step i s)
  let ?k = "lp_monitor (sch_loops s ! i)"
  have "busy_on ?k s i" using finish_step by (simp add: busy_on_def)
  with finish_step.prems have only: "busy_on ?k s j \<Longrightarrow> j = i" for j by (auto simp: one_check_def)
  have "busy_on k (finish_check i s) j \<longleftrightarrow> j \<noteq> i \<and> busy_on k s j" for k j
    using finish_step(1) by (auto simp: busy_on_def finish_check_def nth_list_update)
  with only finish_step.prems show ?case
    by (auto simp: one_check_def) (auto simp: finish_check_def)
next
  case (exit_step i s)
  have "busy_on k (s\<lparr>sch_loops := (sch_loops s)[i := (sch_loops s ! i)\<lparr>lp_exited := True\<rparr>]\<rparr>) j
      \<longleftrightarrow> busy_on k s j" for k j
    using exit_step(1) by (auto simp: busy_on_def nth_list_update)
  with exit_step.prems show ?case by (simp add: one_check_def)
qed

lemma calm_run_one_check: "calm_run s as t \<Longrightarrow> one_check s \<Longrightarrow> one_check t"
  by (induction rule: calm_run.induct) (auto intro: calm_step_one_check)

lemma one_check_new: "one_check NewScheduler"
  by (simp add: one_check_def busy_on_def NewScheduler_def)

section \<open>Attempts\<close>

definition up_reply :: "check_reply \<Rightarrow> bool" where
  "up_reply reply = (case reply of (Some r, None) \<Rightarrow> cres_status r = StatusUp | _ \<Rightarrow> False)"

text \<open>The first attempt that is up, and otherwise the last attempt, whatever came before it.\<close>

lemma run_attempts_spec:
  assumes "\<And>j. i \<le> j \<Longrightarrow> j < i + k \<Longrightarrow> chk j \<noteq> (None, None)"
  shows "run_attempts chk i k latest = Inr (case find (\<lambda>j. up_reply (chk j)) [i..<i + k] of
      Some j \<Rightarrow> chk j | None \<Rightarrow> if k = 0 then latest else chk (i + k - 1))"
  using assms
proof (induction k arbitrary: i latest)
  case (Suc k)
  have range: "[i..<i + Suc k] = i # [Suc i..<Suc i + k]" by (simp add: upt_rec)
  have IH: "run_attempts chk (Suc i) k l = Inr (case find (\<lambda>j. up_reply (chk j)) [Suc i..<Suc i + k] of
      Some j \<Rightarrow> chk j | None \<Rightarrow> if k = 0 then l else chk (Suc i + k - 1))" for l
    using Suc.prems by (intro Suc.IH) simp
  have "chk i \<noteq> (None, None)" using Suc.prems by simp
  then consider (err) r e where "chk i = (r, Some e)" | (res) r where "chk i = (Some r, None)"
    by (metis not_Some_eq surj_pair)
  then show ?case
  proof cases
    case err
    then have "\<not> up_reply (chk i)" by (simp add: up_reply_def split: option.splits)
    with err show ?thesis unfolding range by (auto simp: IH split: option.splits)
  next
    case res
    then show ?thesis unfolding range by (auto simp: IH up_reply_def split: option.splits)
  qed
qed simp

end
