(* ===== verification/Checker.thy ===== *)
theory Checker
  imports Scheduler
begin

text \<open>
  \<open>internal/checker/*.go\<close>: the checks that a monitor may ask for and the registry of their types. What
  the network and the libraries behind a check return (the dialer, \<open>pro-bing\<close>, \<open>net/http\<close>, \<open>miekg/dns\<close>)
  are the fields of a \<open>check_world\<close>; every decision on these answers is modelled. A latency is what
  the clock has measured around the call, a timeout is passed on in nanoseconds. \<open>quoted\<close> is the verb
  \<open>%q\<close>. The result has the fields of the scheduler's \<open>checker_result\<close> and the details.
\<close>

section \<open>Results\<close>

datatype detail = DInt int64 | DNumber rat | DText string | DBool bool | DTexts "string list"

record check_report = checker_result +
  crep_details :: "(string \<times> detail) list"

text \<open>A \<open>Result\<close> literal: the fields that are left out are zero.\<close>

definition Result :: "string \<Rightarrow> rat \<Rightarrow> int64 \<Rightarrow> string \<Rightarrow> (string \<times> detail) list \<Rightarrow> check_report" where
  "Result status latency code err details = \<lparr>cres_status = status, cres_latency_ms = latency,
     cres_status_code = code, cres_error = err, crep_details = details\<rparr>"

section \<open>The world\<close>

record ping_stats =
  ps_sent :: int64
  ps_recv :: int64
  ps_loss :: rat
  ps_min_us :: int64
  ps_max_us :: int64
  ps_avg_us :: int64

datatype ping_outcome = NoPinger string | PingFailed string | Pinged ping_stats

text \<open>\<open>cert_days\<close> is \<open>time.Until(cert.NotAfter).Hours() / 24\<close>.\<close>

record cert_info =
  cert_days :: rat
  cert_issuer :: string
  cert_subject :: string

text \<open>A body is its bytes, and the error that reading ends with, if it does not end properly.\<close>

record http_reply =
  rep_code :: int64
  rep_proto :: string
  rep_bytes :: string
  rep_broken :: "string option"
  rep_cert :: "cert_info option"

datatype web_answer = Final http_reply | Redirect string

datatype dns_rtype = TypeA | TypeAAAA | TypeCNAME | TypeMX | TypeTXT

datatype dns_record =
    RecA string | RecAAAA string | RecCNAME string | RecMX int64 string | RecTXT "string list" | RecOther

record dns_reply =
  dns_rcode :: int64
  dns_rcode_name :: string
  dns_answers :: "dns_record list"

record check_world =
  cw_dial :: "int64 \<Rightarrow> string \<Rightarrow> string option"
  cw_ping :: "int64 \<Rightarrow> string \<Rightarrow> ping_outcome"
  cw_request_error :: "string \<Rightarrow> string option"
  cw_fetch :: "int64 \<Rightarrow> (string \<times> string) list \<Rightarrow> nat \<Rightarrow> string \<Rightarrow> string + web_answer"
  cw_dns :: "int64 \<Rightarrow> string \<Rightarrow> string \<Rightarrow> dns_rtype \<Rightarrow> string + dns_reply"
  cw_latency :: rat
  cw_quoted :: "string \<Rightarrow> string"

definition timeout_ns :: "monitor \<Rightarrow> int64" where
  "timeout_ns m = wrap64 (mon_timeout_ms m * 1000000)"

section \<open>TCP\<close>

definition tcp_address :: "monitor \<Rightarrow> string" where
  "tcp_address m = mon_target m @ '':'' @ show_int (mon_port m)"

definition check_tcp :: "check_world \<Rightarrow> monitor \<Rightarrow> check_report" where
  "check_tcp w m =
     (case cw_dial w (timeout_ns m) (tcp_address m) of
        Some e \<Rightarrow> Result StatusDown (cw_latency w) 0 (''tcp connect failed: '' @ e) []
      | None \<Rightarrow> Result StatusUp (cw_latency w) 0 [] [])"

section \<open>ICMP\<close>

definition us_to_ms :: "int64 \<Rightarrow> rat" where
  "us_to_ms us = of_int us / 1000"

definition check_icmp :: "check_world \<Rightarrow> monitor \<Rightarrow> check_report" where
  "check_icmp w m =
     (case cw_ping w (timeout_ns m) (mon_target m) of
        NoPinger e \<Rightarrow> Result StatusDown 0 0 (''creating pinger: '' @ e) []
      | PingFailed e \<Rightarrow> Result StatusDown 0 0 (''ping failed: '' @ e) []
      | Pinged st \<Rightarrow>
          (if ps_recv st = 0 then
             Result StatusDown 0 0 ''no reply received''
               [(''packets_sent'', DInt (ps_sent st)), (''packets_recv'', DInt (ps_recv st))]
           else
             Result StatusUp (us_to_ms (ps_avg_us st)) 0 []
               [(''packets_sent'', DInt (ps_sent st)), (''packets_recv'', DInt (ps_recv st)),
                (''packet_loss'', DNumber (ps_loss st)), (''min_rtt_ms'', DNumber (us_to_ms (ps_min_us st))),
                (''max_rtt_ms'', DNumber (us_to_ms (ps_max_us st))),
                (''avg_rtt_ms'', DNumber (us_to_ms (ps_avg_us st)))]))"

section \<open>HTTP and HTTPS\<close>

definition bare_target :: "string \<Rightarrow> string" where
  "bare_target target =
     trim_right (CHR ''/'') (trim_prefix ''http://'' (trim_prefix ''https://'' target))"

definition http_scheme :: "string \<Rightarrow> string" where
  "http_scheme checkType = (if checkType = CheckHTTPS then ''https'' else ''http'')"

definition http_url :: "string \<Rightarrow> monitor \<Rightarrow> string" where
  "http_url checkType m =
     (let scheme = http_scheme checkType;
          port = (if mon_port m = 0 then (if scheme = ''https'' then 443 else 80) else mon_port m)
      in scheme @ ''://'' @ bare_target (mon_target m) @ '':'' @ show_int port)"

text \<open>
  \<open>client.Do\<close> with its redirect policy: with ten requests made, the next redirect is an error, whose
  text names the refused location. \<open>left\<close> is the number of redirects still followed; it tells the requests
  of a chain apart, so that a URL asked twice may answer differently. The default policy, which the keyword
  check keeps, has the same limit.
\<close>

fun follow ::
    "(nat \<Rightarrow> string \<Rightarrow> string + web_answer) \<Rightarrow> (string \<Rightarrow> string) \<Rightarrow> nat \<Rightarrow> string \<Rightarrow> string + http_reply" where
  "follow fetch refusal 0 url =
     (case fetch 0 url of Inl e \<Rightarrow> Inl e | Inr (Final r) \<Rightarrow> Inr r | Inr (Redirect u) \<Rightarrow> Inl (refusal u))"
| "follow fetch refusal (Suc left) url =
     (case fetch left url of Inl e \<Rightarrow> Inl e | Inr (Final r) \<Rightarrow> Inr r
      | Inr (Redirect u) \<Rightarrow> follow fetch refusal left u)"

definition redirect_refused :: "check_world \<Rightarrow> string \<Rightarrow> string \<Rightarrow> string" where
  "redirect_refused w msg loc = ''Get '' @ cw_quoted w loc @ '': '' @ msg"

definition user_agent :: "(string \<times> string) list" where
  "user_agent = [(''User-Agent'', ''PingMesh/1.0'')]"

definition go_trunc :: "rat \<Rightarrow> int64" where
  "go_trunc x = (if x < 0 then - \<lfloor>- x\<rfloor> else \<lfloor>x\<rfloor>)"

text \<open>The verdict on the status code, and then on the certificate, which overrides it.\<close>

definition judge_status :: "monitor \<Rightarrow> int64 \<Rightarrow> check_report \<Rightarrow> check_report" where
  "judge_status m code r =
     (if mon_expected_status m > 0 \<and> code \<noteq> mon_expected_status m then
        r\<lparr>cres_status := StatusDown, cres_error :=
          ''expected status '' @ show_int (mon_expected_status m) @ '', got '' @ show_int code\<rparr>
      else if mon_expected_status m = 0 \<and> code \<ge> 400 then
        r\<lparr>cres_status := StatusDown, cres_error := ''HTTP '' @ show_int code\<rparr>
      else r)"

definition judge_certificate :: "string \<Rightarrow> cert_info option \<Rightarrow> check_report \<Rightarrow> check_report" where
  "judge_certificate checkType cert r =
     (case cert of
        None \<Rightarrow> r
      | Some c \<Rightarrow>
          (if checkType \<noteq> CheckHTTPS then r
           else
             (let r1 = r\<lparr>crep_details := crep_details r @
                    [(''tls_expiry_days'', DInt (go_trunc (cert_days c))),
                     (''tls_issuer'', DText (cert_issuer c)), (''tls_subject'', DText (cert_subject c))]\<rparr>
              in if cert_days c < 7 then
                   r1\<lparr>cres_status := StatusDegraded, cres_error :=
                     ''TLS certificate expires in '' @ show_int (go_trunc (cert_days c)) @ '' days''\<rparr>
                 else r1)))"

definition check_http :: "string \<Rightarrow> check_world \<Rightarrow> monitor \<Rightarrow> check_report" where
  "check_http checkType w m =
     (let url = http_url checkType m in
      case cw_request_error w url of
        Some e \<Rightarrow> Result StatusDown 0 0 (''creating request: '' @ e) []
      | None \<Rightarrow>
          (case follow (cw_fetch w (timeout_ns m) user_agent) (redirect_refused w ''too many redirects'') 9 url of
             Inl e \<Rightarrow> Result StatusDown (cw_latency w) 0 (''request failed: '' @ e) []
           | Inr rep \<Rightarrow>
               judge_certificate checkType (rep_cert rep)
                 (judge_status m (rep_code rep)
                   (Result StatusUp (cw_latency w) (rep_code rep) []
                     [(''status_code'', DInt (rep_code rep)), (''protocol'', DText (rep_proto rep))]))))"

section \<open>HTTP with a keyword\<close>

fun contains_text :: "string \<Rightarrow> string \<Rightarrow> bool" where
  "contains_text sub [] = (sub = [])"
| "contains_text sub (x # xs) = (has_prefix sub (x # xs) \<or> contains_text sub xs)"

definition keyword_url :: "monitor \<Rightarrow> string" where
  "keyword_url m = ''http://'' @ bare_target (mon_target m) @ '':'' @
     show_int (if mon_port m = 0 then 80 else mon_port m)"

text \<open>At most the first megabyte is read; an error behind it goes unnoticed.\<close>

definition limited_body :: "http_reply \<Rightarrow> string + string" where
  "limited_body rep = (if length (rep_bytes rep) \<ge> 1048576 then Inr (take 1048576 (rep_bytes rep))
     else case rep_broken rep of Some e \<Rightarrow> Inl e | None \<Rightarrow> Inr (rep_bytes rep))"

definition judge_keyword :: "check_world \<Rightarrow> monitor \<Rightarrow> http_reply \<Rightarrow> string \<Rightarrow> check_report" where
  "judge_keyword w m rep body =
     (let found = contains_text (mon_expected_keyword m) body;
          result = Result StatusUp (cw_latency w) (rep_code rep) []
            [(''status_code'', DInt (rep_code rep)), (''keyword_found'', DBool found),
             (''body_length'', DInt (int (length body)))];
          result = (if \<not> found then result\<lparr>cres_status := StatusDown, cres_error :=
            ''keyword '' @ cw_quoted w (mon_expected_keyword m) @ '' not found in response''\<rparr> else result)
      in if rep_code rep \<ge> 400 then
           result\<lparr>cres_status := StatusDown, cres_error :=
             (if cres_error result = [] then ''HTTP '' @ show_int (rep_code rep) else cres_error result)\<rparr>
         else result)"

definition check_keyword :: "check_world \<Rightarrow> monitor \<Rightarrow> check_report" where
  "check_keyword w m =
     (let url = keyword_url m in
      case cw_request_error w url of
        Some e \<Rightarrow> Result StatusDown 0 0 (''creating request: '' @ e) []
      | None \<Rightarrow>
          (case follow (cw_fetch w (timeout_ns m) user_agent) (redirect_refused w ''stopped after 10 redirects'') 9 url of
             Inl e \<Rightarrow> Result StatusDown (cw_latency w) 0 (''request failed: '' @ e) []
           | Inr rep \<Rightarrow>
               (case limited_body rep of
                  Inl e \<Rightarrow> Result StatusDown (cw_latency w) (rep_code rep) (''reading body: '' @ e) []
                | Inr bytes \<Rightarrow> judge_keyword w m rep bytes)))"

section \<open>DNS\<close>

definition upper_char :: "char \<Rightarrow> char" where
  "upper_char c = (if 97 \<le> (of_char c :: nat) \<and> (of_char c :: nat) \<le> 122
     then char_of ((of_char c :: nat) - 32) else c)"

definition dns_record_type :: "string \<Rightarrow> dns_rtype" where
  "dns_record_type t =
     (let u = map upper_char t in
      if u = ''AAAA'' then TypeAAAA else if u = ''CNAME'' then TypeCNAME
      else if u = ''MX'' then TypeMX else if u = ''TXT'' then TypeTXT else TypeA)"

definition dns_question :: "monitor \<Rightarrow> string" where
  "dns_question m = (if has_suffix ''.'' (mon_target m) then mon_target m else mon_target m @ ''.'')"

definition dns_server :: "monitor \<Rightarrow> string" where
  "dns_server m = (if mon_port m > 0 then mon_target m @ '':'' @ show_int (mon_port m) else ''8.8.8.8:53'')"

fun dns_texts :: "dns_record list \<Rightarrow> string list" where
  "dns_texts [] = []"
| "dns_texts (r # rs) =
     (case r of RecA a \<Rightarrow> [a] | RecAAAA a \<Rightarrow> [a] | RecCNAME t \<Rightarrow> [t]
      | RecMX pref mx \<Rightarrow> [show_int pref @ '' '' @ mx] | RecTXT ts \<Rightarrow> [join_with '' '' ts] | RecOther \<Rightarrow> [])
     @ dns_texts rs"

definition judge_answers :: "check_world \<Rightarrow> monitor \<Rightarrow> string list \<Rightarrow> check_report" where
  "judge_answers w m answers =
     (let result = Result StatusUp (cw_latency w) 0 []
            [(''answers'', DTexts answers), (''answer_count'', DInt (int (length answers)))]
      in if mon_dns_expected m \<noteq> [] \<and> \<not> list_ex (\<lambda>a. a = mon_dns_expected m) answers then
           result\<lparr>cres_status := StatusDown, cres_error := ''expected answer '' @
             cw_quoted w (mon_dns_expected m) @ '' not found in ['' @ join_with '' '' answers @ '']''\<rparr>
         else result)"

definition check_dns :: "check_world \<Rightarrow> monitor \<Rightarrow> check_report" where
  "check_dns w m =
     (case cw_dns w (timeout_ns m) (dns_server m) (dns_question m) (dns_record_type (mon_dns_record_type m)) of
        Inl e \<Rightarrow> Result StatusDown (cw_latency w) 0 (''dns query failed: '' @ e) []
      | Inr resp \<Rightarrow>
          (if dns_rcode resp \<noteq> 0 then
             Result StatusDown (cw_latency w) 0 (''dns error: '' @ dns_rcode_name resp)
               [(''rcode'', DText (dns_rcode_name resp))]
           else judge_answers w m (dns_texts (dns_answers resp))))"

section \<open>The registry\<close>

datatype checker = ICMPChecker | TCPChecker | HTTPChecker string | DNSChecker | KeywordChecker

fun Type :: "checker \<Rightarrow> string" where
  "Type ICMPChecker = CheckICMP"
| "Type TCPChecker = CheckTCP"
| "Type (HTTPChecker t) = t"
| "Type DNSChecker = CheckDNS"
| "Type KeywordChecker = CheckHTTPKeyword"

text \<open>No checker returns an error or no result: what goes wrong is a result that is down.\<close>

fun Check :: "checker \<Rightarrow> check_world \<Rightarrow> monitor \<Rightarrow> check_report option \<times> string option" where
  "Check ICMPChecker w m = (Some (check_icmp w m), None)"
| "Check TCPChecker w m = (Some (check_tcp w m), None)"
| "Check (HTTPChecker t) w m = (Some (check_http t w m), None)"
| "Check DNSChecker w m = (Some (check_dns w m), None)"
| "Check KeywordChecker w m = (Some (check_keyword w m), None)"

definition Register :: "checker \<Rightarrow> (string \<Rightarrow> checker option) \<Rightarrow> string \<Rightarrow> checker option" where
  "Register c registry = registry(Type c \<mapsto> c)"

definition Get :: "(string \<Rightarrow> checker option) \<Rightarrow> string \<Rightarrow> string + checker" where
  "Get registry checkType = (case registry checkType of
     None \<Rightarrow> Inl (''unknown check type: '' @ checkType) | Some c \<Rightarrow> Inr c)"

definition RegisterAll :: "(string \<Rightarrow> checker option) \<Rightarrow> string \<Rightarrow> checker option" where
  "RegisterAll registry = fold Register
     [ICMPChecker, TCPChecker, HTTPChecker CheckHTTP, HTTPChecker CheckHTTPS, DNSChecker, KeywordChecker] registry"

text \<open>
  What \<open>executeCheck\<close> sees: the checker of a type, and what it finds at the given attempt. The world
  may answer each attempt in its own way; the scheduler drops the details.
\<close>

definition registered_check :: "(nat \<Rightarrow> check_world) \<Rightarrow> string \<Rightarrow> (monitor \<Rightarrow> nat \<Rightarrow> check_reply) option" where
  "registered_check world checkType = (case Get (RegisterAll (\<lambda>_. None)) checkType of
     Inl e \<Rightarrow> None
   | Inr c \<Rightarrow> Some (\<lambda>m i. (case Check c (world i) m of (r, e) \<Rightarrow> (map_option checker_result.truncate r, e))))"

end
