(* ===== verification/Json.thy ===== *)
theory Json
  imports Prelude
begin

text \<open>
  What the program uses of \<open>unicode/utf8\<close> and, for the column \<open>confirming_nodes\<close>, of \<open>encoding/json\<close>: the text
  that \<open>json.Marshal\<close> makes of a slice of strings and what \<open>json.Unmarshal\<close> reads from a text into one. A
  string is its bytes.
\<close>

section \<open>Runes\<close>

text \<open>
  \<open>rune_tail\<close> gives the ranges of the bytes that have to follow a first byte. A byte that starts no valid
  encoding is a rune of size one, which the codecs replace by U+FFFD.
\<close>

definition byte :: "char \<Rightarrow> nat" where
  "byte c = of_char c"

definition rune_tail :: "nat \<Rightarrow> (nat \<times> nat) list" where
  "rune_tail b =
     (if 194 \<le> b \<and> b \<le> 223 then [(128, 191)]
      else if b = 224 then [(160, 191), (128, 191)]
      else if b = 237 then [(128, 159), (128, 191)]
      else if 225 \<le> b \<and> b \<le> 239 then [(128, 191), (128, 191)]
      else if b = 240 then [(144, 191), (128, 191), (128, 191)]
      else if 241 \<le> b \<and> b \<le> 243 then [(128, 191), (128, 191), (128, 191)]
      else if b = 244 then [(128, 143), (128, 191), (128, 191)]
      else [])"

fun in_ranges :: "(nat \<times> nat) list \<Rightarrow> string \<Rightarrow> bool" where
  "in_ranges [] s = True"
| "in_ranges ((lo, hi) # rs) [] = False"
| "in_ranges ((lo, hi) # rs) (c # s) = (lo \<le> byte c \<and> byte c \<le> hi \<and> in_ranges rs s)"

definition rune_size :: "char \<Rightarrow> string \<Rightarrow> nat" where
  "rune_size c s = (let rs = rune_tail (byte c) in if in_ranges rs s then Suc (length rs) else 1)"

definition valid_rune :: "char \<Rightarrow> string \<Rightarrow> bool" where
  "valid_rune c s \<longleftrightarrow> byte c < 128 \<or> rune_tail (byte c) \<noteq> [] \<and> in_ranges (rune_tail (byte c)) s"

definition bytes :: "nat list \<Rightarrow> string" where
  "bytes = map char_of"

definition replacement :: string where
  "replacement = bytes [239, 191, 189]"

text \<open>The text with every byte that is not part of a valid encoding replaced.\<close>

fun utf8_text :: "string \<Rightarrow> string" where
  "utf8_text [] = []"
| "utf8_text (c # s) =
     (if valid_rune c s then c # take (rune_size c s - 1) s @ utf8_text (drop (rune_size c s - 1) s)
      else replacement @ utf8_text s)"

fun valid_utf8 :: "string \<Rightarrow> bool" where
  "valid_utf8 [] = True"
| "valid_utf8 (c # s) = (valid_rune c s \<and> valid_utf8 (drop (rune_size c s - 1) s))"

text \<open>\<open>utf8.AppendRune\<close> of a rune up to U+10FFFF that is not a surrogate.\<close>

definition encode_rune :: "nat \<Rightarrow> string" where
  "encode_rune r =
     (if r < 128 then bytes [r]
      else if r < 2048 then bytes [192 + r div 64, 128 + r mod 64]
      else if r < 65536 then bytes [224 + r div 4096, 128 + r div 64 mod 64, 128 + r mod 64]
      else bytes [240 + r div 262144, 128 + r div 4096 mod 64, 128 + r div 64 mod 64, 128 + r mod 64])"

section \<open>Marshal\<close>

abbreviation dquote :: char where "dquote \<equiv> CHR 0x22"
abbreviation bslash :: char where "bslash \<equiv> CHR 0x5C"

definition hex_value :: "char \<Rightarrow> nat option" where
  "hex_value c = (let b = byte c
     in if 48 \<le> b \<and> b \<le> 57 then Some (b - 48)
        else if 97 \<le> b \<and> b \<le> 102 then Some (b - 87)
        else if 65 \<le> b \<and> b \<le> 70 then Some (b - 55) else None)"

definition json_hex :: "nat \<Rightarrow> char" where
  "json_hex n = char_of (if n < 10 then 48 + n else 87 + n)"

text \<open>An ASCII byte: the characters of HTML are escaped too.\<close>

definition json_ascii :: "char \<Rightarrow> string" where
  "json_ascii c =
     (if c = dquote \<or> c = bslash then [bslash, c]
      else if byte c = 8 then bslash # ''b''
      else if byte c = 12 then bslash # ''f''
      else if byte c = 10 then bslash # ''n''
      else if byte c = 13 then bslash # ''r''
      else if byte c = 9 then bslash # ''t''
      else if byte c < 32 \<or> c \<in> set ''<>&'' then bslash # ''u00'' @ [json_hex (byte c div 16), json_hex (byte c mod 16)]
      else [c])"

text \<open>U+2028 and U+2029, which end a line in JavaScript.\<close>

definition json_rune :: "string \<Rightarrow> string" where
  "json_rune r =
     (if r = bytes [226, 128, 168] then bslash # ''u2028''
      else if r = bytes [226, 128, 169] then bslash # ''u2029'' else r)"

fun json_body :: "string \<Rightarrow> string" where
  "json_body [] = []"
| "json_body (c # s) =
     (if byte c < 128 then json_ascii c @ json_body s
      else if valid_rune c s then
        json_rune (c # take (rune_size c s - 1) s) @ json_body (drop (rune_size c s - 1) s)
      else bslash # ''ufffd'' @ json_body s)"

definition json_quoted :: "string \<Rightarrow> string" where
  "json_quoted s = dquote # json_body s @ [dquote]"

text \<open>A nil slice is \<open>null\<close>.\<close>

definition marshal_strings :: "string list option \<Rightarrow> string" where
  "marshal_strings v = (case v of None \<Rightarrow> ''null''
     | Some xs \<Rightarrow> ''['' @ join_with '','' (map json_quoted xs) @ '']'')"

section \<open>Unmarshal\<close>

text \<open>Four hexadecimal digits behind \<open>\u\<close>, as \<open>getu4\<close> of the package reads them.\<close>

fun getu4 :: "string \<Rightarrow> nat option" where
  "getu4 (b # u # h1 # h2 # h3 # h4 # t) =
     (if b = bslash \<and> u = CHR ''u'' then
        (case (hex_value h1, hex_value h2, hex_value h3, hex_value h4) of
           (Some n1, Some n2, Some n3, Some n4) \<Rightarrow> Some (4096 * n1 + 256 * n2 + 16 * n3 + n4)
         | _ \<Rightarrow> None)
      else None)"
| "getu4 _ = None"

definition surrogate :: "nat \<Rightarrow> bool" where
  "surrogate r \<longleftrightarrow> 55296 \<le> r \<and> r < 57344"

text \<open>
  An escape sequence, from its backslash: how many bytes it has behind the backslash, and the text it
  stands for. Half of a surrogate pair is replaced.
\<close>

definition unicode_escape :: "string \<Rightarrow> (nat \<times> string) option" where
  "unicode_escape s =
     (case getu4 s of
        None \<Rightarrow> None
      | Some r \<Rightarrow>
          (if \<not> surrogate r then Some (5, encode_rune r)
           else case getu4 (drop 6 s) of
             Some r2 \<Rightarrow> (if r < 56320 \<and> 56320 \<le> r2 \<and> r2 < 57344
               then Some (11, encode_rune (65536 + (r - 55296) * 1024 + (r2 - 56320))) else Some (5, replacement))
           | None \<Rightarrow> Some (5, replacement)))"

fun json_escape :: "string \<Rightarrow> (nat \<times> string) option" where
  "json_escape (b # e # s) =
     (if e = dquote \<or> e = bslash \<or> e = CHR ''/'' then Some (1, [e])
      else if e = CHR ''b'' then Some (1, bytes [8])
      else if e = CHR ''f'' then Some (1, bytes [12])
      else if e = CHR ''n'' then Some (1, bytes [10])
      else if e = CHR ''r'' then Some (1, bytes [13])
      else if e = CHR ''t'' then Some (1, bytes [9])
      else unicode_escape (b # e # s))"
| "json_escape _ = None"

text \<open>A string from behind its opening quote: its value and what follows its closing quote.\<close>

definition put_front :: "string \<Rightarrow> (string \<times> 'r) option \<Rightarrow> (string \<times> 'r) option" where
  "put_front t r = (case r of None \<Rightarrow> None | Some (u, rest) \<Rightarrow> Some (t @ u, rest))"

fun json_string :: "string \<Rightarrow> (string \<times> string) option" where
  "json_string [] = None"
| "json_string (c # s) =
     (if c = dquote then Some ([], s)
      else if c = bslash then
        (case json_escape (c # s) of None \<Rightarrow> None | Some (n, t) \<Rightarrow> put_front t (json_string (drop n s)))
      else if byte c < 32 then None
      else if valid_rune c s then
        put_front (c # take (rune_size c s - 1) s) (json_string (drop (rune_size c s - 1) s))
      else put_front replacement (json_string s))"

definition json_space :: "string \<Rightarrow> string" where
  "json_space = dropWhile (\<lambda>c. byte c \<in> {9, 10, 13, 32})"

lemma json_space_less: "json_space s = c # t \<Longrightarrow> length t < length s"
  using length_dropWhile_le [of "\<lambda>c. byte c \<in> {9, 10, 13, 32}" s] by (simp add: json_space_def)

lemma json_string_less: "json_string s = Some (t, r) \<Longrightarrow> length r < length s"
proof (induction s arbitrary: t r rule: json_string.induct)
  case (2 c s)
  then show ?case
    by (fastforce simp: put_front_def split: if_splits option.splits)
qed simp

text \<open>The elements of an array of strings, from the first on.\<close>

function json_elements :: "string \<Rightarrow> (string list \<times> string) option" where
  "json_elements s =
     (case json_space s of
        [] \<Rightarrow> None
      | q # t \<Rightarrow>
          (if q \<noteq> dquote then None
           else case json_string t of
             None \<Rightarrow> None
           | Some (x, r) \<Rightarrow>
               (case json_space r of
                  [] \<Rightarrow> None
                | d # u \<Rightarrow>
                    (if d = CHR '']'' then Some ([x], u)
                     else if d = CHR '','' then
                       (case json_elements u of None \<Rightarrow> None | Some (xs, w) \<Rightarrow> Some (x # xs, w))
                     else None))))"
  by pat_completeness auto
termination
  by (relation "measure length") (auto dest!: json_string_less json_space_less)

declare json_elements.simps [simp del]

text \<open>
  The slice after \<open>json.Unmarshal\<close> of a text into a nil slice, whose error the caller ignores: every text
  that is not an array leaves it nil. The column is only ever written by \<open>json.Marshal\<close> of a slice of
  strings; an array with elements of another type, of which Go would keep the strings, is not read.
\<close>

definition unmarshal_strings :: "string \<Rightarrow> string list option" where
  "unmarshal_strings s =
     (case json_space s of
        b # t \<Rightarrow>
          (if b \<noteq> CHR ''['' then None
           else case (json_space t, json_elements t) of
             (CHR '']'' # u, _) \<Rightarrow> (if json_space u = [] then Some [] else None)
           | (_, Some (xs, u)) \<Rightarrow> (if json_space u = [] then Some xs else None)
           | (_, None) \<Rightarrow> None)
      | [] \<Rightarrow> None)"

section \<open>What is written is read back\<close>

lemma in_ranges_take:
  assumes "in_ranges rs s"
  shows "length rs \<le> length s" and "in_ranges rs (take (length rs) s @ t)"
  using assms by (induction rs s rule: in_ranges.induct) auto

lemma rune_tail_ascii: "b < 128 \<Longrightarrow> rune_tail b = []"
  by (simp add: rune_tail_def)

lemma rune_size_ascii [simp]: "byte c < 128 \<Longrightarrow> rune_size c s = 1"
  by (simp add: rune_size_def rune_tail_ascii)

lemma valid_rune_take:
  assumes "valid_rune c s"
  shows "rune_size c s - 1 \<le> length s" and "valid_rune c (take (rune_size c s - 1) s @ t)"
    and "rune_size c (take (rune_size c s - 1) s @ t) = rune_size c s"
  using assms in_ranges_take [of "rune_tail (byte c)" s]
  by (auto simp: valid_rune_def rune_size_def rune_tail_ascii Let_def)

lemma put_front_simps [simp]:
  "put_front t (Some (u, r)) = Some (t @ u, r)" "put_front t None = None"
  by (simp_all add: put_front_def)

lemma json_string_rune:
  assumes "valid_rune c s" and "128 \<le> byte c"
  shows "json_string (c # take (rune_size c s - 1) s @ t) = put_front (c # take (rune_size c s - 1) s) (json_string t)"
proof -
  have "c \<noteq> dquote" "c \<noteq> bslash" using assms(2) by (auto simp: byte_def)
  then show ?thesis
    using assms(2) valid_rune_take(1) [OF assms(1)] valid_rune_take(2,3) [OF assms(1), of t] by simp
qed

lemma byte_char: "byte c = n \<Longrightarrow> n < 256 \<Longrightarrow> c = char_of n"
  by (auto simp: byte_def)

lemma json_hex_value [simp]: "n < 16 \<Longrightarrow> hex_value (json_hex n) = Some n"
  by (auto simp: hex_value_def json_hex_def byte_def Let_def)

lemma getu4_hex: "n < 256 \<Longrightarrow> getu4 (bslash # CHR ''u'' # CHR ''0'' # CHR ''0'' # json_hex (n div 16) # json_hex (n mod 16) # s) = Some n"
  by (simp add: hex_value_def [of "CHR ''0''"] byte_def)

lemma json_string_ascii:
  assumes "byte c < 128"
  shows "json_string (json_ascii c @ s) = put_front [c] (json_string s)"
proof -
  have escape: "json_escape (bslash # CHR ''u'' # CHR ''0'' # CHR ''0'' # json_hex (byte c div 16) # json_hex (byte c mod 16) # s)
      = Some (5, [c])"
    using assms getu4_hex [of "byte c" s]
    by (simp add: unicode_escape_def surrogate_def encode_rune_def bytes_def byte_def)
  show ?thesis
    unfolding json_ascii_def using assms escape
    by (auto simp: bytes_def valid_rune_def dest!: byte_char)
qed

lemma json_string_body: "json_string (json_body s @ dquote # r) = Some (utf8_text s, r)"
proof (induction s rule: json_body.induct)
  case (2 c s)
  show ?case
  proof (cases "byte c < 128")
    case True
    with 2(1) json_string_ascii [OF True] show ?thesis by (simp add: valid_rune_def)
  next
    case False
    note wide = this
    show ?thesis
    proof (cases "valid_rune c s")
      case True
      let ?rune = "c # take (rune_size c s - 1) s"
      have "json_string (json_rune ?rune @ t) = put_front ?rune (json_string t)" for t
        using json_string_rune [OF True] wide
        by (auto simp: json_rune_def bytes_def unicode_escape_def surrogate_def encode_rune_def hex_value_def byte_def)
      with True wide 2(2) show ?thesis by simp
    next
      case False
      with wide 2(3) show ?thesis
        by (simp add: unicode_escape_def surrogate_def encode_rune_def replacement_def bytes_def hex_value_def byte_def)
    qed
  qed
qed simp

lemma json_space_solid [simp]: "byte c \<notin> {9, 10, 13, 32} \<Longrightarrow> json_space (c # s) = c # s"
  by (simp add: json_space_def)

lemma json_elements_quoted:
  "xs \<noteq> [] \<Longrightarrow> json_elements (join_with '','' (map json_quoted xs) @ CHR '']'' # s) = Some (map utf8_text xs, s)"
proof (induction xs rule: induct_list012)
  case (2 x)
  show ?case
    by (subst json_elements.simps) (simp add: json_quoted_def json_string_body byte_def)
next
  case (3 x y zs)
  define rest where "rest = join_with '','' (map json_quoted (y # zs))"
  have "json_elements (dquote # json_body x @ dquote # CHR '','' # rest @ CHR '']'' # s)
      = Some (map utf8_text (x # y # zs), s)"
    using 3(2) [folded rest_def] by (subst json_elements.simps) (simp add: json_string_body byte_def)
  then show ?case by (simp add: rest_def json_quoted_def [of x])
qed simp

lemma unmarshal_marshal: "unmarshal_strings (marshal_strings v) = map_option (map utf8_text) v"
proof (cases v)
  case None
  then show ?thesis by (simp add: marshal_strings_def unmarshal_strings_def byte_def)
next
  case (Some xs)
  show ?thesis
  proof (cases xs)
    case Nil
    with Some show ?thesis
      by (simp add: marshal_strings_def unmarshal_strings_def byte_def json_space_def)
  next
    case (Cons x ys)
    then obtain t where t: "join_with '','' (map json_quoted xs) = dquote # t"
      by (cases ys) (simp_all add: json_quoted_def)
    have "json_elements (dquote # t @ '']'') = Some (map utf8_text xs, [])"
      using json_elements_quoted [of xs "[]"] Cons unfolding t by simp
    with Some t show ?thesis by (simp add: marshal_strings_def unmarshal_strings_def byte_def json_space_def)
  qed
qed

lemma utf8_text_valid [simp]: "valid_utf8 s \<Longrightarrow> utf8_text s = s"
  by (induction s rule: valid_utf8.induct) auto

lemma utf8_texts_valid: "list_all valid_utf8 xs \<Longrightarrow> map utf8_text xs = xs"
  by (induction xs) auto

end
