(* ===== verification/Contracts.thy ===== *)
theory Contracts
  imports Store_Interface Json
begin

text \<open>
  What each client of \<open>store.Store\<close> relies on, one locale per part of the interface in the order of
  \<open>store.go\<close>. A locale fixes the store and an abstraction of its state (the nodes, the incidents, the
  two result counters, the alert history, the spent tokens) and assumes how the operations act on it.
  An operation that fails leaves the abstraction alone: that is what a caller may rely on after an
  error. The client theories prove their lemmas inside these locales; theory \<open>Sqlite_Contracts\<close>
  interprets all of them on the SQLite store.
\<close>

text \<open>\<open>preserves f opn\<close>: the operation does not change what \<open>f\<close> sees, whether it fails or not.\<close>

definition preserves :: "('s \<Rightarrow> 'v) \<Rightarrow> ('s, 'a) op \<Rightarrow> bool" where
  "preserves f opn \<longleftrightarrow> (\<forall>s. f (snd (opn s)) = f s)"

lemma preservesD [dest]: "preserves f opn \<Longrightarrow> opn s = (r, s') \<Longrightarrow> f s' = f s"
  by (metis preserves_def snd_conv)

lemma preserves_snd: "preserves f opn \<Longrightarrow> f (snd (opn s)) = f s"
  by (simp add: preserves_def)

text \<open>\<open>intact f opn\<close>: an error leaves what \<open>f\<close> sees unchanged.\<close>

definition intact :: "('s \<Rightarrow> 'v) \<Rightarrow> ('s, 'a) op \<Rightarrow> bool" where
  "intact f opn \<longleftrightarrow> (\<forall>s e s'. opn s = (Inl e, s') \<longrightarrow> f s' = f s)"

lemma intactD [dest]: "intact f opn \<Longrightarrow> opn s = (Inl e, s') \<Longrightarrow> f s' = f s"
  by (simp add: intact_def)

text \<open>
  \<open>evolves R opn\<close>: every call moves the state along the preorder \<open>R\<close>. A frame is the preorder ``\<open>f\<close> sees
  the same'', an invariant the preorder ``if it held, it holds''.
\<close>

definition evolves :: "('s \<Rightarrow> 's \<Rightarrow> bool) \<Rightarrow> ('s, 'a) op \<Rightarrow> bool" where
  "evolves R opn \<longleftrightarrow> (\<forall>s. R s (snd (opn s)))"

lemma evolvesD: "evolves R opn \<Longrightarrow> opn s = (r, s') \<Longrightarrow> R s s'"
  by (metis evolves_def snd_conv)

definition preorder_on_states :: "('s \<Rightarrow> 's \<Rightarrow> bool) \<Rightarrow> bool" where
  "preorder_on_states R \<longleftrightarrow> (\<forall>s. R s s) \<and> (\<forall>s t u. R s t \<longrightarrow> R t u \<longrightarrow> R s u)"

lemma preorderD: "preorder_on_states R \<Longrightarrow> R s s" "preorder_on_states R \<Longrightarrow> R s t \<Longrightarrow> R t u \<Longrightarrow> R s u"
  by (auto simp: preorder_on_states_def)

lemma preorders [simp]:
  "preorder_on_states (\<lambda>s s'. f s' = f s)" "preorder_on_states (\<lambda>s s'. P s \<longrightarrow> P s')"
  by (auto simp: preorder_on_states_def)

lemma preserves_evolves: "preserves f opn \<longleftrightarrow> evolves (\<lambda>s s'. f s' = f s) opn"
  by (simp add: preserves_def evolves_def)

section \<open>Nodes\<close>

definition set_status :: "string \<Rightarrow> string \<Rightarrow> int64 \<Rightarrow> node \<Rightarrow> node" where
  "set_status nodeID status lastSeen n =
     (if node_id n = nodeID then n\<lparr>node_status := status, node_last_seen := lastSeen\<rparr> else n)"

locale node_store =
  fixes st :: "'s store" and nodes :: "'s \<Rightarrow> node list"
  assumes list_nodes: "ListNodes st s = (Inr ns, s') \<Longrightarrow> mset ns = mset (nodes s)"
    and list_nodes_keeps: "preserves nodes (ListNodes st)"
    and status_ok: "UpdateNodeStatus st k x t s = (Inr u, s') \<Longrightarrow>
      nodes s' = map (set_status k x t) (nodes s)"
    and status_error: "intact nodes (UpdateNodeStatus st k x t)"

section \<open>Check results\<close>

locale counter_store =
  fixes st :: "'s store" and failures successes :: "'s \<Rightarrow> string \<Rightarrow> string \<Rightarrow> int64"
  assumes count_failures: "CountConsecutiveFailures st m n s = (Inr c, s') \<Longrightarrow> c = failures s m n"
    and count_successes: "CountConsecutiveSuccesses st m n s = (Inr c, s') \<Longrightarrow> c = successes s m n"
    and counters_keep:
      "preserves failures (CountConsecutiveFailures st m n)"
      "preserves successes (CountConsecutiveFailures st m n)"
      "preserves failures (CountConsecutiveSuccesses st m n)"
      "preserves successes (CountConsecutiveSuccesses st m n)"
    and counters_bounded: "0 \<le> failures s m n" "failures s m n \<le> 100" "0 \<le> successes s m n"
      "successes s m n \<le> 100"
    and counters_exclusive: "failures s m n > 0 \<Longrightarrow> successes s m n = 0"

section \<open>Incidents\<close>

text \<open>The node ids go through a JSON text, which replaces what is not UTF-8.\<close>

definition read_back :: "incident \<Rightarrow> incident" where
  "read_back i = i\<lparr>inc_confirming_nodes := map_option (map utf8_text) (inc_confirming_nodes i)\<rparr>"

lemma read_back_fields [simp]:
  "inc_id (read_back i) = inc_id i" "inc_monitor_id (read_back i) = inc_monitor_id i"
  "inc_status (read_back i) = inc_status i" "inc_started_at (read_back i) = inc_started_at i"
  "active_incident (read_back i) = active_incident i"
  by (simp_all add: read_back_def active_incident_def)

text \<open>What \<open>UpdateIncident\<close> writes: every field but the identity, the monitor and the start.\<close>

definition set_incident :: "incident \<Rightarrow> incident \<Rightarrow> incident" where
  "set_incident i j = (if inc_id j = inc_id i then
     j\<lparr>inc_status := inc_status i, inc_confirmed_at := inc_confirmed_at i,
       inc_resolved_at := inc_resolved_at i, inc_confirming_nodes := inc_confirming_nodes (read_back i),
       inc_updated_at := inc_updated_at i\<rparr> else j)"

definition active_for :: "string \<Rightarrow> incident \<Rightarrow> bool" where
  "active_for m i \<longleftrightarrow> inc_monitor_id i = m \<and> active_incident i"

locale incident_store =
  fixes st :: "'s store" and incidents :: "'s \<Rightarrow> incident list"
  assumes active_none: "GetActiveIncident st m s = (Inr None, s') \<Longrightarrow>
      i \<in> set (incidents s) \<Longrightarrow> \<not> active_for m i"
    and active_some: "GetActiveIncident st m s = (Inr (Some i), s') \<Longrightarrow>
      i \<in> set (incidents s) \<and> active_for m i"
    and active_keeps: "preserves incidents (GetActiveIncident st m)"
    and create_ok: "CreateIncident st i s = (Inr u, s') \<Longrightarrow>
      incidents s' = incidents s @ [read_back i] \<and> inc_id i \<notin> inc_id ` set (incidents s)"
    and create_error: "intact incidents (CreateIncident st i)"
    and update_ok: "UpdateIncident st i s = (Inr u, s') \<Longrightarrow>
      incidents s' = map (set_incident i) (incidents s)"
    and update_error: "intact incidents (UpdateIncident st i)"

section \<open>Join tokens\<close>

text \<open>
  \<open>open_token s h\<close> is the expiry of a stored token that nobody has used yet; \<open>valid\<close> is the
  store's own invariant, which both operations keep.
\<close>

locale token_store =
  fixes st :: "'s store" and valid :: "'s \<Rightarrow> bool" and known :: "'s \<Rightarrow> string \<Rightarrow> bool"
    and open_token :: "'s \<Rightarrow> string \<Rightarrow> int64 option"
  assumes store_ok: "StoreJoinToken st h x now s = (Inr u, s') \<Longrightarrow>
      \<not> known s h \<and> known s' = (known s)(h := True) \<and> open_token s' = (open_token s)(h \<mapsto> x)"
    and store_error: "intact known (StoreJoinToken st h x now)"
      "intact open_token (StoreJoinToken st h x now)"
    and consume_ok: "valid s \<Longrightarrow> ValidateAndConsumeToken st h now s = (Inr b, s') \<Longrightarrow>
      b = (\<exists>x. open_token s h = Some x \<and> x > now) \<and> known s' = known s \<and>
      open_token s' = (if b then (open_token s)(h := None) else open_token s)"
    and consume_error: "intact known (ValidateAndConsumeToken st h now)"
      "intact open_token (ValidateAndConsumeToken st h now)"
    and token_valid: "valid s \<Longrightarrow> valid (snd (StoreJoinToken st h x now s))"
      "valid s \<Longrightarrow> valid (snd (ValidateAndConsumeToken st h now s))"
    and open_known: "open_token s h = Some x \<Longrightarrow> known s h"

section \<open>Alert channels and history\<close>

locale alert_store =
  fixes st :: "'s store" and channels :: "'s \<Rightarrow> alert_channel list"
    and history :: "'s \<Rightarrow> alert_record list"
  assumes list_channels: "ListEnabledAlertChannels st s = (Inr cs, s') \<Longrightarrow>
      mset cs = mset (filter ch_enabled (channels s))"
    and list_channels_keeps: "preserves channels (ListEnabledAlertChannels st)"
      "preserves history (ListEnabledAlertChannels st)"
    and insert_ok: "InsertAlertRecord st r s = (Inr u, s') \<Longrightarrow>
      \<exists>k. history s' = history s @ [r\<lparr>rec_id := k\<rparr>]"
    and insert_error: "intact history (InsertAlertRecord st r)"
    and insert_keeps: "preserves channels (InsertAlertRecord st r)"

section \<open>Monitors and nodes by id\<close>

text \<open>
  \<open>monitor_at\<close> and \<open>node_at\<close> look a row up by its primary key. An update of a missing row is no error
  and changes nothing; it never touches the creation time.
\<close>

definition refresh_monitor :: "monitor \<Rightarrow> monitor \<Rightarrow> monitor" where
  "refresh_monitor m old = m\<lparr>mon_created_at := mon_created_at old\<rparr>"

definition refresh_node :: "node \<Rightarrow> node \<Rightarrow> node" where
  "refresh_node n old = n\<lparr>node_created_at := node_created_at old\<rparr>"

lemma refresh_keys [simp]:
  "mon_id (refresh_monitor m old) = mon_id m" "node_id (refresh_node n old') = node_id n"
  by (simp_all add: refresh_monitor_def refresh_node_def)

locale config_store =
  fixes st :: "'s store" and monitor_at :: "'s \<Rightarrow> string \<Rightarrow> monitor option"
    and node_at :: "'s \<Rightarrow> string \<Rightarrow> node option"
  assumes get_monitor: "GetMonitor st k s = (Inr r, s') \<Longrightarrow> r = monitor_at s k"
    and get_monitor_keeps: "preserves monitor_at (GetMonitor st k)" "preserves node_at (GetMonitor st k)"
    and update_monitor: "UpdateMonitor st m s = (Inr u, s') \<Longrightarrow> monitor_at s' =
      (monitor_at s)(mon_id m := map_option (refresh_monitor m) (monitor_at s (mon_id m)))"
    and create_monitor: "CreateMonitor st m s = (Inr u, s') \<Longrightarrow>
      monitor_at s (mon_id m) = None \<and> monitor_at s' = (monitor_at s)(mon_id m \<mapsto> m)"
    and monitor_errors: "intact monitor_at (UpdateMonitor st m)" "intact monitor_at (CreateMonitor st m)"
    and monitor_frames: "preserves node_at (UpdateMonitor st m)" "preserves node_at (CreateMonitor st m)"
    and get_node: "GetNode st k s = (Inr q, s') \<Longrightarrow> q = node_at s k"
    and get_node_keeps: "preserves monitor_at (GetNode st k)" "preserves node_at (GetNode st k)"
    and update_node: "UpdateNode st n s = (Inr u, s') \<Longrightarrow> node_at s' =
      (node_at s)(node_id n := map_option (refresh_node n) (node_at s (node_id n)))"
    and create_node: "CreateNode st n s = (Inr u, s') \<Longrightarrow>
      node_at s (node_id n) = None \<and> node_at s' = (node_at s)(node_id n \<mapsto> n)"
    and node_errors: "intact node_at (UpdateNode st n)" "intact node_at (CreateNode st n)"
    and node_frames: "preserves monitor_at (UpdateNode st n)" "preserves monitor_at (CreateNode st n)"

text \<open>A configuration store that does not fail; a creation succeeds if the id is free.\<close>

locale reliable_config_store = config_store st monitor_at node_at
  for st :: "'s store" and monitor_at :: "'s \<Rightarrow> string \<Rightarrow> monitor option"
    and node_at :: "'s \<Rightarrow> string \<Rightarrow> node option" +
  assumes config_reads_succeed: "is_ok (fst (GetMonitor st k s))" "is_ok (fst (GetNode st k s))"
    and config_updates_succeed: "is_ok (fst (UpdateMonitor st m s))" "is_ok (fst (UpdateNode st n s))"
    and monitor_create_succeeds: "monitor_at s (mon_id m) = None \<Longrightarrow> is_ok (fst (CreateMonitor st m s))"
    and node_create_succeeds: "node_at s (node_id n) = None \<Longrightarrow> is_ok (fst (CreateNode st n s))"

section \<open>The consensus loop's view\<close>

text \<open>
  The evaluation of a monitor reads counters, updates incidents and lists channels. \<open>ticking_store\<close> says
  only that the reads leave the incidents alone: it also holds of a store that other goroutines use
  in between. \<open>consensus_store\<close> adds that the counters stand still while the tick runs.
\<close>

locale ticking_store = incident_store st incidents
  for st :: "'s store" and incidents :: "'s \<Rightarrow> incident list" +
  assumes counting_keeps_incidents:
      "preserves incidents (CountConsecutiveFailures st m n)"
      "preserves incidents (CountConsecutiveSuccesses st m n)"
    and lists_keep_incidents: "preserves incidents (ListEnabledAlertChannels st)"
      "preserves incidents (ListEnabledMonitors st)" "preserves incidents (ListNodes st)"

locale consensus_store = ticking_store st incidents + counter_store st failures successes
  for st :: "'s store" and incidents :: "'s \<Rightarrow> incident list"
    and failures successes :: "'s \<Rightarrow> string \<Rightarrow> string \<Rightarrow> int64" +
  assumes channels_keep_counters:
      "preserves failures (ListEnabledAlertChannels st)" "preserves successes (ListEnabledAlertChannels st)"
    and incidents_keep_counters:
      "preserves failures (GetActiveIncident st m)" "preserves successes (GetActiveIncident st m)"
      "preserves failures (CreateIncident st i)" "preserves successes (CreateIncident st i)"
      "preserves failures (UpdateIncident st i)" "preserves successes (UpdateIncident st i)"

text \<open>With the alert channels beside them: a tick also dispatches.\<close>

locale alerting_store = consensus_store st incidents failures successes + alert_store st channels history
  for st :: "'s store" and incidents :: "'s \<Rightarrow> incident list"
    and failures successes :: "'s \<Rightarrow> string \<Rightarrow> string \<Rightarrow> int64"
    and channels :: "'s \<Rightarrow> alert_channel list" and history :: "'s \<Rightarrow> alert_record list" +
  assumes incidents_keep_channels:
      "preserves channels (CountConsecutiveFailures st m n)"
      "preserves channels (CountConsecutiveSuccesses st m n)"
      "preserves channels (GetActiveIncident st m)"
      "preserves channels (CreateIncident st i)" "preserves channels (UpdateIncident st i)"

text \<open>
  A store that does not fail: a query and an update always succeed, an insertion if the constraints of
  the schema hold.
\<close>

locale reliable_store = alerting_store st incidents failures successes channels history
  for st :: "'s store" and incidents :: "'s \<Rightarrow> incident list"
    and failures successes :: "'s \<Rightarrow> string \<Rightarrow> string \<Rightarrow> int64"
    and channels :: "'s \<Rightarrow> alert_channel list" and history :: "'s \<Rightarrow> alert_record list" +
  fixes has_monitor :: "'s \<Rightarrow> string \<Rightarrow> bool"
  assumes counting_succeeds: "is_ok (fst (CountConsecutiveFailures st m n s))"
      "is_ok (fst (CountConsecutiveSuccesses st m n s))"
    and active_succeeds: "is_ok (fst (GetActiveIncident st m s))"
    and create_succeeds: "has_monitor s (inc_monitor_id i) \<Longrightarrow> inc_id i \<notin> inc_id ` set (incidents s) \<Longrightarrow>
      is_ok (fst (CreateIncident st i s))"
    and update_succeeds: "is_ok (fst (UpdateIncident st i s))"
    and channels_succeed: "is_ok (fst (ListEnabledAlertChannels st s))"
    and monitors_keep: "preserves has_monitor (CountConsecutiveFailures st m n)"
      "preserves has_monitor (GetActiveIncident st m)"
      "preserves has_monitor (CountConsecutiveSuccesses st m n)"
      "preserves has_monitor (CreateIncident st i)" "preserves has_monitor (UpdateIncident st i)"
      "preserves has_monitor (ListEnabledAlertChannels st)"

end
