(* ===== verification/Database.thy ===== *)
theory Database
  imports Store_Interface
begin

text \<open>
  The tables of \<open>internal/store/migrations.go\<close> and the execution of one SQL statement.

  A table is a list of rows in insertion order; a nullable column is an \<open>option\<close>, an SQL integer
  that stands for a boolean stays an integer. The engine itself (modernc.org/sqlite, not part of the
  repository) is a parameter: \<open>eng_fault n\<close> says that the \<open>n\<close>-th statement comes back with an engine
  error (I/O, busy, corrupt file), in which case no row has changed; the \<open>eng_scan\<close> fields choose the
  order of rows whose \<open>ORDER BY\<close> key is equal (see \<open>order_by\<close>). Both are arbitrary functions.

  Constraints are those of the schema: primary keys, and foreign keys, which the connection string
  turns on (\<open>_pragma=foreign_keys(on)\<close>). The column \<open>confirming_nodes\<close> holds JSON text (theory \<open>Json\<close>); no
  statement leaves it null.
\<close>

record monitor_row =
  mr_id :: string
  mr_name :: string
  mr_group_name :: string
  mr_check_type :: string
  mr_target :: string
  mr_port :: "int64 option"
  mr_interval_ms :: int64
  mr_timeout_ms :: int64
  mr_retries :: int64
  mr_expected_status :: "int64 option"
  mr_expected_keyword :: "string option"
  mr_dns_record_type :: "string option"
  mr_dns_expected :: "string option"
  mr_failure_threshold :: int64
  mr_recovery_threshold :: int64
  mr_quorum_type :: string
  mr_quorum_n :: int64
  mr_cooldown_ms :: int64
  mr_enabled :: int64
  mr_created_at :: int64
  mr_updated_at :: int64

record result_row =
  rr_id :: int64
  rr_monitor_id :: string
  rr_node_id :: string
  rr_status :: string
  rr_latency_ms :: rat
  rr_status_code :: "int64 option"
  rr_error :: "string option"
  rr_details :: "string option"
  rr_timestamp :: int64

record incident_row =
  ir_id :: string
  ir_monitor_id :: string
  ir_status :: string
  ir_started_at :: int64
  ir_confirmed_at :: "int64 option"
  ir_resolved_at :: "int64 option"
  ir_confirming_nodes :: string
  ir_created_at :: int64
  ir_updated_at :: int64

record token_row =
  tr_token_hash :: string
  tr_expires_at :: int64
  tr_used :: int64
  tr_created_at :: int64

record channel_row =
  cr_id :: string
  cr_name :: string
  cr_type :: string
  cr_enabled :: int64
  cr_config :: string
  cr_created_at :: int64
  cr_updated_at :: int64

record history_row =
  hr_id :: int64
  hr_channel_id :: string
  hr_incident_id :: string
  hr_monitor_id :: string
  hr_event_type :: string
  hr_status :: string
  hr_error :: "string option"
  hr_sent_at :: int64

text \<open>
  The two \<open>AUTOINCREMENT\<close> tables have a sequence number, the largest id ever handed out.
  \<open>db_stmts\<close> counts the statements executed so far; it only selects the engine's answers.
\<close>

record db =
  db_nodes :: "node list"
  db_monitors :: "monitor_row list"
  db_results :: "result_row list"
  db_incidents :: "incident_row list"
  db_tokens :: "token_row list"
  db_channels :: "channel_row list"
  db_history :: "history_row list"
  db_result_seq :: int64
  db_history_seq :: int64
  db_schema_version :: "int64 option"
  db_stmts :: nat

definition empty_db :: db where
  "empty_db = \<lparr>db_nodes = [], db_monitors = [], db_results = [], db_incidents = [], db_tokens = [],
     db_channels = [], db_history = [], db_result_seq = 0, db_history_seq = 0,
     db_schema_version = None, db_stmts = 0\<rparr>"

record engine =
  eng_fault :: "nat \<Rightarrow> bool"
  eng_scan_nodes :: "node list \<Rightarrow> node list"
  eng_scan_monitors :: "monitor_row list \<Rightarrow> monitor_row list"
  eng_scan_results :: "result_row list \<Rightarrow> result_row list"
  eng_scan_incidents :: "incident_row list \<Rightarrow> incident_row list"
  eng_scan_channels :: "channel_row list \<Rightarrow> channel_row list"
  eng_scan_history :: "history_row list \<Rightarrow> history_row list"

text \<open>An engine without faults that returns equal keys in insertion order, for the concrete runs.\<close>

definition plain_engine :: engine where
  "plain_engine = \<lparr>eng_fault = (\<lambda>_. False), eng_scan_nodes = (\<lambda>xs. xs),
     eng_scan_monitors = (\<lambda>xs. xs), eng_scan_results = (\<lambda>xs. xs), eng_scan_incidents = (\<lambda>xs. xs),
     eng_scan_channels = (\<lambda>xs. xs), eng_scan_history = (\<lambda>xs. xs)\<rparr>"

lemma plain_engine_simps [simp]:
  "eng_fault plain_engine n = False"
  "eng_scan_nodes plain_engine ns = ns" "eng_scan_monitors plain_engine ms = ms"
  "eng_scan_results plain_engine rs = rs" "eng_scan_incidents plain_engine is = is"
  "eng_scan_channels plain_engine cs = cs" "eng_scan_history plain_engine hs = hs"
  by (simp_all add: plain_engine_def)

definition fault_free :: "engine \<Rightarrow> bool" where
  "fault_free eng \<longleftrightarrow> (\<forall>n. \<not> eng_fault eng n)"

lemma fault_freeD [simp]: "fault_free eng \<Longrightarrow> eng_fault eng n = False"
  by (simp add: fault_free_def)

lemma plain_engine_fault_free [simp]: "fault_free plain_engine"
  by (simp add: fault_free_def)

section \<open>One statement\<close>

definition tick :: "db \<Rightarrow> db" where
  "tick s = s\<lparr>db_stmts := Suc (db_stmts s)\<rparr>"

lemma tick_simps [simp]:
  "db_nodes (tick s) = db_nodes s" "db_monitors (tick s) = db_monitors s"
  "db_results (tick s) = db_results s" "db_incidents (tick s) = db_incidents s"
  "db_tokens (tick s) = db_tokens s" "db_channels (tick s) = db_channels s"
  "db_history (tick s) = db_history s" "db_result_seq (tick s) = db_result_seq s"
  "db_history_seq (tick s) = db_history_seq s"
  "db_schema_version (tick s) = db_schema_version s"
  "db_stmts (tick s) = Suc (db_stmts s)"
  by (simp_all add: tick_def)

text \<open>A \<open>SELECT\<close>: the rows, or the engine's error.\<close>

definition db_query :: "engine \<Rightarrow> (db \<Rightarrow> 'a) \<Rightarrow> (db, 'a) op" where
  "db_query eng f s =
     (if eng_fault eng (db_stmts s) then (Inl (EngineError (db_stmts s)), tick s)
      else (Inr (f s), tick s))"

text \<open>
  An \<open>INSERT\<close>, \<open>UPDATE\<close> or \<open>DELETE\<close>: it takes effect as a whole, or fails (engine error or violated
  constraint) and changes no row.
\<close>

definition db_exec :: "engine \<Rightarrow> (db \<Rightarrow> store_error + 'a \<times> db) \<Rightarrow> (db, 'a) op" where
  "db_exec eng f s =
     (if eng_fault eng (db_stmts s) then (Inl (EngineError (db_stmts s)), tick s)
      else case f (tick s) of Inl e \<Rightarrow> (Inl e, tick s) | Inr (x, s') \<Rightarrow> (Inr x, s'))"

lemma db_query_state [simp]: "snd (db_query eng f s) = tick s"
  by (simp add: db_query_def)

lemma db_queryE:
  assumes "db_query eng f s = (r, s')"
  obtains (fault) n where "r = Inl (EngineError n)" "s' = tick s"
  | (ok) "r = Inr (f s)" "s' = tick s"
  using assms by (auto simp: db_query_def split: if_splits)

lemma db_execE:
  assumes "db_exec eng f s = (r, s')"
  obtains (error) e where "r = Inl e" "s' = tick s"
  | (ok) x where "r = Inr x" "f (tick s) = Inr (x, s')" "\<not> eng_fault eng (db_stmts s)"
  using assms by (auto simp: db_exec_def split: if_splits sum.splits)

lemma db_exec_invariant:
  assumes "P s" and "\<And>t. P t \<Longrightarrow> P (tick t)" and "\<And>x t t'. P t \<Longrightarrow> f t = Inr (x, t') \<Longrightarrow> P t'"
  shows "P (snd (db_exec eng f s))"
  using assms by (auto simp: db_exec_def split: sum.splits)

section \<open>Row operations\<close>

definition row_insert :: "('r \<Rightarrow> 'k) \<Rightarrow> 'r \<Rightarrow> 'r list \<Rightarrow> 'r list option" where
  "row_insert key r rows = (if key r \<in> set (map key rows) then None else Some (rows @ [r]))"

definition row_update :: "('r \<Rightarrow> bool) \<Rightarrow> ('r \<Rightarrow> 'r) \<Rightarrow> 'r list \<Rightarrow> 'r list" where
  "row_update p f rows = map (\<lambda>r. if p r then f r else r) rows"

definition row_delete :: "('r \<Rightarrow> bool) \<Rightarrow> 'r list \<Rightarrow> 'r list" where
  "row_delete p rows = filter (\<lambda>r. \<not> p r) rows"

definition has_key :: "('r \<Rightarrow> 'k) \<Rightarrow> 'k \<Rightarrow> 'r list \<Rightarrow> bool" where
  "has_key key k rows \<longleftrightarrow> k \<in> set (map key rows)"

lemma has_key_iff: "has_key key k rows \<longleftrightarrow> (\<exists>r \<in> set rows. key r = k)"
  by (auto simp: has_key_def)

lemma row_insert_Some:
  "row_insert key r rows = Some rows' \<longleftrightarrow> \<not> has_key key (key r) rows \<and> rows' = rows @ [r]"
  by (auto simp: row_insert_def has_key_def)

lemma row_insert_None: "row_insert key r rows = None \<longleftrightarrow> has_key key (key r) rows"
  by (simp add: row_insert_def has_key_def)

lemma distinct_row_insert:
  "row_insert key r rows = Some rows' \<Longrightarrow> distinct (map key rows) \<Longrightarrow> distinct (map key rows')"
  by (auto simp: row_insert_Some has_key_def)

lemma map_key_row_update:
  "(\<And>r. key (f r) = key r) \<Longrightarrow> map key (row_update p f rows) = map key rows"
  by (simp add: row_update_def)

lemma has_key_row_update:
  "(\<And>r. key (f r) = key r) \<Longrightarrow> has_key key k (row_update p f rows) = has_key key k rows"
  unfolding has_key_def by (simp only: map_key_row_update)

lemma set_row_delete [simp]: "set (row_delete p rows) = {r \<in> set rows. \<not> p r}"
  by (auto simp: row_delete_def)

lemma distinct_row_delete: "distinct (map key rows) \<Longrightarrow> distinct (map key (row_delete p rows))"
  unfolding row_delete_def by (rule distinct_map_filter)

lemma find_row_update:
  assumes "\<And>r. key (f r) = key r"
  shows "find (\<lambda>r. key r = k) (row_update (\<lambda>r. key r = k) f rows)
    = map_option f (find (\<lambda>r. key r = k) rows)"
  using assms by (induction rows) (auto simp: row_update_def)

lemma find_row_update_other:
  assumes "\<And>r. key (f r) = key r" and "k \<noteq> k'"
  shows "find (\<lambda>r. key r = k) (row_update (\<lambda>r. key r = k') f rows) = find (\<lambda>r. key r = k) rows"
  using assms by (induction rows) (auto simp: row_update_def)

lemma find_append_key:
  "\<not> has_key key k rows \<Longrightarrow> key r = k \<Longrightarrow> find (\<lambda>r. key r = k) (rows @ [r]) = Some r"
  by (induction rows) (auto simp: has_key_def)

lemma find_None_has_key: "find (\<lambda>r. key r = k) rows = None \<longleftrightarrow> \<not> has_key key k rows"
  by (auto simp: find_None_iff has_key_def)

end
