(* ===== verification/Sqlite_Store.thy ===== *)
theory Sqlite_Store
  imports Database Json
begin

text \<open>
  \<open>internal/store/sqlite.go\<close>: how a struct is bound to a row and scanned back, and the statement each
  method of \<open>SQLiteStore\<close> executes. \<open>sqlite_store eng\<close> collects the methods as a \<open>store\<close>.
\<close>

section \<open>Nullable columns\<close>

definition nullInt :: "int64 \<Rightarrow> int64 option" where
  "nullInt v = (if v = 0 then None else Some v)"

definition nullInt64 :: "int64 \<Rightarrow> int64 option" where
  "nullInt64 v = (if v = 0 then None else Some v)"

definition nullString :: "string \<Rightarrow> string option" where
  "nullString v = (if v = [] then None else Some v)"

definition boolToInt :: "bool \<Rightarrow> int64" where
  "boolToInt v = (if v then 1 else 0)"

text \<open>A scanned column that is NULL leaves the zero value of the struct in place.\<close>

definition int_column :: "int64 option \<Rightarrow> int64" where
  "int_column c = (case c of None \<Rightarrow> 0 | Some v \<Rightarrow> v)"

definition string_column :: "string option \<Rightarrow> string" where
  "string_column c = (case c of None \<Rightarrow> [] | Some v \<Rightarrow> v)"

lemma column_roundtrip [scan_simps, simp]:
  "int_column (nullInt v) = v" "int_column (nullInt64 v) = v"
  "string_column (nullString w) = w" "(boolToInt b = 1) = b"
  by (simp_all add: int_column_def nullInt_def nullInt64_def string_column_def nullString_def
      boolToInt_def)

section \<open>Rows and structs\<close>

definition bind_monitor :: "monitor \<Rightarrow> monitor_row" where
  "bind_monitor m = \<lparr>mr_id = mon_id m, mr_name = mon_name m, mr_group_name = mon_group_name m,
     mr_check_type = mon_check_type m, mr_target = mon_target m, mr_port = nullInt (mon_port m),
     mr_interval_ms = mon_interval_ms m, mr_timeout_ms = mon_timeout_ms m,
     mr_retries = mon_retries m, mr_expected_status = nullInt (mon_expected_status m),
     mr_expected_keyword = nullString (mon_expected_keyword m),
     mr_dns_record_type = nullString (mon_dns_record_type m),
     mr_dns_expected = nullString (mon_dns_expected m),
     mr_failure_threshold = mon_failure_threshold m,
     mr_recovery_threshold = mon_recovery_threshold m, mr_quorum_type = mon_quorum_type m,
     mr_quorum_n = mon_quorum_n m, mr_cooldown_ms = mon_cooldown_ms m,
     mr_enabled = boolToInt (mon_enabled m), mr_created_at = mon_created_at m,
     mr_updated_at = mon_updated_at m\<rparr>"

definition scanMonitor :: "monitor_row \<Rightarrow> monitor" where
  "scanMonitor r = \<lparr>mon_id = mr_id r, mon_name = mr_name r, mon_group_name = mr_group_name r,
     mon_check_type = mr_check_type r, mon_target = mr_target r, mon_port = int_column (mr_port r),
     mon_interval_ms = mr_interval_ms r, mon_timeout_ms = mr_timeout_ms r,
     mon_retries = mr_retries r, mon_expected_status = int_column (mr_expected_status r),
     mon_expected_keyword = string_column (mr_expected_keyword r),
     mon_dns_record_type = string_column (mr_dns_record_type r),
     mon_dns_expected = string_column (mr_dns_expected r),
     mon_failure_threshold = mr_failure_threshold r,
     mon_recovery_threshold = mr_recovery_threshold r, mon_quorum_type = mr_quorum_type r,
     mon_quorum_n = mr_quorum_n r, mon_cooldown_ms = mr_cooldown_ms r,
     mon_enabled = (mr_enabled r = 1), mon_created_at = mr_created_at r,
     mon_updated_at = mr_updated_at r\<rparr>"

text \<open>\<open>UpdateMonitor\<close> sets every column but the id and the creation time.\<close>

definition set_monitor_row :: "monitor \<Rightarrow> monitor_row \<Rightarrow> monitor_row" where
  "set_monitor_row m r = (bind_monitor m)\<lparr>mr_id := mr_id r, mr_created_at := mr_created_at r\<rparr>"

definition set_node_row :: "node \<Rightarrow> node \<Rightarrow> node" where
  "set_node_row n r = r\<lparr>node_name := node_name n, node_location := node_location n,
     node_address := node_address n, node_role := node_role n, node_status := node_status n,
     node_last_seen := node_last_seen n\<rparr>"

definition bind_result :: "int64 \<Rightarrow> check_result \<Rightarrow> result_row" where
  "bind_result i r =
     (let details = (case res_details r of None \<Rightarrow> [] | Some d \<Rightarrow> d) in
      \<lparr>rr_id = i, rr_monitor_id = res_monitor_id r, rr_node_id = res_node_id r,
       rr_status = res_status r, rr_latency_ms = res_latency_ms r,
       rr_status_code = nullInt (res_status_code r), rr_error = nullString (res_error r),
       rr_details = nullString details, rr_timestamp = res_timestamp r\<rparr>)"

definition scan_result :: "result_row \<Rightarrow> check_result" where
  "scan_result r = \<lparr>res_id = rr_id r, res_monitor_id = rr_monitor_id r, res_node_id = rr_node_id r,
     res_status = rr_status r, res_latency_ms = rr_latency_ms r,
     res_status_code = int_column (rr_status_code r), res_error = string_column (rr_error r),
     res_details = (case rr_details r of None \<Rightarrow> None | Some d \<Rightarrow> (if d = [] then None else Some d)),
     res_timestamp = rr_timestamp r\<rparr>"

definition bind_incident :: "incident \<Rightarrow> incident_row" where
  "bind_incident i = \<lparr>ir_id = inc_id i, ir_monitor_id = inc_monitor_id i, ir_status = inc_status i,
     ir_started_at = inc_started_at i, ir_confirmed_at = nullInt64 (inc_confirmed_at i),
     ir_resolved_at = nullInt64 (inc_resolved_at i),
     ir_confirming_nodes = marshal_strings (inc_confirming_nodes i), ir_created_at = inc_created_at i,
     ir_updated_at = inc_updated_at i\<rparr>"

definition scanIncident :: "incident_row \<Rightarrow> incident" where
  "scanIncident r = \<lparr>inc_id = ir_id r, inc_monitor_id = ir_monitor_id r, inc_status = ir_status r,
     inc_started_at = ir_started_at r, inc_confirmed_at = int_column (ir_confirmed_at r),
     inc_resolved_at = int_column (ir_resolved_at r),
     inc_confirming_nodes = (if ir_confirming_nodes r = [] then None else unmarshal_strings (ir_confirming_nodes r)),
     inc_created_at = ir_created_at r,
     inc_updated_at = ir_updated_at r\<rparr>"

definition set_incident_row :: "incident \<Rightarrow> incident_row \<Rightarrow> incident_row" where
  "set_incident_row i r = r\<lparr>ir_status := inc_status i, ir_confirmed_at := nullInt64 (inc_confirmed_at i),
     ir_resolved_at := nullInt64 (inc_resolved_at i), 
     ir_confirming_nodes := marshal_strings (inc_confirming_nodes i),
     ir_updated_at := inc_updated_at i\<rparr>"

definition bind_channel :: "alert_channel \<Rightarrow> channel_row" where
  "bind_channel c = \<lparr>cr_id = ch_id c, cr_name = ch_name c, cr_type = ch_type c,
     cr_enabled = boolToInt (ch_enabled c), cr_config = ch_config c,
     cr_created_at = ch_created_at c, cr_updated_at = ch_updated_at c\<rparr>"

definition scanAlertChannel :: "channel_row \<Rightarrow> alert_channel" where
  "scanAlertChannel r = \<lparr>ch_id = cr_id r, ch_name = cr_name r, ch_type = cr_type r,
     ch_enabled = (cr_enabled r = 1), ch_config = cr_config r, ch_created_at = cr_created_at r,
     ch_updated_at = cr_updated_at r\<rparr>"

definition set_channel_row :: "alert_channel \<Rightarrow> channel_row \<Rightarrow> channel_row" where
  "set_channel_row c r = r\<lparr>cr_name := ch_name c, cr_type := ch_type c,
     cr_enabled := boolToInt (ch_enabled c), cr_config := ch_config c,
     cr_updated_at := ch_updated_at c\<rparr>"

definition bind_history :: "int64 \<Rightarrow> alert_record \<Rightarrow> history_row" where
  "bind_history i r = \<lparr>hr_id = i, hr_channel_id = rec_channel_id r,
     hr_incident_id = rec_incident_id r, hr_monitor_id = rec_monitor_id r,
     hr_event_type = rec_event_type r, hr_status = rec_status r, hr_error = nullString (rec_error r),
     hr_sent_at = rec_sent_at r\<rparr>"

definition scan_history :: "history_row \<Rightarrow> alert_record" where
  "scan_history r = \<lparr>rec_id = hr_id r, rec_channel_id = hr_channel_id r,
     rec_incident_id = hr_incident_id r, rec_monitor_id = hr_monitor_id r,
     rec_event_type = hr_event_type r, rec_status = hr_status r,
     rec_error = string_column (hr_error r), rec_sent_at = hr_sent_at r\<rparr>"

section \<open>Opening the database\<close>

text \<open>
  \<open>migrate\<close> runs the schema script, which creates only the tables that do not exist, and then writes
  the schema version. A file without tables is \<open>empty_db\<close>.
\<close>

definition schemaVersion :: int64 where "schemaVersion = 1"

definition migrate :: "engine \<Rightarrow> (db, unit) op" where
  "migrate eng s =
     (case db_exec eng (\<lambda>s. Inr ((), s)) s of
        (Inl e, s1) \<Rightarrow> (Inl e, s1)
      | (Inr _, s1) \<Rightarrow> db_exec eng (\<lambda>s. Inr ((), s\<lparr>db_schema_version := Some schemaVersion\<rparr>)) s1)"

section \<open>Node operations\<close>

definition sqlite_CreateNode :: "engine \<Rightarrow> node \<Rightarrow> (db, unit) op" where
  "sqlite_CreateNode eng n = db_exec eng (\<lambda>s.
     case row_insert node_id n (db_nodes s) of
       None \<Rightarrow> Inl UniqueViolation
     | Some rows \<Rightarrow> Inr ((), s\<lparr>db_nodes := rows\<rparr>))"

definition sqlite_GetNode :: "engine \<Rightarrow> string \<Rightarrow> (db, node option) op" where
  "sqlite_GetNode eng rowid = db_query eng (\<lambda>s. find (\<lambda>n. node_id n = rowid) (db_nodes s))"

definition sqlite_ListNodes :: "engine \<Rightarrow> (db, node list) op" where
  "sqlite_ListNodes eng =
     db_query eng (\<lambda>s. order_by (eng_scan_nodes eng) node_created_at (db_nodes s))"

definition sqlite_UpdateNode :: "engine \<Rightarrow> node \<Rightarrow> (db, unit) op" where
  "sqlite_UpdateNode eng n = db_exec eng (\<lambda>s.
     Inr ((), s\<lparr>db_nodes := row_update (\<lambda>r. node_id r = node_id n) (set_node_row n) (db_nodes s)\<rparr>))"

definition sqlite_DeleteNode :: "engine \<Rightarrow> string \<Rightarrow> (db, unit) op" where
  "sqlite_DeleteNode eng rowid = db_exec eng (\<lambda>s.
     if has_key node_id rowid (db_nodes s) \<and> has_key rr_node_id rowid (db_results s)
     then Inl ForeignKeyViolation
     else Inr ((), s\<lparr>db_nodes := row_delete (\<lambda>r. node_id r = rowid) (db_nodes s)\<rparr>))"

definition sqlite_UpdateNodeStatus ::
    "engine \<Rightarrow> string \<Rightarrow> string \<Rightarrow> int64 \<Rightarrow> (db, unit) op" where
  "sqlite_UpdateNodeStatus eng rowid status lastSeen = db_exec eng (\<lambda>s.
     Inr ((), s\<lparr>db_nodes := row_update (\<lambda>r. node_id r = rowid)
       (\<lambda>r. r\<lparr>node_status := status, node_last_seen := lastSeen\<rparr>) (db_nodes s)\<rparr>))"

section \<open>Monitor operations\<close>

definition sqlite_CreateMonitor :: "engine \<Rightarrow> monitor \<Rightarrow> (db, unit) op" where
  "sqlite_CreateMonitor eng m = db_exec eng (\<lambda>s.
     case row_insert mr_id (bind_monitor m) (db_monitors s) of
       None \<Rightarrow> Inl UniqueViolation
     | Some rows \<Rightarrow> Inr ((), s\<lparr>db_monitors := rows\<rparr>))"

definition sqlite_GetMonitor :: "engine \<Rightarrow> string \<Rightarrow> (db, monitor option) op" where
  "sqlite_GetMonitor eng rowid = db_query eng (\<lambda>s.
     map_option scanMonitor (find (\<lambda>r. mr_id r = rowid) (db_monitors s)))"

definition sqlite_ListMonitors :: "engine \<Rightarrow> string \<Rightarrow> (db, monitor list) op" where
  "sqlite_ListMonitors eng groupName = db_query eng (\<lambda>s.
     if groupName \<noteq> [] then
       map scanMonitor (order_by (eng_scan_monitors eng) mr_name
         (filter (\<lambda>r. mr_group_name r = groupName) (db_monitors s)))
     else map scanMonitor (order_by (eng_scan_monitors eng) mr_name (db_monitors s)))"

definition sqlite_UpdateMonitor :: "engine \<Rightarrow> monitor \<Rightarrow> (db, unit) op" where
  "sqlite_UpdateMonitor eng m = db_exec eng (\<lambda>s.
     Inr ((), s\<lparr>db_monitors :=
       row_update (\<lambda>r. mr_id r = mon_id m) (set_monitor_row m) (db_monitors s)\<rparr>))"

definition sqlite_DeleteMonitor :: "engine \<Rightarrow> string \<Rightarrow> (db, unit) op" where
  "sqlite_DeleteMonitor eng rowid = db_exec eng (\<lambda>s.
     if has_key mr_id rowid (db_monitors s) \<and>
        (has_key rr_monitor_id rowid (db_results s) \<or> has_key ir_monitor_id rowid (db_incidents s))
     then Inl ForeignKeyViolation
     else Inr ((), s\<lparr>db_monitors := row_delete (\<lambda>r. mr_id r = rowid) (db_monitors s)\<rparr>))"

definition sqlite_ListEnabledMonitors :: "engine \<Rightarrow> (db, monitor list) op" where
  "sqlite_ListEnabledMonitors eng = db_query eng (\<lambda>s.
     map scanMonitor (order_by (eng_scan_monitors eng) mr_name
       (filter (\<lambda>r. mr_enabled r = 1) (db_monitors s))))"

section \<open>Check result operations\<close>

definition sqlite_InsertCheckResult :: "engine \<Rightarrow> check_result \<Rightarrow> (db, unit) op" where
  "sqlite_InsertCheckResult eng r = db_exec eng (\<lambda>s.
     if has_key mr_id (res_monitor_id r) (db_monitors s) \<and> has_key node_id (res_node_id r) (db_nodes s)
     then Inr ((), s\<lparr>db_results := db_results s @ [bind_result (db_result_seq s + 1) r],
                     db_result_seq := db_result_seq s + 1\<rparr>)
     else Inl ForeignKeyViolation)"

text \<open>The rows of one monitor as seen by one node, newest first.\<close>

definition results_desc :: "engine \<Rightarrow> string \<Rightarrow> string \<Rightarrow> db \<Rightarrow> result_row list" where
  "results_desc eng monitorID nodeID s = order_desc (eng_scan_results eng) rr_timestamp
     (filter (\<lambda>r. rr_monitor_id r = monitorID \<and> rr_node_id r = nodeID) (db_results s))"

definition sqlite_GetLatestResult ::
    "engine \<Rightarrow> string \<Rightarrow> string \<Rightarrow> (db, check_result option) op" where
  "sqlite_GetLatestResult eng monitorID nodeID = db_query eng (\<lambda>s.
     case take 1 (results_desc eng monitorID nodeID s) of
       [] \<Rightarrow> None
     | r # _ \<Rightarrow> Some (scan_result r))"

text \<open>The loop over the selected statuses, which stops at the first that ends the run.\<close>

fun count_leading :: "(string \<Rightarrow> bool) \<Rightarrow> string list \<Rightarrow> int64 \<Rightarrow> int64" where
  "count_leading p [] n = n"
| "count_leading p (status # rows) n =
     (if p status then count_leading p rows (n + 1) else n)"

definition sqlite_CountConsecutiveFailures ::
    "engine \<Rightarrow> string \<Rightarrow> string \<Rightarrow> (db, int64) op" where
  "sqlite_CountConsecutiveFailures eng monitorID nodeID = db_query eng (\<lambda>s.
     count_leading (\<lambda>status. status \<noteq> StatusUp)
       (map rr_status (take 100 (results_desc eng monitorID nodeID s))) 0)"

definition sqlite_CountConsecutiveSuccesses ::
    "engine \<Rightarrow> string \<Rightarrow> string \<Rightarrow> (db, int64) op" where
  "sqlite_CountConsecutiveSuccesses eng monitorID nodeID = db_query eng (\<lambda>s.
     count_leading (\<lambda>status. status = StatusUp)
       (map rr_status (take 100 (results_desc eng monitorID nodeID s))) 0)"

definition limit_rows :: "int64 \<Rightarrow> 'r list \<Rightarrow> 'r list" where
  "limit_rows limit rows = (if limit > 0 then take (nat limit) rows else rows)"

definition sqlite_ListCheckResults ::
    "engine \<Rightarrow> string \<Rightarrow> string \<Rightarrow> int64 \<Rightarrow> int64 \<Rightarrow> (db, check_result list) op" where
  "sqlite_ListCheckResults eng monitorID nodeID since limit = db_query eng (\<lambda>s.
     let rows = filter (\<lambda>r. (monitorID \<noteq> [] \<longrightarrow> rr_monitor_id r = monitorID) \<and>
                            (nodeID \<noteq> [] \<longrightarrow> rr_node_id r = nodeID) \<and>
                            (since > 0 \<longrightarrow> rr_timestamp r \<ge> since)) (db_results s)
     in map scan_result (limit_rows limit (order_desc (eng_scan_results eng) rr_timestamp rows)))"

section \<open>Incident operations\<close>

definition sqlite_CreateIncident :: "engine \<Rightarrow> incident \<Rightarrow> (db, unit) op" where
  "sqlite_CreateIncident eng i = db_exec eng (\<lambda>s.
     case row_insert ir_id (bind_incident i) (db_incidents s) of
       None \<Rightarrow> Inl UniqueViolation
     | Some rows \<Rightarrow>
         (if has_key mr_id (inc_monitor_id i) (db_monitors s)
          then Inr ((), s\<lparr>db_incidents := rows\<rparr>)
          else Inl ForeignKeyViolation))"

definition sqlite_GetIncident :: "engine \<Rightarrow> string \<Rightarrow> (db, incident option) op" where
  "sqlite_GetIncident eng rowid = db_query eng (\<lambda>s.
     map_option scanIncident (find (\<lambda>r. ir_id r = rowid) (db_incidents s)))"

definition sqlite_GetActiveIncident :: "engine \<Rightarrow> string \<Rightarrow> (db, incident option) op" where
  "sqlite_GetActiveIncident eng monitorID = db_query eng (\<lambda>s.
     case take 1 (order_desc (eng_scan_incidents eng) ir_created_at
       (filter (\<lambda>r. ir_monitor_id r = monitorID \<and> ir_status r \<noteq> ''resolved'') (db_incidents s))) of
       [] \<Rightarrow> None
     | r # _ \<Rightarrow> Some (scanIncident r))"

definition sqlite_UpdateIncident :: "engine \<Rightarrow> incident \<Rightarrow> (db, unit) op" where
  "sqlite_UpdateIncident eng i = db_exec eng (\<lambda>s.
     Inr ((), s\<lparr>db_incidents :=
       row_update (\<lambda>r. ir_id r = inc_id i) (set_incident_row i) (db_incidents s)\<rparr>))"

definition sqlite_ListIncidents :: "engine \<Rightarrow> bool \<Rightarrow> (db, incident list) op" where
  "sqlite_ListIncidents eng activeOnly = db_query eng (\<lambda>s.
     map scanIncident (order_desc (eng_scan_incidents eng) ir_created_at
       (if activeOnly then filter (\<lambda>r. ir_status r \<noteq> ''resolved'') (db_incidents s)
        else db_incidents s)))"

section \<open>Join token operations\<close>

definition sqlite_StoreJoinToken ::
    "engine \<Rightarrow> string \<Rightarrow> int64 \<Rightarrow> int64 \<Rightarrow> (db, unit) op" where
  "sqlite_StoreJoinToken eng tokenHash expiresAt now = db_exec eng (\<lambda>s.
     case row_insert tr_token_hash \<lparr>tr_token_hash = tokenHash, tr_expires_at = expiresAt,
            tr_used = 0, tr_created_at = now\<rparr> (db_tokens s) of
       None \<Rightarrow> Inl UniqueViolation
     | Some rows \<Rightarrow> Inr ((), s\<lparr>db_tokens := rows\<rparr>))"

text \<open>One \<open>UPDATE\<close> with the check in its \<open>WHERE\<close> clause; the result is \<open>RowsAffected > 0\<close>.\<close>

definition usable_token :: "string \<Rightarrow> int64 \<Rightarrow> token_row \<Rightarrow> bool" where
  "usable_token tokenHash now r \<longleftrightarrow>
     tr_token_hash r = tokenHash \<and> tr_used r = 0 \<and> tr_expires_at r > now"

definition sqlite_ValidateAndConsumeToken :: "engine \<Rightarrow> string \<Rightarrow> int64 \<Rightarrow> (db, bool) op" where
  "sqlite_ValidateAndConsumeToken eng tokenHash now = db_exec eng (\<lambda>s.
     let rows = length (filter (usable_token tokenHash now) (db_tokens s))
     in Inr (rows > 0, s\<lparr>db_tokens :=
          row_update (usable_token tokenHash now) (\<lambda>r. r\<lparr>tr_used := 1\<rparr>) (db_tokens s)\<rparr>))"

section \<open>Alert channel operations\<close>

definition sqlite_CreateAlertChannel :: "engine \<Rightarrow> alert_channel \<Rightarrow> (db, unit) op" where
  "sqlite_CreateAlertChannel eng c = db_exec eng (\<lambda>s.
     case row_insert cr_id (bind_channel c) (db_channels s) of
       None \<Rightarrow> Inl UniqueViolation
     | Some rows \<Rightarrow> Inr ((), s\<lparr>db_channels := rows\<rparr>))"

definition sqlite_GetAlertChannel :: "engine \<Rightarrow> string \<Rightarrow> (db, alert_channel option) op" where
  "sqlite_GetAlertChannel eng rowid = db_query eng (\<lambda>s.
     map_option scanAlertChannel (find (\<lambda>r. cr_id r = rowid) (db_channels s)))"

definition sqlite_ListAlertChannels :: "engine \<Rightarrow> (db, alert_channel list) op" where
  "sqlite_ListAlertChannels eng = db_query eng (\<lambda>s.
     map scanAlertChannel (order_by (eng_scan_channels eng) cr_created_at (db_channels s)))"

definition sqlite_ListEnabledAlertChannels :: "engine \<Rightarrow> (db, alert_channel list) op" where
  "sqlite_ListEnabledAlertChannels eng = db_query eng (\<lambda>s.
     map scanAlertChannel (order_by (eng_scan_channels eng) cr_created_at
       (filter (\<lambda>r. cr_enabled r = 1) (db_channels s))))"

definition sqlite_UpdateAlertChannel :: "engine \<Rightarrow> alert_channel \<Rightarrow> (db, unit) op" where
  "sqlite_UpdateAlertChannel eng c = db_exec eng (\<lambda>s.
     Inr ((), s\<lparr>db_channels :=
       row_update (\<lambda>r. cr_id r = ch_id c) (set_channel_row c) (db_channels s)\<rparr>))"

text \<open>The history of a deleted channel goes with it: \<open>ON DELETE CASCADE\<close>.\<close>

definition sqlite_DeleteAlertChannel :: "engine \<Rightarrow> string \<Rightarrow> (db, unit) op" where
  "sqlite_DeleteAlertChannel eng rowid = db_exec eng (\<lambda>s.
     Inr ((), s\<lparr>db_channels := row_delete (\<lambda>r. cr_id r = rowid) (db_channels s),
               db_history := row_delete (\<lambda>r. hr_channel_id r = rowid) (db_history s)\<rparr>))"

section \<open>Alert history operations\<close>

definition sqlite_InsertAlertRecord :: "engine \<Rightarrow> alert_record \<Rightarrow> (db, unit) op" where
  "sqlite_InsertAlertRecord eng r = db_exec eng (\<lambda>s.
     if has_key cr_id (rec_channel_id r) (db_channels s)
     then Inr ((), s\<lparr>db_history := db_history s @ [bind_history (db_history_seq s + 1) r],
                     db_history_seq := db_history_seq s + 1\<rparr>)
     else Inl ForeignKeyViolation)"

definition sqlite_ListAlertHistory ::
    "engine \<Rightarrow> string \<Rightarrow> int64 \<Rightarrow> (db, alert_record list) op" where
  "sqlite_ListAlertHistory eng channelID limit = db_query eng (\<lambda>s.
     let rows = (if channelID \<noteq> [] then filter (\<lambda>r. hr_channel_id r = channelID) (db_history s)
                 else db_history s)
     in map scan_history (limit_rows limit (order_desc (eng_scan_history eng) hr_sent_at rows)))"

section \<open>The implementation of the interface\<close>

definition sqlite_store :: "engine \<Rightarrow> db store" where
  "sqlite_store eng = \<lparr>
     CreateNode = sqlite_CreateNode eng, GetNode = sqlite_GetNode eng,
     ListNodes = sqlite_ListNodes eng, UpdateNode = sqlite_UpdateNode eng,
     DeleteNode = sqlite_DeleteNode eng, UpdateNodeStatus = sqlite_UpdateNodeStatus eng,
     CreateMonitor = sqlite_CreateMonitor eng, GetMonitor = sqlite_GetMonitor eng,
     ListMonitors = sqlite_ListMonitors eng, UpdateMonitor = sqlite_UpdateMonitor eng,
     DeleteMonitor = sqlite_DeleteMonitor eng,
     ListEnabledMonitors = sqlite_ListEnabledMonitors eng,
     InsertCheckResult = sqlite_InsertCheckResult eng,
     GetLatestResult = sqlite_GetLatestResult eng,
     CountConsecutiveFailures = sqlite_CountConsecutiveFailures eng,
     CountConsecutiveSuccesses = sqlite_CountConsecutiveSuccesses eng,
     ListCheckResults = sqlite_ListCheckResults eng,
     CreateIncident = sqlite_CreateIncident eng, GetIncident = sqlite_GetIncident eng,
     GetActiveIncident = sqlite_GetActiveIncident eng,
     UpdateIncident = sqlite_UpdateIncident eng, ListIncidents = sqlite_ListIncidents eng,
     StoreJoinToken = sqlite_StoreJoinToken eng,
     ValidateAndConsumeToken = sqlite_ValidateAndConsumeToken eng,
     CreateAlertChannel = sqlite_CreateAlertChannel eng,
     GetAlertChannel = sqlite_GetAlertChannel eng,
     ListAlertChannels = sqlite_ListAlertChannels eng,
     ListEnabledAlertChannels = sqlite_ListEnabledAlertChannels eng,
     UpdateAlertChannel = sqlite_UpdateAlertChannel eng,
     DeleteAlertChannel = sqlite_DeleteAlertChannel eng,
     InsertAlertRecord = sqlite_InsertAlertRecord eng,
     ListAlertHistory = sqlite_ListAlertHistory eng\<rparr>"

lemma sqlite_store_simps [simp]:
  "CreateNode (sqlite_store eng) = sqlite_CreateNode eng"
  "GetNode (sqlite_store eng) = sqlite_GetNode eng"
  "ListNodes (sqlite_store eng) = sqlite_ListNodes eng"
  "UpdateNode (sqlite_store eng) = sqlite_UpdateNode eng"
  "DeleteNode (sqlite_store eng) = sqlite_DeleteNode eng"
  "UpdateNodeStatus (sqlite_store eng) = sqlite_UpdateNodeStatus eng"
  "CreateMonitor (sqlite_store eng) = sqlite_CreateMonitor eng"
  "GetMonitor (sqlite_store eng) = sqlite_GetMonitor eng"
  "ListMonitors (sqlite_store eng) = sqlite_ListMonitors eng"
  "UpdateMonitor (sqlite_store eng) = sqlite_UpdateMonitor eng"
  "DeleteMonitor (sqlite_store eng) = sqlite_DeleteMonitor eng"
  "ListEnabledMonitors (sqlite_store eng) = sqlite_ListEnabledMonitors eng"
  "InsertCheckResult (sqlite_store eng) = sqlite_InsertCheckResult eng"
  "GetLatestResult (sqlite_store eng) = sqlite_GetLatestResult eng"
  "CountConsecutiveFailures (sqlite_store eng) = sqlite_CountConsecutiveFailures eng"
  "CountConsecutiveSuccesses (sqlite_store eng) = sqlite_CountConsecutiveSuccesses eng"
  "ListCheckResults (sqlite_store eng) = sqlite_ListCheckResults eng"
  by (simp_all add: sqlite_store_def)

lemma sqlite_store_simps2 [simp]:
  "CreateIncident (sqlite_store eng) = sqlite_CreateIncident eng"
  "GetIncident (sqlite_store eng) = sqlite_GetIncident eng"
  "GetActiveIncident (sqlite_store eng) = sqlite_GetActiveIncident eng"
  "UpdateIncident (sqlite_store eng) = sqlite_UpdateIncident eng"
  "ListIncidents (sqlite_store eng) = sqlite_ListIncidents eng"
  "StoreJoinToken (sqlite_store eng) = sqlite_StoreJoinToken eng"
  "ValidateAndConsumeToken (sqlite_store eng) = sqlite_ValidateAndConsumeToken eng"
  "CreateAlertChannel (sqlite_store eng) = sqlite_CreateAlertChannel eng"
  "GetAlertChannel (sqlite_store eng) = sqlite_GetAlertChannel eng"
  "ListAlertChannels (sqlite_store eng) = sqlite_ListAlertChannels eng"
  "ListEnabledAlertChannels (sqlite_store eng) = sqlite_ListEnabledAlertChannels eng"
  "UpdateAlertChannel (sqlite_store eng) = sqlite_UpdateAlertChannel eng"
  "DeleteAlertChannel (sqlite_store eng) = sqlite_DeleteAlertChannel eng"
  "InsertAlertRecord (sqlite_store eng) = sqlite_InsertAlertRecord eng"
  "ListAlertHistory (sqlite_store eng) = sqlite_ListAlertHistory eng"
  by (simp_all add: sqlite_store_def)

lemmas node_statement_defs [store_defs] =
  sqlite_CreateNode_def sqlite_GetNode_def sqlite_ListNodes_def sqlite_UpdateNode_def
  sqlite_DeleteNode_def sqlite_UpdateNodeStatus_def

lemmas monitor_statement_defs [store_defs] =
  sqlite_CreateMonitor_def sqlite_GetMonitor_def sqlite_ListMonitors_def
  sqlite_UpdateMonitor_def sqlite_DeleteMonitor_def sqlite_ListEnabledMonitors_def

lemmas result_statement_defs [store_defs] =
  sqlite_InsertCheckResult_def sqlite_GetLatestResult_def sqlite_CountConsecutiveFailures_def
  sqlite_CountConsecutiveSuccesses_def sqlite_ListCheckResults_def

lemmas incident_statement_defs [store_defs] =
  sqlite_CreateIncident_def sqlite_GetIncident_def sqlite_GetActiveIncident_def
  sqlite_UpdateIncident_def sqlite_ListIncidents_def

lemmas token_statement_defs [store_defs] =
  sqlite_StoreJoinToken_def sqlite_ValidateAndConsumeToken_def

lemmas alert_statement_defs [store_defs] =
  sqlite_CreateAlertChannel_def sqlite_GetAlertChannel_def sqlite_ListAlertChannels_def
  sqlite_ListEnabledAlertChannels_def sqlite_UpdateAlertChannel_def sqlite_DeleteAlertChannel_def
  sqlite_InsertAlertRecord_def sqlite_ListAlertHistory_def

section \<open>Reading back what was written\<close>

lemma scan_bind_monitor [scan_simps, simp]: "scanMonitor (bind_monitor m) = m"
  by (simp add: scanMonitor_def bind_monitor_def)

lemma marshal_nonempty [simp]: "marshal_strings v \<noteq> []"
  by (simp add: marshal_strings_def split: option.splits)

lemma scan_bind_incident [scan_simps, simp]: "scanIncident (bind_incident i)
    = i\<lparr>inc_confirming_nodes := map_option (map utf8_text) (inc_confirming_nodes i)\<rparr>"
  by (simp add: scanIncident_def bind_incident_def unmarshal_marshal)

lemma scan_bind_channel [scan_simps, simp]: "scanAlertChannel (bind_channel c) = c"
  by (simp add: scanAlertChannel_def bind_channel_def)

lemma scan_bind_history [scan_simps, simp]: "scan_history (bind_history i r) = r\<lparr>rec_id := i\<rparr>"
  by (simp add: scan_history_def bind_history_def)

lemma scan_bind_result [scan_simps, simp]:
  "scan_result (bind_result i r) =
     r\<lparr>res_id := i, res_details := (if res_details r = Some [] then None else res_details r)\<rparr>"
  by (cases r) (auto simp: scan_result_def bind_result_def nullString_def string_column_def split: option.splits)

lemma scan_set_monitor_row [scan_simps, simp]:
  "scanMonitor (set_monitor_row m r) = m\<lparr>mon_id := mr_id r, mon_created_at := mr_created_at r\<rparr>"
  by (simp add: set_monitor_row_def scanMonitor_def bind_monitor_def)

lemma row_keys [simp]:
  "mr_id (bind_monitor m) = mon_id m" "mr_id (set_monitor_row m r) = mr_id r"
  "ir_id (bind_incident i) = inc_id i" "ir_id (set_incident_row i q) = ir_id q"
  "ir_monitor_id (bind_incident i) = inc_monitor_id i"
  "ir_monitor_id (set_incident_row i q) = ir_monitor_id q"
  "cr_id (bind_channel c) = ch_id c" "cr_id (set_channel_row c w) = cr_id w"
  "node_id (set_node_row n k) = node_id k"
  "rr_monitor_id (bind_result j x) = res_monitor_id x" "rr_node_id (bind_result j x) = res_node_id x"
  "rr_timestamp (bind_result j x) = res_timestamp x" "rr_status (bind_result j x) = res_status x"
  "rr_id (bind_result j x) = j" "hr_channel_id (bind_history j h) = rec_channel_id h"
  "hr_id (bind_history j h) = j"
  by (simp_all add: bind_monitor_def set_monitor_row_def bind_incident_def set_incident_row_def
      bind_channel_def set_channel_row_def set_node_row_def bind_result_def bind_history_def)

lemma scan_keys [simp]:
  "mon_id (scanMonitor m) = mr_id m" "inc_id (scanIncident r) = ir_id r"
  "inc_monitor_id (scanIncident r) = ir_monitor_id r" "inc_status (scanIncident r) = ir_status r"
  "ch_id (scanAlertChannel c) = cr_id c" "mon_enabled (scanMonitor m) = (mr_enabled m = 1)"
  "ch_enabled (scanAlertChannel c) = (cr_enabled c = 1)"
  "mon_created_at (scanMonitor m) = mr_created_at m"
  by (simp_all add: scanMonitor_def scanIncident_def scanAlertChannel_def)

end
