(* ===== verification/Store_Integrity.thy ===== *)
theory Store_Integrity
  imports Sqlite_Store
begin

text \<open>
  What the schema promises about the tables at all times: unique primary keys, ids of the
  \<open>AUTOINCREMENT\<close> tables within the sequence, and foreign keys that resolve. The store allows one open
  connection (\<open>SetMaxOpenConns(1)\<close>), so whatever goroutines run, the database sees a sequence of
  statements: \<open>sql_step\<close> is one statement of any method, \<open>sql_run\<close> any interleaving of them, and
  the integrity of the tables is an invariant of every run.
\<close>

section \<open>The integrity invariant\<close>

definition keys_unique :: "db \<Rightarrow> bool" where
  "keys_unique s \<longleftrightarrow>
     distinct (map node_id (db_nodes s)) \<and> distinct (map mr_id (db_monitors s)) \<and>
     distinct (map rr_id (db_results s)) \<and> distinct (map ir_id (db_incidents s)) \<and>
     distinct (map tr_token_hash (db_tokens s)) \<and> distinct (map cr_id (db_channels s)) \<and>
     distinct (map hr_id (db_history s))"

definition sequences_ahead :: "db \<Rightarrow> bool" where
  "sequences_ahead s \<longleftrightarrow>
     (\<forall>r \<in> set (db_results s). rr_id r \<le> db_result_seq s) \<and>
     (\<forall>r \<in> set (db_history s). hr_id r \<le> db_history_seq s)"

definition references_resolve :: "db \<Rightarrow> bool" where
  "references_resolve s \<longleftrightarrow>
     (\<forall>r \<in> set (db_results s). has_key mr_id (rr_monitor_id r) (db_monitors s) \<and>
                               has_key node_id (rr_node_id r) (db_nodes s)) \<and>
     (\<forall>r \<in> set (db_incidents s). has_key mr_id (ir_monitor_id r) (db_monitors s)) \<and>
     (\<forall>r \<in> set (db_history s). has_key cr_id (hr_channel_id r) (db_channels s))"

definition db_ok :: "db \<Rightarrow> bool" where
  "db_ok s \<longleftrightarrow> keys_unique s \<and> sequences_ahead s \<and> references_resolve s"

lemmas db_ok_defs = db_ok_def keys_unique_def sequences_ahead_def references_resolve_def

lemma db_ok_tick [simp]: "db_ok (tick s) = db_ok s"
  by (simp add: db_ok_defs)

lemma db_ok_empty [simp]: "db_ok empty_db"
  by (simp add: db_ok_defs empty_db_def)

section \<open>Every statement keeps it\<close>

lemma has_key_append: "has_key key k (rows @ [r]) \<longleftrightarrow> has_key key k rows \<or> key r = k"
  by (auto simp: has_key_def)

lemma has_key_delete:
  "has_key key k (row_delete (\<lambda>r. key r = d) rows) \<longleftrightarrow> has_key key k rows \<and> k \<noteq> d"
  by (auto simp: has_key_iff)

lemma set_row_update: "r \<in> set (row_update p f rows) \<longleftrightarrow> (\<exists>q \<in> set rows. r = (if p q then f q else q))"
  by (auto simp: row_update_def)

lemma db_ok_exec:
  assumes "db_ok s" and "\<And>x t t'. db_ok t \<Longrightarrow> f t = Inr (x, t') \<Longrightarrow> db_ok t'"
  shows "db_ok (snd (db_exec eng f s))"
  by (rule db_exec_invariant [where P = db_ok]) (use assms in \<open>simp_all\<close>)

lemma map_key_row_update_simps [simp]:
  "map node_id (row_update p (set_node_row n) ns) = map node_id ns"
  "map node_id (row_update p (\<lambda>r. r\<lparr>node_status := st, node_last_seen := ls\<rparr>) ns) = map node_id ns"
  "map mr_id (row_update q (set_monitor_row m) ms) = map mr_id ms"
  "map ir_id (row_update u (set_incident_row i) is) = map ir_id is"
  "map cr_id (row_update v (set_channel_row c) cs) = map cr_id cs"
  "map tr_token_hash (row_update w (\<lambda>r. r\<lparr>tr_used := k\<rparr>) ts) = map tr_token_hash ts"
  by (simp_all add: row_update_def)

lemma has_key_row_update_simps [simp]:
  "has_key node_id k (row_update p (set_node_row n) ns) = has_key node_id k ns"
  "has_key node_id k (row_update p (\<lambda>r. r\<lparr>node_status := st, node_last_seen := ls\<rparr>) ns) = has_key node_id k ns"
  "has_key mr_id k (row_update q (set_monitor_row m) ms) = has_key mr_id k ms"
  "has_key cr_id k (row_update v (set_channel_row c) cs) = has_key cr_id k cs"
  unfolding has_key_def by simp_all

text \<open>
  The three parts of the invariant, each for the tables a statement touches. \<open>fresh_id\<close> is why the
  next id of a sequence is unused.
\<close>

lemma fresh_id: "\<forall>r \<in> set rows. key r \<le> (q::int) \<Longrightarrow> q + 1 \<notin> key ` set rows"
  by force

lemma bound_next: "\<forall>r \<in> set rows. key r \<le> (q::int) \<Longrightarrow> \<forall>r \<in> set rows. key r \<le> q + 1"
  by force

lemma db_ok_nodes:
  assumes "db_ok s" and "distinct (map node_id rows)"
    and "\<And>k. has_key node_id k (db_nodes s) \<Longrightarrow> has_key rr_node_id k (db_results s) \<Longrightarrow>
           has_key node_id k rows"
  shows "db_ok (s\<lparr>db_nodes := rows\<rparr>)"
  using assms unfolding db_ok_defs by (simp add: has_key_iff) blast

lemma db_ok_monitors:
  assumes "db_ok s" and "distinct (map mr_id rows)"
    and "\<And>k. has_key mr_id k (db_monitors s) \<Longrightarrow>
           has_key rr_monitor_id k (db_results s) \<or> has_key ir_monitor_id k (db_incidents s) \<Longrightarrow>
           has_key mr_id k rows"
  shows "db_ok (s\<lparr>db_monitors := rows\<rparr>)"
  using assms unfolding db_ok_defs by (simp add: has_key_iff) blast

lemma db_ok_incidents:
  assumes "db_ok s" and "distinct (map ir_id rows)"
    and "\<And>r. r \<in> set rows \<Longrightarrow> has_key mr_id (ir_monitor_id r) (db_monitors s)"
  shows "db_ok (s\<lparr>db_incidents := rows\<rparr>)"
  using assms by (simp add: db_ok_defs)

lemma db_ok_tokens:
  "db_ok s \<Longrightarrow> distinct (map tr_token_hash rows) \<Longrightarrow> db_ok (s\<lparr>db_tokens := rows\<rparr>)"
  by (simp add: db_ok_defs)

lemma db_ok_channels:
  assumes "db_ok s" and "distinct (map cr_id rows)"
    and "distinct (map hr_id hist)" and "set hist \<subseteq> set (db_history s)"
    and "\<And>r. r \<in> set hist \<Longrightarrow> has_key cr_id (hr_channel_id r) rows"
  shows "db_ok (s\<lparr>db_channels := rows, db_history := hist\<rparr>)"
  using assms by (auto simp: db_ok_defs)

lemma db_ok_add_result:
  assumes "db_ok s" and "has_key mr_id (res_monitor_id r) (db_monitors s)"
    and "has_key node_id (res_node_id r) (db_nodes s)"
  shows "db_ok (s\<lparr>db_results := db_results s @ [bind_result (db_result_seq s + 1) r],
                  db_result_seq := db_result_seq s + 1\<rparr>)"
proof -
  from assms(1) have le: "\<forall>q \<in> set (db_results s). rr_id q \<le> db_result_seq s"
    by (simp add: db_ok_defs)
  show ?thesis
    using assms fresh_id [OF le] bound_next [OF le] by (simp add: db_ok_defs)
qed

lemma db_ok_add_record:
  assumes "db_ok s" and "has_key cr_id (rec_channel_id r) (db_channels s)"
  shows "db_ok (s\<lparr>db_history := db_history s @ [bind_history (db_history_seq s + 1) r],
                  db_history_seq := db_history_seq s + 1\<rparr>)"
proof -
  from assms(1) have le: "\<forall>q \<in> set (db_history s). hr_id q \<le> db_history_seq s"
    by (simp add: db_ok_defs)
  show ?thesis
    using assms fresh_id [OF le] bound_next [OF le] by (simp add: db_ok_defs)
qed

lemma db_ok_keys:
  assumes "db_ok s"
  shows "distinct (map node_id (db_nodes s))" "distinct (map mr_id (db_monitors s))"
    "distinct (map ir_id (db_incidents s))" "distinct (map tr_token_hash (db_tokens s))"
    "distinct (map cr_id (db_channels s))" "distinct (map hr_id (db_history s))"
    "distinct (map rr_id (db_results s))"
  using assms by (simp_all add: db_ok_defs)

lemma db_ok_references:
  assumes "db_ok s"
  shows "r \<in> set (db_results s) \<Longrightarrow> has_key mr_id (rr_monitor_id r) (db_monitors s)"
    "r \<in> set (db_results s) \<Longrightarrow> has_key node_id (rr_node_id r) (db_nodes s)"
    "i \<in> set (db_incidents s) \<Longrightarrow> has_key mr_id (ir_monitor_id i) (db_monitors s)"
    "h \<in> set (db_history s) \<Longrightarrow> has_key cr_id (hr_channel_id h) (db_channels s)"
  using assms by (simp_all add: db_ok_defs)

lemma has_key_row_insert:
  "row_insert key r rows = Some rows' \<Longrightarrow> has_key key k rows \<Longrightarrow> has_key key k rows'"
  by (auto simp: row_insert_Some has_key_append)

lemma CreateNode_ok: "db_ok s \<Longrightarrow> db_ok (snd (sqlite_CreateNode eng n s))"
  unfolding sqlite_CreateNode_def
  by (erule db_ok_exec)
    (auto intro!: db_ok_nodes dest: db_ok_keys has_key_row_insert distinct_row_insert
      split: option.splits)

lemma UpdateNode_ok: "db_ok s \<Longrightarrow> db_ok (snd (sqlite_UpdateNode eng n s))"
  unfolding sqlite_UpdateNode_def
  by (erule db_ok_exec) (auto intro!: db_ok_nodes dest: db_ok_keys)

lemma UpdateNodeStatus_ok: "db_ok s \<Longrightarrow> db_ok (snd (sqlite_UpdateNodeStatus eng k st ls s))"
  unfolding sqlite_UpdateNodeStatus_def
  by (erule db_ok_exec) (auto intro!: db_ok_nodes dest: db_ok_keys)

lemma DeleteNode_ok: "db_ok s \<Longrightarrow> db_ok (snd (sqlite_DeleteNode eng k s))"
  unfolding sqlite_DeleteNode_def
  by (erule db_ok_exec)
    (auto intro!: db_ok_nodes distinct_row_delete dest: db_ok_keys simp: has_key_delete
      split: if_splits)

lemma CreateMonitor_ok: "db_ok s \<Longrightarrow> db_ok (snd (sqlite_CreateMonitor eng m s))"
  unfolding sqlite_CreateMonitor_def
  by (erule db_ok_exec)
    (auto intro!: db_ok_monitors dest: db_ok_keys has_key_row_insert distinct_row_insert
      split: option.splits)

lemma UpdateMonitor_ok: "db_ok s \<Longrightarrow> db_ok (snd (sqlite_UpdateMonitor eng m s))"
  unfolding sqlite_UpdateMonitor_def
  by (erule db_ok_exec) (auto intro!: db_ok_monitors dest: db_ok_keys)

lemma DeleteMonitor_ok: "db_ok s \<Longrightarrow> db_ok (snd (sqlite_DeleteMonitor eng k s))"
  unfolding sqlite_DeleteMonitor_def
  by (erule db_ok_exec)
    (auto intro!: db_ok_monitors distinct_row_delete dest: db_ok_keys simp: has_key_delete
      split: if_splits)

lemma InsertCheckResult_ok: "db_ok s \<Longrightarrow> db_ok (snd (sqlite_InsertCheckResult eng r s))"
  unfolding sqlite_InsertCheckResult_def
  by (erule db_ok_exec) (auto intro!: db_ok_add_result split: if_splits)

lemma db_ok_add_incident:
  assumes "db_ok s" and "row_insert ir_id r (db_incidents s) = Some rows"
    and "has_key mr_id (ir_monitor_id r) (db_monitors s)"
  shows "db_ok (s\<lparr>db_incidents := rows\<rparr>)"
proof (rule db_ok_incidents [OF assms(1)])
  show "distinct (map ir_id rows)"
    using assms(2) db_ok_keys(3) [OF assms(1)] by (rule distinct_row_insert)
  show "has_key mr_id (ir_monitor_id q) (db_monitors s)" if "q \<in> set rows" for q
    using that assms(2,3) db_ok_references(3) [OF assms(1)] by (auto simp: row_insert_Some)
qed

lemma CreateIncident_ok: "db_ok s \<Longrightarrow> db_ok (snd (sqlite_CreateIncident eng i s))"
  unfolding sqlite_CreateIncident_def
  by (erule db_ok_exec) (auto intro: db_ok_add_incident split: option.splits if_splits)

lemma db_ok_set_incident:
  assumes "db_ok s"
  shows "db_ok (s\<lparr>db_incidents := row_update p (set_incident_row i) (db_incidents s)\<rparr>)"
  using db_ok_keys(3) [OF assms] db_ok_references(3) [OF assms]
  by (intro db_ok_incidents [OF assms]) (auto simp: set_row_update)

lemma UpdateIncident_ok: "db_ok s \<Longrightarrow> db_ok (snd (sqlite_UpdateIncident eng i s))"
  unfolding sqlite_UpdateIncident_def by (erule db_ok_exec) (auto intro: db_ok_set_incident)

lemma StoreJoinToken_ok: "db_ok s \<Longrightarrow> db_ok (snd (sqlite_StoreJoinToken eng h x now s))"
  unfolding sqlite_StoreJoinToken_def
  by (erule db_ok_exec)
    (auto intro!: db_ok_tokens dest: db_ok_keys distinct_row_insert split: option.splits)

lemma ValidateAndConsumeToken_ok:
  "db_ok s \<Longrightarrow> db_ok (snd (sqlite_ValidateAndConsumeToken eng h now s))"
  unfolding sqlite_ValidateAndConsumeToken_def
  by (erule db_ok_exec) (auto intro!: db_ok_tokens dest: db_ok_keys simp: Let_def)

lemma db_ok_channels_only:
  assumes "db_ok s" and "distinct (map cr_id rows)"
    and "\<And>k. has_key cr_id k (db_channels s) \<Longrightarrow> has_key cr_id k rows"
  shows "db_ok (s\<lparr>db_channels := rows\<rparr>)"
  using assms by (simp add: db_ok_defs)

lemma CreateAlertChannel_ok: "db_ok s \<Longrightarrow> db_ok (snd (sqlite_CreateAlertChannel eng c s))"
  unfolding sqlite_CreateAlertChannel_def
  by (erule db_ok_exec)
    (auto intro!: db_ok_channels_only dest: db_ok_keys has_key_row_insert distinct_row_insert
      split: option.splits)

lemma UpdateAlertChannel_ok: "db_ok s \<Longrightarrow> db_ok (snd (sqlite_UpdateAlertChannel eng c s))"
  unfolding sqlite_UpdateAlertChannel_def
  by (erule db_ok_exec) (auto intro!: db_ok_channels_only dest: db_ok_keys)

lemma DeleteAlertChannel_ok: "db_ok s \<Longrightarrow> db_ok (snd (sqlite_DeleteAlertChannel eng k s))"
proof -
  have "db_ok (t\<lparr>db_channels := row_delete (\<lambda>r. cr_id r = k) (db_channels t),
                 db_history := row_delete (\<lambda>r. hr_channel_id r = k) (db_history t)\<rparr>)"
    if ok: "db_ok t" for t
    using db_ok_keys [OF ok] db_ok_references(4) [OF ok] ok
    by (intro db_ok_channels) (auto simp: distinct_row_delete has_key_delete)
  then show "db_ok s \<Longrightarrow> db_ok (snd (sqlite_DeleteAlertChannel eng k s))"
    unfolding sqlite_DeleteAlertChannel_def by (elim db_ok_exec) auto
qed

lemma InsertAlertRecord_ok: "db_ok s \<Longrightarrow> db_ok (snd (sqlite_InsertAlertRecord eng r s))"
  unfolding sqlite_InsertAlertRecord_def
  by (erule db_ok_exec) (auto intro!: db_ok_add_record split: if_splits)

lemmas statement_ok = CreateNode_ok UpdateNode_ok UpdateNodeStatus_ok DeleteNode_ok
  CreateMonitor_ok UpdateMonitor_ok DeleteMonitor_ok InsertCheckResult_ok CreateIncident_ok
  UpdateIncident_ok StoreJoinToken_ok ValidateAndConsumeToken_ok CreateAlertChannel_ok
  UpdateAlertChannel_ok DeleteAlertChannel_ok InsertAlertRecord_ok

section \<open>Runs of statements\<close>

inductive sql_step :: "engine \<Rightarrow> db \<Rightarrow> db \<Rightarrow> bool" for eng where
  select: "sql_step eng s (tick s)"
| create_node: "sql_step eng s (snd (sqlite_CreateNode eng n s))"
| update_node: "sql_step eng s (snd (sqlite_UpdateNode eng n s))"
| update_node_status: "sql_step eng s (snd (sqlite_UpdateNodeStatus eng k st ls s))"
| delete_node: "sql_step eng s (snd (sqlite_DeleteNode eng k s))"
| create_monitor: "sql_step eng s (snd (sqlite_CreateMonitor eng m s))"
| update_monitor: "sql_step eng s (snd (sqlite_UpdateMonitor eng m s))"
| delete_monitor: "sql_step eng s (snd (sqlite_DeleteMonitor eng k s))"
| insert_result: "sql_step eng s (snd (sqlite_InsertCheckResult eng r s))"
| create_incident: "sql_step eng s (snd (sqlite_CreateIncident eng i s))"
| update_incident: "sql_step eng s (snd (sqlite_UpdateIncident eng i s))"
| store_token: "sql_step eng s (snd (sqlite_StoreJoinToken eng h x now s))"
| consume_token: "sql_step eng s (snd (sqlite_ValidateAndConsumeToken eng h now s))"
| create_channel: "sql_step eng s (snd (sqlite_CreateAlertChannel eng c s))"
| update_channel: "sql_step eng s (snd (sqlite_UpdateAlertChannel eng c s))"
| delete_channel: "sql_step eng s (snd (sqlite_DeleteAlertChannel eng k s))"
| insert_record: "sql_step eng s (snd (sqlite_InsertAlertRecord eng a s))"

inductive sql_run :: "engine \<Rightarrow> db \<Rightarrow> db \<Rightarrow> bool" for eng where
  start: "sql_run eng s s"
| more: "sql_run eng s t \<Longrightarrow> sql_step eng t u \<Longrightarrow> sql_run eng s u"

lemma sql_step_ok: "sql_step eng s t \<Longrightarrow> db_ok s \<Longrightarrow> db_ok t"
  by (induction rule: sql_step.induct) (simp_all add: statement_ok)

lemma sql_run_ok: "sql_run eng s t \<Longrightarrow> db_ok s \<Longrightarrow> db_ok t"
  by (induction rule: sql_run.induct) (auto intro: sql_step_ok)

lemma sql_run_trans: "sql_run eng t u \<Longrightarrow> sql_run eng s t \<Longrightarrow> sql_run eng s u"
  by (induction rule: sql_run.induct) (auto intro: sql_run.more)

end
