(* ===== verification/Store_Queries.thy ===== *)
theory Store_Queries
  imports Store_Integrity
begin

text \<open>
  What the consensus rests on: the two counters over the recent results of one monitor on one node.
  \<open>failure_run\<close> and \<open>success_run\<close> are the values that \<open>CountConsecutiveFailures\<close> and
  \<open>CountConsecutiveSuccesses\<close> return when the engine does not fail.
\<close>

definition failure_run :: "engine \<Rightarrow> string \<Rightarrow> string \<Rightarrow> db \<Rightarrow> int64" where
  "failure_run eng m n s =
     count_leading (\<lambda>status. status \<noteq> StatusUp) (map rr_status (take 100 (results_desc eng m n s))) 0"

definition success_run :: "engine \<Rightarrow> string \<Rightarrow> string \<Rightarrow> db \<Rightarrow> int64" where
  "success_run eng m n s =
     count_leading (\<lambda>status. status = StatusUp) (map rr_status (take 100 (results_desc eng m n s))) 0"

lemma count_statements:
  "sqlite_CountConsecutiveFailures eng m n = db_query eng (failure_run eng m n)"
  "sqlite_CountConsecutiveSuccesses eng m n = db_query eng (success_run eng m n)"
  by (simp_all add: sqlite_CountConsecutiveFailures_def sqlite_CountConsecutiveSuccesses_def
      failure_run_def [abs_def] success_run_def [abs_def])

section \<open>The counting loop\<close>

lemma count_leading_takeWhile: "count_leading p xs n = n + int (length (takeWhile p xs))"
  by (induction p xs n rule: count_leading.induct) auto

lemma takeWhile_take_commute: "takeWhile p (take n xs) = take n (takeWhile p xs)"
proof (induction xs arbitrary: n)
  case (Cons x xs)
  then show ?case by (cases n) auto
qed simp

lemma count_leading_take:
  "count_leading p (map f (take n xs)) 0 = int (min n (length (takeWhile (p \<circ> f) xs)))"
  by (simp add: count_leading_takeWhile takeWhile_map takeWhile_take_commute flip: take_map)

lemma failure_run_eq:
  "failure_run eng m n s
     = int (min 100 (length (takeWhile (\<lambda>r. rr_status r \<noteq> ''up'') (results_desc eng m n s))))"
  by (simp add: failure_run_def count_leading_take comp_def)

lemma success_run_eq:
  "success_run eng m n s
     = int (min 100 (length (takeWhile (\<lambda>r. rr_status r = ''up'') (results_desc eng m n s))))"
  by (simp add: success_run_def count_leading_take comp_def)

lemma runs_bounded:
  "0 \<le> failure_run eng m n s" "failure_run eng m n s \<le> 100"
  "0 \<le> success_run eng m n s" "success_run eng m n s \<le> 100"
  by (simp_all add: failure_run_eq success_run_eq)

lemma runs_exclusive: "failure_run eng m n s > 0 \<Longrightarrow> success_run eng m n s = 0"
  by (cases "results_desc eng m n s") (auto simp: failure_run_eq success_run_eq split: if_splits)

lemma runs_of_tables:
  assumes "db_results s = db_results t"
  shows "failure_run eng m n s = failure_run eng m n t" "success_run eng m n s = success_run eng m n t"
  using assms by (simp_all add: failure_run_def success_run_def results_desc_def)

lemma runs_tick [simp]:
  "failure_run eng m n (tick s) = failure_run eng m n s"
  "success_run eng m n (tick s) = success_run eng m n s"
  by (rule runs_of_tables; simp)+

section \<open>A new result\<close>

text \<open>
  The results of a pair are told apart by their time: \<open>timed\<close> says that no two results of the pair
  have the same timestamp, \<open>newest\<close> that a timestamp is later than all of them.
\<close>

definition pair_results :: "string \<Rightarrow> string \<Rightarrow> db \<Rightarrow> result_row list" where
  "pair_results m n s = filter (\<lambda>r. rr_monitor_id r = m \<and> rr_node_id r = n) (db_results s)"

definition timed :: "string \<Rightarrow> string \<Rightarrow> db \<Rightarrow> bool" where
  "timed m n s \<longleftrightarrow> distinct (map rr_timestamp (pair_results m n s))"

definition newest :: "string \<Rightarrow> string \<Rightarrow> db \<Rightarrow> int64 \<Rightarrow> bool" where
  "newest m n s ts \<longleftrightarrow> (\<forall>r \<in> set (pair_results m n s). rr_timestamp r < ts)"

lemma results_desc_insert:
  assumes "timed m n s" and "newest m n s (rr_timestamp r)"
    and "rr_monitor_id r = m" and "rr_node_id r = n"
    and "db_results t = db_results s @ [r]"
  shows "results_desc eng m n t = r # results_desc eng m n s"
proof -
  have "inj_on (\<lambda>x. - rr_timestamp x) (set (pair_results m n s))"
    using assms(1) by (auto simp: timed_def distinct_map inj_on_def)
  then have "order_by (eng_scan_results eng) (\<lambda>x. - rr_timestamp x) (pair_results m n s @ [r])
    = r # order_by (eng_scan_results eng) (\<lambda>x. - rr_timestamp x) (pair_results m n s)"
    using assms(2) by (intro order_by_new_minimum) (auto simp: newest_def)
  then show ?thesis
    using assms(3-5) by (simp add: results_desc_def order_desc_def pair_results_def)
qed

lemma results_desc_insert_other:
  assumes "\<not> (rr_monitor_id r = m \<and> rr_node_id r = n)" and "db_results t = db_results s @ [r]"
  shows "results_desc eng m n t = results_desc eng m n s"
  using assms by (auto simp: results_desc_def)

lemma insert_result_ok:
  assumes "fault_free eng"
    and "has_key mr_id (res_monitor_id r) (db_monitors s)" and "has_key node_id (res_node_id r) (db_nodes s)"
  shows "sqlite_InsertCheckResult eng r s = (Inr (), (tick s)\<lparr>db_results := db_results s @
    [bind_result (db_result_seq s + 1) r], db_result_seq := db_result_seq s + 1\<rparr>)"
  using assms by (simp add: sqlite_InsertCheckResult_def db_exec_def)

lemma runs_after_insert:
  assumes "timed m n s" and "newest m n s (rr_timestamp r)"
    and "rr_monitor_id r = m" and "rr_node_id r = n"
    and "db_results t = db_results s @ [r]"
  shows "failure_run eng m n t
      = (if rr_status r = ''up'' then 0 else min 100 (failure_run eng m n s + 1))"
    and "success_run eng m n t
      = (if rr_status r = ''up'' then min 100 (success_run eng m n s + 1) else 0)"
  using results_desc_insert [OF assms, of eng] by (auto simp: failure_run_eq success_run_eq)

end
