(* ===== verification/Sqlite_Contracts.thy ===== *)
theory Sqlite_Contracts
  imports Contracts Store_Queries
begin

text \<open>
  The SQLite store keeps every contract of theory \<open>Contracts\<close>, for any engine: the interpretations
  below, on the tables of theory \<open>Database\<close>.
\<close>

section \<open>Abstractions of the tables\<close>

definition stored_incidents :: "db \<Rightarrow> incident list" where
  "stored_incidents s = map scanIncident (db_incidents s)"

definition stored_channels :: "db \<Rightarrow> alert_channel list" where
  "stored_channels s = map scanAlertChannel (db_channels s)"

definition stored_history :: "db \<Rightarrow> alert_record list" where
  "stored_history s = map scan_history (db_history s)"

definition stored_monitor :: "db \<Rightarrow> string \<Rightarrow> monitor option" where
  "stored_monitor s k = map_option scanMonitor (find (\<lambda>r. mr_id r = k) (db_monitors s))"

definition stored_node :: "db \<Rightarrow> string \<Rightarrow> node option" where
  "stored_node s k = find (\<lambda>n. node_id n = k) (db_nodes s)"

definition token_known :: "db \<Rightarrow> string \<Rightarrow> bool" where
  "token_known s h = has_key tr_token_hash h (db_tokens s)"

text \<open>The expiry of the unused row of a hash.\<close>

definition token_open :: "db \<Rightarrow> string \<Rightarrow> int64 option" where
  "token_open s h = map_option tr_expires_at
     (find (\<lambda>r. tr_token_hash r = h \<and> tr_used r = 0) (db_tokens s))"

lemmas stored_defs = stored_incidents_def stored_channels_def stored_history_def stored_monitor_def
  stored_node_def token_known_def token_open_def

section \<open>Reads and failed writes change no table\<close>

text \<open>Every abstraction is a function of the tables alone, not of the statement counter.\<close>

definition tables_only :: "(db \<Rightarrow> 'v) \<Rightarrow> bool" where
  "tables_only f \<longleftrightarrow> (\<forall>s. f (tick s) = f s)"

lemma tables_only_stored [simp]:
  "tables_only db_nodes" "tables_only stored_incidents" "tables_only stored_channels"
  "tables_only stored_history" "tables_only stored_monitor" "tables_only stored_node"
  "tables_only token_known" "tables_only token_open"
  "tables_only (\<lambda>s m n. failure_run eng m n s)" "tables_only (\<lambda>s m n. success_run eng m n s)"
  by (simp_all add: tables_only_def stored_defs fun_eq_iff)

lemma query_preserves: "tables_only f \<Longrightarrow> preserves f (db_query eng q)"
  by (simp add: preserves_def tables_only_def)

lemma exec_intact: "tables_only f \<Longrightarrow> intact f (db_exec eng w)"
  by (auto simp: intact_def tables_only_def elim!: db_execE)

lemma exec_preserves:
  assumes "tables_only f" and "\<And>x t t'. w t = Inr (x, t') \<Longrightarrow> f t' = f t"
  shows "preserves f (db_exec eng w)"
  unfolding preserves_def
proof
  fix s
  show "f (snd (db_exec eng w s)) = f s"
    using assms(2) [of "tick s"] assms(1)
    by (auto simp: db_exec_def tables_only_def split: sum.splits)
qed

section \<open>Interpretations\<close>

lemma map_set_status:
  "row_update (\<lambda>r. node_id r = k) (\<lambda>r. r\<lparr>node_status := x, node_last_seen := t\<rparr>) ns
     = map (set_status k x t) ns"
  by (simp add: row_update_def set_status_def)

interpretation sqlite_nodes: node_store "sqlite_store eng" db_nodes for eng
proof unfold_locales
  show "ListNodes (sqlite_store eng) s = (Inr ns, s') \<Longrightarrow> mset ns = mset (db_nodes s)" for ns s s'
    by (auto simp: sqlite_ListNodes_def elim: db_queryE)
  show "preserves db_nodes (ListNodes (sqlite_store eng))"
    by (simp add: sqlite_ListNodes_def query_preserves)
  show "UpdateNodeStatus (sqlite_store eng) k x t s = (Inr u, s') \<Longrightarrow>
      db_nodes s' = map (set_status k x t) (db_nodes s)" for k x t s u s'
    by (auto simp: sqlite_UpdateNodeStatus_def map_set_status elim: db_execE)
  show "intact db_nodes (UpdateNodeStatus (sqlite_store eng) k x t)" for k x t
    by (simp add: sqlite_UpdateNodeStatus_def exec_intact)
qed

interpretation sqlite_counters: counter_store "sqlite_store eng"
  "\<lambda>s m n. failure_run eng m n s" "\<lambda>s m n. success_run eng m n s" for eng
  by unfold_locales
    (auto simp: count_statements query_preserves runs_bounded dest: runs_exclusive elim: db_queryE)

lemma scan_set_incident_row:
  "scanIncident (if ir_id r = inc_id i then set_incident_row i r else r)
     = set_incident i (scanIncident r)"
  by (simp add: scanIncident_def set_incident_row_def set_incident_def read_back_def unmarshal_marshal)

lemma stored_incidents_update:
  "map scanIncident (row_update (\<lambda>r. ir_id r = inc_id i) (set_incident_row i) rows)
     = map (set_incident i) (map scanIncident rows)"
  by (simp add: row_update_def scan_set_incident_row)

lemma active_row:
  "active_for m (scanIncident r) \<longleftrightarrow> ir_monitor_id r = m \<and> ir_status r \<noteq> ''resolved''"
  by (simp add: active_for_def active_incident_def)

lemma newest_active_row:
  fixes eng m s
  defines "rows \<equiv> order_desc (eng_scan_incidents eng) ir_created_at
    (filter (\<lambda>r. ir_monitor_id r = m \<and> ir_status r \<noteq> ''resolved'') (db_incidents s))"
  shows "set rows = {r \<in> set (db_incidents s). active_for m (scanIncident r)}"
  by (auto simp: rows_def active_row)

lemma sqlite_active_some:
  assumes "sqlite_GetActiveIncident eng m s = (Inr (Some i), s')"
  shows "i \<in> set (stored_incidents s) \<and> active_for m i"
proof -
  let ?rows = "order_desc (eng_scan_incidents eng) ir_created_at
    (filter (\<lambda>r. ir_monitor_id r = m \<and> ir_status r \<noteq> ''resolved'') (db_incidents s))"
  from assms obtain r rs where "?rows = r # rs" and i: "i = scanIncident r"
    by (cases ?rows) (auto simp: sqlite_GetActiveIncident_def elim!: db_queryE)
  then have "r \<in> set ?rows" by simp
  then show ?thesis
    unfolding newest_active_row by (auto simp: i stored_incidents_def)
qed

lemma sqlite_active_none:
  assumes "sqlite_GetActiveIncident eng m s = (Inr None, s')" and "i \<in> set (stored_incidents s)"
  shows "\<not> active_for m i"
proof -
  let ?rows = "order_desc (eng_scan_incidents eng) ir_created_at
    (filter (\<lambda>r. ir_monitor_id r = m \<and> ir_status r \<noteq> ''resolved'') (db_incidents s))"
  from assms(1) have "?rows = []"
    by (cases ?rows) (auto simp: sqlite_GetActiveIncident_def elim!: db_queryE)
  then have "set ?rows = {}" by simp
  then show ?thesis
    unfolding newest_active_row using assms(2) by (auto simp: stored_incidents_def)
qed

interpretation sqlite_incidents: incident_store "sqlite_store eng" stored_incidents for eng
proof unfold_locales
  show "GetActiveIncident (sqlite_store eng) m s = (Inr None, s') \<Longrightarrow>
      i \<in> set (stored_incidents s) \<Longrightarrow> \<not> active_for m i" for m s s' i
    by (simp add: sqlite_active_none)
  show "GetActiveIncident (sqlite_store eng) m s = (Inr (Some i), s') \<Longrightarrow>
      i \<in> set (stored_incidents s) \<and> active_for m i" for m s i s'
    by (simp add: sqlite_active_some)
  show "preserves stored_incidents (GetActiveIncident (sqlite_store eng) m)" for m
    by (simp add: sqlite_GetActiveIncident_def query_preserves)
  show "CreateIncident (sqlite_store eng) i s = (Inr u, s') \<Longrightarrow>
      stored_incidents s' = stored_incidents s @ [read_back i] \<and> inc_id i \<notin> inc_id ` set (stored_incidents s)"
    for i s u s'
    by (auto simp: sqlite_CreateIncident_def stored_incidents_def row_insert_Some has_key_iff read_back_def
        elim!: db_execE split: option.splits if_splits)
  show "UpdateIncident (sqlite_store eng) i s = (Inr u, s') \<Longrightarrow>
      stored_incidents s' = map (set_incident i) (stored_incidents s)" for i s u s'
    by (auto simp: sqlite_UpdateIncident_def stored_incidents_def stored_incidents_update
        simp del: map_map elim!: db_execE)
  show "intact stored_incidents (CreateIncident (sqlite_store eng) i)"
    "intact stored_incidents (UpdateIncident (sqlite_store eng) i)" for i
    by (simp_all add: sqlite_CreateIncident_def sqlite_UpdateIncident_def exec_intact)
qed

lemma stored_incidents_untouched:
  "db_incidents s = db_incidents t \<Longrightarrow> stored_incidents s = stored_incidents t"
  by (simp add: stored_incidents_def)

interpretation sqlite_consensus: consensus_store "sqlite_store eng" stored_incidents
  "\<lambda>s m n. failure_run eng m n s" "\<lambda>s m n. success_run eng m n s" for eng
proof unfold_locales
  fix m n and i :: incident
  show "preserves stored_incidents (CountConsecutiveFailures (sqlite_store eng) m n)"
    "preserves stored_incidents (CountConsecutiveSuccesses (sqlite_store eng) m n)"
    by (simp_all add: count_statements query_preserves)
  show "preserves stored_incidents (ListEnabledAlertChannels (sqlite_store eng))"
    "preserves stored_incidents (ListEnabledMonitors (sqlite_store eng))"
    "preserves stored_incidents (ListNodes (sqlite_store eng))"
    "preserves (\<lambda>s m n. failure_run eng m n s) (ListEnabledAlertChannels (sqlite_store eng))"
    "preserves (\<lambda>s m n. success_run eng m n s) (ListEnabledAlertChannels (sqlite_store eng))"
    by (simp_all add: sqlite_ListEnabledAlertChannels_def sqlite_ListEnabledMonitors_def
        sqlite_ListNodes_def query_preserves)
  show "preserves (\<lambda>s m n. failure_run eng m n s) (GetActiveIncident (sqlite_store eng) m)"
    "preserves (\<lambda>s m n. success_run eng m n s) (GetActiveIncident (sqlite_store eng) m)"
    by (simp_all add: sqlite_GetActiveIncident_def query_preserves)
  show "preserves (\<lambda>s m n. failure_run eng m n s) (CreateIncident (sqlite_store eng) i)"
    "preserves (\<lambda>s m n. success_run eng m n s) (CreateIncident (sqlite_store eng) i)"
    "preserves (\<lambda>s m n. failure_run eng m n s) (UpdateIncident (sqlite_store eng) i)"
    "preserves (\<lambda>s m n. success_run eng m n s) (UpdateIncident (sqlite_store eng) i)"
    by (auto simp: sqlite_CreateIncident_def sqlite_UpdateIncident_def fun_eq_iff
        intro!: exec_preserves runs_of_tables split: option.splits if_splits)
qed

lemma find_distinct_key:
  "distinct (map key rows) \<Longrightarrow> find (\<lambda>r. key r = k \<and> p r) rows
    = (case find (\<lambda>r. key r = k) rows of None \<Rightarrow> None | Some r \<Rightarrow> if p r then Some r else None)"
proof (induction rows)
  case (Cons a rows)
  show ?case
  proof (cases "key a = k")
    case True
    with Cons.prems have "\<forall>x \<in> set rows. \<not> (key x = k \<and> p x)"
      by (simp add: image_iff) metis
    then have "find (\<lambda>r. key r = k \<and> p r) rows = None"
      by (auto simp: find_None_iff)
    with True show ?thesis by auto
  next
    case False
    with Cons show ?thesis by auto
  qed
qed simp

lemma token_open_Some:
  assumes "db_ok s"
  shows "token_open s h = Some x \<longleftrightarrow>
    (\<exists>r \<in> set (db_tokens s). tr_token_hash r = h \<and> tr_used r = 0 \<and> tr_expires_at r = x)"
proof -
  have d: "distinct (map tr_token_hash (db_tokens s))"
    using assms by (rule db_ok_keys)
  show ?thesis
  proof
    assume "token_open s h = Some x"
    then show "\<exists>r \<in> set (db_tokens s). tr_token_hash r = h \<and> tr_used r = 0 \<and> tr_expires_at r = x"
      by (auto simp: token_open_def find_Some_iff)
  next
    assume "\<exists>r \<in> set (db_tokens s). tr_token_hash r = h \<and> tr_used r = 0 \<and> tr_expires_at r = x"
    then obtain r where r: "r \<in> set (db_tokens s)" "tr_token_hash r = h" "tr_used r = 0"
      "tr_expires_at r = x" by blast
    then show "token_open s h = Some x"
      using find_Some_iff_unique [OF d r(1,2)] by (simp add: token_open_def find_distinct_key [OF d])
  qed
qed

lemma consume_tables:
  assumes "sqlite_ValidateAndConsumeToken eng h now s = (Inr b, s')"
  shows "b = (\<exists>r \<in> set (db_tokens s). usable_token h now r)"
    and "db_tokens s' = row_update (usable_token h now) (\<lambda>r. r\<lparr>tr_used := 1\<rparr>) (db_tokens s)"
  using assms
  by (auto simp: sqlite_ValidateAndConsumeToken_def Let_def filter_empty_conv elim!: db_execE)

lemma find_other_token:
  "k \<noteq> h \<Longrightarrow> find (\<lambda>r. tr_token_hash r = k \<and> tr_used r = 0)
      (row_update (usable_token h now) (\<lambda>r. r\<lparr>tr_used := 1\<rparr>) rows)
    = find (\<lambda>r. tr_token_hash r = k \<and> tr_used r = 0) rows"
  by (induction rows) (auto simp: row_update_def usable_token_def)

lemma row_update_nothing: "\<forall>r \<in> set rows. \<not> p r \<Longrightarrow> row_update p f rows = rows"
  by (induction rows) (auto simp: row_update_def)

lemma sqlite_consume:
  assumes ok: "db_ok s" and run: "sqlite_ValidateAndConsumeToken eng h now s = (Inr b, s')"
  shows "b = (\<exists>x. token_open s h = Some x \<and> x > now)"
    and "token_open s' = (if b then (token_open s)(h := None) else token_open s)"
proof -
  show b: "b = (\<exists>x. token_open s h = Some x \<and> x > now)"
    unfolding consume_tables(1) [OF run] token_open_Some [OF ok] usable_token_def by blast
  have ok': "db_ok s'"
    using ValidateAndConsumeToken_ok [OF ok, of eng h now] run by simp
  show "token_open s' = (if b then (token_open s)(h := None) else token_open s)"
  proof (cases b)
    case False
    then have "db_tokens s' = db_tokens s"
      using consume_tables [OF run] by (simp add: row_update_nothing)
    with False show ?thesis by (simp add: token_open_def fun_eq_iff)
  next
    case True
    with b obtain x where "token_open s h = Some x" and "x > now" by blast
    then obtain r where r: "r \<in> set (db_tokens s)" "usable_token h now r"
      unfolding token_open_Some [OF ok] usable_token_def by blast
    have "token_open s' h = None"
    proof (rule ccontr)
      assume "token_open s' h \<noteq> None"
      then obtain q where q: "q \<in> set (db_tokens s')" "tr_token_hash q = h" "tr_used q = 0"
        using token_open_Some [OF ok'] by blast
      then obtain p where p: "p \<in> set (db_tokens s)" and
        pq: "q = (if usable_token h now p then p\<lparr>tr_used := 1\<rparr> else p)"
        unfolding consume_tables(2) [OF run] set_row_update by blast
      from pq q(2,3) have "\<not> usable_token h now p" and "tr_token_hash p = h"
        by (auto split: if_splits)
      moreover have "tr_token_hash r = h" using r(2) by (simp add: usable_token_def)
      ultimately show False
        using distinct_map_unique [OF db_ok_keys(4) [OF ok] p r(1)] r(2) by simp
    qed
    moreover have "token_open s' k = token_open s k" if "k \<noteq> h" for k
      using that by (simp add: token_open_def consume_tables(2) [OF run] find_other_token)
    ultimately show ?thesis using True by (auto simp: fun_eq_iff)
  qed
qed

lemma token_open_known: "token_open s h = Some x \<Longrightarrow> token_known s h"
  by (auto simp: token_open_def token_known_def has_key_iff find_Some_iff)

lemma store_token_tables:
  assumes "sqlite_StoreJoinToken eng h x now s = (Inr u, s')"
  shows "\<not> token_known s h" and "db_tokens s' = db_tokens s @ [\<lparr>tr_token_hash = h,
    tr_expires_at = x, tr_used = 0, tr_created_at = now\<rparr>]"
  using assms
  by (auto simp: sqlite_StoreJoinToken_def token_known_def row_insert_Some
      elim!: db_execE split: option.splits)

lemma find_append: "find p (xs @ ys) = (case find p xs of None \<Rightarrow> find p ys | Some x \<Rightarrow> Some x)"
  by (induction xs) auto

interpretation sqlite_tokens: token_store "sqlite_store eng" db_ok token_known token_open for eng
proof unfold_locales
  fix h x now s u s' b
  show "\<not> token_known s h \<and> token_known s' = (token_known s)(h := True) \<and>
      token_open s' = (token_open s)(h \<mapsto> x)"
    if run: "StoreJoinToken (sqlite_store eng) h x now s = (Inr u, s')"
  proof (intro conjI)
    note tabs = store_token_tables [OF run [unfolded sqlite_store_simps2]]
    show unknown: "\<not> token_known s h" by (rule tabs)
    show "token_known s' = (token_known s)(h := True)"
      by (auto simp: token_known_def tabs(2) has_key_append fun_eq_iff)
    from unknown have "token_open s h = None"
      using token_open_known by (cases "token_open s h") auto
    then show "token_open s' = (token_open s)(h \<mapsto> x)"
      by (auto simp: token_open_def tabs(2) find_append fun_eq_iff split: option.splits)
  qed
  show "b = (\<exists>x. token_open s h = Some x \<and> x > now) \<and> token_known s' = token_known s \<and>
      token_open s' = (if b then (token_open s)(h := None) else token_open s)"
    if ok: "db_ok s" and run: "ValidateAndConsumeToken (sqlite_store eng) h now s = (Inr b, s')"
  proof -
    note run' = run [unfolded sqlite_store_simps2]
    have "token_known s' = token_known s"
      by (simp add: token_known_def fun_eq_iff has_key_def consume_tables(2) [OF run'])
    with sqlite_consume [OF ok run'] show ?thesis by simp
  qed
  show "intact token_known (StoreJoinToken (sqlite_store eng) h x now)"
    "intact token_open (StoreJoinToken (sqlite_store eng) h x now)"
    "intact token_known (ValidateAndConsumeToken (sqlite_store eng) h now)"
    "intact token_open (ValidateAndConsumeToken (sqlite_store eng) h now)"
    by (simp_all add: token_statement_defs exec_intact)
  show "db_ok (snd (StoreJoinToken (sqlite_store eng) h x now s))"
    "db_ok (snd (ValidateAndConsumeToken (sqlite_store eng) h now s))" if "db_ok s"
    using that by (simp_all add: statement_ok)
  show "token_known s h" if "token_open s h = Some x"
    using that by (rule token_open_known)
qed

lemma mset_enabled_channels:
  "mset (map scanAlertChannel (order_by scan cr_created_at (filter (\<lambda>r. cr_enabled r = 1) cs)))
     = mset (filter ch_enabled (map scanAlertChannel cs))"
  by (simp add: filter_map comp_def)

interpretation sqlite_alerts: alert_store "sqlite_store eng" stored_channels stored_history for eng
proof unfold_locales
  fix cs s s' r u
  show "mset cs = mset (filter ch_enabled (stored_channels s))"
    if "ListEnabledAlertChannels (sqlite_store eng) s = (Inr cs, s')"
    using that
    by (auto simp: sqlite_ListEnabledAlertChannels_def stored_channels_def mset_enabled_channels
        simp del: mset_map elim!: db_queryE)
  show "preserves stored_channels (ListEnabledAlertChannels (sqlite_store eng))"
    "preserves stored_history (ListEnabledAlertChannels (sqlite_store eng))"
    by (simp_all add: sqlite_ListEnabledAlertChannels_def query_preserves)
  show "\<exists>k. stored_history s' = stored_history s @ [r\<lparr>rec_id := k\<rparr>]"
    if "InsertAlertRecord (sqlite_store eng) r s = (Inr u, s')"
  proof
    show "stored_history s' = stored_history s @ [r\<lparr>rec_id := db_history_seq s + 1\<rparr>]"
      using that
      by (auto simp: sqlite_InsertAlertRecord_def stored_history_def elim!: db_execE split: if_splits)
  qed
  show "intact stored_history (InsertAlertRecord (sqlite_store eng) r)"
    by (simp add: sqlite_InsertAlertRecord_def exec_intact)
  show "preserves stored_channels (InsertAlertRecord (sqlite_store eng) r)"
    unfolding sqlite_store_simps2 sqlite_InsertAlertRecord_def
    by (rule exec_preserves) (auto simp: stored_channels_def split: if_splits)
qed

interpretation sqlite_alerting: alerting_store "sqlite_store eng" stored_incidents
  "\<lambda>s m n. failure_run eng m n s" "\<lambda>s m n. success_run eng m n s" stored_channels stored_history for eng
proof unfold_locales
  fix m n and i :: incident
  show "preserves stored_channels (CountConsecutiveFailures (sqlite_store eng) m n)"
    "preserves stored_channels (CountConsecutiveSuccesses (sqlite_store eng) m n)"
    "preserves stored_channels (GetActiveIncident (sqlite_store eng) m)"
    by (simp_all add: count_statements sqlite_GetActiveIncident_def query_preserves)
  show "preserves stored_channels (CreateIncident (sqlite_store eng) i)"
    "preserves stored_channels (UpdateIncident (sqlite_store eng) i)"
    by (auto simp: sqlite_CreateIncident_def sqlite_UpdateIncident_def stored_channels_def
        intro!: exec_preserves split: option.splits if_splits)
qed

text \<open>\<open>quiet eng\<close> is the engine \<open>eng\<close> without its faults.\<close>

definition quiet :: "engine \<Rightarrow> engine" where
  "quiet eng = eng\<lparr>eng_fault := \<lambda>_. False\<rparr>"

lemma quiet_simps [simp]: "eng_fault (quiet eng) n = False" "fault_free (quiet eng)"
  by (simp_all add: quiet_def fault_free_def)

lemma query_succeeds: "is_ok (fst (db_query (quiet eng) f s))"
  by (simp add: db_query_def)

definition monitor_known :: "db \<Rightarrow> string \<Rightarrow> bool" where
  "monitor_known s k = has_key mr_id k (db_monitors s)"

interpretation sqlite_reliable: reliable_store "sqlite_store (quiet eng)" stored_incidents
  "\<lambda>s m n. failure_run (quiet eng) m n s" "\<lambda>s m n. success_run (quiet eng) m n s"
  stored_channels stored_history monitor_known for eng
proof unfold_locales
  fix m n s and i :: incident
  let ?st = "sqlite_store (quiet eng)"
  show "is_ok (fst (CountConsecutiveFailures ?st m n s))" "is_ok (fst (CountConsecutiveSuccesses ?st m n s))"
    "is_ok (fst (GetActiveIncident ?st m s))" "is_ok (fst (ListEnabledAlertChannels ?st s))"
    by (simp_all add: count_statements sqlite_GetActiveIncident_def
        sqlite_ListEnabledAlertChannels_def query_succeeds)
  show "is_ok (fst (UpdateIncident ?st i s))"
    by (simp add: sqlite_UpdateIncident_def db_exec_def)
  show "is_ok (fst (CreateIncident ?st i s))"
    if "monitor_known s (inc_monitor_id i)" "inc_id i \<notin> inc_id ` set (stored_incidents s)"
    using that by (auto simp: sqlite_CreateIncident_def db_exec_def monitor_known_def
        stored_incidents_def row_insert_def image_image split: option.splits)
  have known: "tables_only monitor_known" by (simp add: tables_only_def monitor_known_def fun_eq_iff)
  show "preserves monitor_known (CountConsecutiveFailures ?st m n)"
    "preserves monitor_known (GetActiveIncident ?st m)" "preserves monitor_known (CountConsecutiveSuccesses ?st m n)"
    "preserves monitor_known (ListEnabledAlertChannels ?st)"
    by (simp_all add: count_statements sqlite_GetActiveIncident_def sqlite_ListEnabledAlertChannels_def
        query_preserves known)
  show "preserves monitor_known (CreateIncident ?st i)" "preserves monitor_known (UpdateIncident ?st i)"
    by (auto simp: sqlite_CreateIncident_def sqlite_UpdateIncident_def known
        intro!: exec_preserves split: option.splits if_splits) (simp_all add: monitor_known_def fun_eq_iff)
qed

lemma stored_monitor_update:
  "map_option scanMonitor (find (\<lambda>r. mr_id r = k)
      (row_update (\<lambda>r. mr_id r = mon_id m) (set_monitor_row m) rows))
    = (if k = mon_id m
       then map_option (refresh_monitor m \<circ> scanMonitor) (find (\<lambda>r. mr_id r = k) rows)
       else map_option scanMonitor (find (\<lambda>r. mr_id r = k) rows))"
proof (cases "k = mon_id m")
  case True
  have "scanMonitor (set_monitor_row m r) = refresh_monitor m (scanMonitor r)" if "mr_id r = mon_id m" for r
    using that by (cases m) (simp add: refresh_monitor_def)
  with True show ?thesis
    by (induction rows) (auto simp: row_update_def)
next
  case False
  then show ?thesis by (simp add: find_row_update_other)
qed

lemma stored_node_update:
  "find (\<lambda>r. node_id r = k) (row_update (\<lambda>r. node_id r = node_id n) (set_node_row n) rows)
    = (if k = node_id n then map_option (refresh_node n) (find (\<lambda>r. node_id r = k) rows)
       else find (\<lambda>r. node_id r = k) rows)"
proof (cases "k = node_id n")
  case True
  have "set_node_row n r = refresh_node n r" if "node_id r = node_id n" for r
    using that by (cases n) (simp add: refresh_node_def set_node_row_def)
  with True show ?thesis
    by (induction rows) (auto simp: row_update_def)
next
  case False
  then show ?thesis by (simp add: find_row_update_other)
qed

interpretation sqlite_config: config_store "sqlite_store eng" stored_monitor stored_node for eng
proof unfold_locales
  fix k m n r q s s' u
  show "r = stored_monitor s k" if "GetMonitor (sqlite_store eng) k s = (Inr r, s')"
    using that by (auto simp: sqlite_GetMonitor_def stored_monitor_def elim: db_queryE)
  show "q = stored_node s k" if "GetNode (sqlite_store eng) k s = (Inr q, s')"
    using that by (auto simp: sqlite_GetNode_def stored_node_def elim: db_queryE)
  show "preserves stored_monitor (GetMonitor (sqlite_store eng) k)"
    "preserves stored_node (GetMonitor (sqlite_store eng) k)"
    "preserves stored_monitor (GetNode (sqlite_store eng) k)"
    "preserves stored_node (GetNode (sqlite_store eng) k)"
    by (simp_all add: sqlite_GetMonitor_def sqlite_GetNode_def query_preserves)
  show "stored_monitor s' = (stored_monitor s)(mon_id m :=
      map_option (refresh_monitor m) (stored_monitor s (mon_id m)))"
    if "UpdateMonitor (sqlite_store eng) m s = (Inr u, s')"
    using that
    by (auto simp: sqlite_UpdateMonitor_def stored_monitor_def stored_monitor_update fun_eq_iff
        option.map_comp elim!: db_execE)
  show "stored_node s' = (stored_node s)(node_id n :=
      map_option (refresh_node n) (stored_node s (node_id n)))"
    if "UpdateNode (sqlite_store eng) n s = (Inr u, s')"
    using that
    by (auto simp: sqlite_UpdateNode_def stored_node_def stored_node_update fun_eq_iff elim!: db_execE)
  show "stored_monitor s (mon_id m) = None \<and> stored_monitor s' = (stored_monitor s)(mon_id m \<mapsto> m)"
    if "CreateMonitor (sqlite_store eng) m s = (Inr u, s')"
    using that
    by (auto simp: sqlite_CreateMonitor_def stored_monitor_def row_insert_Some find_append fun_eq_iff
        find_None_has_key [symmetric] elim!: db_execE split: option.splits)
  show "stored_node s (node_id n) = None \<and> stored_node s' = (stored_node s)(node_id n \<mapsto> n)"
    if "CreateNode (sqlite_store eng) n s = (Inr u, s')"
    using that
    by (auto simp: sqlite_CreateNode_def stored_node_def row_insert_Some find_append fun_eq_iff
        find_None_has_key [symmetric] elim!: db_execE split: option.splits)
  show "intact stored_monitor (UpdateMonitor (sqlite_store eng) m)"
    "intact stored_monitor (CreateMonitor (sqlite_store eng) m)"
    "intact stored_node (UpdateNode (sqlite_store eng) n)"
    "intact stored_node (CreateNode (sqlite_store eng) n)"
    by (simp_all add: monitor_statement_defs node_statement_defs exec_intact)
  show "preserves stored_node (UpdateMonitor (sqlite_store eng) m)"
    "preserves stored_node (CreateMonitor (sqlite_store eng) m)"
    "preserves stored_monitor (UpdateNode (sqlite_store eng) n)"
    "preserves stored_monitor (CreateNode (sqlite_store eng) n)"
    unfolding sqlite_store_simps monitor_statement_defs node_statement_defs
    by (rule exec_preserves; auto simp: stored_node_def stored_monitor_def split: option.splits)+
qed

interpretation sqlite_reliable_config: reliable_config_store "sqlite_store (quiet eng)"
  stored_monitor stored_node for eng
proof unfold_locales
  fix k m n s
  let ?st = "sqlite_store (quiet eng)"
  show "is_ok (fst (GetMonitor ?st k s))" "is_ok (fst (GetNode ?st k s))"
    by (simp_all add: sqlite_GetMonitor_def sqlite_GetNode_def query_succeeds)
  show "is_ok (fst (UpdateMonitor ?st m s))" "is_ok (fst (UpdateNode ?st n s))"
    by (simp_all add: sqlite_UpdateMonitor_def sqlite_UpdateNode_def db_exec_def)
  show "is_ok (fst (CreateMonitor ?st m s))" if "stored_monitor s (mon_id m) = None"
    using that by (auto simp: sqlite_CreateMonitor_def db_exec_def stored_monitor_def
        find_None_has_key row_insert_None split: option.splits)
  show "is_ok (fst (CreateNode ?st n s))" if "stored_node s (node_id n) = None"
    using that by (auto simp: sqlite_CreateNode_def db_exec_def stored_node_def
        find_None_has_key row_insert_None split: option.splits)
qed

end
