(* ===== verification/Consensus.thy ===== *)
theory Consensus
  imports Sqlite_Contracts
begin

text \<open>
  \<open>internal/consensus\<close>: the quorum rule of \<open>evaluator.go\<close> and the incident manager of
  \<open>incident.go\<close>, over any store that keeps the incident contract.
\<close>

section \<open>Quorum\<close>

definition EvaluateQuorum :: "string \<Rightarrow> int64 \<Rightarrow> int64 \<Rightarrow> int64 \<Rightarrow> bool" where
  "EvaluateQuorum quorumType quorumN failCount totalCount =
     (if quorumType = ''majority'' then failCount > go_div totalCount 2
      else if quorumType = ''n_of_m'' then failCount \<ge> quorumN
      else failCount > go_div totalCount 2)"

lemma majority_iff:
  assumes "q \<noteq> ''n_of_m''" and "0 \<le> (nodes::int)"
  shows "EvaluateQuorum q n c nodes \<longleftrightarrow> 2 * c > nodes"
proof -
  have "EvaluateQuorum q n c nodes \<longleftrightarrow> c > nodes div 2"
    using assms by (simp add: EvaluateQuorum_def go_div_nonneg)
  also have "\<dots> \<longleftrightarrow> 2 * c > nodes" by auto
  finally show ?thesis .
qed

lemma majority_mono:
  "EvaluateQuorum q n c nodes \<Longrightarrow> c \<le> d \<Longrightarrow> EvaluateQuorum q n d nodes"
  by (auto simp: EvaluateQuorum_def split: if_splits)

text \<open>Two majorities of the same nodes share a node.\<close>

lemma majority_intersect:
  assumes "q \<noteq> ''n_of_m''" and "0 \<le> (nodes::int)"
    and "EvaluateQuorum q n c nodes" and "EvaluateQuorum q n d nodes"
  shows "c + d > nodes"
  using assms by (simp add: majority_iff)

section \<open>The incident manager\<close>

text \<open>The clock and the UUID generator are read by the code; what they return is an argument.\<close>

definition new_incident :: "string \<Rightarrow> int64 \<Rightarrow> string \<Rightarrow> incident" where
  "new_incident uuid now monitorID = \<lparr>inc_id = uuid, inc_monitor_id = monitorID,
     inc_status = IncidentSuspect, inc_started_at = now, inc_confirmed_at = 0, inc_resolved_at = 0,
     inc_confirming_nodes = None, inc_created_at = now, inc_updated_at = now\<rparr>"

definition GetOrCreateIncident ::
    "'s store \<Rightarrow> string \<Rightarrow> int64 \<Rightarrow> string \<Rightarrow> ('s, incident) op" where
  "GetOrCreateIncident st uuid now monitorID s =
     (case GetActiveIncident st monitorID s of
        (Inl e, s1) \<Rightarrow> (Inl e, s1)
      | (Inr (Some i), s1) \<Rightarrow> (Inr i, s1)
      | (Inr None, s1) \<Rightarrow>
          (let i = new_incident uuid now monitorID in
           case CreateIncident st i s1 of
             (Inl e, s2) \<Rightarrow> (Inl e, s2)
           | (Inr _, s2) \<Rightarrow> (Inr i, s2)))"

text \<open>
  \<open>ConfirmIncident\<close> and \<open>ResolveIncident\<close> assign to the incident before they write it, so the caller's
  copy is changed even if the write fails: they return it with the result.
\<close>

definition confirmed_incident :: "incident \<Rightarrow> string list option \<Rightarrow> int64 \<Rightarrow> incident" where
  "confirmed_incident i confirmingNodes now = i\<lparr>inc_status := IncidentConfirmed,
     inc_confirmed_at := now, inc_confirming_nodes := confirmingNodes, inc_updated_at := now\<rparr>"

definition resolved_incident :: "incident \<Rightarrow> int64 \<Rightarrow> incident" where
  "resolved_incident i now = i\<lparr>inc_status := IncidentResolved, inc_resolved_at := now,
     inc_updated_at := now\<rparr>"

definition ConfirmIncident ::
    "'s store \<Rightarrow> incident \<Rightarrow> string list option \<Rightarrow> int64 \<Rightarrow> 's \<Rightarrow> incident \<times> (store_error + unit) \<times> 's"
where
  "ConfirmIncident st i confirmingNodes now s =
     (let i' = confirmed_incident i confirmingNodes now in (i', UpdateIncident st i' s))"

definition ResolveIncident ::
    "'s store \<Rightarrow> incident \<Rightarrow> int64 \<Rightarrow> 's \<Rightarrow> incident \<times> (store_error + unit) \<times> 's" where
  "ResolveIncident st i now s =
     (let i' = resolved_incident i now in (i', UpdateIncident st i' s))"

section \<open>What the incidents look like\<close>

text \<open>
  \<open>incidents_ok\<close>: ids are unique, the status is one of the three of the lifecycle, and no monitor has
  two unresolved incidents. \<open>progressed\<close>: the incidents of a later state are the earlier ones, each
  in the same or a later phase and with its identity, monitor and start unchanged, and new ones.
\<close>

definition incidents_ok :: "incident list \<Rightarrow> bool" where
  "incidents_ok is \<longleftrightarrow> distinct (map inc_id is) \<and> (\<forall>i \<in> set is. phase_of (inc_status i) \<noteq> None) \<and>
     distinct (map inc_monitor_id (filter active_incident is))"

definition inc_phase :: "incident \<Rightarrow> phase" where
  "inc_phase i = the (phase_of (inc_status i))"

definition same_outage :: "incident \<Rightarrow> incident \<Rightarrow> bool" where
  "same_outage i j \<longleftrightarrow> inc_id j = inc_id i \<and> inc_monitor_id j = inc_monitor_id i \<and>
     inc_started_at j = inc_started_at i \<and> inc_created_at j = inc_created_at i \<and>
     inc_phase i \<le> inc_phase j"

definition progressed :: "incident list \<Rightarrow> incident list \<Rightarrow> bool" where
  "progressed is js \<longleftrightarrow> (\<forall>i \<in> set is. \<exists>j \<in> set js. same_outage i j)"

lemma same_outage_refl [simp]: "same_outage i i"
  by (simp add: same_outage_def)

lemma same_outage_trans: "same_outage i j \<Longrightarrow> same_outage j k \<Longrightarrow> same_outage i k"
  by (auto simp: same_outage_def)

lemma progressed_refl [simp]: "progressed is is"
  unfolding progressed_def using same_outage_refl by blast

lemma progressed_trans: "progressed is js \<Longrightarrow> progressed js ks \<Longrightarrow> progressed is ks"
  unfolding progressed_def by (meson same_outage_trans)

lemma progressed_append [simp]: "progressed is (is @ js)"
  unfolding progressed_def using same_outage_refl by fastforce

lemma active_phase: "phase_of (inc_status i) \<noteq> None \<Longrightarrow> active_incident i \<longleftrightarrow> inc_phase i < Resolved"
  by (auto simp: phase_of_def active_incident_def inc_phase_def less_phase_def split: if_splits)

lemma active_unique:
  assumes "incidents_ok is" and "i \<in> set is" and "j \<in> set is"
    and "active_for m i" and "active_for m j"
  shows "i = j"
proof -
  have "distinct (map inc_monitor_id (filter active_incident is))"
    using assms(1) by (simp add: incidents_ok_def)
  then show ?thesis
    by (rule distinct_map_unique) (use assms in \<open>auto simp: active_for_def\<close>)
qed

lemma new_incident_active: "active_for m (new_incident u now m)"
  by (simp add: active_for_def active_incident_def new_incident_def)

lemma add_incident_ok:
  assumes "incidents_ok is" and "u \<notin> inc_id ` set is" and "\<And>i. i \<in> set is \<Longrightarrow> \<not> active_for m i"
  shows "incidents_ok (is @ [new_incident u now m])"
  using assms by (auto simp: incidents_ok_def new_incident_def active_for_def)

text \<open>
  An update of one incident that moves it forward (\<open>i\<close> is the stored incident, \<open>i'\<close> what is written).
\<close>

lemma read_back_new [simp]: "read_back (new_incident u now m) = new_incident u now m"
  by (simp add: read_back_def new_incident_def)

lemma inc_phase_read_back [simp]: "inc_phase (read_back i) = inc_phase i"
  by (simp add: inc_phase_def)

lemma set_incident_id [simp]:
  "inc_id (set_incident i j) = inc_id j" "inc_monitor_id (set_incident i j) = inc_monitor_id j"
  by (simp_all add: set_incident_def)

lemma forward_update_ok:
  assumes ok: "incidents_ok is" and i: "i \<in> set is"
    and same: "inc_id i' = inc_id i" "phase_of (inc_status i') \<noteq> None"
    and le: "inc_phase i \<le> inc_phase i'"
  shows "incidents_ok (map (set_incident i') is)"
proof -
  have ids: "distinct (map inc_id is)" using ok by (simp add: incidents_ok_def)
  have was: "active_incident j" if j: "j \<in> set is" and act: "active_incident (set_incident i' j)" for j
  proof (cases "inc_id j = inc_id i")
    case True
    with ids i j have "j = i" by (metis distinct_map_unique)
    with act same have "active_incident i'" by (simp add: set_incident_def active_incident_def)
    with same(2) le have "inc_phase i < Resolved" by (simp add: active_phase)
    with ok i \<open>j = i\<close> show ?thesis by (simp add: active_phase incidents_ok_def)
  next
    case False
    with act same show ?thesis by (simp add: set_incident_def)
  qed
  have "distinct (map inc_monitor_id (filter active_incident (map (set_incident i') is)))"
    using ok by (intro distinct_map_filter_update) (auto simp: was incidents_ok_def)
  moreover have "distinct (map inc_id (map (set_incident i') is))"
    using ids by (simp add: comp_def)
  moreover have "\<forall>j \<in> set (map (set_incident i') is). phase_of (inc_status j) \<noteq> None"
    using ok same by (auto simp: incidents_ok_def set_incident_def)
  ultimately show ?thesis
    unfolding incidents_ok_def by blast
qed

lemma forward_update_progressed:
  assumes "incidents_ok is" and "i \<in> set is" and "inc_id i' = inc_id i"
    and "inc_phase i \<le> inc_phase i'"
  shows "progressed is (map (set_incident i') is)"
  unfolding progressed_def
proof
  fix j
  assume j: "j \<in> set is"
  have "same_outage j (set_incident i' j)"
  proof (cases "inc_id j = inc_id i")
    case True
    with assms(1,2) j have "j = i" by (metis distinct_map_unique incidents_ok_def)
    with assms(3,4) show ?thesis
      by (simp add: same_outage_def set_incident_def inc_phase_def)
  next
    case False
    with assms(3) show ?thesis by (simp add: set_incident_def)
  qed
  with j show "\<exists>k \<in> set (map (set_incident i') is). same_outage j k" by auto
qed

lemma confirm_forward:
  assumes "active_incident i" and "phase_of (inc_status i) \<noteq> None"
  shows "inc_phase i \<le> inc_phase (confirmed_incident i ns now)"
  using assms
  by (auto simp: active_incident_def inc_phase_def confirmed_incident_def phase_of_def
      less_eq_phase_def split: if_splits)

lemma written_incident [simp]:
  "inc_id (confirmed_incident i ns now) = inc_id i" "inc_id (resolved_incident i now) = inc_id i"
  "inc_status (confirmed_incident i ns now) = ''confirmed''"
  "inc_status (resolved_incident i now) = ''resolved''"
  "inc_phase (confirmed_incident i ns now) = Confirmed" "inc_phase (resolved_incident i now) = Resolved"
  "inc_monitor_id (confirmed_incident i ns now) = inc_monitor_id i"
  "inc_monitor_id (resolved_incident i now) = inc_monitor_id i"
  "inc_confirming_nodes (confirmed_incident i ns now) = ns"
  by (simp_all add: confirmed_incident_def resolved_incident_def inc_phase_def)

section \<open>The manager keeps the incidents in order\<close>

context incident_store
begin

lemma get_or_create_cases:
  assumes "GetOrCreateIncident st uuid now m s = (r, s')"
  obtains (failed) e where "r = Inl e" "incidents s' = incidents s"
  | (existing) i where "r = Inr i" "incidents s' = incidents s" "i \<in> set (incidents s)" "active_for m i"
  | (created) "r = Inr (new_incident uuid now m)"
      "incidents s' = incidents s @ [new_incident uuid now m]"
      "uuid \<notin> inc_id ` set (incidents s)" "\<And>i. i \<in> set (incidents s) \<Longrightarrow> \<not> active_for m i"
proof -
  obtain a s1 where a: "GetActiveIncident st m s = (a, s1)" by fastforce
  have keep: "incidents s1 = incidents s" using active_keeps a by blast
  show ?thesis
  proof (cases a)
    case (Inl e)
    with assms a have "r = Inl e" "s' = s1" by (auto simp: GetOrCreateIncident_def)
    with keep failed show ?thesis by simp
  next
    case (Inr o')
    show ?thesis
    proof (cases o')
      case (Some i)
      with Inr a have "i \<in> set (incidents s) \<and> active_for m i" by (simp add: active_some)
      moreover from Some Inr assms a have "r = Inr i" "s' = s1"
        by (auto simp: GetOrCreateIncident_def)
      ultimately show ?thesis using keep existing by simp
    next
      case None
      obtain c s2 where c: "CreateIncident st (new_incident uuid now m) s1 = (c, s2)" by fastforce
      have res: "(r, s') = (case c of Inl e \<Rightarrow> (Inl e, s2) | Inr _ \<Rightarrow> (Inr (new_incident uuid now m), s2))"
        using assms a c None Inr by (simp add: GetOrCreateIncident_def split: sum.splits)
      show ?thesis
      proof (cases c)
        case (Inl e)
        with c create_error have "incidents s2 = incidents s1" by blast
        with res Inl keep failed show ?thesis by simp
      next
        case (Inr u)
        with create_ok [OF c [unfolded Inr]] keep res
        have "incidents s' = incidents s @ [new_incident uuid now m]"
          "uuid \<notin> inc_id ` set (incidents s)" "r = Inr (new_incident uuid now m)"
          by (simp_all, simp add: new_incident_def)
        moreover have "\<not> active_for m i" if "i \<in> set (incidents s)" for i
          using active_none a \<open>a = Inr o'\<close> None that by blast
        ultimately show ?thesis using created by blast
      qed
    qed
  qed
qed

lemma get_or_create_ok:
  assumes run: "GetOrCreateIncident st uuid now m s = (r, s')" and ok: "incidents_ok (incidents s)"
  shows "incidents_ok (incidents s')" and "progressed (incidents s) (incidents s')"
    and "r = Inr i \<Longrightarrow> i \<in> set (incidents s') \<and> active_for m i"
  using run
  by (cases rule: get_or_create_cases;
      use ok in \<open>auto simp: new_incident_active intro: add_incident_ok\<close>)+

lemma confirm_ok:
  assumes run: "ConfirmIncident st i ns now s = (i', r, s')"
    and ok: "incidents_ok (incidents s)" and i: "i \<in> set (incidents s)" "active_incident i"
  shows "incidents_ok (incidents s')" and "progressed (incidents s) (incidents s')"
    and "i' = confirmed_incident i ns now"
    and "r = Inr u \<Longrightarrow> incidents s' = map (set_incident i') (incidents s)"
    and "r = Inl e \<Longrightarrow> incidents s' = incidents s"
proof -
  have i': "i' = confirmed_incident i ns now" and upd: "UpdateIncident st i' s = (r, s')"
    using run by (auto simp: ConfirmIncident_def Let_def)
  have known: "phase_of (inc_status i) \<noteq> None" using ok i by (simp add: incidents_ok_def)
  have le: "inc_phase i \<le> inc_phase i'" using confirm_forward [OF i(2) known] i' by simp
  show "i' = confirmed_incident i ns now" by (rule i')
  show eq: "r = Inr u \<Longrightarrow> incidents s' = map (set_incident i') (incidents s)" for u
    using upd update_ok by blast
  show keep: "r = Inl e \<Longrightarrow> incidents s' = incidents s" for e
    using upd update_error by blast
  show "incidents_ok (incidents s')"
    using eq keep forward_update_ok [OF ok i(1) _ _ le] ok i' by (cases r) auto
  show "progressed (incidents s) (incidents s')"
    using eq keep forward_update_progressed [OF ok i(1) _ le] i' by (cases r) auto
qed

lemma resolve_ok:
  assumes run: "ResolveIncident st i now s = (i', r, s')"
    and ok: "incidents_ok (incidents s)" and i: "i \<in> set (incidents s)"
  shows "incidents_ok (incidents s')" and "progressed (incidents s) (incidents s')"
    and "i' = resolved_incident i now"
    and "r = Inr u \<Longrightarrow> incidents s' = map (set_incident i') (incidents s)"
    and "r = Inl e \<Longrightarrow> incidents s' = incidents s"
proof -
  have i': "i' = resolved_incident i now" and upd: "UpdateIncident st i' s = (r, s')"
    using run by (auto simp: ResolveIncident_def Let_def)
  show "i' = resolved_incident i now" by (rule i')
  show eq: "r = Inr u \<Longrightarrow> incidents s' = map (set_incident i') (incidents s)" for u
    using upd update_ok by blast
  show keep: "r = Inl e \<Longrightarrow> incidents s' = incidents s" for e
    using upd update_error by blast
  have le: "inc_phase i \<le> inc_phase i'" using i' by simp
  show "incidents_ok (incidents s')"
    using eq keep forward_update_ok [OF ok i _ _ le] ok i' by (cases r) auto
  show "progressed (incidents s) (incidents s')"
    using eq keep forward_update_progressed [OF ok i _ le] i' by (cases r) auto
qed

end

end
