(* ===== verification/Alert.thy ===== *)
theory Alert
  imports Consensus
begin

text \<open>
  \<open>internal/alert/alert.go\<close>: the dispatcher. \<open>dispatch\<close> starts one goroutine per enabled channel; such a
  goroutine is an \<open>alert_task\<close>, and \<open>run_alert_task\<close> is its body. The tasks of a dispatch can run in any
  order and between any other statements of the program.

  The network, the mail server, time formatting in the local zone and the JSON and HMAC packages
  are the fields of an \<open>alert_env\<close>; errors of these calls are their texts.
\<close>

section \<open>The outside world of a delivery\<close>

record http_request =
  rq_url :: string
  rq_headers :: "(string \<times> string) list"
  rq_body :: string

datatype smtp_stage =
    TlsDial string string
  | NewClient string
  | PlainAuth string string string
  | MailFrom string
  | RcptTo string
  | DataCommand
  | WriteMessage string
  | CloseData
  | Quit
  | SendMail string string string string string string

record alert_env =
  ae_rfc3339 :: "int64 \<Rightarrow> string"
  ae_stamp :: "int64 \<Rightarrow> string"
  ae_duration :: "int64 \<Rightarrow> string"
  ae_parse_webhook :: "string \<Rightarrow> string + webhook_config"
  ae_parse_email :: "string \<Rightarrow> string + email_config"
  ae_marshal :: "webhook_payload \<Rightarrow> string + string"
  ae_hmac :: "string \<Rightarrow> string \<Rightarrow> string"
  ae_request_error :: "string \<Rightarrow> string option"
  ae_post :: "http_request \<Rightarrow> string + int64"
  ae_smtp :: "smtp_stage \<Rightarrow> string option"
  ae_error_text :: "store_error \<Rightarrow> string"

section \<open>Payloads\<close>

definition buildIncidentDetail :: "alert_env \<Rightarrow> incident \<Rightarrow> incident_detail" where
  "buildIncidentDetail env inc =
     \<lparr>det_id = inc_id inc, det_status = inc_status inc,
      det_started_at = ae_rfc3339 env (inc_started_at inc),
      det_confirmed_at =
        (if inc_confirmed_at inc > 0 then ae_rfc3339 env (inc_confirmed_at inc) else []),
      det_resolved_at =
        (if inc_resolved_at inc > 0 then ae_rfc3339 env (inc_resolved_at inc) else []),
      det_confirming_nodes =
        (case inc_confirming_nodes inc of None \<Rightarrow> Some [] | Some ns \<Rightarrow> Some ns),
      det_duration_sec =
        (if inc_resolved_at inc > 0
         then go_div (wrap64 (inc_resolved_at inc - inc_started_at inc)) 1000 else 0)\<rparr>"

definition buildMonitorSummary :: "monitor \<Rightarrow> monitor_summary" where
  "buildMonitorSummary m = \<lparr>sum_id = mon_id m, sum_name = mon_name m,
     sum_check_type = mon_check_type m, sum_target = mon_target m, sum_group = mon_group_name m\<rparr>"

section \<open>Sending\<close>

definition webhook_headers :: "alert_env \<Rightarrow> webhook_config \<Rightarrow> string \<Rightarrow> (string \<times> string) list" where
  "webhook_headers env cfg body =
     [(''Content-Type'', ''application/json''), (''User-Agent'', ''PingMesh/1.0'')] @
     (if wh_secret cfg \<noteq> []
      then [(''X-PingMesh-Signature'', ''sha256='' @ ae_hmac env (wh_secret cfg) body)] else [])"

definition sendWebhook ::
    "alert_env \<Rightarrow> int64 \<Rightarrow> alert_channel \<Rightarrow> incident \<Rightarrow> monitor \<Rightarrow> string \<Rightarrow> string option" where
  "sendWebhook env now ch inc mon eventType =
     (case ae_parse_webhook env (ch_config ch) of
        Inl e \<Rightarrow> Some (''parsing webhook config: '' @ e)
      | Inr cfg \<Rightarrow>
          (let eventName = (if eventType = ''recovery'' then ''incident.resolved''
                            else ''incident.confirmed'');
               payload = \<lparr>pay_event = eventName, pay_timestamp = ae_rfc3339 env now,
                 pay_incident = buildIncidentDetail env inc, pay_monitor = buildMonitorSummary mon\<rparr>
           in case ae_marshal env payload of
                Inl e \<Rightarrow> Some (''marshaling payload: '' @ e)
              | Inr body \<Rightarrow>
                  (case ae_request_error env (wh_url cfg) of
                     Some e \<Rightarrow> Some (''creating request: '' @ e)
                   | None \<Rightarrow>
                       (case ae_post env \<lparr>rq_url = wh_url cfg,
                               rq_headers = webhook_headers env cfg body, rq_body = body\<rparr> of
                          Inl e \<Rightarrow> Some (''sending webhook: '' @ e)
                        | Inr code \<Rightarrow>
                            (if code \<ge> 300 then Some (''webhook returned status '' @ show_int code)
                             else None)))))"

text \<open>The stages of \<open>sendMailTLS\<close> with the prefix of their error; the first that fails ends it.\<close>

fun run_stages :: "alert_env \<Rightarrow> (smtp_stage \<times> string) list \<Rightarrow> string option" where
  "run_stages env [] = None"
| "run_stages env ((stage, prefix) # rest) =
     (case ae_smtp env stage of
        Some e \<Rightarrow> Some (prefix @ e)
      | None \<Rightarrow> run_stages env rest)"

definition sendMailTLS ::
    "alert_env \<Rightarrow> string \<Rightarrow> email_config \<Rightarrow> string \<Rightarrow> string option" where
  "sendMailTLS env addr cfg msg = run_stages env
     [(TlsDial addr (em_smtp_host cfg), ''TLS dial: ''),
      (NewClient (em_smtp_host cfg), ''SMTP client: ''),
      (PlainAuth (em_username cfg) (em_password cfg) (em_smtp_host cfg), ''SMTP auth: ''),
      (MailFrom (em_from cfg), ''SMTP MAIL: ''),
      (RcptTo (em_to cfg), ''SMTP RCPT: ''),
      (DataCommand, ''SMTP DATA: ''),
      (WriteMessage msg, ''SMTP write: ''),
      (CloseData, ''SMTP close data: ''),
      (Quit, [])]"

definition newline :: string where "newline = [CHR 0x0A]"
definition crlf :: string where "crlf = [CHR 0x0D, CHR 0x0A]"

definition email_subject :: "monitor \<Rightarrow> string \<Rightarrow> string" where
  "email_subject mon eventType =
     (let status = (if eventType = ''recovery'' then ''RECOVERED'' else ''DOWN'');
          label = (if eventType = ''recovery'' then ''RECOVERY'' else ''ALERT'')
      in ''[PingMesh] '' @ label @ '': '' @ mon_name mon @ '' ('' @ mon_target mon @ '') is '' @ status)"

definition email_body :: "alert_env \<Rightarrow> incident \<Rightarrow> monitor \<Rightarrow> string \<Rightarrow> string" where
  "email_body env inc mon eventType =
     ''PingMesh Alert'' @ newline @ newline @
     ''Event: '' @ eventType @ newline @
     ''Monitor: '' @ mon_name mon @ newline @
     ''Type: '' @ mon_check_type mon @ newline @
     ''Target: '' @ mon_target mon @ newline @
     ''Group: '' @ mon_group_name mon @ newline @ newline @
     ''Incident ID: '' @ inc_id inc @ newline @
     ''Started At: '' @ ae_rfc3339 env (inc_started_at inc) @ newline @
     ''Confirming Nodes: '' @
       show_int (int (length (case inc_confirming_nodes inc of None \<Rightarrow> [] | Some ns \<Rightarrow> ns))) @ newline @
     (if inc_confirmed_at inc > 0
      then ''Confirmed At: '' @ ae_rfc3339 env (inc_confirmed_at inc) @ newline else []) @
     (if inc_resolved_at inc > 0
      then ''Resolved At: '' @ ae_rfc3339 env (inc_resolved_at inc) @ newline @
           ''Duration: '' @ ae_duration env (wrap64 (inc_resolved_at inc - inc_started_at inc)) @ newline
      else [])"

definition email_message :: "email_config \<Rightarrow> string \<Rightarrow> string \<Rightarrow> string" where
  "email_message cfg subject body =
     ''From: '' @ em_from cfg @ crlf @ ''To: '' @ em_to cfg @ crlf @
     ''Subject: '' @ subject @ crlf @ ''MIME-Version: 1.0'' @ crlf @
     ''Content-Type: text/plain; charset=UTF-8'' @ crlf @ crlf @ body"

definition sendEmail ::
    "alert_env \<Rightarrow> alert_channel \<Rightarrow> incident \<Rightarrow> monitor \<Rightarrow> string \<Rightarrow> string option" where
  "sendEmail env ch inc mon eventType =
     (case ae_parse_email env (ch_config ch) of
        Inl e \<Rightarrow> Some (''parsing email config: '' @ e)
      | Inr cfg \<Rightarrow>
          (let msg = email_message cfg (email_subject mon eventType) (email_body env inc mon eventType);
               addr = em_smtp_host cfg @ '':'' @ show_int (em_smtp_port cfg)
           in if em_tls cfg then sendMailTLS env addr cfg msg
              else ae_smtp env (SendMail addr (em_username cfg) (em_password cfg)
                (em_from cfg) (em_to cfg) msg)))"

definition sendToChannel ::
    "alert_env \<Rightarrow> int64 \<Rightarrow> alert_channel \<Rightarrow> incident \<Rightarrow> monitor \<Rightarrow> string \<Rightarrow> string option" where
  "sendToChannel env now ch inc mon eventType =
     (if ch_type ch = ''webhook'' then sendWebhook env now ch inc mon eventType
      else if ch_type ch = ''email'' then sendEmail env ch inc mon eventType
      else Some (''unknown channel type: '' @ ch_type ch))"

section \<open>Dispatch\<close>

record alert_task =
  task_channel :: alert_channel
  task_incident :: incident
  task_monitor :: monitor
  task_event :: string

definition dispatch ::
    "'s store \<Rightarrow> incident \<Rightarrow> monitor \<Rightarrow> string \<Rightarrow> 's \<Rightarrow> alert_task list \<times> 's" where
  "dispatch st inc mon eventType s =
     (case ListEnabledAlertChannels st s of
        (Inl e, s1) \<Rightarrow> ([], s1)
      | (Inr channels, s1) \<Rightarrow>
          (map (\<lambda>ch. \<lparr>task_channel = ch, task_incident = inc, task_monitor = mon,
                      task_event = eventType\<rparr>) channels, s1))"

definition SendAlert :: "'s store \<Rightarrow> incident \<Rightarrow> monitor \<Rightarrow> 's \<Rightarrow> alert_task list \<times> 's" where
  "SendAlert st inc mon s = dispatch st inc mon ''alert'' s"

definition SendRecovery :: "'s store \<Rightarrow> incident \<Rightarrow> monitor \<Rightarrow> 's \<Rightarrow> alert_task list \<times> 's" where
  "SendRecovery st inc mon s = dispatch st inc mon ''recovery'' s"

definition delivery_record :: "string \<Rightarrow> string \<Rightarrow> string \<Rightarrow> string \<Rightarrow> string option \<Rightarrow> int64 \<Rightarrow> alert_record"
where
  "delivery_record channelID incidentID monitorID eventType sendErr now =
     \<lparr>rec_id = 0, rec_channel_id = channelID, rec_incident_id = incidentID,
      rec_monitor_id = monitorID, rec_event_type = eventType,
      rec_status = (case sendErr of None \<Rightarrow> ''success'' | Some _ \<Rightarrow> ''failed''),
      rec_error = (case sendErr of None \<Rightarrow> [] | Some e \<Rightarrow> e), rec_sent_at = now\<rparr>"

text \<open>
  The goroutine of one channel. An error of the insertion is logged and dropped. \<open>sentAt\<close> is the time
  read after the delivery.
\<close>

definition run_alert_task ::
    "alert_env \<Rightarrow> 's store \<Rightarrow> int64 \<Rightarrow> int64 \<Rightarrow> alert_task \<Rightarrow> 's \<Rightarrow> 's" where
  "run_alert_task env st now sentAt t s =
     (let sendErr = sendToChannel env now (task_channel t) (task_incident t) (task_monitor t)
            (task_event t)
      in snd (InsertAlertRecord st (delivery_record (ch_id (task_channel t))
           (inc_id (task_incident t)) (mon_id (task_monitor t)) (task_event t) sendErr sentAt) s))"

text \<open>A schedule: the tasks in the order in which they happen to run, with their two clock reads.\<close>

fun run_alert_tasks ::
    "alert_env \<Rightarrow> 's store \<Rightarrow> (alert_task \<times> int64 \<times> int64) list \<Rightarrow> 's \<Rightarrow> 's" where
  "run_alert_tasks env st [] s = s"
| "run_alert_tasks env st ((t, now, sentAt) # ts) s =
     run_alert_tasks env st ts (run_alert_task env st now sentAt t s)"

section \<open>The test notification\<close>

definition test_incident :: "alert_env \<Rightarrow> int64 \<Rightarrow> incident" where
  "test_incident env now = \<lparr>inc_id = ''test-'' @ ae_stamp env now, inc_monitor_id = ''test-monitor'',
     inc_status = IncidentConfirmed, inc_started_at = now - 120000, inc_confirmed_at = now,
     inc_resolved_at = 0, inc_confirming_nodes = Some [''test-node-1'', ''test-node-2''],
     inc_created_at = 0, inc_updated_at = 0\<rparr>"

definition test_monitor :: monitor where
  "test_monitor = \<lparr>mon_id = ''test-monitor'', mon_name = ''Test Monitor'', mon_group_name = ''test'',
     mon_check_type = CheckHTTP, mon_target = ''example.com'', mon_port = 0, mon_interval_ms = 0,
     mon_timeout_ms = 0, mon_retries = 0, mon_expected_status = 0, mon_expected_keyword = [],
     mon_dns_record_type = [], mon_dns_expected = [], mon_failure_threshold = 0,
     mon_recovery_threshold = 0, mon_quorum_type = [], mon_quorum_n = 0, mon_cooldown_ms = 0,
     mon_enabled = False, mon_created_at = 0, mon_updated_at = 0\<rparr>"

definition SendTest ::
    "alert_env \<Rightarrow> 's store \<Rightarrow> int64 \<Rightarrow> int64 \<Rightarrow> string \<Rightarrow> 's \<Rightarrow> string option \<times> 's" where
  "SendTest env st now sendNow channelID s =
     (case GetAlertChannel st channelID s of
        (Inl e, s1) \<Rightarrow> (Some (''loading channel: '' @ ae_error_text env e), s1)
      | (Inr None, s1) \<Rightarrow> (Some (''channel not found: '' @ channelID), s1)
      | (Inr (Some ch), s1) \<Rightarrow>
          (let inc = test_incident env now;
               sendErr = sendToChannel env sendNow ch inc test_monitor ''alert'';
               rec = delivery_record (ch_id ch) (inc_id inc) (mon_id test_monitor) ''test'' sendErr now
           in (sendErr, snd (InsertAlertRecord st rec s1))))"

section \<open>What is recorded\<close>

text \<open>What a record says of the delivery, without its id, outcome and time.\<close>

definition delivery_key :: "alert_record \<Rightarrow> string \<times> string \<times> string \<times> string" where
  "delivery_key r = (rec_channel_id r, rec_incident_id r, rec_monitor_id r, rec_event_type r)"

definition task_key :: "alert_task \<Rightarrow> string \<times> string \<times> string \<times> string" where
  "task_key t = (ch_id (task_channel t), inc_id (task_incident t), mon_id (task_monitor t), task_event t)"

lemma delivery_key_record [simp]:
  "delivery_key ((delivery_record c i m e err now)\<lparr>rec_id := k\<rparr>) = (c, i, m, e)"
  by (simp add: delivery_key_def delivery_record_def)

context alert_store
begin

lemma dispatch_channels:
  assumes "dispatch st inc mon ev s = (ts, s')"
  shows "channels s' = channels s" and "history s' = history s"
    and "ts = [] \<or> mset (map task_channel ts) = mset (filter ch_enabled (channels s))"
    and "t \<in> set ts \<Longrightarrow> task_incident t = inc \<and> task_monitor t = mon \<and> task_event t = ev"
proof -
  obtain r s1 where r: "ListEnabledAlertChannels st s = (r, s1)" by fastforce
  with assms have s': "s' = s1" by (auto simp: dispatch_def split: sum.splits)
  show "channels s' = channels s" "history s' = history s"
    using r s' list_channels_keeps by blast+
  show "ts = [] \<or> mset (map task_channel ts) = mset (filter ch_enabled (channels s))"
  proof (cases r)
    case (Inl e)
    with assms r show ?thesis by (auto simp: dispatch_def)
  next
    case (Inr cs)
    with assms r have "map task_channel ts = cs" by (auto simp: dispatch_def comp_def)
    with list_channels [OF r [unfolded Inr]] show ?thesis by simp
  qed
  show "t \<in> set ts \<Longrightarrow> task_incident t = inc \<and> task_monitor t = mon \<and> task_event t = ev"
    using assms r by (auto simp: dispatch_def split: sum.splits)
qed

lemma run_task_history:
  assumes "InsertAlertRecord st (delivery_record (ch_id (task_channel t)) (inc_id (task_incident t))
      (mon_id (task_monitor t)) (task_event t) (sendToChannel env now (task_channel t)
      (task_incident t) (task_monitor t) (task_event t)) sentAt) s = (r, s')"
  shows "run_alert_task env st now sentAt t s = s'"
    and "channels s' = channels s"
    and "r = Inr u \<Longrightarrow> map delivery_key (history s') = map delivery_key (history s) @ [task_key t]"
    and "r = Inl e \<Longrightarrow> history s' = history s"
  using assms insert_ok insert_error insert_keeps
  by (force simp: run_alert_task_def task_key_def)+

end

end
