(* ===== verification/Cluster.thy ===== *)
theory Cluster
  imports Alert
begin

text \<open>
  \<open>internal/cluster/cluster.go\<close>: the membership manager, with heartbeats and offline detection.
\<close>

section \<open>Membership\<close>

definition GetOnlineNodes :: "'s store \<Rightarrow> ('s, node list) op" where
  "GetOnlineNodes st s =
     (case ListNodes st s of
        (Inl e, s1) \<Rightarrow> (Inl e, s1)
      | (Inr ns, s1) \<Rightarrow> (Inr (filter (\<lambda>n. node_status n = NodeOnline) ns), s1))"

definition UpdateHeartbeat :: "'s store \<Rightarrow> int64 \<Rightarrow> string \<Rightarrow> ('s, unit) op" where
  "UpdateHeartbeat st now nodeID s = UpdateNodeStatus st nodeID NodeOnline now s"

definition stale :: "int64 \<Rightarrow> node \<Rightarrow> bool" where
  "stale cutoff n \<longleftrightarrow> node_last_seen n < cutoff \<and> node_status n = NodeOnline"

text \<open>The loop over the listed nodes; an error of an update is logged and the loop goes on.\<close>

fun mark_offline :: "'s store \<Rightarrow> int64 \<Rightarrow> node list \<Rightarrow> 's \<Rightarrow> 's" where
  "mark_offline st cutoff [] s = s"
| "mark_offline st cutoff (n # ns) s =
     mark_offline st cutoff ns
       (if stale cutoff n
        then snd (UpdateNodeStatus st (node_id n) NodeOffline (node_last_seen n) s) else s)"

definition DetectOfflineNodes :: "'s store \<Rightarrow> int64 \<Rightarrow> int64 \<Rightarrow> ('s, unit) op" where
  "DetectOfflineNodes st now timeoutMS s =
     (case ListNodes st s of
        (Inl e, s1) \<Rightarrow> (Inl e, s1)
      | (Inr ns, s1) \<Rightarrow> (Inr (), mark_offline st (wrap64 (now - timeoutMS)) ns s1))"

text \<open>\<open>offline_at D\<close>: the nodes with an id in \<open>D\<close> are marked, every other field as it was.\<close>

definition offline_at :: "string set \<Rightarrow> node \<Rightarrow> node" where
  "offline_at D n = (if node_id n \<in> D then n\<lparr>node_status := NodeOffline\<rparr> else n)"

definition mark_stale :: "int64 \<Rightarrow> node \<Rightarrow> node" where
  "mark_stale cutoff n = (if stale cutoff n then n\<lparr>node_status := NodeOffline\<rparr> else n)"

lemma offline_at_id [simp]: "node_id (offline_at D n) = node_id n"
  by (simp add: offline_at_def)

lemma offline_at_empty [simp]: "offline_at {} n = n"
  by (simp add: offline_at_def)

lemma set_status_offline:
  assumes "n \<in> set ns" and "distinct (map node_id ns)" and "m \<in> set ns"
  shows "set_status (node_id n) NodeOffline (node_last_seen n) (offline_at D m)
    = offline_at (insert (node_id n) D) m"
proof (cases "node_id m = node_id n")
  case True
  with assms have "m = n" by (metis distinct_map_unique)
  then show ?thesis by (simp add: set_status_def offline_at_def)
next
  case False
  then show ?thesis by (simp add: set_status_def offline_at_def)
qed

context node_store
begin

lemma mark_offline_nodes:
  assumes "distinct (map node_id base)" and "set ns \<subseteq> set base"
    and "nodes s = map (offline_at D) base"
  shows "\<exists>E. E \<subseteq> {node_id n |n. n \<in> set ns \<and> stale cutoff n} \<and>
    nodes (mark_offline st cutoff ns s) = map (offline_at (D \<union> E)) base"
  using assms(2,3)
proof (induction ns arbitrary: s D)
  case Nil
  then show ?case by auto
next
  case (Cons n ns)
  let ?s1 = "if stale cutoff n
    then snd (UpdateNodeStatus st (node_id n) NodeOffline (node_last_seen n) s) else s"
  have "\<exists>F. F \<subseteq> {node_id n |n'. stale cutoff n} \<and> nodes ?s1 = map (offline_at (D \<union> F)) base"
  proof (cases "stale cutoff n")
    case True
    obtain r s1 where run: "UpdateNodeStatus st (node_id n) NodeOffline (node_last_seen n) s = (r, s1)"
      by fastforce
    show ?thesis
    proof (cases r)
      case (Inl e)
      with run status_error have "nodes s1 = nodes s" by blast
      with Cons.prems(2) run True show ?thesis by (intro exI [of _ "{}"]) simp
    next
      case (Inr u)
      have "nodes s1 = map (set_status (node_id n) NodeOffline (node_last_seen n)) (nodes s)"
        using status_ok [OF run [unfolded Inr]] .
      also have "\<dots> = map (offline_at (insert (node_id n) D)) base"
        unfolding Cons.prems(2) using Cons.prems(1) assms(1)
        by (simp add: set_status_offline [of n base] del: NodeOffline_def)
      finally show ?thesis using run True by (intro exI [of _ "{node_id n}"]) auto
    qed
  next
    case False
    with Cons.prems(2) show ?thesis by (intro exI [of _ "{}"]) simp
  qed
  then obtain F where F: "F \<subseteq> {node_id n |n'. stale cutoff n}"
    "nodes ?s1 = map (offline_at (D \<union> F)) base" by blast
  from Cons.IH [OF _ F(2)] Cons.prems(1) obtain E where
    E: "E \<subseteq> {node_id n |n. n \<in> set ns \<and> stale cutoff n}"
      "nodes (mark_offline st cutoff ns ?s1) = map (offline_at (D \<union> F \<union> E)) base" by auto
  have "F \<union> E \<subseteq> {node_id m |m. m \<in> set (n # ns) \<and> stale cutoff m}"
    using E(1) F(1) by auto
  moreover have "nodes (mark_offline st cutoff (n # ns) s) = map (offline_at (D \<union> (F \<union> E))) base"
    using E(2) by (simp add: Un_assoc)
  ultimately show ?case by blast
qed

lemma mark_offline_nodes_all:
  assumes "distinct (map node_id base)" and "set ns \<subseteq> set base"
    and "nodes s = map (offline_at D) base"
    and "\<And>k x t s. is_ok (fst (UpdateNodeStatus st k x t s))"
  shows "nodes (mark_offline st cutoff ns s)
    = map (offline_at (D \<union> {node_id n |n. n \<in> set ns \<and> stale cutoff n})) base"
  using assms(2,3)
proof (induction ns arbitrary: s D)
  case Nil
  then show ?case by simp
next
  case (Cons n ns)
  show ?case
  proof (cases "stale cutoff n")
    case True
    obtain u s1 where run:
      "UpdateNodeStatus st (node_id n) NodeOffline (node_last_seen n) s = (Inr u, s1)"
      using assms(4) [of "node_id n" NodeOffline "node_last_seen n" s]
      by (metis is_ok_iff prod.collapse)
    have "nodes s1 = map (set_status (node_id n) NodeOffline (node_last_seen n)) (nodes s)"
      by (rule status_ok [OF run])
    also have "\<dots> = map (offline_at (insert (node_id n) D)) base"
      unfolding Cons.prems(2) using Cons.prems(1) assms(1)
      by (simp add: set_status_offline [of n base] del: NodeOffline_def)
    finally have "nodes (mark_offline st cutoff ns s1) = map (offline_at
        (insert (node_id n) D \<union> {node_id n |n. n \<in> set ns \<and> stale cutoff n})) base"
      using Cons.prems(1) by (intro Cons.IH) simp_all
    moreover have "insert (node_id n) D \<union> {node_id n |n. n \<in> set ns \<and> stale cutoff n}
        = D \<union> {node_id m |m. m \<in> set (n # ns) \<and> stale cutoff m}"
      using True by auto
    ultimately show ?thesis using run True by simp
  next
    case False
    then have "{node_id m |m. m \<in> set (n # ns) \<and> stale cutoff m}
        = {node_id n |n. n \<in> set ns \<and> stale cutoff n}" by auto
    with False Cons show ?thesis by simp
  qed
qed

lemma offline_at_stale:
  assumes "distinct (map node_id base)" and "n \<in> set base"
  shows "offline_at {node_id m |m. m \<in> set base \<and> stale cutoff m} n = mark_stale cutoff n"
proof -
  have "node_id n \<in> {node_id m |m. m \<in> set base \<and> stale cutoff m} \<longleftrightarrow> stale cutoff n"
    using assms by (auto dest: distinct_map_unique)
  then show ?thesis by (simp add: offline_at_def mark_stale_def)
qed

lemma detect_offline:
  assumes ids: "distinct (map node_id (nodes s))"
    and run: "DetectOfflineNodes st now timeout s = (r, s')"
  shows "list_all2 (\<lambda>n n'. n' = n \<or> n' = mark_stale (wrap64 (now - timeout)) n) (nodes s) (nodes s')"
    and "(\<And>k x t s. is_ok (fst (UpdateNodeStatus st k x t s))) \<Longrightarrow> is_ok r \<Longrightarrow>
      nodes s' = map (mark_stale (wrap64 (now - timeout))) (nodes s)"
proof -
  let ?c = "wrap64 (now - timeout)"
  obtain q s1 where q: "ListNodes st s = (q, s1)" by fastforce
  have keep: "nodes s1 = nodes s" using q list_nodes_keeps by blast
  then have keep': "nodes s1 = map (offline_at {}) (nodes s)" by (simp add: map_idI)
  have listed: "set ns = set (nodes s)" if "q = Inr ns" for ns
    using list_nodes q that by (metis set_mset_mset)
  have run': "s' = (case q of Inl e \<Rightarrow> s1 | Inr ns \<Rightarrow> mark_offline st ?c ns s1)"
    "is_ok r = is_ok q"
    using run q by (auto simp: DetectOfflineNodes_def split: sum.splits)
  show "list_all2 (\<lambda>n n'. n' = n \<or> n' = mark_stale ?c n) (nodes s) (nodes s')"
  proof (cases q)
    case (Inl e)
    with run' keep show ?thesis by (simp add: list_all2_refl)
  next
    case (Inr ns)
    from mark_offline_nodes [OF ids _ keep', of ns ?c] listed [OF Inr] obtain E where
      E: "E \<subseteq> {node_id n |n. n \<in> set ns \<and> stale ?c n}"
        "nodes (mark_offline st ?c ns s1) = map (offline_at E) (nodes s)" by auto
    have "offline_at E n = n \<or> offline_at E n = mark_stale ?c n" if n: "n \<in> set (nodes s)" for n
    proof (cases "node_id n \<in> E")
      case True
      with E(1) listed [OF Inr] obtain m where "m \<in> set (nodes s)" "node_id m = node_id n" "stale ?c m"
        by auto
      with ids n have "stale ?c n" by (metis distinct_map_unique)
      with True show ?thesis by (simp add: offline_at_def mark_stale_def)
    next
      case False
      then show ?thesis by (simp add: offline_at_def)
    qed
    with E(2) run' Inr show ?thesis
      by (auto simp: list_all2_conv_all_nth)
  qed
  show "nodes s' = map (mark_stale ?c) (nodes s)"
    if total: "\<And>k x t s. is_ok (fst (UpdateNodeStatus st k x t s))" and "is_ok r"
  proof -
    from \<open>is_ok r\<close> run'(2) obtain ns where ns: "q = Inr ns" by (auto simp: is_ok_iff)
    have "nodes (mark_offline st ?c ns s1)
        = map (offline_at ({} \<union> {node_id n |n. n \<in> set ns \<and> stale ?c n})) (nodes s)"
      using listed [OF ns] by (intro mark_offline_nodes_all [OF ids _ keep' total]) simp
    with ns run'(1) listed [OF ns] offline_at_stale [OF ids, of _ ?c] show ?thesis by simp
  qed
qed

lemma online_nodes:
  assumes "GetOnlineNodes st s = (Inr ns, s')"
  shows "mset ns = mset (filter (\<lambda>n. node_status n = NodeOnline) (nodes s))"
    and "nodes s' = nodes s"
proof -
  obtain q s1 where q: "ListNodes st s = (q, s1)" by fastforce
  with assms obtain ms where "q = Inr ms" "ns = filter (\<lambda>n. node_status n = NodeOnline) ms" "s' = s1"
    by (auto simp: GetOnlineNodes_def split: sum.splits)
  with q list_nodes [of s ms s1] list_nodes_keeps
  show "mset ns = mset (filter (\<lambda>n. node_status n = NodeOnline) (nodes s))" and "nodes s' = nodes s"
    by auto
qed

end

end
