(* ===== verification/Join.thy ===== *)
theory Join
  imports Cluster
begin

text \<open>
  \<open>internal/cluster/join.go\<close>: one-time join tokens. The random source, the JSON and base64 encodings
  and the digest (\<open>base64(sha256(secret))\<close>) are fields of a \<open>join_env\<close>. Times of day are nanoseconds
  here, as in \<open>time.Time\<close>; the store holds milliseconds.
\<close>

record join_env =
  je_random :: "string + string"
  je_digest :: "string \<Rightarrow> string"
  je_marshal :: "join_token \<Rightarrow> string + string"
  je_unmarshal :: "string \<Rightarrow> string + join_token"
  je_encode :: "string \<Rightarrow> string"
  je_decode :: "string \<Rightarrow> string + string"
  je_error_text :: "store_error \<Rightarrow> string"

definition unix_milli :: "int64 \<Rightarrow> int64" where
  "unix_milli ns = ns div 1000000"

text \<open>\<open>now\<close> is the time of the call, \<open>stored\<close> the time \<open>StoreJoinToken\<close> reads.\<close>

definition GenerateJoinToken ::
    "join_env \<Rightarrow> 's store \<Rightarrow> int64 \<Rightarrow> int64 \<Rightarrow> string \<Rightarrow> int64 \<Rightarrow> 's \<Rightarrow> (string + string) \<times> 's" where
  "GenerateJoinToken je st now stored coordinatorAddr expiry s =
     (case je_random je of
        Inl e \<Rightarrow> (Inl (''generating secret: '' @ e), s)
      | Inr secret \<Rightarrow>
          (let token = \<lparr>jt_coordinator_addr = coordinatorAddr, jt_secret = secret,
                        jt_expires_at = now + expiry\<rparr>
           in case je_marshal je token of
                Inl e \<Rightarrow> (Inl (''marshalling token: '' @ e), s)
              | Inr tokenJSON \<Rightarrow>
                  (case StoreJoinToken st (je_digest je secret) (unix_milli (jt_expires_at token)) stored s of
                     (Inl e, s1) \<Rightarrow> (Inl (''storing token: '' @ je_error_text je e), s1)
                   | (Inr _, s1) \<Rightarrow> (Inr (je_encode je tokenJSON), s1))))"

definition DecodeJoinToken :: "join_env \<Rightarrow> string \<Rightarrow> string + join_token" where
  "DecodeJoinToken je tokenStr =
     (case je_decode je tokenStr of
        Inl e \<Rightarrow> Inl (''decoding token: '' @ e)
      | Inr tokenJSON \<Rightarrow>
          (case je_unmarshal je tokenJSON of
             Inl e \<Rightarrow> Inl (''parsing token: '' @ e)
           | Inr token \<Rightarrow> Inr token))"

definition ValidateJoinToken :: "join_env \<Rightarrow> 's store \<Rightarrow> int64 \<Rightarrow> string \<Rightarrow> ('s, bool) op" where
  "ValidateJoinToken je st now secret s = ValidateAndConsumeToken st (je_digest je secret) now s"

context token_store
begin

text \<open>A token is spent once it is known and no longer open; nothing opens it again.\<close>

definition spent :: "'s \<Rightarrow> string \<Rightarrow> bool" where
  "spent s h \<longleftrightarrow> known s h \<and> open_token s h = None"

lemma accepted_spends:
  assumes "valid s" and "ValidateAndConsumeToken st h now s = (Inr True, s')"
  shows "\<not> spent s h" and "spent s' h"
  using consume_ok [OF assms] open_known by (auto simp: spent_def)

lemma spent_rejected:
  assumes "valid s" and "spent s h" and "ValidateAndConsumeToken st h now s = (r, s')"
  shows "r \<noteq> Inr True"
  using accepted_spends(1) [OF assms(1), of h now s'] assms(2,3) by auto

lemma consume_keeps_spent:
  assumes "valid s" and "spent s h"
  shows "spent (snd (ValidateAndConsumeToken st k now s)) h"
proof -
  obtain r s' where run: "ValidateAndConsumeToken st k now s = (r, s')" by fastforce
  show ?thesis
  proof (cases r)
    case (Inl e)
    with run consume_error have "known s' = known s" "open_token s' = open_token s" by blast+
    with run assms(2) show ?thesis by (simp add: spent_def)
  next
    case (Inr b)
    with consume_ok [OF assms(1) run [unfolded Inr]] run assms(2) show ?thesis
      by (auto simp: spent_def)
  qed
qed

lemma store_keeps_spent:
  assumes "spent s h"
  shows "spent (snd (StoreJoinToken st k x now s)) h"
proof -
  obtain r s' where run: "StoreJoinToken st k x now s = (r, s')" by fastforce
  show ?thesis
  proof (cases r)
    case (Inl e)
    with run store_error have "known s' = known s" "open_token s' = open_token s" by blast+
    with run assms show ?thesis by (simp add: spent_def)
  next
    case (Inr u)
    with store_ok [OF run [unfolded Inr]] run assms show ?thesis by (auto simp: spent_def)
  qed
qed

text \<open>An expired token is refused and stays as it is.\<close>

lemma expired_rejected:
  assumes "valid s" and "open_token s h = Some x" and "x \<le> now"
    and "ValidateAndConsumeToken st h now s = (Inr b, s')"
  shows "\<not> b" and "open_token s' = open_token s"
  using consume_ok [OF assms(1,4)] assms(2,3) by auto

end

section \<open>On the SQLite store\<close>

abbreviation token_spent :: "db \<Rightarrow> string \<Rightarrow> bool" where
  "token_spent s h \<equiv> sqlite_tokens.spent s h"

lemma token_spent_tables: "db_tokens s = db_tokens t \<Longrightarrow> token_spent s h = token_spent t h"
  by (simp add: sqlite_tokens.spent_def token_known_def token_open_def)

lemma exec_keeps_tokens:
  assumes "\<And>t x t'. f t = Inr (x, t') \<Longrightarrow> db_tokens t' = db_tokens t"
  shows "db_tokens (snd (db_exec eng f s)) = db_tokens s"
  using assms [of "tick s"] by (auto simp: db_exec_def split: sum.splits)

lemma tick_tokens: "db_tokens (tick s) = db_tokens s"
  by simp

lemma other_statements_keep_tokens:
  "db_tokens (snd (sqlite_CreateNode eng n s)) = db_tokens s"
  "db_tokens (snd (sqlite_UpdateNode eng n s)) = db_tokens s"
  "db_tokens (snd (sqlite_UpdateNodeStatus eng k x ls s)) = db_tokens s"
  "db_tokens (snd (sqlite_DeleteNode eng k s)) = db_tokens s"
  "db_tokens (snd (sqlite_CreateMonitor eng m s)) = db_tokens s"
  "db_tokens (snd (sqlite_UpdateMonitor eng m s)) = db_tokens s"
  "db_tokens (snd (sqlite_DeleteMonitor eng k s)) = db_tokens s"
  "db_tokens (snd (sqlite_InsertCheckResult eng r s)) = db_tokens s"
  "db_tokens (snd (sqlite_CreateIncident eng i s)) = db_tokens s"
  "db_tokens (snd (sqlite_UpdateIncident eng i s)) = db_tokens s"
  "db_tokens (snd (sqlite_CreateAlertChannel eng c s)) = db_tokens s"
  "db_tokens (snd (sqlite_UpdateAlertChannel eng c s)) = db_tokens s"
  "db_tokens (snd (sqlite_DeleteAlertChannel eng k s)) = db_tokens s"
  "db_tokens (snd (sqlite_InsertAlertRecord eng a s)) = db_tokens s"
  unfolding node_statement_defs monitor_statement_defs result_statement_defs
    incident_statement_defs alert_statement_defs
  by (rule exec_keeps_tokens; auto split: option.splits if_splits)+

lemma sql_step_keeps_spent:
  assumes "sql_step eng s t" and "db_ok s" and "token_spent s h"
  shows "token_spent t h"
  using assms
proof (induction rule: sql_step.induct)
  case (store_token s k x now)
  then show ?case using sqlite_tokens.store_keeps_spent [of s h eng k x now] by simp
next
  case (consume_token s k now)
  then show ?case using sqlite_tokens.consume_keeps_spent [of s h eng k now] by simp
qed (blast intro: token_spent_tables [THEN iffD2] other_statements_keep_tokens tick_tokens)+

lemma sql_run_keeps_spent:
  "sql_run eng s t \<Longrightarrow> db_ok s \<Longrightarrow> token_spent s h \<Longrightarrow> token_spent t h"
  by (induction rule: sql_run.induct) (auto intro: sql_step_keeps_spent sql_run_ok)

text \<open>
  A node joins with a token: the database runs whatever statements between two attempts on one
  secret, and at most one attempt is accepted.
\<close>

lemma accepted_then_refused:
  assumes ok: "db_ok s"
    and first: "ValidateJoinToken je (sqlite_store eng) now secret s = (Inr True, s1)"
    and between: "sql_run eng s1 s2"
    and again: "ValidateJoinToken je (sqlite_store eng) later secret s2 = (r, s3)"
  shows "r \<noteq> Inr True"
proof -
  let ?h = "je_digest je secret"
  have ok1: "db_ok s1"
    using ValidateAndConsumeToken_ok [OF ok, of eng ?h now] first by (simp add: ValidateJoinToken_def)
  have "token_spent s1 ?h"
    using sqlite_tokens.accepted_spends(2) [OF ok first [unfolded ValidateJoinToken_def]] .
  with between ok1 have "token_spent s2 ?h" and "db_ok s2"
    by (auto intro: sql_run_keeps_spent sql_run_ok)
  then show ?thesis
    using sqlite_tokens.spent_rejected [OF _ _ again [unfolded ValidateJoinToken_def]] by blast
qed

end
