(* ===== verification/Agent.thy ===== *)
theory Agent
  imports Join "HOL-Library.Sublist"
begin

text \<open>
  \<open>internal/agent/agent.go\<close>: the coordinator's consensus tick, the heartbeat and the configuration sync.

  The loops of \<open>Run\<close> are goroutines that call these operations every 15 or 30 seconds; theory \<open>Agent_Run\<close>
  interleaves them. The clock and the UUID generator are read during a tick: \<open>tick_inputs\<close> holds
  what one monitor's evaluation reads, and a tick gets one such record per monitor.
\<close>

section \<open>The consensus tick\<close>

record tick_inputs =
  ti_uuid :: string
  ti_created :: int64
  ti_written :: int64

text \<open>\<open>append\<close> to a slice that may be nil.\<close>

definition append_id :: "string list option \<Rightarrow> string \<Rightarrow> string list option" where
  "append_id ids x = Some (case ids of None \<Rightarrow> [x] | Some xs \<Rightarrow> xs @ [x])"

definition id_list :: "string list option \<Rightarrow> string list" where
  "id_list ids = (case ids of None \<Rightarrow> [] | Some xs \<Rightarrow> xs)"

lemma id_list_simps [simp]:
  "id_list None = []" "id_list (Some xs) = xs" "id_list (append_id ids x) = id_list ids @ [x]"
  by (simp_all add: id_list_def append_id_def split: option.splits)

text \<open>The two counting loops; a node whose counter cannot be read is skipped.\<close>

fun count_failing ::
    "'s store \<Rightarrow> monitor \<Rightarrow> node list \<Rightarrow> int64 \<Rightarrow> string list option \<Rightarrow> 's
     \<Rightarrow> (int64 \<times> string list option) \<times> 's" where
  "count_failing st mon [] failCount ids s = ((failCount, ids), s)"
| "count_failing st mon (n # ns) failCount ids s =
     (case CountConsecutiveFailures st (mon_id mon) (node_id n) s of
        (Inl e, s1) \<Rightarrow> count_failing st mon ns failCount ids s1
      | (Inr failures, s1) \<Rightarrow>
          (if failures \<ge> mon_failure_threshold mon
           then count_failing st mon ns (failCount + 1) (append_id ids (node_id n)) s1
           else count_failing st mon ns failCount ids s1))"

fun count_recovered :: "'s store \<Rightarrow> monitor \<Rightarrow> node list \<Rightarrow> int64 \<Rightarrow> 's \<Rightarrow> int64 \<times> 's" where
  "count_recovered st mon [] recoveryCount s = (recoveryCount, s)"
| "count_recovered st mon (n # ns) recoveryCount s =
     (case CountConsecutiveSuccesses st (mon_id mon) (node_id n) s of
        (Inl e, s1) \<Rightarrow> count_recovered st mon ns recoveryCount s1
      | (Inr successes, s1) \<Rightarrow>
          (if successes \<ge> mon_recovery_threshold mon
           then count_recovered st mon ns (recoveryCount + 1) s1
           else count_recovered st mon ns recoveryCount s1))"

text \<open>The result is the list of alert goroutines started, and the store.\<close>

definition evaluateMonitorConsensus ::
    "'s store \<Rightarrow> tick_inputs \<Rightarrow> monitor \<Rightarrow> node list \<Rightarrow> int64 \<Rightarrow> 's \<Rightarrow> alert_task list \<times> 's" where
  "evaluateMonitorConsensus st inp mon onlineNodes totalNodes s =
     (case count_failing st mon onlineNodes 0 None s of ((failCount, failingNodeIDs), s1) \<Rightarrow>
        if EvaluateQuorum (mon_quorum_type mon) (mon_quorum_n mon) failCount totalNodes then
          (case GetOrCreateIncident st (ti_uuid inp) (ti_created inp) (mon_id mon) s1 of
             (Inl e, s2) \<Rightarrow> ([], s2)
           | (Inr inc, s2) \<Rightarrow>
               if inc_status inc = IncidentSuspect then
                 (case ConfirmIncident st inc failingNodeIDs (ti_written inp) s2 of
                    (inc', Inl e, s3) \<Rightarrow> ([], s3)
                  | (inc', Inr _, s3) \<Rightarrow> SendAlert st inc' mon s3)
               else ([], s2))
        else
          (case GetActiveIncident st (mon_id mon) s1 of
             (Inl e, s2) \<Rightarrow> ([], s2)
           | (Inr None, s2) \<Rightarrow> ([], s2)
           | (Inr (Some inc), s2) \<Rightarrow>
               (case count_recovered st mon onlineNodes 0 s2 of (recoveryCount, s3) \<Rightarrow>
                  if EvaluateQuorum (mon_quorum_type mon) (mon_quorum_n mon) recoveryCount totalNodes then
                    (case ResolveIncident st inc (ti_written inp) s3 of
                       (inc', Inl e, s4) \<Rightarrow> ([], s4)
                     | (inc', Inr _, s4) \<Rightarrow> SendRecovery st inc' mon s4)
                  else ([], s3))))"

fun evaluate_monitors ::
    "'s store \<Rightarrow> (nat \<Rightarrow> tick_inputs) \<Rightarrow> nat \<Rightarrow> node list \<Rightarrow> int64 \<Rightarrow> monitor list \<Rightarrow> 's
     \<Rightarrow> alert_task list \<times> 's" where
  "evaluate_monitors st inp k onlineNodes totalNodes [] s = ([], s)"
| "evaluate_monitors st inp k onlineNodes totalNodes (m # ms) s =
     (case evaluateMonitorConsensus st (inp k) m onlineNodes totalNodes s of (ts, s1) \<Rightarrow>
        case evaluate_monitors st inp (Suc k) onlineNodes totalNodes ms s1 of (us, s2) \<Rightarrow> (ts @ us, s2))"

definition evaluateConsensus ::
    "'s store \<Rightarrow> (nat \<Rightarrow> tick_inputs) \<Rightarrow> 's \<Rightarrow> alert_task list \<times> 's" where
  "evaluateConsensus st inp s =
     (case ListEnabledMonitors st s of
        (Inl e, s1) \<Rightarrow> ([], s1)
      | (Inr monitors, s1) \<Rightarrow>
          (case GetOnlineNodes st s1 of
             (Inl e, s2) \<Rightarrow> ([], s2)
           | (Inr onlineNodes, s2) \<Rightarrow>
               (let totalNodes = int (length onlineNodes)
                in if totalNodes = 0 then ([], s2)
                   else evaluate_monitors st inp 0 onlineNodes totalNodes monitors s2)))"

section \<open>The counting loops\<close>

text \<open>
  \<open>failing F mon ns\<close> are the nodes whose counter (by the table \<open>F\<close>) has reached the threshold. A loop
  counts a part of them: those whose query succeeds.
\<close>

definition failing :: "(string \<Rightarrow> string \<Rightarrow> int64) \<Rightarrow> monitor \<Rightarrow> node list \<Rightarrow> node list" where
  "failing F mon ns = filter (\<lambda>n. F (mon_id mon) (node_id n) \<ge> mon_failure_threshold mon) ns"

definition recovered :: "(string \<Rightarrow> string \<Rightarrow> int64) \<Rightarrow> monitor \<Rightarrow> node list \<Rightarrow> node list" where
  "recovered S mon ns = filter (\<lambda>n. S (mon_id mon) (node_id n) \<ge> mon_recovery_threshold mon) ns"

definition outage_quorum ::
    "(string \<Rightarrow> string \<Rightarrow> int64) \<Rightarrow> monitor \<Rightarrow> node list \<Rightarrow> int64 \<Rightarrow> bool" where
  "outage_quorum F mon ns nodes = EvaluateQuorum (mon_quorum_type mon) (mon_quorum_n mon)
     (int (length (failing F mon ns))) nodes"

definition recovery_quorum ::
    "(string \<Rightarrow> string \<Rightarrow> int64) \<Rightarrow> monitor \<Rightarrow> node list \<Rightarrow> int64 \<Rightarrow> bool" where
  "recovery_quorum S mon ns nodes = EvaluateQuorum (mon_quorum_type mon) (mon_quorum_n mon)
     (int (length (recovered S mon ns))) nodes"

lemma count_failing_evolves:
  assumes "preorder_on_states R" and "\<And>n. evolves R (CountConsecutiveFailures st (mon_id mon) n)"
    and "count_failing st mon ns c ids s = (r, s')"
  shows "R s s'"
  using assms(3)
proof (induction ns arbitrary: c ids s)
  case (Cons n ns)
  obtain q s1 where q: "CountConsecutiveFailures st (mon_id mon) (node_id n) s = (q, s1)" by fastforce
  then have "R s s1" using assms(2) by (rule evolvesD [rotated])
  moreover have "R s1 s'"
    using Cons.prems q Cons.IH by (auto split: sum.splits if_splits)
  ultimately show ?case using preorderD(2) [OF assms(1)] by blast
qed (simp add: preorderD(1) [OF assms(1)])

lemma count_recovered_evolves:
  assumes "preorder_on_states R" and "\<And>n. evolves R (CountConsecutiveSuccesses st (mon_id mon) n)"
    and "count_recovered st mon ns c s = (r, s')"
  shows "R s s'"
  using assms(3)
proof (induction ns arbitrary: c s)
  case (Cons n ns)
  obtain q s1 where q: "CountConsecutiveSuccesses st (mon_id mon) (node_id n) s = (q, s1)" by fastforce
  then have "R s s1" using assms(2) by (rule evolvesD [rotated])
  moreover have "R s1 s'"
    using Cons.prems q Cons.IH by (auto split: sum.splits if_splits)
  ultimately show ?case using preorderD(2) [OF assms(1)] by blast
qed (simp add: preorderD(1) [OF assms(1)])

lemma count_failing_keeps:
  assumes "\<And>n. preserves f (CountConsecutiveFailures st (mon_id mon) n)"
    and "count_failing st mon ns c ids s = (r, s')"
  shows "f s' = f s"
  by (rule count_failing_evolves [OF preorders(1) _ assms(2)]) (use assms(1) in \<open>simp add: preserves_evolves\<close>)

lemma count_recovered_keeps:
  assumes "\<And>n. preserves f (CountConsecutiveSuccesses st (mon_id mon) n)"
    and "count_recovered st mon ns c s = (r, s')"
  shows "f s' = f s"
  by (rule count_recovered_evolves [OF preorders(1) _ assms(2)]) (use assms(1) in \<open>simp add: preserves_evolves\<close>)

context counter_store
begin

lemma count_failing_part:
  assumes "count_failing st mon ns c ids s = ((c', ids'), s')"
  shows "\<exists>fs. subseq fs (failing (failures s) mon ns) \<and> c' = c + int (length fs) \<and>
    id_list ids' = id_list ids @ map node_id fs"
  using assms
proof (induction ns arbitrary: c ids s)
  case Nil
  then show ?case by (simp add: failing_def)
next
  case (Cons n ns)
  obtain q s1 where q: "CountConsecutiveFailures st (mon_id mon) (node_id n) s = (q, s1)" by fastforce
  have keep: "failures s1 = failures s" using q counters_keep(1) by blast
  show ?case
  proof (cases "\<exists>v. q = Inr v \<and> v \<ge> mon_failure_threshold mon")
    case True
    then obtain v where v: "q = Inr v" "v \<ge> mon_failure_threshold mon" by blast
    with Cons.prems q have "count_failing st mon ns (c + 1) (append_id ids (node_id n)) s1 = ((c', ids'), s')"
      by simp
    from Cons.IH [OF this] obtain fs where "subseq fs (failing (failures s) mon ns)"
      "c' = c + 1 + int (length fs)" "id_list ids' = id_list ids @ [node_id n] @ map node_id fs"
      by (auto simp: keep)
    with v count_failures q show ?thesis
      by (intro exI [of _ "n # fs"]) (auto simp: failing_def)
  next
    case False
    with Cons.prems q have "count_failing st mon ns c ids s1 = ((c', ids'), s')"
      by (auto split: sum.splits)
    from Cons.IH [OF this] show ?thesis by (auto simp: failing_def keep)
  qed
qed

lemma count_failing_all:
  assumes "count_failing st mon ns c ids s = ((c', ids'), s')"
    and ok: "\<And>m n s. is_ok (fst (CountConsecutiveFailures st m n s))"
  shows "c' = c + int (length (failing (failures s) mon ns)) \<and>
    id_list ids' = id_list ids @ map node_id (failing (failures s) mon ns)"
  using assms(1)
proof (induction ns arbitrary: c ids s)
  case (Cons n ns)
  obtain v s1 where v: "CountConsecutiveFailures st (mon_id mon) (node_id n) s = (Inr v, s1)"
    using ok by (metis is_ok_iff prod.collapse)
  have keep: "failures s1 = failures s" using v counters_keep(1) by blast
  from Cons.prems v have "count_failing st mon ns
      (if v \<ge> mon_failure_threshold mon then c + 1 else c)
      (if v \<ge> mon_failure_threshold mon then append_id ids (node_id n) else ids) s1 = ((c', ids'), s')"
    by (simp split: if_splits)
  from Cons.IH [OF this] count_failures [OF v] show ?case
    by (auto simp: failing_def keep)
qed (simp add: failing_def)

lemma count_recovered_part:
  assumes "count_recovered st mon ns c s = (c', s')"
  shows "c' \<le> c + int (length (recovered (successes s) mon ns))"
  using assms
proof (induction ns arbitrary: c s)
  case (Cons n ns)
  obtain q s1 where q: "CountConsecutiveSuccesses st (mon_id mon) (node_id n) s = (q, s1)" by fastforce
  have keep: "successes s1 = successes s" using q counters_keep(4) by blast
  show ?case
  proof (cases q)
    case (Inl e)
    with Cons.prems q have "count_recovered st mon ns c s1 = (c', s')" by simp
    from Cons.IH [OF this] show ?thesis by (simp add: recovered_def keep)
  next
    case (Inr v)
    with Cons.prems q have "count_recovered st mon ns
        (if v \<ge> mon_recovery_threshold mon then c + 1 else c) s1 = (c', s')"
      by (simp split: if_splits)
    from Cons.IH [OF this] count_successes [OF q [unfolded Inr]] show ?thesis
      by (simp add: recovered_def keep split: if_splits)
  qed
qed (simp add: recovered_def)

lemma count_recovered_all:
  assumes "count_recovered st mon ns c s = (c', s')"
    and ok: "\<And>m n s. is_ok (fst (CountConsecutiveSuccesses st m n s))"
  shows "c' = c + int (length (recovered (successes s) mon ns))"
  using assms(1)
proof (induction ns arbitrary: c s)
  case (Cons n ns)
  obtain v s1 where v: "CountConsecutiveSuccesses st (mon_id mon) (node_id n) s = (Inr v, s1)"
    using ok by (metis is_ok_iff prod.collapse)
  have keep: "successes s1 = successes s" using v counters_keep(4) by blast
  from Cons.prems v have "count_recovered st mon ns
      (if v \<ge> mon_recovery_threshold mon then c + 1 else c) s1 = (c', s')"
    by (simp split: if_splits)
  from Cons.IH [OF this] count_successes [OF v] show ?case
    by (simp add: recovered_def keep split: if_splits)
qed (simp add: recovered_def)

text \<open>The counted part cannot pass a quorum that the whole does not pass.\<close>

lemma counted_outage:
  assumes "count_failing st mon ns 0 None s = ((c, ids), s')"
    and "EvaluateQuorum (mon_quorum_type mon) (mon_quorum_n mon) c nodes"
  shows "outage_quorum (failures s) mon ns nodes"
proof -
  from count_failing_part [OF assms(1)] obtain fs where
    "subseq fs (failing (failures s) mon ns)" "c = int (length fs)" by auto
  then have "c \<le> int (length (failing (failures s) mon ns))"
    by (simp add: list_emb_length)
  with assms(2) show ?thesis unfolding outage_quorum_def by (rule majority_mono)
qed

lemma counted_recovery:
  assumes "count_recovered st mon ns 0 s = (c, s')"
    and "EvaluateQuorum (mon_quorum_type mon) (mon_quorum_n mon) c nodes"
  shows "recovery_quorum (successes s) mon ns nodes"
  using majority_mono [OF assms(2)] count_recovered_part [OF assms(1)]
  by (simp add: recovery_quorum_def)

end

end
