(* ===== verification/Agent_Tick.thy ===== *)
theory Agent_Tick
  imports Agent
begin

text \<open>
  What one consensus tick does, over any store that keeps the contracts: every branch of
  \<open>evaluateMonitorConsensus\<close> (\<open>evaluate_cases\<close>), and from it the safety of the incident list and the
  justification of every notification.
\<close>

section \<open>Branches of one evaluation\<close>

text \<open>The incident list after \<open>GetOrCreateIncident\<close>: as it was, or with a new incident.\<close>

definition opened_by :: "tick_inputs \<Rightarrow> monitor \<Rightarrow> incident list \<Rightarrow> incident list \<Rightarrow> bool" where
  "opened_by inp mon is js \<longleftrightarrow> js = is \<or>
     (js = is @ [new_incident (ti_uuid inp) (ti_created inp) (mon_id mon)] \<and>
      ti_uuid inp \<notin> inc_id ` set is \<and> (\<forall>i \<in> set is. \<not> active_for (mon_id mon) i))"

lemma opened_by_refl [simp]: "opened_by inp mon is is"
  by (simp add: opened_by_def)

lemma opened_by_ok: "opened_by inp mon is js \<Longrightarrow> incidents_ok is \<Longrightarrow> incidents_ok js"
  by (auto simp: opened_by_def intro: add_incident_ok)

lemma opened_by_progressed: "opened_by inp mon is js \<Longrightarrow> progressed is js"
  by (auto simp: opened_by_def)

context ticking_store
begin

lemma get_or_create_opened:
  assumes "GetOrCreateIncident st (ti_uuid inp) (ti_created inp) (mon_id mon) s = (r, s')"
  shows "opened_by inp mon (incidents s) (incidents s')"
    and "r = Inr i \<Longrightarrow> i \<in> set (incidents s') \<and> active_for (mon_id mon) i"
  using assms by (cases rule: get_or_create_cases; auto simp: opened_by_def new_incident_active)+

lemma dispatch_keeps_incidents:
  "dispatch st inc mon ev s = (ts, s') \<Longrightarrow> incidents s' = incidents s"
  using lists_keep_incidents(1) by (auto simp: dispatch_def split: sum.splits prod.splits)

lemma update_and_dispatch:
  assumes "UpdateIncident st i s = (Inr u, s1)" and "dispatch st i mon ev s1 = (ts, s')"
  shows "incidents s' = map (set_incident i) (incidents s)"
  using update_ok [OF assms(1)] dispatch_keeps_incidents [OF assms(2)] by simp

text \<open>The run of each branch, statement by statement.\<close>

lemma evaluate_outage:
  assumes run: "evaluateMonitorConsensus st inp mon online nodes s = (ts, s')"
    and count: "count_failing st mon online 0 None s = ((c, ids), s1)"
    and quorum: "EvaluateQuorum (mon_quorum_type mon) (mon_quorum_n mon) c nodes"
  obtains (idle) "ts = []" "opened_by inp mon (incidents s1) (incidents s')"
  | (alerted) i s2 u s3 where
      "GetOrCreateIncident st (ti_uuid inp) (ti_created inp) (mon_id mon) s1 = (Inr i, s2)"
      "inc_status i = ''suspect''"
      "UpdateIncident st (confirmed_incident i ids (ti_written inp)) s2 = (Inr u, s3)"
      "dispatch st (confirmed_incident i ids (ti_written inp)) mon ''alert'' s3 = (ts, s')"
proof -
  obtain g s2 where g: "GetOrCreateIncident st (ti_uuid inp) (ti_created inp) (mon_id mon) s1 = (g, s2)"
    by fastforce
  note opn = get_or_create_opened [OF g]
  show ?thesis
  proof (cases "\<exists>i. g = Inr i \<and> inc_status i = ''suspect''")
    case False
    with run count quorum g have "ts = []" and "s' = s2"
      by (auto simp: evaluateMonitorConsensus_def split: sum.splits)
    with opn idle show ?thesis by blast
  next
    case True
    then obtain i where i: "g = Inr i" "inc_status i = ''suspect''" by blast
    obtain u s3 where u: "UpdateIncident st (confirmed_incident i ids (ti_written inp)) s2 = (u, s3)"
      by fastforce
    show ?thesis
    proof (cases u)
      case (Inl e)
      with u update_error have "incidents s3 = incidents s2" by blast
      moreover from Inl run count quorum g i u have "ts = []" and "s' = s3"
        by (auto simp: evaluateMonitorConsensus_def ConfirmIncident_def)
      ultimately show ?thesis using opn(1) idle by simp
    next
      case (Inr x)
      with run count quorum g i u
      have "dispatch st (confirmed_incident i ids (ti_written inp)) mon ''alert'' s3 = (ts, s')"
        by (auto simp: evaluateMonitorConsensus_def ConfirmIncident_def SendAlert_def)
      with alerted g i u Inr show ?thesis by blast
    qed
  qed
qed

lemma evaluate_no_outage:
  assumes run: "evaluateMonitorConsensus st inp mon online nodes s = (ts, s')"
    and count: "count_failing st mon online 0 None s = ((c, ids), s1)"
    and quorum: "\<not> EvaluateQuorum (mon_quorum_type mon) (mon_quorum_n mon) c nodes"
  obtains (idle) "ts = []" "incidents s' = incidents s1"
  | (recovered) i s2 k s3 u s4 where
      "GetActiveIncident st (mon_id mon) s1 = (Inr (Some i), s2)"
      "count_recovered st mon online 0 s2 = (k, s3)" "incidents s3 = incidents s1"
      "EvaluateQuorum (mon_quorum_type mon) (mon_quorum_n mon) k nodes"
      "UpdateIncident st (resolved_incident i (ti_written inp)) s3 = (Inr u, s4)"
      "dispatch st (resolved_incident i (ti_written inp)) mon ''recovery'' s4 = (ts, s')"
proof -
  obtain g s2 where g: "GetActiveIncident st (mon_id mon) s1 = (g, s2)" by fastforce
  have keep2: "incidents s2 = incidents s1" using g active_keeps by blast
  show ?thesis
  proof (cases "\<exists>i. g = Inr (Some i)")
    case False
    with run count quorum g have "ts = []" and "s' = s2"
      by (auto simp: evaluateMonitorConsensus_def split: sum.splits option.splits)
    with keep2 idle show ?thesis by simp
  next
    case True
    then obtain i where i: "g = Inr (Some i)" by blast
    obtain k s3 where k: "count_recovered st mon online 0 s2 = (k, s3)" by fastforce
    have keep3: "incidents s3 = incidents s1"
      using count_recovered_keeps [OF _ k] counting_keeps_incidents(2) keep2 by metis
    show ?thesis
    proof (cases "EvaluateQuorum (mon_quorum_type mon) (mon_quorum_n mon) k nodes")
      case False
      with run count quorum g i k have "ts = []" and "s' = s3"
        by (auto simp: evaluateMonitorConsensus_def)
      with keep3 idle show ?thesis by simp
    next
      case True
      obtain u s4 where u: "UpdateIncident st (resolved_incident i (ti_written inp)) s3 = (u, s4)"
        by fastforce
      show ?thesis
      proof (cases u)
        case (Inl e)
        with u update_error have "incidents s4 = incidents s3" by blast
        moreover from Inl run count quorum g i k True u have "ts = []" and "s' = s4"
          by (auto simp: evaluateMonitorConsensus_def ResolveIncident_def)
        ultimately show ?thesis using keep3 idle by simp
      next
        case (Inr x)
        with run count quorum g i k True u
        have "dispatch st (resolved_incident i (ti_written inp)) mon ''recovery'' s4 = (ts, s')"
          by (auto simp: evaluateMonitorConsensus_def ResolveIncident_def SendRecovery_def)
        with recovered g i k keep3 True u Inr show ?thesis by blast
      qed
    qed
  qed
qed

lemma confirmed_list:
  assumes "opened_by inp mon is js" and "incidents_ok is" and "i \<in> set js" and "active_incident i"
  shows "incidents_ok (map (set_incident (confirmed_incident i ids now)) js)"
    and "progressed is (map (set_incident (confirmed_incident i ids now)) js)"
proof -
  have js: "incidents_ok js" "progressed is js"
    using assms by (blast intro: opened_by_ok opened_by_progressed)+
  with assms(3,4) have le: "inc_phase i \<le> inc_phase (confirmed_incident i ids now)"
    by (intro confirm_forward) (auto simp: incidents_ok_def)
  show "incidents_ok (map (set_incident (confirmed_incident i ids now)) js)"
    using forward_update_ok [OF js(1) assms(3) _ _ le] by simp
  show "progressed is (map (set_incident (confirmed_incident i ids now)) js)"
    using forward_update_progressed [OF js(1) assms(3) _ le] js(2) by (auto intro: progressed_trans)
qed

lemma evaluate_safe:
  assumes run: "evaluateMonitorConsensus st inp mon online nodes s = (ts, s')"
    and ok: "incidents_ok (incidents s)"
  shows "incidents_ok (incidents s')" and "progressed (incidents s) (incidents s')"
proof -
  obtain c ids s1 where count: "count_failing st mon online 0 None s = ((c, ids), s1)"
    by (metis surj_pair)
  have keep: "incidents s1 = incidents s"
    using count_failing_keeps [OF _ count] counting_keeps_incidents(1) by metis
  have "incidents_ok (incidents s') \<and> progressed (incidents s) (incidents s')"
  proof (cases "EvaluateQuorum (mon_quorum_type mon) (mon_quorum_n mon) c nodes")
    case True
    from run count True show ?thesis
    proof (cases rule: evaluate_outage)
      case idle
      with ok keep show ?thesis by (metis opened_by_ok opened_by_progressed)
    next
      case (alerted i s2 u s3)
      have "incidents s' = map (set_incident (confirmed_incident i ids (ti_written inp))) (incidents s2)"
        using update_and_dispatch [OF alerted(3) alerted(4)] by simp
      with confirmed_list [OF get_or_create_opened(1) [OF alerted(1), unfolded keep] ok]
        get_or_create_opened(2) [OF alerted(1)]
      show ?thesis by (simp add: active_for_def)
    qed
  next
    case False
    from run count False show ?thesis
    proof (cases rule: evaluate_no_outage)
      case idle
      with ok keep show ?thesis by simp
    next
      case (recovered i s2 k s3 u s4)
      have inc: "incidents s' = map (set_incident (resolved_incident i (ti_written inp))) (incidents s)"
        using update_and_dispatch [OF recovered(5) recovered(6)] recovered(3) keep
        by simp
      have "i \<in> set (incidents s)" using active_some [OF recovered(1)] keep by simp
      with inc forward_update_ok [OF ok] forward_update_progressed [OF ok] show ?thesis by simp
    qed
  qed
  then show "incidents_ok (incidents s')" and "progressed (incidents s) (incidents s')" by blast+
qed

lemma evaluate_monitors_safe:
  assumes "evaluate_monitors st inp k online nodes ms s = (ts, s')" and "incidents_ok (incidents s)"
  shows "incidents_ok (incidents s') \<and> progressed (incidents s) (incidents s')"
  using assms
proof (induction ms arbitrary: k s ts)
  case (Cons m ms)
  obtain us s1 where one: "evaluateMonitorConsensus st (inp k) m online nodes s = (us, s1)" by fastforce
  obtain vs s2 where rest: "evaluate_monitors st inp (Suc k) online nodes ms s1 = (vs, s2)" by fastforce
  with Cons.prems(1) one have "s' = s2" by simp
  with rest Cons.IH [of "Suc k" s1] evaluate_safe [OF one Cons.prems(2)] show ?case
    by (auto intro: progressed_trans)
qed simp

lemma evaluateConsensus_safe:
  assumes run: "evaluateConsensus st inp s = (ts, s')" and ok: "incidents_ok (incidents s)"
  shows "incidents_ok (incidents s')" and "progressed (incidents s) (incidents s')"
proof -
  obtain q s1 where q: "ListEnabledMonitors st s = (q, s1)" by fastforce
  obtain o1 s2 where o1: "GetOnlineNodes st s1 = (o1, s2)" by fastforce
  then have "s2 = snd (ListNodes st s1)"
    by (auto simp: GetOnlineNodes_def split: sum.splits prod.splits)
  with q lists_keep_incidents have keep: "incidents s1 = incidents s" "incidents s2 = incidents s"
    by (metis preservesD, metis preservesD preserves_snd)
  have "incidents_ok (incidents s') \<and> progressed (incidents s) (incidents s')"
  proof (cases "s' = s1 \<or> s' = s2")
    case True
    with keep ok show ?thesis by auto
  next
    case False
    with run q o1 obtain ms online where "evaluate_monitors st inp 0 online (int (length online)) ms s2 = (ts, s')"
      by (auto simp: evaluateConsensus_def Let_def split: sum.splits if_splits)
    from evaluate_monitors_safe [OF this] keep ok show ?thesis by simp
  qed
  then show "incidents_ok (incidents s')" and "progressed (incidents s) (incidents s')" by blast+
qed

end

context alerting_store
begin

lemma get_or_create_keeps:
  assumes "GetOrCreateIncident st uuid now m s = (r, s')"
  shows "channels s' = channels s"
  using assms incidents_keep_channels(3,4)
  by (fastforce simp: GetOrCreateIncident_def Let_def split: sum.splits option.splits prod.splits)

lemma count_failing_frame:
  assumes "count_failing st mon online 0 None s = (r, s')"
  shows "incidents s' = incidents s" and "channels s' = channels s" and "successes s' = successes s"
  using count_failing_keeps [OF _ assms] counting_keeps_incidents(1) incidents_keep_channels(1)
    counters_keep(2) by metis+

lemma evaluate_cases:
  assumes run: "evaluateMonitorConsensus st inp mon online nodes s = (ts, s')"
  obtains (idle) "ts = []" "opened_by inp mon (incidents s) (incidents s')"
      "incidents s' \<noteq> incidents s \<Longrightarrow> outage_quorum (failures s) mon online nodes"
  | (alerted) i js ids s1 where "outage_quorum (failures s) mon online nodes"
      "opened_by inp mon (incidents s) js" "i \<in> set js" "active_for (mon_id mon) i"
      "inc_status i = ''suspect''"
      "incidents s' = map (set_incident (confirmed_incident i ids (ti_written inp))) js"
      "subseq (id_list ids) (map node_id (failing (failures s) mon online))"
      "dispatch st (confirmed_incident i ids (ti_written inp)) mon ''alert'' s1 = (ts, s')"
      "channels s1 = channels s"
  | (recovered) i s1 where "recovery_quorum (successes s) mon online nodes"
      "i \<in> set (incidents s)" "active_for (mon_id mon) i"
      "incidents s' = map (set_incident (resolved_incident i (ti_written inp))) (incidents s)"
      "dispatch st (resolved_incident i (ti_written inp)) mon ''recovery'' s1 = (ts, s')"
      "channels s1 = channels s"
proof -
  obtain c ids s1 where count: "count_failing st mon online 0 None s = ((c, ids), s1)"
    by (metis surj_pair)
  note keep = count_failing_frame [OF count]
  from count_failing_part [OF count] have sub: "subseq (id_list ids) (map node_id (failing (failures s) mon online))"
    by (auto intro: subseq_map)
  show ?thesis
  proof (cases "EvaluateQuorum (mon_quorum_type mon) (mon_quorum_n mon) c nodes")
    case True
    note oq = counted_outage [OF count True]
    from run count True show ?thesis
    proof (cases rule: evaluate_outage)
      case idle
      with that(1) oq keep show ?thesis by simp
    next
      case (alerted i s2 u s3)
      have "channels s3 = channels s"
        using get_or_create_keeps [OF alerted(1)] incidents_keep_channels(5) alerted(3) keep by (metis preservesD)
      moreover have "incidents s' = map (set_incident (confirmed_incident i ids (ti_written inp))) (incidents s2)"
        using update_and_dispatch [OF alerted(3) alerted(4)] by simp
      ultimately show ?thesis
        using that(2) oq get_or_create_opened [OF alerted(1)] alerted(2,4) sub keep by metis
    qed
  next
    case False
    from run count False show ?thesis
    proof (cases rule: evaluate_no_outage)
      case idle
      with that(1) keep show ?thesis by simp
    next
      case (recovered i s2 k s3 u s4)
      have "successes s2 = successes s1" and "channels s2 = channels s1"
        using incidents_keep_counters(2) incidents_keep_channels(3) recovered(1) by blast+
      moreover have "channels s3 = channels s2"
        using count_recovered_keeps [OF _ recovered(2)] incidents_keep_channels(2) by metis
      moreover have "channels s4 = channels s3" using incidents_keep_channels(5) recovered(5) by blast
      moreover have "incidents s' = map (set_incident (resolved_incident i (ti_written inp))) (incidents s)"
        using update_and_dispatch [OF recovered(5) recovered(6)] recovered(3) keep by simp
      ultimately show ?thesis
        using that(3) active_some [OF recovered(1)] counted_recovery [OF recovered(2,4)] recovered(6) keep
        by metis
    qed
  qed
qed

end

section \<open>Notifications have a reason\<close>

definition justified ::
    "(string \<Rightarrow> string \<Rightarrow> int64) \<Rightarrow> (string \<Rightarrow> string \<Rightarrow> int64) \<Rightarrow> node list \<Rightarrow> int64 \<Rightarrow> monitor
     \<Rightarrow> alert_task \<Rightarrow> bool" where
  "justified F S online nodes mon t \<longleftrightarrow> task_monitor t = mon \<and>
     inc_monitor_id (task_incident t) = mon_id mon \<and>
     (task_event t = ''alert'' \<and> inc_status (task_incident t) = ''confirmed'' \<and>
        outage_quorum F mon online nodes \<or>
      task_event t = ''recovery'' \<and> inc_status (task_incident t) = ''resolved'' \<and>
        recovery_quorum S mon online nodes)"

lemma set_incident_self [simp]:
  "set_incident (confirmed_incident i ids now) i = read_back (confirmed_incident i ids now)"
  "set_incident (resolved_incident i now) i = read_back (resolved_incident i now)"
  by (simp_all add: set_incident_def read_back_def confirmed_incident_def resolved_incident_def)

context alerting_store
begin

lemma evaluate_justified:
  assumes run: "evaluateMonitorConsensus st inp mon online nodes s = (ts, s')" and t: "t \<in> set ts"
  shows "justified (failures s) (successes s) online nodes mon t"
    and "read_back (task_incident t) \<in> set (incidents s')"
    and "task_channel t \<in> set (channels s) \<and> ch_enabled (task_channel t)"
proof -
  have from_dispatch: "task_incident t = i \<and> task_monitor t = mon \<and> task_event t = ev \<and>
      task_channel t \<in> set (channels s) \<and> ch_enabled (task_channel t)"
    if "dispatch st i mon ev s1 = (ts, s')" "channels s1 = channels s" for i ev s1
  proof -
    have "ts \<noteq> []" using t by auto
    with dispatch_channels(3) [OF that(1)]
    have "mset (map task_channel ts) = mset (filter ch_enabled (channels s1))" by blast
    from mset_eq_setD [OF this] have "task_channel ` set ts = {c \<in> set (channels s1). ch_enabled c}"
      by simp
    with t that(2) dispatch_channels(4) [OF that(1) t] show ?thesis by auto
  qed
  have "justified (failures s) (successes s) online nodes mon t \<and> read_back (task_incident t) \<in> set (incidents s')
      \<and> task_channel t \<in> set (channels s) \<and> ch_enabled (task_channel t)"
    using run
  proof (cases rule: evaluate_cases)
    case idle
    with t show ?thesis by simp
  next
    case (alerted i js ids s1)
    have "read_back (confirmed_incident i ids (ti_written inp)) \<in> set (incidents s')"
      unfolding alerted(6) using alerted(3) by (auto intro!: image_eqI [of _ _ i])
    with alerted(1,4) from_dispatch [OF alerted(8,9)] show ?thesis
      by (auto simp: justified_def active_for_def)
  next
    case (recovered i s1)
    have "read_back (resolved_incident i (ti_written inp)) \<in> set (incidents s')"
      unfolding recovered(4) using recovered(2) by (auto intro!: image_eqI [of _ _ i])
    with recovered(1,3) from_dispatch [OF recovered(5,6)] show ?thesis
      by (auto simp: justified_def active_for_def)
  qed
  then show "justified (failures s) (successes s) online nodes mon t"
    and "read_back (task_incident t) \<in> set (incidents s')"
    and "task_channel t \<in> set (channels s) \<and> ch_enabled (task_channel t)" by blast+
qed

end

section \<open>How an evaluation moves the state\<close>

text \<open>Along any preorder that its six store operations follow.\<close>

lemma dispatch_evolves:
  "evolves R (ListEnabledAlertChannels st) \<Longrightarrow> dispatch st i mon ev s = (ts, s') \<Longrightarrow> R s s'"
  by (auto simp: dispatch_def split: sum.splits prod.splits dest: evolvesD)

lemma get_or_create_evolves:
  assumes pre: "preorder_on_states R"
    and active: "evolves R (GetActiveIncident st m)" and create: "\<And>i. evolves R (CreateIncident st i)"
    and run: "GetOrCreateIncident st uuid now m s = (r, s')"
  shows "R s s'"
proof -
  obtain g s1 where g: "GetActiveIncident st m s = (g, s1)" by fastforce
  obtain c s2 where c: "CreateIncident st (new_incident uuid now m) s1 = (c, s2)" by fastforce
  have "R s s1" and "R s1 s2" using evolvesD [OF active g] evolvesD [OF create c] .
  moreover have "s' = s1 \<or> s' = s2"
    using run g c by (auto simp: GetOrCreateIncident_def Let_def split: sum.splits option.splits)
  ultimately show ?thesis using preorderD [OF pre] by blast
qed

lemma evaluate_outage_evolves:
  assumes pre: "preorder_on_states R"
    and active: "\<And>m. evolves R (GetActiveIncident st m)" and create: "\<And>i. evolves R (CreateIncident st i)"
    and upd: "\<And>i. evolves R (UpdateIncident st i)" and chan: "evolves R (ListEnabledAlertChannels st)"
    and count: "count_failing st mon online 0 None s = ((c, ids), s1)"
    and quorum: "EvaluateQuorum (mon_quorum_type mon) (mon_quorum_n mon) c nodes"
    and run: "evaluateMonitorConsensus st inp mon online nodes s = (ts, s')"
  shows "R s1 s'"
proof -
  note trans = preorderD(2) [OF pre]
  obtain g s2 where g: "GetOrCreateIncident st (ti_uuid inp) (ti_created inp) (mon_id mon) s1 = (g, s2)"
    by fastforce
  have k2: "R s1 s2" using get_or_create_evolves [OF pre active create g] .
  show ?thesis
  proof (cases g)
    case (Inl e)
    with run count quorum g have "s' = s2" by (simp add: evaluateMonitorConsensus_def)
    with k2 show ?thesis by simp
  next
    case (Inr i)
    obtain i' u s3 where u: "ConfirmIncident st i ids (ti_written inp) s2 = (i', u, s3)"
      by (metis surj_pair)
    then have "R s2 s3" using upd by (auto simp: ConfirmIncident_def Let_def dest: evolvesD)
    then have k3: "R s1 s3" using k2 trans by blast
    have "s' = s2 \<or> s' = s3 \<or> dispatch st i' mon ''alert'' s3 = (ts, s')"
      using run count quorum g Inr u
      by (auto simp: evaluateMonitorConsensus_def SendAlert_def split: sum.splits if_splits)
    with k2 k3 dispatch_evolves [OF chan] trans show ?thesis by blast
  qed
qed

lemma evaluate_no_outage_evolves:
  assumes pre: "preorder_on_states R"
    and succ: "\<And>m n. evolves R (CountConsecutiveSuccesses st m n)"
    and active: "\<And>m. evolves R (GetActiveIncident st m)"
    and upd: "\<And>i. evolves R (UpdateIncident st i)" and chan: "evolves R (ListEnabledAlertChannels st)"
    and count: "count_failing st mon online 0 None s = ((c, ids), s1)"
    and quorum: "\<not> EvaluateQuorum (mon_quorum_type mon) (mon_quorum_n mon) c nodes"
    and run: "evaluateMonitorConsensus st inp mon online nodes s = (ts, s')"
  shows "R s1 s'"
proof -
  note trans = preorderD(2) [OF pre]
  obtain g s2 where g: "GetActiveIncident st (mon_id mon) s1 = (g, s2)" by fastforce
  have k2: "R s1 s2" using evolvesD [OF active g] .
  show ?thesis
  proof (cases "\<exists>i. g = Inr (Some i)")
    case no: False
    with run count quorum g have "s' = s2"
      by (auto simp: evaluateMonitorConsensus_def split: sum.splits option.splits)
    with k2 show ?thesis by simp
  next
    case True
    then obtain i where i: "g = Inr (Some i)" by blast
    obtain k s3 where k: "count_recovered st mon online 0 s2 = (k, s3)" by fastforce
    have k3: "R s1 s3" using count_recovered_evolves [OF pre succ k] k2 trans by blast
    obtain i' u s4 where u: "ResolveIncident st i (ti_written inp) s3 = (i', u, s4)"
      by (metis surj_pair)
    then have "R s3 s4" using upd by (auto simp: ResolveIncident_def Let_def dest: evolvesD)
    then have k4: "R s1 s4" using k3 trans by blast
    have "s' = s3 \<or> s' = s4 \<or> dispatch st i' mon ''recovery'' s4 = (ts, s')"
      using run count quorum g i k u
      by (auto simp: evaluateMonitorConsensus_def SendRecovery_def split: sum.splits if_splits)
    with k3 k4 dispatch_evolves [OF chan] trans show ?thesis by blast
  qed
qed

lemma evaluate_evolves:
  assumes pre: "preorder_on_states R"
    and count: "\<And>m n. evolves R (CountConsecutiveFailures st m n)"
      "\<And>m n. evolves R (CountConsecutiveSuccesses st m n)"
    and active: "\<And>m. evolves R (GetActiveIncident st m)"
    and create: "\<And>i. evolves R (CreateIncident st i)"
    and upd: "\<And>i. evolves R (UpdateIncident st i)"
    and chan: "evolves R (ListEnabledAlertChannels st)"
    and run: "evaluateMonitorConsensus st inp mon online nodes s = (ts, s')"
  shows "R s s'"
proof -
  obtain c ids s1 where c: "count_failing st mon online 0 None s = ((c, ids), s1)"
    by (metis surj_pair)
  have "R s1 s'"
    using evaluate_outage_evolves [OF pre active create upd chan c _ run]
      evaluate_no_outage_evolves [OF pre count(2) active upd chan c _ run] by blast
  with count_failing_evolves [OF pre count(1) c] preorderD(2) [OF pre] show ?thesis by blast
qed

lemma evaluate_monitors_evolves:
  assumes pre: "preorder_on_states R"
    and ops: "\<And>m n. evolves R (CountConsecutiveFailures st m n)"
      "\<And>m n. evolves R (CountConsecutiveSuccesses st m n)" "\<And>m. evolves R (GetActiveIncident st m)"
      "\<And>i. evolves R (CreateIncident st i)" "\<And>i. evolves R (UpdateIncident st i)"
      "evolves R (ListEnabledAlertChannels st)"
    and run: "evaluate_monitors st inp k online nodes ms s = (ts, s')"
  shows "R s s'"
  using run
proof (induction ms arbitrary: k s ts)
  case (Cons m ms)
  obtain us s1 where one: "evaluateMonitorConsensus st (inp k) m online nodes s = (us, s1)" by fastforce
  obtain vs s2 where rest: "evaluate_monitors st inp (Suc k) online nodes ms s1 = (vs, s2)" by fastforce
  with Cons.prems one have "s' = s2" by simp
  with evaluate_evolves [OF pre ops one] Cons.IH [of "Suc k" s1] rest preorderD(2) [OF pre]
  show ?case by blast
qed (simp add: preorderD(1) [OF pre])

lemma evaluateConsensus_evolves:
  assumes pre: "preorder_on_states R"
    and lists: "evolves R (ListEnabledMonitors st)" "evolves R (ListNodes st)"
    and ops: "\<And>m n. evolves R (CountConsecutiveFailures st m n)"
      "\<And>m n. evolves R (CountConsecutiveSuccesses st m n)" "\<And>m. evolves R (GetActiveIncident st m)"
      "\<And>i. evolves R (CreateIncident st i)" "\<And>i. evolves R (UpdateIncident st i)"
      "evolves R (ListEnabledAlertChannels st)"
    and run: "evaluateConsensus st inp s = (ts, s')"
  shows "R s s'"
proof -
  obtain q s1 where q: "ListEnabledMonitors st s = (q, s1)" by fastforce
  obtain o1 s2 where o1: "GetOnlineNodes st s1 = (o1, s2)" by fastforce
  then have "s2 = snd (ListNodes st s1)"
    by (auto simp: GetOnlineNodes_def split: sum.splits prod.splits)
  with lists evolvesD [OF lists(1) q] have k: "R s s1" "R s s2"
    using preorderD(2) [OF pre] by (auto simp: evolves_def)
  show ?thesis
  proof (cases "s' = s1 \<or> s' = s2")
    case True
    with k show ?thesis by blast
  next
    case False
    with run q o1 obtain ms online where "evaluate_monitors st inp 0 online (int (length online)) ms s2 = (ts, s')"
      by (auto simp: evaluateConsensus_def Let_def split: sum.splits if_splits)
    from evaluate_monitors_evolves [OF pre ops this] k(2) show ?thesis
      using preorderD(2) [OF pre] by blast
  qed
qed

context alerting_store
begin

lemma evaluate_keeps_counters:
  assumes run: "evaluateMonitorConsensus st inp mon online nodes s = (ts, s')"
  shows "failures s' = failures s" and "successes s' = successes s" and "channels s' = channels s"
  by (rule evaluate_evolves [OF preorders(1) _ _ _ _ _ _ run];
      simp add: counters_keep incidents_keep_counters channels_keep_counters
        incidents_keep_channels list_channels_keeps flip: preserves_evolves)+

section \<open>All monitors\<close>

lemma evaluate_monitors_justified:
  assumes "evaluate_monitors st inp k online nodes ms s = (ts, s')" and "t \<in> set ts"
  shows "task_monitor t \<in> set ms" and "justified (failures s) (successes s) online nodes (task_monitor t) t"
    and "task_channel t \<in> set (channels s) \<and> ch_enabled (task_channel t)"
proof -
  have "task_monitor t \<in> set ms \<and> justified (failures s) (successes s) online nodes (task_monitor t) t
    \<and> task_channel t \<in> set (channels s) \<and> ch_enabled (task_channel t)"
    using assms
  proof (induction ms arbitrary: k s ts)
    case (Cons m ms)
    obtain us s1 where one: "evaluateMonitorConsensus st (inp k) m online nodes s = (us, s1)" by fastforce
    obtain vs s2 where rest: "evaluate_monitors st inp (Suc k) online nodes ms s1 = (vs, s2)" by fastforce
    with Cons.prems one have "t \<in> set us \<or> t \<in> set vs" and "s' = s2" by auto
    with evaluate_justified [OF one, of t] Cons.IH [of "Suc k" s1 vs] rest evaluate_keeps_counters [OF one]
    show ?case by (auto simp: justified_def)
  qed simp
  then show "task_monitor t \<in> set ms" and "justified (failures s) (successes s) online nodes (task_monitor t) t"
    and "task_channel t \<in> set (channels s) \<and> ch_enabled (task_channel t)" by blast+
qed

end

end
