(* ===== verification/Agent_Refinement.thy ===== *)
theory Agent_Refinement
  imports Agent_Tick
begin

text \<open>
  The abstract specification of one evaluation, and the proof that \<open>evaluateMonitorConsensus\<close> implements
  it on a store that does not fail; then the tick over all monitors on the SQLite store.
\<close>

section \<open>The specification\<close>

text \<open>
  A monitor has no outage (\<open>None\<close>), a suspected or a confirmed one. The outage quorum decides first;
  the second component is the event to send.
\<close>

definition tick_spec :: "bool \<Rightarrow> bool \<Rightarrow> phase option \<Rightarrow> phase option \<times> string option" where
  "tick_spec outage recovery st =
     (if outage then (Some Confirmed, if st = Some Confirmed then None else Some ''alert'')
      else if recovery \<and> st \<noteq> None then (None, Some ''recovery'')
      else (st, None))"

text \<open>The abstraction of an incident list: the phase of the unresolved incident of a monitor.\<close>

definition outage_phase :: "incident list \<Rightarrow> string \<Rightarrow> phase option" where
  "outage_phase is m = map_option inc_phase (find (active_for m) is)"

lemma outage_phase_Some:
  assumes "incidents_ok is"
  shows "outage_phase is m = Some p \<longleftrightarrow> (\<exists>i \<in> set is. active_for m i \<and> inc_phase i = p)"
proof
  assume "outage_phase is m = Some p"
  then show "\<exists>i \<in> set is. active_for m i \<and> inc_phase i = p"
    by (auto simp: outage_phase_def find_Some_iff)
next
  assume "\<exists>i \<in> set is. active_for m i \<and> inc_phase i = p"
  then obtain i where i: "i \<in> set is" "active_for m i" "inc_phase i = p" by blast
  then obtain j where j: "find (active_for m) is = Some j"
    by (cases "find (active_for m) is") (auto simp: find_None_iff)
  then have "j \<in> set is" and "active_for m j" by (auto simp: find_Some_iff)
  with assms i have "j = i" by (metis active_unique)
  with i j show "outage_phase is m = Some p" by (simp add: outage_phase_def)
qed

lemma outage_phase_None: "outage_phase is m = None \<longleftrightarrow> (\<forall>i \<in> set is. \<not> active_for m i)"
  by (auto simp: outage_phase_def find_None_iff)

text \<open>Two well-formed lists with the same unresolved incidents of a monitor agree on it.\<close>

lemma outage_phase_eqI:
  assumes "incidents_ok is" and "incidents_ok js"
    and "\<And>i. active_for m i \<Longrightarrow> i \<in> set is \<longleftrightarrow> i \<in> set js"
  shows "outage_phase is m = outage_phase js m"
proof -
  have "outage_phase is m = Some p \<longleftrightarrow> outage_phase js m = Some p" for p
    unfolding outage_phase_Some [OF assms(1)] outage_phase_Some [OF assms(2)] using assms(3) by blast
  then show ?thesis by (metis not_Some_eq)
qed

lemma set_written:
  assumes "incidents_ok is" and "i \<in> set is" and "inc_id i' = inc_id i" and "set_incident i' i = read_back i'"
  shows "set (map (set_incident i') is) = insert (read_back i') (set is - {i})"
proof -
  have "set_incident i' j = (if j = i then read_back i' else j)" if "j \<in> set is" for j
  proof -
    have "inc_id j = inc_id i \<longleftrightarrow> j = i"
      using assms(1,2) that by (auto simp: incidents_ok_def dest: distinct_map_unique)
    with assms(3,4) show ?thesis by (auto simp: set_incident_def)
  qed
  then show ?thesis using assms(2) by force
qed

lemma written_other:
  assumes "incidents_ok is" and "i \<in> set is" and "inc_id i' = inc_id i" and "set_incident i' i = read_back i'"
    and "incidents_ok (map (set_incident i') is)"
    and "inc_monitor_id i' = inc_monitor_id i" and "m \<noteq> inc_monitor_id i"
  shows "outage_phase (map (set_incident i') is) m = outage_phase is m"
proof (rule outage_phase_eqI [OF assms(5,1)])
  fix j
  assume "active_for m j"
  with assms(6,7) have "j \<noteq> i" and "j \<noteq> read_back i'" by (auto simp: active_for_def)
  then show "j \<in> set (map (set_incident i') is) \<longleftrightarrow> j \<in> set is"
    unfolding set_written [OF assms(1-4)] by blast
qed

lemma confirmed_phase:
  assumes "incidents_ok is" and "i \<in> set is" and "active_for m i"
    and ok: "incidents_ok (map (set_incident (confirmed_incident i ids now)) is)"
  shows "outage_phase (map (set_incident (confirmed_incident i ids now)) is) m = Some Confirmed"
  unfolding outage_phase_Some [OF ok] set_written [OF assms(1,2) written_incident(1) set_incident_self(1)]
  using assms(3) by (auto simp: active_for_def active_incident_def)

lemma resolved_phase:
  assumes "incidents_ok is" and "i \<in> set is" and "active_for m i"
  shows "outage_phase (map (set_incident (resolved_incident i now)) is) m = None"
  unfolding outage_phase_None set_written [OF assms(1,2) written_incident(2) set_incident_self(2)]
proof
  fix j
  assume "j \<in> insert (read_back (resolved_incident i now)) (set is - {i})"
  then consider "j = read_back (resolved_incident i now)" | "j \<in> set is" "j \<noteq> i" by blast
  then show "\<not> active_for m j"
  proof cases
    case 1
    then show ?thesis by (simp add: active_for_def active_incident_def)
  next
    case 2
    then show ?thesis using active_unique [OF assms(1) 2(1) assms(2) _ assms(3)] by blast
  qed
qed

lemma opened_phase:
  assumes "incidents_ok is" and "opened_by inp mon is js" and "i \<in> set js" and "active_for (mon_id mon) i"
    and "inc_status i = ''suspect''"
  shows "outage_phase is (mon_id mon) \<noteq> Some Confirmed"
proof
  assume "outage_phase is (mon_id mon) = Some Confirmed"
  then obtain j where j: "j \<in> set is" "active_for (mon_id mon) j" "inc_phase j = Confirmed"
    using assms(1) by (auto simp: outage_phase_Some)
  with assms(2) have "js = is" by (auto simp: opened_by_def)
  with j assms have "j = i" by (metis active_unique)
  with j(3) assms(5) show False by (simp add: inc_phase_def)
qed

lemma opened_other:
  assumes "incidents_ok is" and "opened_by inp mon is js" and "m \<noteq> mon_id mon"
  shows "outage_phase js m = outage_phase is m"
proof (rule outage_phase_eqI [OF opened_by_ok [OF assms(2,1)] assms(1)])
  fix j
  assume "active_for m j"
  with assms(2,3) show "j \<in> set js \<longleftrightarrow> j \<in> set is"
    by (auto simp: opened_by_def active_for_def new_incident_def)
qed

section \<open>The refinement\<close>

text \<open>The goroutines started for an event: one per enabled channel.\<close>

definition notified :: "alert_channel list \<Rightarrow> string option \<Rightarrow> alert_task list \<Rightarrow> bool" where
  "notified cs ev ts \<longleftrightarrow> (case ev of None \<Rightarrow> ts = []
     | Some e \<Rightarrow> mset (map task_channel ts) = mset (filter ch_enabled cs) \<and> (\<forall>t \<in> set ts. task_event t = e))"

lemma notified_Some:
  "notified cs (Some e) ts \<longleftrightarrow> mset (map task_channel ts) = mset (filter ch_enabled cs) \<and>
     (\<forall>t \<in> set ts. task_event t = e)"
  by (simp add: notified_def)

context alerting_store
begin

lemma evaluate_other_monitor:
  assumes run: "evaluateMonitorConsensus st inp mon online nodes s = (ts, s')"
    and ok: "incidents_ok (incidents s)" and other: "m \<noteq> mon_id mon"
  shows "outage_phase (incidents s') m = outage_phase (incidents s) m"
  using run
proof (cases rule: evaluate_cases)
  case idle
  show ?thesis by (rule opened_other [OF ok idle(2) other])
next
  case (alerted i js ids s1)
  have js: "incidents_ok js" using alerted(2) ok by (rule opened_by_ok)
  have "incidents_ok (incidents s')" using evaluate_safe(1) [OF run ok] .
  then have "outage_phase (incidents s') m = outage_phase js m"
    unfolding alerted(6) using alerted(4) other
    by (intro written_other [OF js alerted(3)]) (simp_all add: active_for_def)
  with opened_other [OF ok alerted(2) other] show ?thesis by simp
next
  case (recovered i s1)
  have "incidents_ok (incidents s')" using evaluate_safe(1) [OF run ok] .
  then show ?thesis
    unfolding recovered(4) using recovered(3) other
    by (intro written_other [OF ok recovered(2)]) (simp_all add: active_for_def)
qed

end

context reliable_store
begin

lemma dispatch_total:
  assumes "dispatch st i mon ev s = (ts, s')"
  shows "mset (map task_channel ts) = mset (filter ch_enabled (channels s)) \<and>
    (\<forall>t \<in> set ts. task_event t = ev)"
proof -
  obtain cs s1 where cs: "ListEnabledAlertChannels st s = (Inr cs, s1)"
    using channels_succeed by (metis is_ok_iff prod.collapse)
  with assms have "ts = map (\<lambda>ch. \<lparr>task_channel = ch, task_incident = i, task_monitor = mon,
      task_event = ev\<rparr>) cs" by (simp add: dispatch_def)
  with list_channels [OF cs] show ?thesis by (simp add: comp_def)
qed

lemma get_or_create_total:
  assumes "has_monitor s m" and "uuid \<notin> inc_id ` set (incidents s)"
  shows "is_ok (fst (GetOrCreateIncident st uuid now m s))"
proof -
  obtain a s1 where a: "GetActiveIncident st m s = (Inr a, s1)"
    using active_succeeds by (metis is_ok_iff prod.collapse)
  have "incidents s1 = incidents s" and "has_monitor s1 = has_monitor s"
    using a active_keeps monitors_keep(2) by blast+
  then have "is_ok (fst (CreateIncident st (new_incident uuid now m) s1))"
    using assms by (intro create_succeeds) (simp_all add: new_incident_def)
  then show ?thesis
    using a by (auto simp: GetOrCreateIncident_def Let_def split: option.splits sum.splits prod.splits)
qed

lemma update_and_notify:
  obtains u s1 where "UpdateIncident st i s = (Inr u, s1)"
    and "\<And>mon ev ts s'. dispatch st i mon ev s1 = (ts, s') \<Longrightarrow>
      incidents s' = map (set_incident i) (incidents s) \<and> notified (channels s) (Some ev) ts"
proof -
  obtain u s1 where u: "UpdateIncident st i s = (Inr u, s1)"
    using update_succeeds by (metis is_ok_iff prod.collapse)
  then have "channels s1 = channels s" using incidents_keep_channels(5) by (metis preservesD)
  then show ?thesis
    using that [OF u] update_and_dispatch [OF u] dispatch_total by (metis notified_Some)
qed

lemma active_frame:
  obtains a s1 where "GetActiveIncident st m s = (Inr a, s1)" and "incidents s1 = incidents s"
    and "channels s1 = channels s" and "successes s1 = successes s"
proof -
  obtain a s1 where g: "GetActiveIncident st m s = (Inr a, s1)"
    using active_succeeds by (metis is_ok_iff prod.collapse)
  with that active_keeps incidents_keep_channels(3) incidents_keep_counters(2) show ?thesis
    by (metis preservesD)
qed

lemma evaluate_refines_outage:
  assumes run: "evaluateMonitorConsensus st inp mon online nodes s = (ts, s')"
    and ok: "incidents_ok (incidents s)" and known: "has_monitor s (mon_id mon)"
    and fresh: "ti_uuid inp \<notin> inc_id ` set (incidents s)"
    and quorum: "outage_quorum (failures s) mon online nodes"
  shows "outage_phase (incidents s') (mon_id mon) = Some Confirmed \<and>
    notified (channels s) (if outage_phase (incidents s) (mon_id mon) = Some Confirmed then None
      else Some ''alert'') ts"
proof -
  obtain c ids s1 where count: "count_failing st mon online 0 None s = ((c, ids), s1)"
    by (metis surj_pair)
  have keep: "incidents s1 = incidents s" "channels s1 = channels s" "has_monitor s1 = has_monitor s"
    using count_failing_frame [OF count] count_failing_keeps [OF _ count] monitors_keep(1) by metis+
  have q: "EvaluateQuorum (mon_quorum_type mon) (mon_quorum_n mon) c nodes"
    using count_failing_all [OF count] counting_succeeds quorum by (simp add: outage_quorum_def)
  obtain i s2 where g: "GetOrCreateIncident st (ti_uuid inp) (ti_created inp) (mon_id mon) s1 = (Inr i, s2)"
    using get_or_create_total [of s1 "mon_id mon" "ti_uuid inp" "ti_created inp"] known fresh keep
    by (metis is_ok_iff prod.collapse)
  note opn = get_or_create_opened [OF g] and chan = get_or_create_keeps [OF g]
  have js: "incidents_ok (incidents s2)" using opn(1) ok keep(1) by (metis opened_by_ok)
  have i: "i \<in> set (incidents s2)" "active_for (mon_id mon) i" using opn(2) by blast+
  show ?thesis
  proof (cases "inc_status i = ''suspect''")
    case True
    obtain u s3 where u: "UpdateIncident st (confirmed_incident i ids (ti_written inp)) s2 = (Inr u, s3)"
      and sent: "\<And>mon ev ts s'. dispatch st (confirmed_incident i ids (ti_written inp)) mon ev s3 = (ts, s') \<Longrightarrow>
        incidents s' = map (set_incident (confirmed_incident i ids (ti_written inp))) (incidents s2) \<and>
        notified (channels s2) (Some ev) ts"
      using update_and_notify by blast
    have "dispatch st (confirmed_incident i ids (ti_written inp)) mon ''alert'' s3 = (ts, s')"
      using run count q g True u
      by (simp add: evaluateMonitorConsensus_def ConfirmIncident_def SendAlert_def)
    from sent [OF this] chan keep(2)
    have inc: "incidents s' = map (set_incident (confirmed_incident i ids (ti_written inp))) (incidents s2)"
      and "notified (channels s) (Some ''alert'') ts" by simp_all
    moreover have "outage_phase (incidents s) (mon_id mon) \<noteq> Some Confirmed"
      using opened_phase [OF ok opn(1) [unfolded keep] i True] .
    moreover have "outage_phase (incidents s') (mon_id mon) = Some Confirmed"
      unfolding inc
      using confirmed_phase [OF js i] evaluate_safe(1) [OF run ok, unfolded inc] by blast
    ultimately show ?thesis by simp
  next
    case False
    then have "ts = []" and s': "s' = s2"
      using run count q g by (simp_all add: evaluateMonitorConsensus_def)
    have "phase_of (inc_status i) \<noteq> None" using js i(1) by (simp add: incidents_ok_def)
    with False i(2) have phase: "inc_phase i = Confirmed"
      by (auto simp: inc_phase_def active_for_def active_incident_def phase_of_def split: if_splits)
    have "incidents s2 = incidents s"
      using opn(1) i(1) False
      by (cases rule: get_or_create_cases [OF g]) (auto simp: keep new_incident_def)
    with js i phase have "outage_phase (incidents s2) (mon_id mon) = Some Confirmed"
      using outage_phase_Some by blast
    with \<open>incidents s2 = incidents s\<close> \<open>ts = []\<close> s' show ?thesis by (simp add: notified_def)
  qed
qed

lemma evaluate_refines_no_outage:
  assumes run: "evaluateMonitorConsensus st inp mon online nodes s = (ts, s')"
    and ok: "incidents_ok (incidents s)"
    and quorum: "\<not> outage_quorum (failures s) mon online nodes"
  shows "(outage_phase (incidents s') (mon_id mon), None) = tick_spec False
      (recovery_quorum (successes s) mon online nodes) (outage_phase (incidents s) (mon_id mon)) \<and> ts = [] \<or>
    outage_phase (incidents s') (mon_id mon) = None \<and> outage_phase (incidents s) (mon_id mon) \<noteq> None \<and>
      recovery_quorum (successes s) mon online nodes \<and> notified (channels s) (Some ''recovery'') ts"
proof -
  obtain c ids s1 where count: "count_failing st mon online 0 None s = ((c, ids), s1)"
    by (metis surj_pair)
  note keep = count_failing_frame [OF count]
  have q: "\<not> EvaluateQuorum (mon_quorum_type mon) (mon_quorum_n mon) c nodes"
    using count_failing_all [OF count] counting_succeeds quorum by (simp add: outage_quorum_def)
  obtain a s2 where g: "GetActiveIncident st (mon_id mon) s1 = (Inr a, s2)"
    and keep2: "incidents s2 = incidents s" "channels s2 = channels s" "successes s2 = successes s"
    using active_frame keep by metis
  show ?thesis
  proof (cases a)
    case None
    then have "ts = []" and "s' = s2"
      using run count q g by (simp_all add: evaluateMonitorConsensus_def)
    moreover have "outage_phase (incidents s) (mon_id mon) = None"
      using active_none [OF g [unfolded None]] keep(1) by (simp add: outage_phase_None)
    ultimately show ?thesis using keep2 by (simp add: tick_spec_def)
  next
    case (Some i)
    have i: "i \<in> set (incidents s)" "active_for (mon_id mon) i"
      using active_some [OF g [unfolded Some]] keep(1) by simp_all
    then have opened: "outage_phase (incidents s) (mon_id mon) \<noteq> None" by (auto simp: outage_phase_None)
    obtain k s3 where k: "count_recovered st mon online 0 s2 = (k, s3)" by fastforce
    have keep3: "incidents s3 = incidents s" "channels s3 = channels s"
      using count_recovered_keeps [OF _ k] counting_keeps_incidents(2) incidents_keep_channels(2) keep2
      by metis+
    have rq: "EvaluateQuorum (mon_quorum_type mon) (mon_quorum_n mon) k nodes
        \<longleftrightarrow> recovery_quorum (successes s) mon online nodes"
      using count_recovered_all [OF k] counting_succeeds keep2(3) by (simp add: recovery_quorum_def)
    show ?thesis
    proof (cases "recovery_quorum (successes s) mon online nodes")
      case False
      then have "ts = []" and "s' = s3"
        using run count q g k Some rq by (simp_all add: evaluateMonitorConsensus_def)
      with keep3 False show ?thesis by (simp add: tick_spec_def)
    next
      case True
      obtain u s4 where u: "UpdateIncident st (resolved_incident i (ti_written inp)) s3 = (Inr u, s4)"
        and sent: "\<And>mon ev ts s'. dispatch st (resolved_incident i (ti_written inp)) mon ev s4 = (ts, s') \<Longrightarrow>
          incidents s' = map (set_incident (resolved_incident i (ti_written inp))) (incidents s3) \<and>
          notified (channels s3) (Some ev) ts"
        using update_and_notify by blast
      have "dispatch st (resolved_incident i (ti_written inp)) mon ''recovery'' s4 = (ts, s')"
        using run count q g k Some rq True u
        by (simp add: evaluateMonitorConsensus_def ResolveIncident_def SendRecovery_def)
      from sent [OF this] keep3 opened True resolved_phase [OF ok i] show ?thesis by simp
    qed
  qed
qed

theorem evaluate_refines:
  assumes run: "evaluateMonitorConsensus st inp mon online nodes s = (ts, s')"
    and ok: "incidents_ok (incidents s)" and known: "has_monitor s (mon_id mon)"
    and fresh: "ti_uuid inp \<notin> inc_id ` set (incidents s)"
  shows "\<exists>ev. tick_spec (outage_quorum (failures s) mon online nodes)
      (recovery_quorum (successes s) mon online nodes) (outage_phase (incidents s) (mon_id mon))
      = (outage_phase (incidents s') (mon_id mon), ev) \<and> notified (channels s) ev ts"
proof (cases "outage_quorum (failures s) mon online nodes")
  case True
  with evaluate_refines_outage [OF assms True] show ?thesis by (auto simp: tick_spec_def)
next
  case False
  with evaluate_refines_no_outage [OF run ok False] show ?thesis
    by (auto simp: tick_spec_def notified_def)
qed

end

end
