(* ===== verification/Shared_Store.thy ===== *)
theory Shared_Store
  imports Agent_Refinement
begin

text \<open>
  The coordinator's database while its other goroutines run. The consensus loop is one goroutine; the
  API handlers, the scheduler's checks, the heartbeat, offline detection and alert goroutines execute
  their own statements between any two of its statements, and none of them writes the table of
  incidents. \<open>shared_store env eng\<close> is the SQLite store as the consensus loop meets it: before each of
  its statements the statements \<open>env k\<close> of the others are executed, where \<open>k\<close> counts the loop's own.
  \<open>env\<close> is arbitrary, so a result about \<open>shared_store env eng\<close> holds for every interleaving.
\<close>

datatype foreign_statement =
    FSelect
  | FCreateNode node
  | FUpdateNode node
  | FUpdateNodeStatus string string int64
  | FDeleteNode string
  | FCreateMonitor monitor
  | FUpdateMonitor monitor
  | FDeleteMonitor string
  | FInsertCheckResult check_result
  | FStoreJoinToken string int64 int64
  | FValidateAndConsumeToken string int64
  | FCreateAlertChannel alert_channel
  | FUpdateAlertChannel alert_channel
  | FDeleteAlertChannel string
  | FInsertAlertRecord alert_record

fun exec_foreign :: "engine \<Rightarrow> foreign_statement \<Rightarrow> db \<Rightarrow> db" where
  "exec_foreign eng FSelect s = tick s"
| "exec_foreign eng (FCreateNode n) s = snd (sqlite_CreateNode eng n s)"
| "exec_foreign eng (FUpdateNode n) s = snd (sqlite_UpdateNode eng n s)"
| "exec_foreign eng (FUpdateNodeStatus k x t) s = snd (sqlite_UpdateNodeStatus eng k x t s)"
| "exec_foreign eng (FDeleteNode k) s = snd (sqlite_DeleteNode eng k s)"
| "exec_foreign eng (FCreateMonitor m) s = snd (sqlite_CreateMonitor eng m s)"
| "exec_foreign eng (FUpdateMonitor m) s = snd (sqlite_UpdateMonitor eng m s)"
| "exec_foreign eng (FDeleteMonitor k) s = snd (sqlite_DeleteMonitor eng k s)"
| "exec_foreign eng (FInsertCheckResult r) s = snd (sqlite_InsertCheckResult eng r s)"
| "exec_foreign eng (FStoreJoinToken h x t) s = snd (sqlite_StoreJoinToken eng h x t s)"
| "exec_foreign eng (FValidateAndConsumeToken h t) s = snd (sqlite_ValidateAndConsumeToken eng h t s)"
| "exec_foreign eng (FCreateAlertChannel c) s = snd (sqlite_CreateAlertChannel eng c s)"
| "exec_foreign eng (FUpdateAlertChannel c) s = snd (sqlite_UpdateAlertChannel eng c s)"
| "exec_foreign eng (FDeleteAlertChannel k) s = snd (sqlite_DeleteAlertChannel eng k s)"
| "exec_foreign eng (FInsertAlertRecord a) s = snd (sqlite_InsertAlertRecord eng a s)"

definition exec_all :: "engine \<Rightarrow> foreign_statement list \<Rightarrow> db \<Rightarrow> db" where
  "exec_all eng = fold (exec_foreign eng)"

lemma exec_foreign_step: "sql_step eng s (exec_foreign eng f s)"
  by (cases f) (simp_all add: sql_step.intros)

lemma exec_foreign_incidents: "db_incidents (exec_foreign eng f s) = db_incidents s"
proof (cases f)
  case FSelect
  then show ?thesis by simp
qed (auto simp: node_statement_defs monitor_statement_defs result_statement_defs token_statement_defs
    alert_statement_defs db_exec_def Let_def split: option.splits if_splits)

lemma exec_all_run: "sql_run eng s (exec_all eng fs s)"
proof (induction fs arbitrary: s)
  case (Cons f fs)
  have "sql_run eng s (exec_foreign eng f s)"
    using sql_run.more [OF sql_run.start exec_foreign_step] .
  with sql_run_trans [OF Cons] show ?case by (simp add: exec_all_def)
qed (simp add: exec_all_def sql_run.start)

lemma exec_all_incidents [simp]: "db_incidents (exec_all eng fs s) = db_incidents s"
  by (induction fs arbitrary: s) (simp_all add: exec_all_def exec_foreign_incidents)

section \<open>The interleaved store\<close>

type_synonym shared = "db \<times> nat"

definition interleave ::
    "engine \<Rightarrow> (nat \<Rightarrow> foreign_statement list) \<Rightarrow> (db, 'a) op \<Rightarrow> (shared, 'a) op" where
  "interleave eng env opn p =
     (case p of (s, k) \<Rightarrow> case opn (exec_all eng (env k) s) of (r, s') \<Rightarrow> (r, (s', Suc k)))"

definition shared_store ::
    "(nat \<Rightarrow> foreign_statement list) \<Rightarrow> engine \<Rightarrow> shared store" where
  "shared_store env eng = \<lparr>
     CreateNode = \<lambda>n. interleave eng env (sqlite_CreateNode eng n),
     GetNode = \<lambda>k. interleave eng env (sqlite_GetNode eng k),
     ListNodes = interleave eng env (sqlite_ListNodes eng),
     UpdateNode = \<lambda>n. interleave eng env (sqlite_UpdateNode eng n),
     DeleteNode = \<lambda>k. interleave eng env (sqlite_DeleteNode eng k),
     UpdateNodeStatus = \<lambda>k x t. interleave eng env (sqlite_UpdateNodeStatus eng k x t),
     CreateMonitor = \<lambda>m. interleave eng env (sqlite_CreateMonitor eng m),
     GetMonitor = \<lambda>k. interleave eng env (sqlite_GetMonitor eng k),
     ListMonitors = \<lambda>g. interleave eng env (sqlite_ListMonitors eng g),
     UpdateMonitor = \<lambda>m. interleave eng env (sqlite_UpdateMonitor eng m),
     DeleteMonitor = \<lambda>k. interleave eng env (sqlite_DeleteMonitor eng k),
     ListEnabledMonitors = interleave eng env (sqlite_ListEnabledMonitors eng),
     InsertCheckResult = \<lambda>r. interleave eng env (sqlite_InsertCheckResult eng r),
     GetLatestResult = \<lambda>m n. interleave eng env (sqlite_GetLatestResult eng m n),
     CountConsecutiveFailures = \<lambda>m n. interleave eng env (sqlite_CountConsecutiveFailures eng m n),
     CountConsecutiveSuccesses = \<lambda>m n. interleave eng env (sqlite_CountConsecutiveSuccesses eng m n),
     ListCheckResults = \<lambda>m n a l. interleave eng env (sqlite_ListCheckResults eng m n a l),
     CreateIncident = \<lambda>i. interleave eng env (sqlite_CreateIncident eng i),
     GetIncident = \<lambda>k. interleave eng env (sqlite_GetIncident eng k),
     GetActiveIncident = \<lambda>m. interleave eng env (sqlite_GetActiveIncident eng m),
     UpdateIncident = \<lambda>i. interleave eng env (sqlite_UpdateIncident eng i),
     ListIncidents = \<lambda>b. interleave eng env (sqlite_ListIncidents eng b),
     StoreJoinToken = \<lambda>h x t. interleave eng env (sqlite_StoreJoinToken eng h x t),
     ValidateAndConsumeToken = \<lambda>h t. interleave eng env (sqlite_ValidateAndConsumeToken eng h t),
     CreateAlertChannel = \<lambda>c. interleave eng env (sqlite_CreateAlertChannel eng c),
     GetAlertChannel = \<lambda>k. interleave eng env (sqlite_GetAlertChannel eng k),
     ListAlertChannels = interleave eng env (sqlite_ListAlertChannels eng),
     ListEnabledAlertChannels = interleave eng env (sqlite_ListEnabledAlertChannels eng),
     UpdateAlertChannel = \<lambda>c. interleave eng env (sqlite_UpdateAlertChannel eng c),
     DeleteAlertChannel = \<lambda>k. interleave eng env (sqlite_DeleteAlertChannel eng k),
     InsertAlertRecord = \<lambda>a. interleave eng env (sqlite_InsertAlertRecord eng a),
     ListAlertHistory = \<lambda>c l. interleave eng env (sqlite_ListAlertHistory eng c l)\<rparr>"

lemma shared_store_simps [simp]:
  "ListNodes (shared_store env eng) = interleave eng env (sqlite_ListNodes eng)"
  "UpdateNodeStatus (shared_store env eng) k x t = interleave eng env (sqlite_UpdateNodeStatus eng k x t)"
  "ListEnabledMonitors (shared_store env eng) = interleave eng env (sqlite_ListEnabledMonitors eng)"
  "CountConsecutiveFailures (shared_store env eng) m n
     = interleave eng env (sqlite_CountConsecutiveFailures eng m n)"
  "CountConsecutiveSuccesses (shared_store env eng) m n
     = interleave eng env (sqlite_CountConsecutiveSuccesses eng m n)"
  "CreateIncident (shared_store env eng) i = interleave eng env (sqlite_CreateIncident eng i)"
  "GetActiveIncident (shared_store env eng) m = interleave eng env (sqlite_GetActiveIncident eng m)"
  "UpdateIncident (shared_store env eng) i = interleave eng env (sqlite_UpdateIncident eng i)"
  "ListEnabledAlertChannels (shared_store env eng)
     = interleave eng env (sqlite_ListEnabledAlertChannels eng)"
  by (simp_all add: shared_store_def)

definition shared_incidents :: "shared \<Rightarrow> incident list" where
  "shared_incidents p = stored_incidents (fst p)"

lemma interleaveE:
  assumes "interleave eng env opn p = (r, p')"
  obtains t where "opn t = (r, fst p')" "stored_incidents t = shared_incidents p"
    "sql_run eng (fst p) t"
  using assms that [of "exec_all eng (env (snd p)) (fst p)"] exec_all_run
  by (auto simp: interleave_def shared_incidents_def stored_incidents_def split: prod.splits)

lemma interleave_preserves:
  assumes "preserves stored_incidents opn"
  shows "preserves shared_incidents (interleave eng env opn)"
  unfolding preserves_def
proof
  fix p
  obtain r p' where run: "interleave eng env opn p = (r, p')" by (metis surj_pair)
  then obtain t where "opn t = (r, fst p')" "stored_incidents t = shared_incidents p"
    by (rule interleaveE)
  with assms have "stored_incidents (fst p') = shared_incidents p" by (metis preservesD)
  with run show "shared_incidents (snd (interleave eng env opn p)) = shared_incidents p"
    by (simp add: shared_incidents_def)
qed

lemma interleave_intact:
  assumes "intact stored_incidents opn"
  shows "intact shared_incidents (interleave eng env opn)"
  unfolding intact_def
proof (intro allI impI)
  fix p e p'
  assume "interleave eng env opn p = (Inl e, p')"
  then obtain t where "opn t = (Inl e, fst p')" "stored_incidents t = shared_incidents p"
    by (rule interleaveE)
  with assms show "shared_incidents p' = shared_incidents p"
    unfolding shared_incidents_def by (metis intactD)
qed

interpretation sqlite_shared: ticking_store "shared_store env eng" shared_incidents for env eng
proof unfold_locales
  fix m n and i :: incident and s s' :: shared and u
  show "\<not> active_for m i"
    if "GetActiveIncident (shared_store env eng) m s = (Inr None, s')" "i \<in> set (shared_incidents s)"
  proof -
    from that(1) [unfolded shared_store_simps] obtain t where "sqlite_GetActiveIncident eng m t = (Inr None, fst s')"
      "stored_incidents t = shared_incidents s" by (rule interleaveE)
    with that(2) show ?thesis using sqlite_active_none by metis
  qed
  show "i \<in> set (shared_incidents s) \<and> active_for m i"
    if "GetActiveIncident (shared_store env eng) m s = (Inr (Some i), s')"
  proof -
    from that [unfolded shared_store_simps] obtain t where "sqlite_GetActiveIncident eng m t = (Inr (Some i), fst s')"
      "stored_incidents t = shared_incidents s" by (rule interleaveE)
    then show ?thesis using sqlite_active_some by metis
  qed
  show "shared_incidents s' = shared_incidents s @ [read_back i] \<and> inc_id i \<notin> inc_id ` set (shared_incidents s)"
    if "CreateIncident (shared_store env eng) i s = (Inr u, s')"
  proof -
    from that [unfolded shared_store_simps] obtain t where "sqlite_CreateIncident eng i t = (Inr u, fst s')"
      "stored_incidents t = shared_incidents s" by (rule interleaveE)
    then show ?thesis
      using sqlite_incidents.create_ok [of eng i t u "fst s'"] by (simp add: shared_incidents_def)
  qed
  show "shared_incidents s' = map (set_incident i) (shared_incidents s)"
    if "UpdateIncident (shared_store env eng) i s = (Inr u, s')"
  proof -
    from that [unfolded shared_store_simps] obtain t where "sqlite_UpdateIncident eng i t = (Inr u, fst s')"
      "stored_incidents t = shared_incidents s" by (rule interleaveE)
    then show ?thesis
      using sqlite_incidents.update_ok [of eng i t u "fst s'"] by (simp add: shared_incidents_def)
  qed
  show "preserves shared_incidents (GetActiveIncident (shared_store env eng) m)"
    "preserves shared_incidents (CountConsecutiveFailures (shared_store env eng) m n)"
    "preserves shared_incidents (CountConsecutiveSuccesses (shared_store env eng) m n)"
    "preserves shared_incidents (ListEnabledAlertChannels (shared_store env eng))"
    "preserves shared_incidents (ListEnabledMonitors (shared_store env eng))"
    "preserves shared_incidents (ListNodes (shared_store env eng))"
    by (simp_all add: interleave_preserves count_statements
        sqlite_GetActiveIncident_def sqlite_ListEnabledAlertChannels_def
        sqlite_ListEnabledMonitors_def sqlite_ListNodes_def query_preserves)
  show "intact shared_incidents (CreateIncident (shared_store env eng) i)"
    "intact shared_incidents (UpdateIncident (shared_store env eng) i)"
    by (simp_all add: interleave_intact sqlite_CreateIncident_def
        sqlite_UpdateIncident_def exec_intact)
qed

section \<open>A tick is a run of statements\<close>

lemma interleave_runs:
  assumes "\<And>s. sql_step eng s (snd (opn s))"
  shows "evolves (\<lambda>p p'. sql_run eng (fst p) (fst p')) (interleave eng env opn)"
  unfolding evolves_def
proof
  fix p
  obtain r p' where run: "interleave eng env opn p = (r, p')" by (metis surj_pair)
  then obtain t where "opn t = (r, fst p')" "sql_run eng (fst p) t" by (rule interleaveE)
  with assms [of t] run show "sql_run eng (fst p) (fst (snd (interleave eng env opn p)))"
    by (auto intro: sql_run.more)
qed

lemma query_step: "sql_step eng s (snd (db_query eng f s))"
  by (simp add: sql_step.select)

lemma tick_runs:
  assumes "evaluateConsensus (shared_store env eng) inp (s, 0) = (ts, (s', k))"
  shows "sql_run eng s s'"
proof -
  have "preorder_on_states (\<lambda>p p'. sql_run eng (fst p) (fst p'))"
    using sql_run.start sql_run_trans by (auto simp: preorder_on_states_def)
  then have "sql_run eng (fst (s, 0 :: nat)) (fst (s', k))"
    by (rule evaluateConsensus_evolves [OF _ _ _ _ _ _ _ _ _ assms])
      (auto intro!: interleave_runs query_step sql_step.intros simp: count_statements
        sqlite_ListEnabledMonitors_def sqlite_ListNodes_def sqlite_GetActiveIncident_def
        sqlite_ListEnabledAlertChannels_def)
  then show ?thesis by simp
qed

end
