(* ===== verification/Samples.thy ===== *)
theory Samples
  imports Shared_Store
begin

text \<open>
  Concrete nodes, monitors, results and databases for the closed instances of the theorems: one
  monitor checked by node \<open>a\<close>, and a database in which it is down.
\<close>

definition node_a :: node where
  "node_a = \<lparr>node_id = ''a'', node_name = ''a'', node_location = [], node_address = ''h:1'',
     node_role = ''node'', node_status = ''online'', node_last_seen = 5, node_created_at = 1\<rparr>"

definition mon_m :: monitor where
  "mon_m = \<lparr>mon_id = ''m'', mon_name = ''m'', mon_group_name = [], mon_check_type = ''tcp'',
     mon_target = ''h'', mon_port = 80, mon_interval_ms = 60000, mon_timeout_ms = 5000, mon_retries = 1,
     mon_expected_status = 0, mon_expected_keyword = [], mon_dns_record_type = [],
     mon_dns_expected = [], mon_failure_threshold = 1, mon_recovery_threshold = 1,
     mon_quorum_type = ''majority'', mon_quorum_n = 0, mon_cooldown_ms = 0, mon_enabled = True,
     mon_created_at = 1, mon_updated_at = 1\<rparr>"

definition result_at :: "string \<Rightarrow> int64 \<Rightarrow> check_result" where
  "result_at status time = \<lparr>res_id = 0, res_monitor_id = ''m'', res_node_id = ''a'', res_status = status,
     res_latency_ms = 0, res_status_code = 0, res_error = [], res_details = None, res_timestamp = time\<rparr>"

definition channel_c :: alert_channel where
  "channel_c = \<lparr>ch_id = ''c'', ch_name = ''c'', ch_type = ''webhook'', ch_enabled = True, ch_config = ''{}'',
     ch_created_at = 1, ch_updated_at = 1\<rparr>"

definition base_statements :: "foreign_statement list" where
  "base_statements = [FCreateNode node_a, FCreateMonitor mon_m, FCreateAlertChannel channel_c]"

definition db_setup :: db where
  "db_setup = exec_all plain_engine base_statements empty_db"

definition db_down :: db where
  "db_down = exec_all plain_engine [FInsertCheckResult (result_at ''down'' 10)] db_setup"

definition inputs_i :: tick_inputs where
  "inputs_i = \<lparr>ti_uuid = ''i'', ti_created = 11, ti_written = 12\<rparr>"

lemmas sample_defs = node_a_def mon_m_def result_at_def channel_c_def base_statements_def inputs_i_def

text \<open>The databases, evaluated.\<close>

lemmas run_defs = exec_all_def db_exec_def db_query_def store_defs row_insert_def has_key_def tick_def
  empty_db_def

lemma db_setup_eq: "db_setup = \<lparr>db_nodes = [node_a], db_monitors = [bind_monitor mon_m], db_results = [],
  db_incidents = [], db_tokens = [], db_channels = [bind_channel channel_c], db_history = [],
  db_result_seq = 0, db_history_seq = 0, db_schema_version = None, db_stmts = 3\<rparr>"
  by (simp add: db_setup_def run_defs base_statements_def)

lemma db_down_eq: "db_down = db_setup\<lparr>db_results := [bind_result 1 (result_at ''down'' 10)],
  db_result_seq := 1, db_stmts := 4\<rparr>"
  unfolding db_down_def db_setup_eq by (simp add: run_defs sample_defs)

end
