(* ===== verification/Scheduling.thy ===== *)
theory Scheduling
  imports Scheduler Samples
begin

text \<open>
  What the scheduler guarantees over whole runs, and where it does not: the loops that are alive after a
  sync, the checks in flight, the interval of a running monitor, and the outcome of one check.
\<close>

section \<open>Loops and monitors\<close>

lemma live_loop:
  assumes "sched_ok s"
  shows "(\<exists>!i. i < length (sch_loops s) \<and> \<not> lp_cancelled (sch_loops s ! i) \<and> lp_monitor (sch_loops s ! i) = k)
    \<longleftrightarrow> k \<in> set (timer_ids s)"
    and "k \<notin> set (timer_ids s) \<Longrightarrow> i < length (sch_loops s) \<Longrightarrow> lp_monitor (sch_loops s ! i) = k \<Longrightarrow>
      lp_cancelled (sch_loops s ! i)"
proof -
  have ids: "k \<in> set (timer_ids s) \<longleftrightarrow> (\<exists>i. sch_cancels s k = Some i)"
    using assms by (auto simp: sched_ok_def)
  have live: "i < length (sch_loops s) \<and> \<not> lp_cancelled (sch_loops s ! i) \<and> lp_monitor (sch_loops s ! i) = k
      \<longleftrightarrow> sch_cancels s k = Some i" for i
    using assms unfolding sched_ok_def by metis
  show "(\<exists>!i. i < length (sch_loops s) \<and> \<not> lp_cancelled (sch_loops s ! i) \<and> lp_monitor (sch_loops s ! i) = k)
      \<longleftrightarrow> k \<in> set (timer_ids s)"
    unfolding live ids by (metis option.inject)
  show "k \<notin> set (timer_ids s) \<Longrightarrow> i < length (sch_loops s) \<Longrightarrow> lp_monitor (sch_loops s ! i) = k \<Longrightarrow>
      lp_cancelled (sch_loops s ! i)"
    using live [of i] ids by blast
qed

text \<open>C23: whatever the scheduler has done before, after a sync exactly the given monitors have a goroutine that
  is not cancelled, each of them one, and \<open>ActiveCount\<close> is their number.\<close>

theorem sync_matches_monitors:
  assumes "sched_run NewScheduler acts s"
  shows "(\<forall>k. (\<exists>!i. i < length (sch_loops (SyncMonitors ms s)) \<and>
        \<not> lp_cancelled (sch_loops (SyncMonitors ms s) ! i) \<and> lp_monitor (sch_loops (SyncMonitors ms s) ! i) = k)
      \<longleftrightarrow> k \<in> mon_id ` set ms) \<and>
    (\<forall>l \<in> set (sch_loops (SyncMonitors ms s)). lp_cancelled l \<or> lp_monitor l \<in> mon_id ` set ms) \<and>
    ActiveCount (SyncMonitors ms s) = int (card (mon_id ` set ms))"
proof -
  have ok: "sched_ok s" using sched_run_ok [OF assms sched_ok_new] .
  note ok' = SyncMonitors_ok [OF ok, of ms] and ids = SyncMonitors_ids [OF ok, of ms]
  have "distinct (timer_ids (SyncMonitors ms s))" using ok' by (simp add: sched_ok_def)
  then have "length (timer_ids (SyncMonitors ms s)) = card (mon_id ` set ms)"
    using ids distinct_card [of "timer_ids (SyncMonitors ms s)"] by simp
  then have count: "ActiveCount (SyncMonitors ms s) = int (card (mon_id ` set ms))"
    by (simp add: ActiveCount_def timer_ids_def)
  have "lp_cancelled l \<or> lp_monitor l \<in> mon_id ` set ms" if "l \<in> set (sch_loops (SyncMonitors ms s))" for l
  proof -
    from that obtain i where "i < length (sch_loops (SyncMonitors ms s))" "l = sch_loops (SyncMonitors ms s) ! i"
      unfolding in_set_conv_nth by blast
    with live_loop(2) [OF ok', of "lp_monitor l" i] ids show ?thesis by blast
  qed
  with count live_loop(1) [OF ok', unfolded ids] show ?thesis by blast
qed

lemma sync_matches_monitors_witness:
  "ActiveCount (SyncMonitors [mon_m] (SyncMonitors [mon_m\<lparr>mon_id := ''x''\<rparr>] NewScheduler)) = 1"
proof -
  have "sched_run NewScheduler [Sync [mon_m\<lparr>mon_id := ''x''\<rparr>]]
      (SyncMonitors [mon_m\<lparr>mon_id := ''x''\<rparr>] NewScheduler)"
    using sched_more [OF sync_step sched_done] by blast
  from sync_matches_monitors [OF this, of "[mon_m]"] show ?thesis by simp
qed

lemma start_new_timer:
  "map_of (sch_timers s) k = Some v \<Longrightarrow> map_of (sch_timers (start_new ms s)) k = Some v"
proof (induction ms arbitrary: s)
  case (Cons m ms)
  have "map_of (sch_timers (startMonitor m s)) k = Some v" if "map_of (sch_timers s) (mon_id m) = None"
    using that Cons.prems by (auto simp: startMonitor_def update_conv')
  with Cons show ?case by simp
qed simp

lemma stop_all_timer:
  "k \<notin> set ks \<Longrightarrow> map_of (sch_timers (stop_all ks s)) k = map_of (sch_timers s) k"
  by (induction ks arbitrary: s) (auto simp: stopMonitor_def delete_conv')

text \<open>A sync that names a running monitor keeps its ticker, whatever the new record says: an edited
  interval takes effect only when the monitor is started anew.\<close>

lemma running_monitor_keeps_interval:
  assumes "map_of (sch_timers s) k = Some v" and "k \<in> mon_id ` set ms"
  shows "map_of (sch_timers (SyncMonitors ms s)) k = Some v"
  using start_new_timer [OF assms(1), of ms] assms(2)
  by (simp add: SyncMonitors_def Let_def stop_all_timer)

section \<open>Checks in flight\<close>

text \<open>C24: a scheduler that never stops a monitor while a check of it is in flight runs at most one check per
  monitor at any time, however its goroutines interleave.\<close>

theorem one_check_at_a_time:
  assumes "calm_run NewScheduler acts s"
    and "i < length (sch_loops s)" "lp_busy (sch_loops s ! i)"
    and "j < length (sch_loops s)" "lp_busy (sch_loops s ! j)"
    and "lp_monitor (sch_loops s ! i) = lp_monitor (sch_loops s ! j)"
  shows "i = j"
  using calm_run_one_check [OF assms(1) one_check_new] assms(2-)
  unfolding one_check_def busy_on_def by blast

definition after_begin :: scheduler where
  "after_begin = begin_check 0 (SyncMonitors [mon_m] NewScheduler)"

lemma after_begin_loops:
  "sch_loops after_begin = [\<lparr>lp_monitor = ''m'', lp_cancelled = False, lp_busy = True, lp_exited = False\<rparr>]"
  by code_simp

lemma after_begin_calm: "calm_run NewScheduler [Sync [mon_m], Begin 0] after_begin"
proof (rule calm_more [OF sync_step], simp add: NewScheduler_def)
  have "sch_loops (SyncMonitors [mon_m] NewScheduler)
      = [\<lparr>lp_monitor = ''m'', lp_cancelled = False, lp_busy = False, lp_exited = False\<rparr>]"
    by code_simp
  then have "sched_step (SyncMonitors [mon_m] NewScheduler) (Begin 0) after_begin"
    unfolding after_begin_def by (intro begin_step) simp_all
  then show "calm_run (SyncMonitors [mon_m] NewScheduler) [Begin 0] after_begin"
    by (rule calm_more) (simp_all add: calm_done)
qed

lemma one_check_at_a_time_witness: "(0::nat) = 0 \<and> lp_busy (sch_loops after_begin ! 0)"
  using one_check_at_a_time [OF after_begin_calm, of 0 0] by (simp add: after_begin_loops)

text \<open>Stopping a monitor forgets that a check of it is running: if it is enabled again before the check
  ends, the new goroutine starts a second check of the same monitor beside the first.\<close>

lemma restart_overlaps_check:
  "\<exists>s. sched_run NewScheduler [Sync [m], Begin 0, Sync [], Sync [m], Begin 1] s \<and>
    busy_on (mon_id m) s 0 \<and> busy_on (mon_id m) s 1"
proof -
  let ?l = "\<lambda>c b. \<lparr>lp_monitor = mon_id m, lp_cancelled = c, lp_busy = b, lp_exited = False\<rparr>"
  let ?t = "\<lambda>r l c. \<lparr>sch_timers = [(mon_id m, ticker_interval m)], sch_cancels = (\<lambda>_. None)(mon_id m \<mapsto> c),
      sch_running = r, sch_loops = l\<rparr>"
  define s1 where "s1 = ?t (\<lambda>_. None) [?l False False] 0"
  define s2 where "s2 = ?t ((\<lambda>_. None)(mon_id m \<mapsto> True)) [?l False True] 0"
  define s3 where "s3 = NewScheduler\<lparr>sch_loops := [?l True True]\<rparr>"
  define s4 where "s4 = ?t (\<lambda>_. None) [?l True True, ?l False False] 1"
  define s5 where "s5 = ?t ((\<lambda>_. None)(mon_id m \<mapsto> True)) [?l True True, ?l False True] 1"
  note defs = SyncMonitors_def startMonitor_def stopMonitor_def cancel_loop_def timer_ids_def
    NewScheduler_def begin_check_def Let_def s1_def s2_def s3_def s4_def s5_def
  have "SyncMonitors [m] NewScheduler = s1" by (simp add: defs)
  then have 1: "sched_step NewScheduler (Sync [m]) s1" by (metis sync_step)
  have "begin_check 0 s1 = s2" by (simp add: defs)
  then have 2: "sched_step s1 (Begin 0) s2" using begin_step [of 0 s1] by (simp add: s1_def)
  have "SyncMonitors [] s2 = s3" by (simp add: defs fun_eq_iff)
  then have 3: "sched_step s2 (Sync []) s3" by (metis sync_step)
  have "SyncMonitors [m] s3 = s4" by (simp add: defs)
  then have 4: "sched_step s3 (Sync [m]) s4" by (metis sync_step)
  have "begin_check 1 s4 = s5" by (simp add: defs)
  then have 5: "sched_step s4 (Begin 1) s5" using begin_step [of 1 s4] by (simp add: s4_def)
  from 1 2 3 4 5 have "sched_run NewScheduler [Sync [m], Begin 0, Sync [], Sync [m], Begin 1] s5"
    by (intro sched_more [OF 1] sched_more [OF 2] sched_more [OF 3] sched_more [OF 4] sched_more [OF 5] sched_done)
  moreover have "busy_on (mon_id m) s5 0" "busy_on (mon_id m) s5 1" by (simp_all add: busy_on_def s5_def)
  ultimately show ?thesis by blast
qed

section \<open>The outcome of a check\<close>

text \<open>A check of a known monitor whose checker never returns neither result nor error stores exactly one
  result, for this node and monitor: that of the first attempt that is up among the configured ones,
  and otherwise that of the last attempt, where an attempt without a result counts as down.\<close>

lemma check_outcome:
  assumes "stored_monitor s k = Some m" and "registry (mon_check_type m) = Some check"
    and "\<forall>i < attempt_count m. check m i \<noteq> (None, None)"
  shows "\<exists>i < attempt_count m. (\<forall>j < i. \<not> up_reply (check m j)) \<and>
    (up_reply (check m i) \<or> i = attempt_count m - 1) \<and>
    check_body (sqlite_store (quiet eng)) nodeID registry now k s
      = (let r = stored_check k nodeID (final_result (check m i)) now in
         (Inr (Some r), snd (sqlite_InsertCheckResult (quiet eng) r (tick s))))"
proof -
  let ?n = "attempt_count m"
  have pos: "0 < ?n" by (simp add: attempt_count_def)
  have run: "run_attempts (check m) 0 ?n (None, None) = Inr (case find (\<lambda>j. up_reply (check m j)) [0..<?n] of
      Some j \<Rightarrow> check m j | None \<Rightarrow> check m (?n - 1))"
    using run_attempts_spec [of 0 ?n "check m" "(None, None)"] assms(3) pos
    by (auto split: option.splits)
  have body: "check_body (sqlite_store (quiet eng)) nodeID registry now k s
      = (let r = stored_check k nodeID (final_result (check m i)) now in
         (Inr (Some r), snd (sqlite_InsertCheckResult (quiet eng) r (tick s))))"
    if "run_attempts (check m) 0 ?n (None, None) = Inr (check m i)" for i
    using assms(1,2) that
    by (auto simp: check_body_def sqlite_GetMonitor_def db_query_def stored_monitor_def Let_def)
  show ?thesis
  proof (cases "find (\<lambda>j. up_reply (check m j)) [0..<?n]")
    case None
    then have "\<forall>j < ?n. \<not> up_reply (check m j)" by (auto simp: find_None_iff)
    with run None pos body [of "?n - 1"] show ?thesis by (intro exI [of _ "?n - 1"]) auto
  next
    case (Some i)
    then have "i < ?n" "up_reply (check m i)" "\<forall>j < i. \<not> up_reply (check m j)"
      by (auto simp: find_Some_iff)
    with run Some body [of i] show ?thesis by (intro exI [of _ i]) auto
  qed
qed

end
