(* ===== verification/Checker_Properties.thy ===== *)
theory Checker_Properties
  imports Checker Scheduling
begin

text \<open>
  When a check is up, down or degraded, checker by checker, and what the scheduler stores when it runs
  the registered checkers.
\<close>

section \<open>Every checker reports\<close>

lemma Result_simps [simp]:
  "cres_status (Result s l c e d) = s" "cres_error (Result s l c e d) = e"
  "cres_latency_ms (Result s l c e d) = l" "cres_status_code (Result s l c e d) = c"
  by (simp_all add: Result_def)

text \<open>A report carries one of the three states, and an error text exactly if it is not up.\<close>

definition well_formed :: "check_report \<Rightarrow> bool" where
  "well_formed r \<longleftrightarrow> cres_status r \<in> {''up'', ''down'', ''degraded''} \<and> (cres_status r = ''up'' \<longleftrightarrow> cres_error r = [])"

lemma tcp_report: "well_formed (check_tcp w m)"
  by (simp add: well_formed_def check_tcp_def split: option.splits)

lemma icmp_report: "well_formed (check_icmp w m)"
  by (simp add: well_formed_def check_icmp_def split: ping_outcome.splits)

lemma http_report: "well_formed (check_http t w m)"
  by (auto simp: well_formed_def check_http_def judge_status_def judge_certificate_def Let_def
      split: option.splits sum.splits)

lemma keyword_report: "well_formed (check_keyword w m)"
  by (auto simp: well_formed_def check_keyword_def judge_keyword_def Let_def
      split: option.splits sum.splits)

lemma dns_report: "well_formed (check_dns w m)"
  by (auto simp: well_formed_def check_dns_def judge_answers_def Let_def split: sum.splits)

lemma Check_report: "\<exists>r. Check c w m = (Some r, None) \<and> well_formed r"
  by (cases c) (simp_all add: tcp_report icmp_report http_report keyword_report dns_report)

lemma registered_types:
  "RegisterAll (\<lambda>_. None) t = (if t = ''icmp'' then Some ICMPChecker else if t = ''tcp'' then Some TCPChecker
     else if t = ''http'' then Some (HTTPChecker ''http'') else if t = ''https'' then Some (HTTPChecker ''https'')
     else if t = ''dns'' then Some DNSChecker else if t = ''http_keyword'' then Some KeywordChecker else None)"
  by (auto simp: RegisterAll_def Register_def)

lemma registered_reply:
  assumes "registered_check world t = Some check"
  shows "\<exists>r. check m i = (Some r, None) \<and> cres_status r \<in> {''up'', ''down'', ''degraded''} \<and>
    (cres_status r = ''up'' \<longleftrightarrow> cres_error r = [])"
proof -
  from assms obtain c where check: "check = (\<lambda>m i. (case Check c (world i) m of
      (r, e) \<Rightarrow> (map_option checker_result.truncate r, e)))"
    by (auto simp: registered_check_def split: sum.splits)
  obtain r where "Check c (world i) m = (Some r, None)" "well_formed r" using Check_report by blast
  then show ?thesis unfolding check well_formed_def by (auto simp: checker_result.truncate_def)
qed

section \<open>HTTP\<close>

text \<open>Redirects end: after ten requests a further redirect is refused.\<close>

lemma follow_endless:
  assumes "\<And>n u. fetch n u = Inr (Redirect (g u))"
  shows "follow fetch refusal k url = Inl (refusal ((g ^^ Suc k) url))"
  by (induction k arbitrary: url) (simp_all add: assms funpow_swap1)

lemma judged_status:
  "cres_status (judge_certificate t cert (judge_status m code (Result ''up'' l c [] d)))
    = (if t = ''https'' \<and> (\<exists>x. cert = Some x \<and> cert_days x < 7) then ''degraded''
       else if mon_expected_status m > 0 then (if code = mon_expected_status m then ''up'' else ''down'')
       else if mon_expected_status m = 0 then (if code < 400 then ''up'' else ''down'') else ''up'')"
  by (auto simp: judge_status_def judge_certificate_def Let_def split: option.splits)

text \<open>C28: an HTTP or HTTPS check is up exactly if the request can be made, the last answer after at most nine
  redirects has the expected status (any below 400 if none is set), and the certificate of an HTTPS
  answer is valid for seven more days; it is degraded exactly if that last answer came with a
  certificate that is not, whatever its status code.\<close>

theorem http_verdict:
  "(cres_status (check_http t w m) = ''up'' \<longleftrightarrow> cw_request_error w (http_url t m) = None \<and>
      (\<exists>rep. follow (cw_fetch w (timeout_ns m) user_agent) (redirect_refused w ''too many redirects'') 9
          (http_url t m) = Inr rep \<and>
        (if mon_expected_status m > 0 then rep_code rep = mon_expected_status m
         else if mon_expected_status m = 0 then rep_code rep < 400 else True) \<and>
        (case rep_cert rep of Some c \<Rightarrow> if t = ''https'' then cert_days c \<ge> 7 else True | None \<Rightarrow> True))) \<and>
    (cres_status (check_http t w m) = ''degraded'' \<longleftrightarrow> cw_request_error w (http_url t m) = None \<and> t = ''https'' \<and>
      (\<exists>rep c. follow (cw_fetch w (timeout_ns m) user_agent) (redirect_refused w ''too many redirects'') 9
          (http_url t m) = Inr rep \<and> rep_cert rep = Some c \<and> cert_days c < 7))"
proof (cases "cw_request_error w (http_url t m)")
  case None
  show ?thesis
  proof (cases "follow (cw_fetch w (timeout_ns m) user_agent) (redirect_refused w ''too many redirects'') 9
      (http_url t m)")
    case (Inr rep)
    with None show ?thesis
      by (cases "rep_cert rep") (auto simp: check_http_def Let_def judged_status)
  qed (simp add: check_http_def None)
qed (simp add: check_http_def)

lemma has_prefix_iff: "has_prefix p s \<longleftrightarrow> (\<exists>b. s = p @ b)"
  by (metis append_eq_conv_conj append_take_drop_id has_prefix_def)

lemma trim_right_slashes:
  assumes "h \<noteq> []" and "last h \<noteq> c"
  shows "trim_right c (h @ replicate n c) = h"
proof -
  have "dropWhile (\<lambda>x. x = c) (replicate n c @ rev h) = rev h"
    using assms by (subst dropWhile_append2) (auto simp: dropWhile_eq_self_iff hd_rev)
  then show ?thesis by (simp add: trim_right_def)
qed

text \<open>A scheme in front of the target and slashes behind it do not matter, and the port is put behind what
  remains, 80 or 443 by default. If that is a host with a path, the port lands behind the path.\<close>

lemma url_of_target:
  assumes "p \<in> {[], ''http://'', ''https://''}" and "h \<noteq> []" and "last h \<noteq> CHR ''/''"
    and "CHR '':'' \<notin> set h"
    and "mon_target m = p @ h @ replicate n (CHR ''/'')"
  shows "http_url t m = (if t = ''https'' then ''https'' else ''http'') @ ''://'' @ h @ '':'' @
    show_int (if mon_port m = 0 then (if t = ''https'' then 443 else 80) else mon_port m)"
proof -
  have "\<not> has_prefix q (h @ replicate n (CHR ''/''))" if "CHR '':'' \<in> set q" for q
    using that assms(4) by (auto simp: has_prefix_iff dest!: arg_cong [where f = set])
  then have plain: "trim_prefix q (h @ replicate n (CHR ''/'')) = h @ replicate n (CHR ''/'')"
    if "q \<in> {''http://'', ''https://''}" for q
    using that by (auto simp: trim_prefix_def)
  have "trim_prefix ''https://'' (''http://'' @ x) = ''http://'' @ x" "trim_prefix ''http://'' (''http://'' @ x) = x"
    "trim_prefix ''https://'' (''https://'' @ x) = x" for x
    by (simp_all add: trim_prefix_def has_prefix_def)
  with plain assms(1)
  have "trim_prefix ''http://'' (trim_prefix ''https://'' (mon_target m)) = h @ replicate n (CHR ''/'')"
    unfolding assms(5) by auto
  then have "bare_target (mon_target m) = h"
    using trim_right_slashes [OF assms(2,3)] by (simp add: bare_target_def)
  then show ?thesis by (simp add: http_url_def http_scheme_def Let_def)
qed

section \<open>Keyword\<close>

lemma contains_text_iff: "contains_text sub s \<longleftrightarrow> (\<exists>a b. s = a @ sub @ b)"
proof (induction s)
  case (Cons x s)
  have "(\<exists>a b. x # s = a @ sub @ b) \<longleftrightarrow> (\<exists>b. x # s = sub @ b) \<or> (\<exists>a b. s = a @ sub @ b)"
    by (metis append_Cons append_Nil list.exhaust list.inject)
  with Cons show ?case by (simp add: has_prefix_iff)
qed simp

text \<open>A keyword check is up exactly if the request can be made, the last answer's status is below 400, and
  the keyword occurs in the first megabyte of its body, which can be read. The monitor's expected
  status and its scheme play no part: the request is a plain HTTP one.\<close>

lemma keyword_verdict:
  "cres_status (check_keyword w m) = ''up'' \<longleftrightarrow> cw_request_error w (keyword_url m) = None \<and>
    (\<exists>rep a b. follow (cw_fetch w (timeout_ns m) user_agent) (redirect_refused w ''stopped after 10 redirects'') 9
        (keyword_url m) = Inr rep \<and> rep_code rep < 400 \<and>
      limited_body rep = Inr (a @ mon_expected_keyword m @ b))"
proof -
  have judge: "cres_status (judge_keyword w m rep body) = ''up'' \<longleftrightarrow>
      rep_code rep < 400 \<and> (\<exists>a b. body = a @ mon_expected_keyword m @ b)" for rep body
    by (auto simp: judge_keyword_def Let_def contains_text_iff)
  show ?thesis
    by (auto simp: check_keyword_def Let_def judge split: option.splits sum.splits)
qed

section \<open>DNS\<close>

text \<open>A DNS check is up exactly if the query is answered without an error code and the expected answer, if
  one is configured, is among the answers.\<close>

lemma dns_verdict:
  "cres_status (check_dns w m) = ''up'' \<longleftrightarrow>
    (\<exists>resp. cw_dns w (timeout_ns m) (dns_server m) (dns_question m) (dns_record_type (mon_dns_record_type m))
        = Inr resp \<and> dns_rcode resp = 0 \<and>
      (mon_dns_expected m = [] \<or> mon_dns_expected m \<in> set (dns_texts (dns_answers resp))))"
  by (auto simp: check_dns_def judge_answers_def Let_def list_ex_iff split: sum.splits)

section \<open>With the scheduler\<close>

text \<open>C25: a check of a stored monitor of any of the six types ends with one result for this node and monitor, with one
  of the three states. The result is up exactly if one of the configured attempts is, and it is that of the first
  attempt that is up, or else of the last one. It is appended to the table of results if the node that checks is in the
  table of nodes; if it is not, the foreign key refuses it and the table stays as it was.\<close>

theorem every_check_stores_result:
  assumes "stored_monitor s k = Some m"
    and "mon_check_type m \<in> {''icmp'', ''tcp'', ''http'', ''https'', ''dns'', ''http_keyword''}"
  shows "\<exists>r check i. registered_check world (mon_check_type m) = Some check \<and>
    check_body (sqlite_store (quiet eng)) nodeID (registered_check world) now k s
      = (Inr (Some r), snd (sqlite_InsertCheckResult (quiet eng) r (tick s))) \<and>
    db_results (snd (sqlite_InsertCheckResult (quiet eng) r (tick s))) = db_results s @
      (if has_key node_id nodeID (db_nodes s) then [bind_result (db_result_seq s + 1) r] else []) \<and>
    r = stored_check k nodeID (final_result (check m i)) now \<and>
    res_status r \<in> {''up'', ''down'', ''degraded''} \<and> i < attempt_count m \<and>
    (res_status r = ''up'' \<longleftrightarrow> (\<exists>j < attempt_count m. up_reply (check m j))) \<and>
    (if res_status r = ''up'' then (\<forall>j < i. \<not> up_reply (check m j)) else i = attempt_count m - 1)"
proof -
  obtain check where check: "registered_check world (mon_check_type m) = Some check"
    using assms(2) by (auto simp: registered_check_def Get_def registered_types)
  note reply = registered_reply [OF check]
  have "\<forall>i < attempt_count m. check m i \<noteq> (None, None)"
    using reply by (metis option.distinct(1) prod.inject)
  from check_outcome [where registry = "registered_check world" and eng = eng and nodeID = nodeID and now = now,
      OF assms(1) check this]
  obtain i where i: "i < attempt_count m" "\<forall>j < i. \<not> up_reply (check m j)"
    "up_reply (check m i) \<or> i = attempt_count m - 1"
    "check_body (sqlite_store (quiet eng)) nodeID (registered_check world) now k s
      = (Inr (Some (stored_check k nodeID (final_result (check m i)) now)),
         snd (sqlite_InsertCheckResult (quiet eng) (stored_check k nodeID (final_result (check m i)) now) (tick s)))"
    by (auto simp: Let_def)
  obtain r where r: "check m i = (Some r, None)" "cres_status r \<in> {''up'', ''down'', ''degraded''}"
    using reply [of m i] by blast
  then have up: "up_reply (check m i) \<longleftrightarrow> cres_status r = ''up''" by (simp add: up_reply_def)
  have none: "\<not> up_reply (check m j)" if "cres_status r \<noteq> ''up''" "j < attempt_count m" for j
    using that i(2,3) up by (cases "j = i") auto
  have "res_status (stored_check k nodeID (final_result (check m i)) now) = cres_status r"
    by (simp add: stored_check_def final_result_def r(1))
  moreover have "db_results (snd (sqlite_InsertCheckResult (quiet eng) (stored_check k nodeID q now) (tick s))) = db_results s @
      (if has_key node_id nodeID (db_nodes s) then [bind_result (db_result_seq s + 1) (stored_check k nodeID q now)] else [])" for q
  proof -
    have "has_key mr_id k (db_monitors s)" using assms(1) by (auto simp: stored_monitor_def has_key_iff find_Some_iff)
    then show ?thesis by (simp add: sqlite_InsertCheckResult_def db_exec_def stored_check_def)
  qed
  ultimately show ?thesis
    using check i up r(2) none
    by (intro exI [of _ "stored_check k nodeID (final_result (check m i)) now"] exI [of _ check] exI [of _ i]) auto
qed

definition quiet_world :: check_world where
  "quiet_world = \<lparr>cw_dial = (\<lambda>_ _. None), cw_ping = (\<lambda>_ _. NoPinger ''e''), cw_request_error = (\<lambda>_. None),
     cw_fetch = (\<lambda>_ _ _ _. Inl ''e''), cw_dns = (\<lambda>_ _ _ _. Inl ''e''), cw_latency = 1, cw_quoted = (\<lambda>s. s)\<rparr>"

lemma every_check_stores_result_witness:
  "\<exists>r. check_body (sqlite_store (quiet plain_engine)) ''a'' (registered_check (\<lambda>_. quiet_world)) 9 ''m'' db_setup
      = (Inr (Some r), snd (sqlite_InsertCheckResult (quiet plain_engine) r (tick db_setup))) \<and>
    db_results (snd (sqlite_InsertCheckResult (quiet plain_engine) r (tick db_setup)))
      = db_results db_setup @ [bind_result (db_result_seq db_setup + 1) r]"
proof -
  have "stored_monitor db_setup ''m'' = Some mon_m" by code_simp
  moreover have "has_key node_id ''a'' (db_nodes db_setup)" by code_simp
  moreover have "mon_check_type mon_m \<in> {''icmp'', ''tcp'', ''http'', ''https'', ''dns'', ''http_keyword''}"
    by (simp add: mon_m_def)
  ultimately show ?thesis
    using every_check_stores_result [of db_setup "''m''" mon_m "\<lambda>_. quiet_world" plain_engine "''a''" 9] by auto
qed

end
