(* ===== verification/Coordinator.thy ===== *)
theory Coordinator
  imports Samples
begin

text \<open>
  The coordinator as a transition system over its database: a step is one statement of any goroutine
  other than the consensus loop, or one whole tick of the consensus loop with arbitrary statements of
  the others between its own. A run carries the notifications that its ticks start.
\<close>

section \<open>A notification moves its incident forward\<close>

definition event_phase :: "string \<Rightarrow> phase" where
  "event_phase ev = (if ev = ''recovery'' then Resolved else Confirmed)"

text \<open>
  \<open>announces is t js\<close>: the incident of \<open>t\<close> had not reached the phase the notification is about before,
  and has reached it after.
\<close>

definition announces :: "incident list \<Rightarrow> alert_task \<Rightarrow> incident list \<Rightarrow> bool" where
  "announces is t js \<longleftrightarrow>
     (\<forall>i \<in> set is. inc_id i = inc_id (task_incident t) \<longrightarrow> inc_phase i < event_phase (task_event t)) \<and>
     (\<exists>j \<in> set js. inc_id j = inc_id (task_incident t) \<and>
        inc_monitor_id j = inc_monitor_id (task_incident t) \<and> event_phase (task_event t) \<le> inc_phase j)"

lemma announces_earlier:
  assumes "progressed is js" and "announces js t ks" and "incidents_ok js"
  shows "announces is t ks"
  unfolding announces_def
proof (intro conjI ballI impI)
  fix i
  assume i: "i \<in> set is" "inc_id i = inc_id (task_incident t)"
  with assms(1) obtain j where "j \<in> set js" "same_outage i j" by (auto simp: progressed_def)
  with assms(2) i(2) show "inc_phase i < event_phase (task_event t)"
    by (auto simp: announces_def same_outage_def dest: bspec intro: le_less_trans)
next
  show "\<exists>j\<in>set ks. inc_id j = inc_id (task_incident t) \<and>
      inc_monitor_id j = inc_monitor_id (task_incident t) \<and> event_phase (task_event t) \<le> inc_phase j"
    using assms(2) by (simp add: announces_def)
qed

lemma announces_later:
  assumes "announces is t js" and "progressed js ks"
  shows "announces is t ks"
proof -
  from assms(1) obtain j where j: "j \<in> set js" "inc_id j = inc_id (task_incident t)"
    "inc_monitor_id j = inc_monitor_id (task_incident t)"
    "event_phase (task_event t) \<le> inc_phase j" by (auto simp: announces_def)
  with assms(2) obtain k where "k \<in> set ks" "same_outage j k" by (auto simp: progressed_def)
  with j have "k \<in> set ks \<and> inc_id k = inc_id (task_incident t) \<and>
      inc_monitor_id k = inc_monitor_id (task_incident t) \<and> event_phase (task_event t) \<le> inc_phase k"
    by (auto simp: same_outage_def intro: order_trans)
  with assms(1) show ?thesis by (auto simp: announces_def)
qed

lemma announced_once:
  assumes "announces is t js" and "progressed js ks" and "announces ks u ls"
  shows "inc_id (task_incident t) \<noteq> inc_id (task_incident u) \<or>
    event_phase (task_event t) < event_phase (task_event u)"
proof -
  from announces_later [OF assms(1,2)] obtain k where "k \<in> set ks"
    "inc_id k = inc_id (task_incident t)" "event_phase (task_event t) \<le> inc_phase k"
    by (auto simp: announces_def)
  with assms(3) show ?thesis
    by (auto simp: announces_def dest: bspec intro: le_less_trans)
qed

lemma same_id:
  "incidents_ok is \<Longrightarrow> i \<in> set is \<Longrightarrow> j \<in> set is \<Longrightarrow> inc_id i = inc_id j \<Longrightarrow> i = j"
  unfolding incidents_ok_def by (meson distinct_map_unique)

text \<open>An update of one incident to a later phase announces the event of that phase.\<close>

lemma update_announces:
  assumes ok: "incidents_ok is" and i: "i \<in> set is" and new: "inc_id i' = inc_id i" "set_incident i' i = read_back i'"
    and task: "task_incident t = i'" "inc_monitor_id i' = inc_monitor_id i"
    and phases: "inc_phase i < event_phase (task_event t)" "event_phase (task_event t) \<le> inc_phase i'"
  shows "announces is t (map (set_incident i') is)"
  unfolding announces_def
proof (intro conjI ballI impI)
  fix j
  assume "j \<in> set is" "inc_id j = inc_id (task_incident t)"
  with same_id [OF ok] i task(1) new(1) phases(1) show "inc_phase j < event_phase (task_event t)" by metis
next
  have "read_back i' \<in> set (map (set_incident i') is)" using i new(2) by force
  moreover have "inc_id (read_back i') = inc_id (task_incident t)"
    "inc_monitor_id (read_back i') = inc_monitor_id (task_incident t)" "event_phase (task_event t) \<le> inc_phase (read_back i')"
    using task phases(2) by simp_all
  ultimately show "\<exists>j\<in>set (map (set_incident i') is). inc_id j = inc_id (task_incident t) \<and>
      inc_monitor_id j = inc_monitor_id (task_incident t) \<and> event_phase (task_event t) \<le> inc_phase j"
    by blast
qed

context ticking_store
begin

lemma dispatched:
  assumes "dispatch st i mon ev s = (ts, s')" and "t \<in> set ts"
  shows "task_incident t = i \<and> task_event t = ev"
  using assms by (auto simp: dispatch_def split: sum.splits prod.splits)

lemma evaluate_announces:
  assumes run: "evaluateMonitorConsensus st inp mon online nodes s = (ts, s')"
    and ok: "incidents_ok (incidents s)" and t: "t \<in> set ts"
  shows "announces (incidents s) t (incidents s') \<and> inc_monitor_id (task_incident t) = mon_id mon"
proof -
  obtain c ids s1 where count: "count_failing st mon online 0 None s = ((c, ids), s1)"
    by (metis surj_pair)
  have keep: "incidents s1 = incidents s"
    using count_failing_keeps [OF _ count] counting_keeps_incidents(1) by metis
  show ?thesis
  proof (cases "EvaluateQuorum (mon_quorum_type mon) (mon_quorum_n mon) c nodes")
    case True
    from run count True show ?thesis
    proof (cases rule: evaluate_outage)
      case idle
      with t show ?thesis by simp
    next
      case (alerted i s2 u s3)
      note opn = get_or_create_opened [OF alerted(1), unfolded keep]
      have ok2: "incidents_ok (incidents s2)" and pr: "progressed (incidents s) (incidents s2)"
        using opn(1) ok by (blast intro: opened_by_ok opened_by_progressed)+
      have inc: "incidents s' = map (set_incident (confirmed_incident i ids (ti_written inp))) (incidents s2)"
        using update_and_dispatch [OF alerted(3) alerted(4)] by simp
      have "announces (incidents s2) t (incidents s')"
        unfolding inc using opn(2) dispatched [OF alerted(4) t] alerted(2)
        by (intro update_announces [OF ok2, of i]) (auto simp: event_phase_def inc_phase_def less_phase_def)
      with announces_earlier [OF pr _ ok2] opn(2) dispatched [OF alerted(4) t] show ?thesis
        by (auto simp: active_for_def)
    qed
  next
    case False
    from run count False show ?thesis
    proof (cases rule: evaluate_no_outage)
      case idle
      with t show ?thesis by simp
    next
      case (recovered i s2 k s3 u s4)
      have inc: "incidents s' = map (set_incident (resolved_incident i (ti_written inp))) (incidents s)"
        using update_and_dispatch [OF recovered(5) recovered(6)] recovered(3) keep
        by simp
      have i: "i \<in> set (incidents s)" "active_for (mon_id mon) i"
        using active_some [OF recovered(1)] keep by simp_all
      then have "inc_phase i < Resolved"
        using ok by (auto simp: active_for_def incidents_ok_def active_phase)
      with i dispatched [OF recovered(6) t] have "announces (incidents s) t (incidents s')"
        unfolding inc by (intro update_announces [OF ok, of i]) (auto simp: event_phase_def)
      with i(2) dispatched [OF recovered(6) t] show ?thesis by (simp add: active_for_def)
    qed
  qed
qed

lemma evaluate_monitors_announces:
  assumes "evaluate_monitors st inp k online nodes ms s = (ts, s')" and "incidents_ok (incidents s)"
    and "t \<in> set ts"
  shows "announces (incidents s) t (incidents s') \<and> inc_monitor_id (task_incident t) \<in> mon_id ` set ms"
  using assms
proof (induction ms arbitrary: k s ts)
  case (Cons m ms)
  obtain us s1 where one: "evaluateMonitorConsensus st (inp k) m online nodes s = (us, s1)" by fastforce
  obtain vs s2 where rest: "evaluate_monitors st inp (Suc k) online nodes ms s1 = (vs, s2)" by fastforce
  with Cons.prems one have s': "s' = s2" and t: "t \<in> set us \<or> t \<in> set vs" by auto
  note safe = evaluate_safe [OF one Cons.prems(2)]
  note safe2 = evaluate_monitors_safe [OF rest safe(1)]
  from t show ?case
  proof
    assume "t \<in> set us"
    from evaluate_announces [OF one Cons.prems(2) this] safe2 s' show ?thesis
      by (auto intro: announces_later)
  next
    assume "t \<in> set vs"
    with rest s' have "announces (incidents s1) t (incidents s') \<and>
        inc_monitor_id (task_incident t) \<in> mon_id ` set ms"
      using Cons.IH [of "Suc k" s1 vs] safe(1) by simp
    with safe show ?thesis by (auto intro: announces_earlier)
  qed
qed simp

lemma evaluateConsensus_announces:
  assumes run: "evaluateConsensus st inp s = (ts, s')" and ok: "incidents_ok (incidents s)"
    and t: "t \<in> set ts"
  shows "announces (incidents s) t (incidents s')"
proof -
  obtain q s1 where q: "ListEnabledMonitors st s = (q, s1)" by fastforce
  obtain o1 s2 where o1: "GetOnlineNodes st s1 = (o1, s2)" by fastforce
  then have "s2 = snd (ListNodes st s1)"
    by (auto simp: GetOnlineNodes_def split: sum.splits prod.splits)
  with q lists_keep_incidents have keep: "incidents s2 = incidents s"
    by (metis preservesD preserves_snd)
  from run q o1 t obtain ms online where
    "evaluate_monitors st inp 0 online (int (length online)) ms s2 = (ts, s')"
    by (auto simp: evaluateConsensus_def Let_def split: sum.splits if_splits)
  from evaluate_monitors_announces [OF this] keep ok t show ?thesis by simp
qed

end

section \<open>One event in a tick\<close>

text \<open>
  The notifications of one tick: all that are about one incident are of one kind, and go to different
  channels.
\<close>

definition one_event :: "alert_task list \<Rightarrow> bool" where
  "one_event ts \<longleftrightarrow> task_event ` set ts \<subseteq> {''alert'', ''recovery''} \<and>
     (\<forall>t \<in> set ts. \<forall>u \<in> set ts. inc_id (task_incident t) = inc_id (task_incident u) \<longrightarrow> task_event t = task_event u) \<and>
     distinct (map (\<lambda>t. (inc_id (task_incident t), ch_id (task_channel t))) ts)"

lemma one_event_Nil [simp]: "one_event []"
  by (simp add: one_event_def)

lemma one_event_append:
  assumes "one_event ts" and "one_event us"
    and "\<And>t u. t \<in> set ts \<Longrightarrow> u \<in> set us \<Longrightarrow> inc_id (task_incident t) \<noteq> inc_id (task_incident u)"
  shows "one_event (ts @ us)"
proof -
  let ?key = "\<lambda>t. (inc_id (task_incident t), ch_id (task_channel t))"
  have ne: "?key t \<noteq> ?key u" if "t \<in> set ts" "u \<in> set us" for t u
    using assms(3) [OF that] by blast
  have keys: "set (map ?key ts) \<inter> set (map ?key us) = {}"
  proof (rule equals0I)
    fix k
    assume "k \<in> set (map ?key ts) \<inter> set (map ?key us)"
    then obtain t u where "t \<in> set ts" "u \<in> set us" "k = ?key t" "k = ?key u" unfolding set_map by blast
    with ne show False by metis
  qed
  have same: "task_event t = task_event u"
    if tu: "t \<in> set (ts @ us)" "u \<in> set (ts @ us)" "inc_id (task_incident t) = inc_id (task_incident u)" for t u
  proof (cases "t \<in> set ts")
    case True
    then have "u \<in> set ts" using tu(2,3) assms(3) [of t u] unfolding set_append by blast
    with True tu(3) assms(1) show ?thesis unfolding one_event_def by blast
  next
    case False
    with tu(1) have t: "t \<in> set us" by simp
    then have "u \<in> set us" using tu(2) assms(3) [of u t] tu(3) [symmetric] unfolding set_append by blast
    with t tu(3) assms(2) show ?thesis unfolding one_event_def by blast
  qed
  show ?thesis
    unfolding one_event_def
  proof (intro conjI ballI impI)
    show "task_event ` set (ts @ us) \<subseteq> {''alert'', ''recovery''}"
      using assms(1,2) unfolding one_event_def set_append image_Un by blast
    show "distinct (map ?key (ts @ us))"
      using assms(1,2) keys unfolding one_event_def map_append distinct_append by blast
  qed (rule same)
qed

lemma evaluate_dispatches:
  assumes "evaluateMonitorConsensus st inp mon online nodes s = (ts, s')"
  shows "ts = [] \<or> (\<exists>i s1. dispatch st i mon ''alert'' s1 = (ts, s') \<or> dispatch st i mon ''recovery'' s1 = (ts, s'))"
  using assms unfolding evaluateMonitorConsensus_def SendAlert_def SendRecovery_def
  by (simp split: sum.splits option.splits if_splits prod.splits) blast+

lemma dispatch_one_event:
  assumes "dispatch st i mon ev s = (ts, s')" and "ev \<in> {''alert'', ''recovery''}"
    and "\<And>cs. ListEnabledAlertChannels st s = (Inr cs, s') \<Longrightarrow> distinct (map ch_id cs)"
  shows "one_event ts"
proof (cases "ListEnabledAlertChannels st s")
  case (Pair r s1)
  show ?thesis
  proof (cases r)
    case (Inl e)
    with assms(1) Pair show ?thesis by (simp add: dispatch_def)
  next
    case (Inr cs)
    let ?task = "\<lambda>ch. \<lparr>task_channel = ch, task_incident = i, task_monitor = mon, task_event = ev\<rparr>"
    have ts: "ts = map ?task cs" "s1 = s'" using assms(1) Pair Inr by (simp_all add: dispatch_def)
    with assms(3) Pair Inr have "distinct (map ch_id cs)" by simp
    then have "distinct (map (\<lambda>t. (inc_id (task_incident t), ch_id (task_channel t))) (map ?task cs))"
      by (simp add: comp_def distinct_map inj_on_def)
    with assms(2) show ?thesis unfolding ts one_event_def by auto
  qed
qed

section \<open>Runs of the coordinator\<close>

inductive coordinator_step :: "engine \<Rightarrow> db \<Rightarrow> alert_task list \<Rightarrow> db \<Rightarrow> bool" for eng where
  consensus_tick: "evaluateConsensus (shared_store env eng) inp (s, 0) = (ts, (s', k)) \<Longrightarrow>
    coordinator_step eng s ts s'"
| other_statement: "coordinator_step eng s [] (exec_foreign eng f s)"

inductive coordinator_run :: "engine \<Rightarrow> db \<Rightarrow> alert_task list \<Rightarrow> db \<Rightarrow> bool" for eng where
  start: "coordinator_run eng s [] s"
| more: "coordinator_run eng s ts t \<Longrightarrow> coordinator_step eng t us u \<Longrightarrow> coordinator_run eng s (ts @ us) u"

lemma shared_incidents_Pair [simp]: "shared_incidents (s, k) = stored_incidents s"
  by (simp add: shared_incidents_def)

lemma step_safe:
  assumes "coordinator_step eng s ts s'" and "db_ok s" and "incidents_ok (stored_incidents s)"
  shows "db_ok s'" and "incidents_ok (stored_incidents s')"
    and "progressed (stored_incidents s) (stored_incidents s')"
    and "t \<in> set ts \<Longrightarrow> announces (stored_incidents s) t (stored_incidents s')"
proof -
  have "db_ok s' \<and> incidents_ok (stored_incidents s') \<and>
      progressed (stored_incidents s) (stored_incidents s') \<and>
      (\<forall>t \<in> set ts. announces (stored_incidents s) t (stored_incidents s'))"
    using assms
  proof (induction rule: coordinator_step.induct)
    case (consensus_tick env inp s ts s' k)
    note run = consensus_tick(1)
    have "db_ok s'" using tick_runs [OF run] consensus_tick(2) sql_run_ok by blast
    moreover have "incidents_ok (shared_incidents (s, 0))" using consensus_tick(3) by simp
    note sqlite_shared.evaluateConsensus_safe [OF run this]
      sqlite_shared.evaluateConsensus_announces [OF run this]
    ultimately show ?case by simp
  next
    case (other_statement s f)
    have "stored_incidents (exec_foreign eng f s) = stored_incidents s"
      by (simp add: stored_incidents_def exec_foreign_incidents)
    with other_statement sql_step_ok [OF exec_foreign_step] show ?case by simp
  qed
  then show "db_ok s'" and "incidents_ok (stored_incidents s')"
    and "progressed (stored_incidents s) (stored_incidents s')"
    and "t \<in> set ts \<Longrightarrow> announces (stored_incidents s) t (stored_incidents s')" by blast+
qed

lemma run_safe:
  assumes "coordinator_run eng s ts s'" and "db_ok s" and "incidents_ok (stored_incidents s)"
  shows "db_ok s'" and "incidents_ok (stored_incidents s')"
    and "progressed (stored_incidents s) (stored_incidents s')"
    and "t \<in> set ts \<Longrightarrow> announces (stored_incidents s) t (stored_incidents s')"
proof -
  have "db_ok s' \<and> incidents_ok (stored_incidents s') \<and>
      progressed (stored_incidents s) (stored_incidents s') \<and>
      (\<forall>t \<in> set ts. announces (stored_incidents s) t (stored_incidents s'))"
    using assms
  proof (induction rule: coordinator_run.induct)
    case (more s ts t us u)
    then have t: "db_ok t" "incidents_ok (stored_incidents t)"
      "progressed (stored_incidents s) (stored_incidents t)"
      "\<And>a. a \<in> set ts \<Longrightarrow> announces (stored_incidents s) a (stored_incidents t)" by blast+
    note u = step_safe [OF more.hyps(2) t(1,2)]
    have "announces (stored_incidents s) a (stored_incidents u)" if "a \<in> set (ts @ us)" for a
    proof (cases "a \<in> set ts")
      case True
      with announces_later [OF t(4) u(3)] show ?thesis by blast
    next
      case False
      with that have "a \<in> set us" by simp
      from announces_earlier [OF t(3) u(4) [OF this] t(2)] show ?thesis .
    qed
    with t(3) u(1-3) show ?case by (blast intro: progressed_trans)
  qed simp
  then show "db_ok s'" and "incidents_ok (stored_incidents s')"
    and "progressed (stored_incidents s) (stored_incidents s')"
    and "t \<in> set ts \<Longrightarrow> announces (stored_incidents s) t (stored_incidents s')" by blast+
qed

section \<open>Each incident is told once\<close>

lemma shared_channels_distinct:
  assumes "ListEnabledAlertChannels (shared_store env eng) p = (Inr cs, p')" and "db_ok (fst p')"
  shows "distinct (map ch_id cs)"
proof -
  from assms(1) [unfolded shared_store_simps] obtain t where t: "sqlite_ListEnabledAlertChannels eng t = (Inr cs, fst p')"
    by (rule interleaveE)
  then have "db_channels t = db_channels (fst p')"
    by (auto simp: sqlite_ListEnabledAlertChannels_def elim!: db_queryE)
  then have "distinct (map cr_id (db_channels t))" using db_ok_keys(5) [OF assms(2)] by simp
  then show ?thesis
    using t by (auto simp: sqlite_ListEnabledAlertChannels_def comp_def distinct_map_order_by distinct_map_filter
        elim!: db_queryE)
qed

lemma shared_monitors_distinct:
  assumes "ListEnabledMonitors (shared_store env eng) p = (Inr ms, p')" and "db_ok (fst p)"
  shows "distinct (map mon_id ms)" and "db_ok (fst p')"
proof -
  from assms(1) [unfolded shared_store_simps] obtain t where t: "sqlite_ListEnabledMonitors eng t = (Inr ms, fst p')"
    "sql_run eng (fst p) t" by (rule interleaveE)
  then have "db_ok t" using assms(2) sql_run_ok by blast
  with t show "distinct (map mon_id ms)" and "db_ok (fst p')"
    by (auto simp: sqlite_ListEnabledMonitors_def comp_def distinct_map_order_by distinct_map_filter
        dest: db_ok_keys elim!: db_queryE)
qed

lemma shared_op_ok:
  assumes "\<And>s. sql_step eng s (snd (opn s))" and "interleave eng env opn p = (r, p')" and "db_ok (fst p)"
  shows "db_ok (fst p')"
  using interleave_runs [OF assms(1)] assms(2,3) sql_run_ok by (fastforce dest: evolvesD)

lemma shared_evaluate_ok:
  assumes "evaluateMonitorConsensus (shared_store env eng) inp mon online nodes p = (ts, p')" and "db_ok (fst p)"
  shows "db_ok (fst p')"
proof -
  have "preorder_on_states (\<lambda>p p'. sql_run eng (fst p) (fst p'))"
    using sql_run.start sql_run_trans by (auto simp: preorder_on_states_def)
  then have "sql_run eng (fst p) (fst p')"
    by (rule evaluate_evolves [OF _ _ _ _ _ _ _ assms(1)])
      (auto intro!: interleave_runs query_step sql_step.intros simp: count_statements
        sqlite_GetActiveIncident_def sqlite_ListEnabledAlertChannels_def)
  with assms(2) sql_run_ok show ?thesis by blast
qed

lemma evaluate_one_event:
  assumes "evaluateMonitorConsensus (shared_store env eng) inp mon online nodes p = (ts, p')" and "db_ok (fst p)"
  shows "one_event ts"
  using evaluate_dispatches [OF assms(1)]
    dispatch_one_event [OF _ _ shared_channels_distinct [OF _ shared_evaluate_ok [OF assms]]] by fastforce

lemma tick_one_event:
  assumes "evaluate_monitors (shared_store env eng) inp k online nodes ms p = (ts, p')"
    and "db_ok (fst p)" and "incidents_ok (shared_incidents p)" and "distinct (map mon_id ms)"
  shows "one_event ts"
  using assms
proof (induction ms arbitrary: k p ts)
  case (Cons m ms)
  obtain us p1 where one: "evaluateMonitorConsensus (shared_store env eng) (inp k) m online nodes p = (us, p1)"
    by (metis surj_pair)
  obtain vs where rest: "evaluate_monitors (shared_store env eng) inp (Suc k) online nodes ms p1 = (vs, p')"
    and ts: "ts = us @ vs" using Cons.prems(1) one by (auto split: prod.splits)
  note ok = sqlite_shared.evaluate_safe(1) [OF one Cons.prems(3)]
  note safe = sqlite_shared.evaluate_monitors_safe [OF rest ok]
  have "inc_id (task_incident t) \<noteq> inc_id (task_incident u)" if "t \<in> set us" "u \<in> set vs" for t u
  proof
    assume eq: "inc_id (task_incident t) = inc_id (task_incident u)"
    note t = sqlite_shared.evaluate_announces [OF one Cons.prems(3) that(1)]
    note u = sqlite_shared.evaluate_monitors_announces [OF rest ok that(2)]
    from announces_later [of _ t] t safe have "announces (shared_incidents p) t (shared_incidents p')" by blast
    then obtain i where i: "i \<in> set (shared_incidents p')" "inc_id i = inc_id (task_incident t)"
      "inc_monitor_id i = inc_monitor_id (task_incident t)" by (auto simp: announces_def)
    from u obtain j where j: "j \<in> set (shared_incidents p')" "inc_id j = inc_id (task_incident u)"
      "inc_monitor_id j = inc_monitor_id (task_incident u)" by (auto simp: announces_def)
    have "i = j" using same_id [of "shared_incidents p'"] safe i j eq by simp
    with i j t u Cons.prems(4) show False by auto
  qed
  moreover have "one_event us" using evaluate_one_event [OF one Cons.prems(2)] .
  moreover have "one_event vs"
    using Cons.IH [OF rest shared_evaluate_ok [OF one Cons.prems(2)] ok] Cons.prems(4) by simp
  ultimately show ?case unfolding ts by (intro one_event_append)
qed simp

lemma step_one_event:
  assumes "coordinator_step eng s ts s'" and "db_ok s" and "incidents_ok (stored_incidents s)"
  shows "one_event ts"
  using assms
proof (induction rule: coordinator_step.induct)
  case (consensus_tick env inp s ts s' k)
  let ?st = "shared_store env eng"
  obtain q p1 where q: "ListEnabledMonitors ?st (s, 0) = (q, p1)" by (metis surj_pair)
  obtain o1 p2 where o1: "GetOnlineNodes ?st p1 = (o1, p2)" by (metis surj_pair)
  show ?case
  proof (cases "\<exists>ms online. q = Inr ms \<and> o1 = Inr online \<and> online \<noteq> []")
    case False
    with consensus_tick(1) q o1 have "ts = []"
      by (auto simp: evaluateConsensus_def Let_def split: sum.splits if_splits)
    then show ?thesis by simp
  next
    case True
    then obtain ms online where v: "q = Inr ms" "o1 = Inr online" "online \<noteq> []" by blast
    note ms = shared_monitors_distinct [OF q [unfolded v(1)]]
    have nodes: "ListNodes ?st p1 = (fst (ListNodes ?st p1), p2)"
      using o1 by (auto simp: GetOnlineNodes_def split: sum.splits prod.splits)
    have "db_ok (fst p2)"
      using shared_op_ok [OF _ nodes [unfolded shared_store_simps]] ms(2) consensus_tick(2)
      by (simp add: sqlite_ListNodes_def sql_step.select)
    moreover have "shared_incidents p2 = stored_incidents s"
      using q nodes sqlite_shared.lists_keep_incidents by (metis preservesD shared_incidents_Pair)
    moreover have "evaluate_monitors ?st inp 0 online (int (length online)) ms p2 = (ts, (s', k))"
      using consensus_tick(1) q o1 v by (simp add: evaluateConsensus_def Let_def)
    ultimately show ?thesis using tick_one_event ms(1) consensus_tick(2,3) by simp
  qed
qed simp

text \<open>Of two notifications about one incident, the earlier is the alert and the later the recovery, or they go
  to two channels at one event.\<close>

definition told_apart :: "alert_task \<Rightarrow> alert_task \<Rightarrow> bool" where
  "told_apart t u \<longleftrightarrow> inc_id (task_incident t) = inc_id (task_incident u) \<longrightarrow>
     task_event t = ''alert'' \<and> task_event u = ''recovery'' \<or>
     task_event t = task_event u \<and> ch_id (task_channel t) \<noteq> ch_id (task_channel u)"

lemma one_event_told_apart:
  assumes "one_event ts"
  shows "sorted_wrt told_apart ts"
  unfolding sorted_wrt_iff_nth_less
proof (intro allI impI)
  fix i j
  assume ij: "i < j" "j < length ts"
  then have "(inc_id (task_incident (ts ! i)), ch_id (task_channel (ts ! i))) \<noteq>
      (inc_id (task_incident (ts ! j)), ch_id (task_channel (ts ! j)))"
    using assms by (auto simp: one_event_def distinct_conv_nth)
  moreover have "ts ! i \<in> set ts" "ts ! j \<in> set ts" using ij by simp_all
  ultimately show "told_apart (ts ! i) (ts ! j)"
    using assms unfolding told_apart_def one_event_def by blast
qed

lemma later_step_told_apart:
  assumes "coordinator_run eng s ts t" and "coordinator_step eng t us u"
    and "db_ok s" and "incidents_ok (stored_incidents s)"
    and a: "a \<in> set ts" "task_event a \<in> {''alert'', ''recovery''}" and b: "b \<in> set us"
    and "inc_id (task_incident a) = inc_id (task_incident b)"
  shows "task_event a = ''alert'' \<and> task_event b = ''recovery''"
proof -
  note t = run_safe [OF assms(1,3,4)]
  have "inc_id (task_incident a) \<noteq> inc_id (task_incident b) \<or> event_phase (task_event a) < event_phase (task_event b)"
    by (rule announced_once [OF t(4) [OF a(1)] progressed_refl step_safe(4) [OF assms(2) t(1,2) b]])
  with assms(8) have less: "event_phase (task_event a) < event_phase (task_event b)" by simp
  have "task_event b \<in> {''alert'', ''recovery''}"
    using step_one_event [OF assms(2) t(1,2)] b unfolding one_event_def by blast
  with a(2) less show ?thesis unfolding event_phase_def less_phase_def by (elim insertE) simp_all
qed

lemma run_told_apart:
  assumes "coordinator_run eng s ts s'" and "db_ok s" and "incidents_ok (stored_incidents s)"
  shows "sorted_wrt told_apart ts \<and> task_event ` set ts \<subseteq> {''alert'', ''recovery''}"
  using assms
proof (induction rule: coordinator_run.induct)
  case (more s ts t us u)
  note t = run_safe(1,2) [OF more.hyps(1) more.prems]
  note us = step_one_event [OF more.hyps(2) t]
  note IH = more.IH [OF more.prems]
  have "told_apart a b" if "a \<in> set ts" "b \<in> set us" for a b
    unfolding told_apart_def
  proof (intro impI disjI1)
    have "task_event a \<in> {''alert'', ''recovery''}" using IH that(1) by blast
    then show "task_event a = ''alert'' \<and> task_event b = ''recovery''"
      if "inc_id (task_incident a) = inc_id (task_incident b)"
      using later_step_told_apart [OF more.hyps more.prems \<open>a \<in> set ts\<close> _ \<open>b \<in> set us\<close> that] by blast
  qed
  moreover have "task_event ` set us \<subseteq> {''alert'', ''recovery''}" using us unfolding one_event_def by blast
  ultimately show ?case
    using IH one_event_told_apart [OF us] unfolding sorted_wrt_append set_append image_Un by blast
qed simp

lemma empty_ok [simp]: "incidents_ok (stored_incidents empty_db)"
  by (simp add: stored_incidents_def empty_db_def incidents_ok_def)

section \<open>Properties\<close>

text \<open>
  A concrete run: the monitor of theory \<open>Samples\<close> goes down, the loop alerts, a good result comes in,
  the loop sends the recovery.
\<close>

definition demo_inputs :: "nat \<Rightarrow> tick_inputs" where
  "demo_inputs k = inputs_i"

definition demo_tick :: "db \<Rightarrow> alert_task list \<times> db" where
  "demo_tick s = (case evaluateConsensus (shared_store (\<lambda>_. []) plain_engine) demo_inputs (s, 0) of
     (ts, (s', k)) \<Rightarrow> (ts, s'))"

definition db_alerted :: db where
  "db_alerted = snd (demo_tick db_down)"

definition db_up :: db where
  "db_up = exec_foreign plain_engine (FInsertCheckResult (result_at ''up'' 20)) db_alerted"

lemma demo_step: "coordinator_step plain_engine s (fst (demo_tick s)) (snd (demo_tick s))"
proof -
  obtain ts s' k where "evaluateConsensus (shared_store (\<lambda>_. []) plain_engine) demo_inputs (s, 0) = (ts, (s', k))"
    by (metis surj_pair)
  then show ?thesis by (auto simp: demo_tick_def intro: consensus_tick)
qed

lemma exec_all_steps: "coordinator_run eng s [] (exec_all eng fs s)"
proof (induction fs rule: rev_induct)
  case (snoc f fs)
  have "coordinator_run eng s ([] @ []) (exec_foreign eng f (exec_all eng fs s))"
    by (rule coordinator_run.more [OF snoc other_statement])
  then show ?case by (simp add: exec_all_def)
qed (simp add: exec_all_def coordinator_run.start)

lemma run_append:
  "coordinator_run eng t us u \<Longrightarrow> coordinator_run eng s ts t \<Longrightarrow> coordinator_run eng s (ts @ us) u"
  by (induction rule: coordinator_run.induct)
    (use coordinator_run.more in \<open>fastforce simp flip: append_assoc\<close>)+

lemma demo_runs:
  "coordinator_run plain_engine empty_db [] db_down"
  "coordinator_run plain_engine empty_db (fst (demo_tick db_down)) db_alerted"
  "coordinator_run plain_engine db_alerted (fst (demo_tick db_up)) (snd (demo_tick db_up))"
proof -
  show down: "coordinator_run plain_engine empty_db [] db_down"
    using run_append [OF exec_all_steps exec_all_steps]
    unfolding db_down_def db_setup_def by simp
  show "coordinator_run plain_engine empty_db (fst (demo_tick db_down)) db_alerted"
    unfolding db_alerted_def using coordinator_run.more [OF down demo_step] by simp
  have "coordinator_run plain_engine db_alerted ([] @ []) db_up"
    unfolding db_up_def by (rule coordinator_run.more [OF coordinator_run.start other_statement])
  then show "coordinator_run plain_engine db_alerted (fst (demo_tick db_up)) (snd (demo_tick db_up))"
    using coordinator_run.more [OF _ demo_step] by fastforce
qed

text \<open>C1: in no reachable state of the coordinator, under any interleaving of its goroutines' statements
  and any engine faults, are there two incidents with one id or two unresolved incidents of one monitor.\<close>

theorem one_open_incident:
  assumes "coordinator_run eng empty_db ts s"
  shows "distinct (map inc_id (stored_incidents s)) \<and>
    length (filter (\<lambda>i. inc_monitor_id i = m \<and> inc_status i \<noteq> IncidentResolved) (stored_incidents s)) \<le> 1"
proof -
  have ok: "incidents_ok (stored_incidents s)" using run_safe(2) [OF assms] by simp
  let ?open = "filter (\<lambda>i. inc_monitor_id i = m \<and> inc_status i \<noteq> IncidentResolved) (stored_incidents s)"
  have opened: "?open = filter (\<lambda>i. inc_monitor_id i = m) (filter active_incident (stored_incidents s))"
    by (simp add: active_incident_def conj_commute)
  have "distinct (map inc_monitor_id ?open)"
    unfolding opened by (rule distinct_map_filter) (use ok in \<open>simp add: incidents_ok_def\<close>)
  moreover have "map inc_monitor_id ?open = replicate (length ?open) m"
    by (intro replicate_eqI) auto
  ultimately have "distinct (replicate (length ?open) m)" by metis
  then have "length ?open \<le> 1" by (cases "length ?open"; cases "length ?open - 1") auto
  with ok show ?thesis by (simp add: incidents_ok_def)
qed

lemma one_open_incident_witness:
  "distinct (map inc_id (stored_incidents db_alerted)) \<and>
    length (filter (\<lambda>i. inc_monitor_id i = ''m'' \<and> inc_status i \<noteq> IncidentResolved) (stored_incidents db_alerted)) \<le> 1"
  by (rule one_open_incident [OF demo_runs(2)])

text \<open>C2: over any run, with arbitrary interleavings and faults, each incident is announced on a channel at most once
  as alert and at most once as recovery, the recovery after the alert: the notifications of one tick about an
  incident are all of one kind and go to different channels, and a tick that announces an incident again
  sends the recovery for an alert of an earlier tick.\<close>

theorem notified_once_in_order:
  assumes "coordinator_run eng empty_db ts s" and "coordinator_step eng s us s'"
  shows "sorted_wrt (\<lambda>t u. inc_id (task_incident t) = inc_id (task_incident u) \<longrightarrow>
        task_event t = ''alert'' \<and> task_event u = ''recovery'' \<or>
        task_event t = task_event u \<and> ch_id (task_channel t) \<noteq> ch_id (task_channel u)) (ts @ us) \<and>
    (\<forall>t \<in> set us. \<forall>u \<in> set us. inc_id (task_incident t) = inc_id (task_incident u) \<longrightarrow>
        task_event t = task_event u) \<and>
    (\<forall>t \<in> set ts. \<forall>u \<in> set us. inc_id (task_incident t) = inc_id (task_incident u) \<longrightarrow>
        task_event t = ''alert'' \<and> task_event u = ''recovery'')"
proof -
  have "sorted_wrt told_apart (ts @ us)"
    using run_told_apart [OF coordinator_run.more [OF assms]] by simp
  moreover have "one_event us" using step_one_event [OF assms(2)] run_safe(1,2) [OF assms(1)] by simp
  moreover have "task_event a = ''alert'' \<and> task_event b = ''recovery''"
    if "a \<in> set ts" "b \<in> set us" "inc_id (task_incident a) = inc_id (task_incident b)" for a b
    using later_step_told_apart [OF assms _ _ that(1) _ that(2,3)] run_told_apart [OF assms(1)] that(1) by auto
  ultimately show ?thesis unfolding told_apart_def [abs_def] one_event_def by blast
qed

lemma notified_once_in_order_witness:
  "inc_id (task_incident (hd (fst (demo_tick db_down)))) = inc_id (task_incident (hd (fst (demo_tick db_up)))) \<and>
    task_event (hd (fst (demo_tick db_down))) = ''alert'' \<and> task_event (hd (fst (demo_tick db_up))) = ''recovery''"
proof -
  have "coordinator_run plain_engine empty_db (fst (demo_tick db_down) @ []) db_up"
    unfolding db_up_def by (rule coordinator_run.more [OF demo_runs(2) other_statement])
  then have run: "coordinator_run plain_engine empty_db (fst (demo_tick db_down)) db_up" by simp
  have "hd (fst (demo_tick db_down)) \<in> set (fst (demo_tick db_down))"
    "hd (fst (demo_tick db_up)) \<in> set (fst (demo_tick db_up))"
    "inc_id (task_incident (hd (fst (demo_tick db_down)))) = inc_id (task_incident (hd (fst (demo_tick db_up))))"
    by code_simp+
  with notified_once_in_order [OF run demo_step] show ?thesis by blast
qed

text \<open>C3: an incident is never lost and never goes back: in every later state it is there with the same
  monitor and start and in the same or a later phase.\<close>

theorem incidents_move_forward:
  assumes "coordinator_run eng empty_db ts s" and "coordinator_run eng s us s'"
    and "i \<in> set (stored_incidents s)"
  shows "\<exists>j \<in> set (stored_incidents s'). inc_id j = inc_id i \<and> inc_monitor_id j = inc_monitor_id i \<and>
    inc_started_at j = inc_started_at i \<and> inc_phase i \<le> inc_phase j"
proof -
  have "progressed (stored_incidents s) (stored_incidents s')"
    using run_safe(1,2) [OF assms(1)] run_safe(3) [OF assms(2)] by simp
  with assms(3) show ?thesis by (auto simp: progressed_def same_outage_def)
qed

lemma incidents_move_forward_witness:
  "\<exists>j \<in> set (stored_incidents (snd (demo_tick db_up))). inc_id j = inc_id (stored_incidents db_alerted ! 0) \<and>
    inc_monitor_id j = inc_monitor_id (stored_incidents db_alerted ! 0) \<and>
    inc_started_at j = inc_started_at (stored_incidents db_alerted ! 0) \<and>
    inc_phase (stored_incidents db_alerted ! 0) \<le> inc_phase j"
  by (rule incidents_move_forward [OF demo_runs(2,3)]) code_simp

end
