(* ===== verification/Config.thy ===== *)
theory Config
  imports Prelude
begin

text \<open>
  \<open>internal/config/config.go\<close>: the configuration of a node and its file. The file system is a map from
  paths to contents, the calls of package \<open>os\<close> may fail with an error text, and the JSON codec is a
  field of the environment, since its text format does not matter here. \<open>filepath.Join\<close> is modelled.
\<close>

record tls_config =
  tls_ca_path :: string
  tls_cert_path :: string
  tls_key_path :: string

text \<open>\<open>cfg_coordinator\<close> is the address in \<open>CoordinatorConfig\<close>, if there is one.\<close>

record config =
  cfg_node_id :: string
  cfg_node_name :: string
  cfg_role :: string
  cfg_data_dir :: string
  cfg_listen_addr :: string
  cfg_cli_addr :: string
  cfg_coordinator :: "string option"
  cfg_tls :: "tls_config option"

definition DefaultConfig :: config where
  "DefaultConfig = \<lparr>cfg_node_id = [], cfg_node_name = [], cfg_role = [],
     cfg_data_dir = ''/var/lib/pingmesh'', cfg_listen_addr = ''0.0.0.0:7433'',
     cfg_cli_addr = ''127.0.0.1:7434'', cfg_coordinator = None, cfg_tls = None\<rparr>"

section \<open>Paths\<close>

text \<open>
  \<open>filepath.Join\<close> of two elements: empty elements are dropped, the rest is joined with a slash and
  cleaned (no empty and no dot element, \<open>..\<close> removes the element before it).
\<close>

text \<open>The elements of the result so far are on a stack, the last on top.\<close>

fun clean_elements :: "bool \<Rightarrow> string list \<Rightarrow> string list \<Rightarrow> string list" where
  "clean_elements rooted stack [] = rev stack"
| "clean_elements rooted stack (e # es) =
     (if e = [] \<or> e = ''.'' then clean_elements rooted stack es
      else if e = ''..'' then
        (case stack of
           [] \<Rightarrow> clean_elements rooted (if rooted then [] else [e]) es
         | e' # rest \<Rightarrow> (if e' = ''..'' then clean_elements rooted (e # stack) es
                         else clean_elements rooted rest es))
      else clean_elements rooted (e # stack) es)"

definition path_clean :: "string \<Rightarrow> string" where
  "path_clean p =
     (let rooted = (p \<noteq> [] \<and> hd p = CHR ''/'');
          es = clean_elements rooted [] (split_on (CHR ''/'') p)
      in if rooted then ''/'' @ join_with ''/'' es
         else if es = [] then ''.'' else join_with ''/'' es)"

definition path_join :: "string \<Rightarrow> string \<Rightarrow> string" where
  "path_join a b =
     (if a = [] \<and> b = [] then [] else if a = [] then path_clean b else if b = [] then path_clean a
      else path_clean (a @ ''/'' @ b))"

definition config_path :: "string \<Rightarrow> string" where
  "config_path dataDir = path_join dataDir ''config.json''"

definition DBPath :: "config \<Rightarrow> string" where
  "DBPath c = path_join (cfg_data_dir c) ''pingmesh.db''"

definition CertsDir :: "config \<Rightarrow> string" where
  "CertsDir c = path_join (cfg_data_dir c) ''certs''"

section \<open>Load and Save\<close>

type_synonym files = "string \<Rightarrow> string option"

record config_env =
  ce_marshal :: "config \<Rightarrow> string + string"
  ce_unmarshal :: "string \<Rightarrow> string + config"
  ce_read_error :: "string \<Rightarrow> string option"
  ce_mkdir_error :: "string \<Rightarrow> string option"
  ce_write_error :: "string \<Rightarrow> string option"

definition Load :: "config_env \<Rightarrow> files \<Rightarrow> string \<Rightarrow> string + config" where
  "Load ce fs dataDir =
     (let path = config_path dataDir in
      case ce_read_error ce path of
        Some e \<Rightarrow> Inl (''reading config: '' @ e)
      | None \<Rightarrow>
          (case fs path of
             None \<Rightarrow> Inl (''no configuration found at '' @ path @
               '' (run 'pingmesh init' or 'pingmesh join' first)'')
           | Some data \<Rightarrow>
               (case ce_unmarshal ce data of
                  Inl e \<Rightarrow> Inl (''parsing config: '' @ e)
                | Inr cfg \<Rightarrow> Inr (if cfg_data_dir cfg = [] then cfg\<lparr>cfg_data_dir := dataDir\<rparr> else cfg))))"

text \<open>The directory itself is not part of the file map; \<open>MkdirAll\<close> can only fail.\<close>

definition Save :: "config_env \<Rightarrow> config \<Rightarrow> files \<Rightarrow> (string + unit) \<times> files" where
  "Save ce c fs =
     (case ce_mkdir_error ce (cfg_data_dir c) of
        Some e \<Rightarrow> (Inl (''creating data directory: '' @ e), fs)
      | None \<Rightarrow>
          (let path = config_path (cfg_data_dir c) in
           case ce_marshal ce c of
             Inl e \<Rightarrow> (Inl (''marshalling config: '' @ e), fs)
           | Inr data \<Rightarrow>
               (case ce_write_error ce path of
                  Some e \<Rightarrow> (Inl (''writing config: '' @ e), fs)
                | None \<Rightarrow> (Inr (), fs(path \<mapsto> data)))))"

text \<open>Joining a plain file name to a directory puts it behind a prefix that depends on the directory only.\<close>

definition plain_name :: "string \<Rightarrow> bool" where
  "plain_name e \<longleftrightarrow> e \<noteq> [] \<and> e \<noteq> ''.'' \<and> e \<noteq> ''..'' \<and> CHR ''/'' \<notin> set e"

lemma split_on_append: "c \<notin> set e \<Longrightarrow> split_on c (d @ c # e) = split_on c d @ [e]"
proof (induction d)
  case Nil
  have "split_on c e = [e]" using Nil by (induction e) auto
  then show ?case by simp
next
  case (Cons x d)
  then show ?case by (cases "split_on c d") auto
qed

lemma split_on_plain: "c \<notin> set e \<Longrightarrow> split_on c e = [e]"
  by (induction e) auto

lemma clean_snoc:
  "plain_name e \<Longrightarrow> clean_elements rooted stack (es @ [e]) = clean_elements rooted stack es @ [e]"
  by (induction rooted stack es rule: clean_elements.induct) (auto simp: plain_name_def split: list.splits)

lemma join_with_snoc: "join_with sep (xs @ [e]) = (if xs = [] then e else join_with sep xs @ sep @ e)"
  by (induction sep xs rule: join_with.induct) auto

lemma path_join_plain: "\<exists>p. \<forall>e. plain_name e \<longrightarrow> path_join d e = p @ e"
proof (cases "d = []")
  case True
  have "path_join d e = [] @ e" if "plain_name e" for e
    using that True clean_snoc [OF that, of False "[]" "[]"]
    by (cases e) (auto simp: path_join_def path_clean_def plain_name_def split_on_plain Let_def)
  then show ?thesis by blast
next
  case False
  let ?rooted = "hd d = CHR ''/''"
  let ?es = "clean_elements ?rooted [] (split_on (CHR ''/'') d)"
  define p where "p = (if ?rooted then ''/'' else []) @ (if ?es = [] then [] else join_with ''/'' ?es @ ''/'')"
  have "path_join d e = p @ e" if e: "plain_name e" for e
  proof -
    have "split_on (CHR ''/'') (d @ ''/'' @ e) = split_on (CHR ''/'') d @ [e]"
      using split_on_append [of "CHR ''/''" e d] e by (simp add: plain_name_def)
    moreover have "hd (d @ ''/'' @ e) = hd d" using False by simp
    ultimately show ?thesis
      using e False unfolding path_join_def path_clean_def Let_def p_def
      by (auto simp: clean_snoc join_with_snoc plain_name_def)
  qed
  then show ?thesis by blast
qed

lemma path_join_inj:
  assumes "plain_name e" and "plain_name e'" and "path_join d e = path_join d e'"
  shows "e = e'"
  using path_join_plain [of d] assms by (metis same_append_eq)

lemma config_paths:
  "config_path ''/var/lib/pingmesh'' = ''/var/lib/pingmesh/config.json''"
  "DBPath DefaultConfig = ''/var/lib/pingmesh/pingmesh.db''"
  "CertsDir DefaultConfig = ''/var/lib/pingmesh/certs''"
  by (simp_all add: config_path_def DBPath_def CertsDir_def DefaultConfig_def path_join_def
      path_clean_def Let_def)

lemma save_then_load:
  assumes "Save ce c fs = (Inr (), fs')" and "cfg_data_dir c \<noteq> []"
    and "\<And>data. ce_marshal ce c = Inr data \<Longrightarrow> ce_unmarshal ce data = Inr c"
    and "ce_read_error ce (config_path (cfg_data_dir c)) = None"
  obtains data where "fs' = fs(config_path (cfg_data_dir c) \<mapsto> data)"
    and "Load ce fs' (cfg_data_dir c) = Inr c"
proof -
  from assms(1) obtain data where data: "ce_marshal ce c = Inr data"
    and fs': "fs' = fs(config_path (cfg_data_dir c) \<mapsto> data)"
    by (auto simp: Save_def Let_def split: option.splits sum.splits)
  have "Load ce fs' (cfg_data_dir c) = Inr c"
    using assms(2,4) assms(3) data by (simp add: Load_def fs' Let_def)
  with fs' show ?thesis by (rule that)
qed

text \<open>A saved configuration is loaded back from its directory, field by field, if the codec reads what it
  wrote; saving touches no other file, and without a file there is nothing to load.\<close>

lemma config_roundtrip:
  assumes "Save ce c fs = (Inr (), fs')" and "cfg_data_dir c \<noteq> []"
    and "\<forall>data. ce_marshal ce c = Inr data \<longrightarrow> ce_unmarshal ce data = Inr c"
    and "ce_read_error ce (config_path (cfg_data_dir c)) = None"
  shows "Load ce fs' (cfg_data_dir c) = Inr c \<and>
    restrict_map fs' (- {config_path (cfg_data_dir c)}) = restrict_map fs (- {config_path (cfg_data_dir c)}) \<and>
    \<not> is_ok (Load ce (\<lambda>_. None) (cfg_data_dir c))"
proof -
  from save_then_load [OF assms(1,2) _ assms(4)] assms(3) obtain data where
    "fs' = fs(config_path (cfg_data_dir c) \<mapsto> data)" "Load ce fs' (cfg_data_dir c) = Inr c" by blast
  moreover have "\<not> is_ok (Load ce (\<lambda>_. None) (cfg_data_dir c))"
    using assms(4) by (simp add: Load_def Let_def)
  ultimately show ?thesis by simp
qed

end
