(* ===== verification/Config_Sync.thy ===== *)
theory Config_Sync
  imports Coordinator Config
begin

text \<open>
  The rest of \<open>internal/agent/agent.go\<close> and the peer client behind it: heartbeats and the
  configuration sync between the coordinator and its nodes. What \<open>PullConfigSync\<close> of
  \<open>internal/cluster/peer_client.go\<close> gets from the network is an argument: the configuration, or an error.
\<close>

section \<open>Heartbeat\<close>

text \<open>
  The heartbeat message goes to the coordinator, from nodes other than the coordinator only. The
  message is returned with its address; whether it arrives changes nothing here.
\<close>

definition heartbeat_message :: "config \<Rightarrow> string \<Rightarrow> int64 \<Rightarrow> (string \<times> heartbeat) option" where
  "heartbeat_message cfg stamp active =
     (if cfg_role cfg \<noteq> RoleCoordinator then
        (case cfg_coordinator cfg of
           None \<Rightarrow> None
         | Some addr \<Rightarrow> Some (addr, \<lparr>hb_node_id = cfg_node_id cfg, hb_timestamp = stamp,
             hb_active_monitors = active, hb_checks_per_minute = 0\<rparr>))
      else None)"

definition sendHeartbeat ::
    "'s store \<Rightarrow> config \<Rightarrow> int64 \<Rightarrow> string \<Rightarrow> int64 \<Rightarrow> 's \<Rightarrow> (string \<times> heartbeat) option \<times> 's" where
  "sendHeartbeat st cfg now stamp active s =
     (heartbeat_message cfg stamp active, snd (UpdateHeartbeat st now (cfg_node_id cfg) s))"

section \<open>Pushing and serving the configuration\<close>

text \<open>The messages in the order of the loop: every online node but this one.\<close>

definition sync_targets :: "config \<Rightarrow> node list \<Rightarrow> node list" where
  "sync_targets cfg ns = filter (\<lambda>n. \<not> (node_id n = cfg_node_id cfg \<or> node_status n \<noteq> NodeOnline)) ns"

definition pushConfigSync ::
    "'s store \<Rightarrow> config \<Rightarrow> int64 \<Rightarrow> 's \<Rightarrow> (string \<times> config_sync) list \<times> 's" where
  "pushConfigSync st cfg now s =
     (case ListMonitors st [] s of
        (Inl e, s1) \<Rightarrow> ([], s1)
      | (Inr monitors, s1) \<Rightarrow>
          (case ListNodes st s1 of
             (Inl e, s2) \<Rightarrow> ([], s2)
           | (Inr nodes, s2) \<Rightarrow>
               (map (\<lambda>n. (node_address n, \<lparr>cs_version = now, cs_monitors = monitors, cs_nodes = nodes\<rparr>))
                 (sync_targets cfg nodes), s2)))"

section \<open>Applying a configuration\<close>

text \<open>One monitor, one node: update if the row exists, create it otherwise. Errors are logged only.\<close>

definition upsert_monitor :: "'s store \<Rightarrow> monitor \<Rightarrow> 's \<Rightarrow> 's" where
  "upsert_monitor st m s =
     (case GetMonitor st (mon_id m) s of
        (Inl e, s1) \<Rightarrow> s1
      | (Inr (Some existing), s1) \<Rightarrow> snd (UpdateMonitor st m s1)
      | (Inr None, s1) \<Rightarrow> snd (CreateMonitor st m s1))"

definition upsert_node :: "'s store \<Rightarrow> node \<Rightarrow> 's \<Rightarrow> 's" where
  "upsert_node st n s =
     (case GetNode st (node_id n) s of
        (Inl e, s1) \<Rightarrow> s1
      | (Inr (Some existing), s1) \<Rightarrow> snd (UpdateNode st n s1)
      | (Inr None, s1) \<Rightarrow> snd (CreateNode st n s1))"

fun upsert_monitors :: "'s store \<Rightarrow> monitor list \<Rightarrow> 's \<Rightarrow> 's" where
  "upsert_monitors st [] s = s"
| "upsert_monitors st (m # ms) s = upsert_monitors st ms (upsert_monitor st m s)"

fun upsert_nodes :: "'s store \<Rightarrow> node list \<Rightarrow> 's \<Rightarrow> 's" where
  "upsert_nodes st [] s = s"
| "upsert_nodes st (n # ns) s = upsert_nodes st ns (upsert_node st n s)"

definition applyConfigSync :: "'s store \<Rightarrow> config_sync \<Rightarrow> 's \<Rightarrow> 's" where
  "applyConfigSync st sync s = upsert_nodes st (cs_nodes sync) (upsert_monitors st (cs_monitors sync) s)"

text \<open>The result says whether the sync time of the agent is set.\<close>

definition pullConfigSync ::
    "'s store \<Rightarrow> (string \<Rightarrow> string + config_sync) \<Rightarrow> string \<Rightarrow> 's \<Rightarrow> bool \<times> 's" where
  "pullConfigSync st pull coordAddr s =
     (case pull coordAddr of
        Inl e \<Rightarrow> (False, s)
      | Inr sync \<Rightarrow> (True, applyConfigSync st sync s))"

text \<open>
  The abstract effect on the two tables. An upsert never removes a row and never changes a row of
  another id; a row of its id takes every field but the creation time.
\<close>

definition merge_monitor :: "monitor \<Rightarrow> (string \<Rightarrow> monitor option) \<Rightarrow> string \<Rightarrow> monitor option" where
  "merge_monitor m T = T(mon_id m \<mapsto>
     (case T (mon_id m) of None \<Rightarrow> m | Some old \<Rightarrow> refresh_monitor m old))"

definition merge_node :: "node \<Rightarrow> (string \<Rightarrow> node option) \<Rightarrow> string \<Rightarrow> node option" where
  "merge_node n T = T(node_id n \<mapsto>
     (case T (node_id n) of None \<Rightarrow> n | Some old \<Rightarrow> refresh_node n old))"

context config_store
begin

lemma upsert_monitor_merges:
  "monitor_at (upsert_monitor st m s) \<in> {monitor_at s, merge_monitor m (monitor_at s)}"
    (is ?table)
  "node_at (upsert_monitor st m s) = node_at s" (is ?frame)
proof -
  obtain g s1 where g: "GetMonitor st (mon_id m) s = (g, s1)" by fastforce
  have keep: "monitor_at s1 = monitor_at s" "node_at s1 = node_at s"
    using g get_monitor_keeps by blast+
  obtain u s2 where u: "UpdateMonitor st m s1 = (u, s2)" by fastforce
  obtain c s3 where c: "CreateMonitor st m s1 = (c, s3)" by fastforce
  have frames: "node_at s2 = node_at s1" "node_at s3 = node_at s1"
    using u c monitor_frames by blast+
  have upd: "monitor_at s2 \<in> {monitor_at s, merge_monitor m (monitor_at s)}"
    if "g = Inr (Some old)" for old
  proof (cases u)
    case (Inl e)
    with u monitor_errors(1) keep show ?thesis by (metis insertI1 intactD)
  next
    case (Inr x)
    have "monitor_at s (mon_id m) = Some old" using get_monitor [OF g [unfolded that]] by simp
    with update_monitor [OF u [unfolded Inr]] keep show ?thesis by (simp add: merge_monitor_def)
  qed
  have cre: "monitor_at s3 \<in> {monitor_at s, merge_monitor m (monitor_at s)}" if "g = Inr None"
  proof (cases c)
    case (Inl e)
    with c monitor_errors(2) keep show ?thesis by (metis insertI1 intactD)
  next
    case (Inr x)
    with create_monitor [OF c [unfolded Inr]] keep show ?thesis by (simp add: merge_monitor_def)
  qed
  show ?table and ?frame
    using upd cre g u c keep frames
    by (auto simp: upsert_monitor_def split: sum.splits option.splits)
qed

lemma upsert_node_merges:
  "node_at (upsert_node st n s) \<in> {node_at s, merge_node n (node_at s)}" (is ?table)
  "monitor_at (upsert_node st n s) = monitor_at s" (is ?frame)
proof -
  obtain g s1 where g: "GetNode st (node_id n) s = (g, s1)" by fastforce
  have keep: "monitor_at s1 = monitor_at s" "node_at s1 = node_at s"
    using g get_node_keeps by blast+
  obtain u s2 where u: "UpdateNode st n s1 = (u, s2)" by fastforce
  obtain c s3 where c: "CreateNode st n s1 = (c, s3)" by fastforce
  have frames: "monitor_at s2 = monitor_at s1" "monitor_at s3 = monitor_at s1"
    using u c node_frames by blast+
  have upd: "node_at s2 \<in> {node_at s, merge_node n (node_at s)}" if "g = Inr (Some old)" for old
  proof (cases u)
    case (Inl e)
    with u node_errors(1) keep show ?thesis by (metis insertI1 intactD)
  next
    case (Inr x)
    have "node_at s (node_id n) = Some old" using get_node [OF g [unfolded that]] by simp
    with update_node [OF u [unfolded Inr]] keep show ?thesis by (simp add: merge_node_def)
  qed
  have cre: "node_at s3 \<in> {node_at s, merge_node n (node_at s)}" if "g = Inr None"
  proof (cases c)
    case (Inl e)
    with c node_errors(2) keep show ?thesis by (metis insertI1 intactD)
  next
    case (Inr x)
    with create_node [OF c [unfolded Inr]] keep show ?thesis by (simp add: merge_node_def)
  qed
  show ?table and ?frame
    using upd cre g u c keep frames
    by (auto simp: upsert_node_def split: sum.splits option.splits)
qed

lemma upsert_monitors_keeps:
  "dom (monitor_at s) \<subseteq> dom (monitor_at (upsert_monitors st ms s)) \<and>
   node_at (upsert_monitors st ms s) = node_at s \<and>
   (\<forall>k. k \<notin> mon_id ` set ms \<longrightarrow> monitor_at (upsert_monitors st ms s) k = monitor_at s k)"
proof (induction ms arbitrary: s)
  case (Cons m ms)
  from upsert_monitor_merges(1) [of m s]
  have "dom (monitor_at s) \<subseteq> dom (monitor_at (upsert_monitor st m s))"
    and "\<And>k. k \<noteq> mon_id m \<Longrightarrow> monitor_at (upsert_monitor st m s) k = monitor_at s k"
    by (auto simp: merge_monitor_def)
  moreover from this(1) Cons [of "upsert_monitor st m s"]
  have "dom (monitor_at s) \<subseteq> dom (monitor_at (upsert_monitors st (m # ms) s))"
    by (metis subset_trans upsert_monitors.simps(2))
  ultimately show ?case
    using Cons [of "upsert_monitor st m s"] upsert_monitor_merges(2) [of m s] by simp
qed simp

lemma upsert_nodes_keeps:
  "dom (node_at s) \<subseteq> dom (node_at (upsert_nodes st ns s)) \<and>
   monitor_at (upsert_nodes st ns s) = monitor_at s \<and>
   (\<forall>k. k \<notin> node_id ` set ns \<longrightarrow> node_at (upsert_nodes st ns s) k = node_at s k)"
proof (induction ns arbitrary: s)
  case (Cons n ns)
  from upsert_node_merges(1) [of n s]
  have "dom (node_at s) \<subseteq> dom (node_at (upsert_node st n s))"
    and "\<And>k. k \<noteq> node_id n \<Longrightarrow> node_at (upsert_node st n s) k = node_at s k"
    by (auto simp: merge_node_def)
  moreover from this(1) Cons [of "upsert_node st n s"]
  have "dom (node_at s) \<subseteq> dom (node_at (upsert_nodes st (n # ns) s))"
    by (metis subset_trans upsert_nodes.simps(2))
  ultimately show ?case
    using Cons [of "upsert_node st n s"] upsert_node_merges(2) [of n s] by simp
qed simp

lemma apply_keeps:
  shows "dom (monitor_at s) \<subseteq> dom (monitor_at (applyConfigSync st sync s))"
    and "dom (node_at s) \<subseteq> dom (node_at (applyConfigSync st sync s))"
    and "k \<notin> mon_id ` set (cs_monitors sync) \<Longrightarrow> monitor_at (applyConfigSync st sync s) k = monitor_at s k"
    and "k \<notin> node_id ` set (cs_nodes sync) \<Longrightarrow> node_at (applyConfigSync st sync s) k = node_at s k"
  using upsert_monitors_keeps [of s "cs_monitors sync"]
    upsert_nodes_keeps [of "upsert_monitors st (cs_monitors sync) s" "cs_nodes sync"]
  by (auto simp: applyConfigSync_def)

end

text \<open>What a whole list does to a table.\<close>

lemma merge_monitors_value:
  assumes "distinct (map mon_id ms)"
  shows "fold merge_monitor ms T k = (case find (\<lambda>m. mon_id m = k) ms of None \<Rightarrow> T k
    | Some m \<Rightarrow> Some (case T k of None \<Rightarrow> m | Some old \<Rightarrow> refresh_monitor m old))"
  using assms
proof (induction ms arbitrary: T)
  case (Cons m ms)
  show ?case
  proof (cases "mon_id m = k")
    case True
    with Cons.prems have "find (\<lambda>m. mon_id m = k) ms = None" by (simp add: find_None_has_key has_key_def)
    with True Cons show ?thesis by (simp add: merge_monitor_def)
  next
    case False
    with Cons show ?thesis by (simp add: merge_monitor_def)
  qed
qed simp

lemma merge_nodes_value:
  assumes "distinct (map node_id ns)"
  shows "fold merge_node ns T k = (case find (\<lambda>n. node_id n = k) ns of None \<Rightarrow> T k
    | Some n \<Rightarrow> Some (case T k of None \<Rightarrow> n | Some old \<Rightarrow> refresh_node n old))"
  using assms
proof (induction ns arbitrary: T)
  case (Cons n ns)
  show ?case
  proof (cases "node_id n = k")
    case True
    with Cons.prems have "find (\<lambda>n. node_id n = k) ns = None" by (simp add: find_None_has_key has_key_def)
    with True Cons show ?thesis by (simp add: merge_node_def)
  next
    case False
    with Cons show ?thesis by (simp add: merge_node_def)
  qed
qed simp

context reliable_config_store
begin

lemma upsert_monitor_exact:
  "monitor_at (upsert_monitor st m s) = merge_monitor m (monitor_at s)"
proof -
  obtain g s1 where g: "GetMonitor st (mon_id m) s = (Inr g, s1)"
    using config_reads_succeed by (metis is_ok_iff prod.collapse)
  have keep: "monitor_at s1 = monitor_at s" using g get_monitor_keeps by blast
  have val: "g = monitor_at s (mon_id m)" by (rule get_monitor [OF g])
  show ?thesis
  proof (cases g)
    case None
    then obtain u s2 where c: "CreateMonitor st m s1 = (Inr u, s2)"
      using monitor_create_succeeds [of s1 m] keep val by (metis is_ok_iff prod.collapse)
    from create_monitor [OF c] g c None keep val show ?thesis
      by (simp add: upsert_monitor_def merge_monitor_def)
  next
    case (Some old)
    obtain u s2 where c: "UpdateMonitor st m s1 = (Inr u, s2)"
      using config_updates_succeed by (metis is_ok_iff prod.collapse)
    from update_monitor [OF c] g c Some keep val show ?thesis
      by (simp add: upsert_monitor_def merge_monitor_def)
  qed
qed

lemma upsert_node_exact: "node_at (upsert_node st n s) = merge_node n (node_at s)"
proof -
  obtain g s1 where g: "GetNode st (node_id n) s = (Inr g, s1)"
    using config_reads_succeed by (metis is_ok_iff prod.collapse)
  have keep: "node_at s1 = node_at s" using g get_node_keeps by blast
  have val: "g = node_at s (node_id n)" by (rule get_node [OF g])
  show ?thesis
  proof (cases g)
    case None
    then obtain u s2 where c: "CreateNode st n s1 = (Inr u, s2)"
      using node_create_succeeds [of s1 n] keep val by (metis is_ok_iff prod.collapse)
    from create_node [OF c] g c None keep val show ?thesis
      by (simp add: upsert_node_def merge_node_def)
  next
    case (Some old)
    obtain u s2 where c: "UpdateNode st n s1 = (Inr u, s2)"
      using config_updates_succeed by (metis is_ok_iff prod.collapse)
    from update_node [OF c] g c Some keep val show ?thesis
      by (simp add: upsert_node_def merge_node_def)
  qed
qed

lemma apply_exact:
  "monitor_at (applyConfigSync st sync s) = fold merge_monitor (cs_monitors sync) (monitor_at s)"
  "node_at (applyConfigSync st sync s) = fold merge_node (cs_nodes sync) (node_at s)"
proof -
  have ms: "monitor_at (upsert_monitors st ms s) = fold merge_monitor ms (monitor_at s)" for ms s
    by (induction ms arbitrary: s) (simp_all add: upsert_monitor_exact)
  have ns: "node_at (upsert_nodes st ns s) = fold merge_node ns (node_at s)" for ns s
    by (induction ns arbitrary: s) (simp_all add: upsert_node_exact)
  show "monitor_at (applyConfigSync st sync s) = fold merge_monitor (cs_monitors sync) (monitor_at s)"
    using upsert_nodes_keeps [of "upsert_monitors st (cs_monitors sync) s" "cs_nodes sync"]
    by (simp add: applyConfigSync_def ms)
  show "node_at (applyConfigSync st sync s) = fold merge_node (cs_nodes sync) (node_at s)"
    using upsert_monitors_keeps [of s "cs_monitors sync"] by (simp add: applyConfigSync_def ns)
qed

end

end
