(* ===== verification/Logbuf.thy ===== *)
theory Logbuf
  imports Prelude
begin

text \<open>
  \<open>internal/logbuf/logbuf.go\<close>: the ring buffer of log lines behind the command \<open>pingmesh logs\<close>. The mutex
  makes every \<open>Write\<close> and every \<open>Last\<close> one step. The contract of a bounded log is a locale; the ring
  buffer is its instance.
\<close>

section \<open>A bounded log\<close>

definition last_n :: "nat \<Rightarrow> 'a list \<Rightarrow> 'a list" where
  "last_n k xs = drop (length xs - k) xs"

lemma last_n_all [simp]: "length xs \<le> k \<Longrightarrow> last_n k xs = xs"
  by (simp add: last_n_def)

lemma length_last_n [simp]: "length (last_n k xs) = min k (length xs)"
  by (simp add: last_n_def)

lemma last_n_last_n: "last_n j (last_n k xs) = last_n (min j k) xs"
  by (cases "length xs \<le> k") (auto simp: last_n_def min_def)

lemma last_n_Cons_append: "last_n k (last_n k xs @ ys) = last_n k (xs @ ys)"
  by (cases "length xs \<le> k") (auto simp: last_n_def drop_append add.commute)

text \<open>
  \<open>view\<close> is what a bounded log still holds, oldest first; putting an entry appends it and forgets all
  but the \<open>cap\<close> newest.
\<close>

locale bounded_log =
  fixes put :: "'e \<Rightarrow> 'b \<Rightarrow> 'b" and view :: "'b \<Rightarrow> 'e list" and cap :: nat and valid :: "'b \<Rightarrow> bool"
  assumes put_valid: "valid b \<Longrightarrow> valid (put e b)"
    and view_put: "valid b \<Longrightarrow> view (put e b) = last_n cap (view b @ [e])"
    and view_bounded: "valid b \<Longrightarrow> length (view b) \<le> cap"
begin

lemma puts_valid: "valid b \<Longrightarrow> valid (fold put es b)"
  by (induction es arbitrary: b) (simp_all add: put_valid)

lemma view_puts: "valid b \<Longrightarrow> view (fold put es b) = last_n cap (view b @ es)"
proof (induction es arbitrary: b)
  case Nil
  then show ?case by (simp add: view_bounded)
next
  case (Cons e es)
  then show ?case by (simp add: put_valid view_put last_n_Cons_append)
qed

end

section \<open>The buffer\<close>

record entry =
  en_time :: int64
  en_message :: string

definition defaultCapacity :: nat where "defaultCapacity = 1000"

record logbuf =
  lb_entries :: "entry list"
  lb_pos :: nat
  lb_full :: bool

definition New :: logbuf where
  "New = \<lparr>lb_entries = replicate defaultCapacity \<lparr>en_time = 0, en_message = []\<rparr>, lb_pos = 0,
     lb_full = False\<rparr>"

definition put_entry :: "entry \<Rightarrow> logbuf \<Rightarrow> logbuf" where
  "put_entry e b =
     (let es = (lb_entries b)[lb_pos b := e]; pos = lb_pos b + 1
      in if pos \<ge> length es then \<lparr>lb_entries = es, lb_pos = 0, lb_full = True\<rparr>
         else \<lparr>lb_entries = es, lb_pos = pos, lb_full = lb_full b\<rparr>)"

definition nl :: char where "nl = CHR 0x0A"

fun write_lines :: "int64 \<Rightarrow> string list \<Rightarrow> logbuf \<Rightarrow> logbuf" where
  "write_lines now [] b = b"
| "write_lines now (line # lines) b =
     (let msg = trim_right nl line in
      if msg = [] then write_lines now lines b
      else write_lines now lines (put_entry \<lparr>en_time = now, en_message = msg\<rparr> b))"

definition Write :: "int64 \<Rightarrow> string \<Rightarrow> logbuf \<Rightarrow> int64 \<times> logbuf" where
  "Write now p b = (int (length p), write_lines now (split_on nl (trim_right nl p)) b)"

text \<open>\<open>Inl\<close> is the panic of \<open>make\<close> on a negative length; a nil slice is \<open>None\<close>.\<close>

definition Last :: "int64 \<Rightarrow> logbuf \<Rightarrow> string + entry list option" where
  "Last n b =
     (let len = length (lb_entries b);
          n = (if n > (if lb_full b then int len else int (lb_pos b))
               then (if lb_full b then int len else int (lb_pos b)) else n)
      in if n = 0 then Inr None
         else if n < 0 then Inl ''makeslice: len out of range''
         else if lb_full b then
           (let start = (int (lb_pos b) - n + int len) mod int len
            in Inr (Some (map (\<lambda>i. lb_entries b ! nat ((start + int i) mod int len)) [0..<nat n])))
         else Inr (Some (take (nat n) (drop (lb_pos b - nat n) (lb_entries b)))))"

section \<open>It is a bounded log\<close>

definition ring_ok :: "nat \<Rightarrow> logbuf \<Rightarrow> bool" where
  "ring_ok cap b \<longleftrightarrow> length (lb_entries b) = cap \<and> lb_pos b < cap"

definition contents :: "logbuf \<Rightarrow> entry list" where
  "contents b = (if lb_full b then drop (lb_pos b) (lb_entries b) @ take (lb_pos b) (lb_entries b)
     else take (lb_pos b) (lb_entries b))"

lemma ring_ok_New: "ring_ok defaultCapacity New"
  by (simp add: ring_ok_def New_def defaultCapacity_def)

lemma contents_New [simp]: "contents New = []"
  by (simp add: contents_def New_def)

lemma put_contents:
  assumes "ring_ok cap b"
  shows "contents (put_entry e b) = last_n cap (contents b @ [e])"
proof -
  let ?es = "lb_entries b" and ?p = "lb_pos b"
  from assms have p: "?p < length ?es" and cap: "length ?es = cap" by (auto simp: ring_ok_def)
  have upd: "take (?p + 1) (?es[?p := e]) = take ?p ?es @ [e]"
    using p by (simp add: take_Suc_conv_app_nth)
  have rest: "drop (?p + 1) (?es[?p := e]) = drop (?p + 1) ?es" by simp
  have dropped: "drop ?p ?es = ?es ! ?p # drop (?p + 1) ?es"
    using p by (simp add: Cons_nth_drop_Suc)
  show ?thesis
  proof (cases "?p + 1 \<ge> length ?es")
    case True
    with p have len: "length ?es = Suc ?p" by simp
    with upd have "?es[?p := e] = take ?p ?es @ [e]"
      by (metis Suc_eq_plus1 order_refl take_all length_list_update)
    with len cap dropped show ?thesis
      by (auto simp: contents_def put_entry_def last_n_def Let_def)
  next
    case False
    with upd rest p cap dropped show ?thesis
      by (auto simp: contents_def put_entry_def last_n_def Let_def)
  qed
qed

interpretation ring: bounded_log put_entry contents cap "ring_ok cap" for cap
proof unfold_locales
  fix b e
  assume ok: "ring_ok cap b"
  then show "ring_ok cap (put_entry e b)" by (auto simp: ring_ok_def put_entry_def Let_def)
  show "contents (put_entry e b) = last_n cap (contents b @ [e])" using ok by (rule put_contents)
  show "length (contents b) \<le> cap" using ok by (auto simp: ring_ok_def contents_def)
qed

text \<open>The messages that a write stores.\<close>

definition stored_lines :: "int64 \<Rightarrow> string \<Rightarrow> entry list" where
  "stored_lines now p = map (\<lambda>m. \<lparr>en_time = now, en_message = m\<rparr>)
     (filter (\<lambda>m. m \<noteq> []) (split_on nl p))"

lemma trim_right_id: "c \<notin> set s \<Longrightarrow> trim_right c s = s"
  by (cases s rule: rev_cases) (auto simp: trim_right_def)

lemma write_lines_fold:
  assumes "\<And>line. line \<in> set lines \<Longrightarrow> nl \<notin> set line"
  shows "write_lines now lines b
    = fold put_entry (map (\<lambda>m. \<lparr>en_time = now, en_message = m\<rparr>) (filter (\<lambda>m. m \<noteq> []) lines)) b"
  using assms by (induction lines arbitrary: b) (auto simp: trim_right_id Let_def)

lemma split_on_snoc: "split_on c (s @ [c]) = split_on c s @ [[]]"
  by (induction s) (auto split: list.splits)

lemma split_trim: "filter (\<lambda>m. m \<noteq> []) (split_on c (trim_right c s)) = filter (\<lambda>m. m \<noteq> []) (split_on c s)"
proof (induction s rule: rev_induct)
  case (snoc x s)
  then show ?case by (cases "x = c") (auto simp: trim_right_def split_on_snoc)
qed (simp add: trim_right_def)

lemma Write_stores: "snd (Write now p b) = fold put_entry (stored_lines now p) b"
proof -
  have "snd (Write now p b) = write_lines now (split_on nl (trim_right nl p)) b"
    by (simp add: Write_def)
  also have "\<dots> = fold put_entry (stored_lines now p) b"
    unfolding stored_lines_def split_trim [symmetric, of nl p]
    by (rule write_lines_fold) (rule split_on_parts)
  finally show ?thesis .
qed

text \<open>The window that \<open>Last\<close> reads of a full ring, index by index.\<close>

lemma ring_window:
  assumes "ring_ok cap b" and full: "lb_full b" and kle: "k \<le> length (lb_entries b)"
  shows "map (\<lambda>i. lb_entries b ! nat (((int (lb_pos b) - int k + int (length (lb_entries b)))
      mod int (length (lb_entries b)) + int i) mod int (length (lb_entries b)))) [0..<k] = last_n k (contents b)"
proof -
  let ?es = "lb_entries b" and ?p = "lb_pos b" and ?len = "length (lb_entries b)"
  from assms have p: "?p < ?len" by (auto simp: ring_ok_def)
  have len: "length (contents b) = ?len" using p full by (simp add: contents_def)
  have nth: "contents b ! j = ?es ! ((?p + j) mod ?len)" if "j < ?len" for j
    using that p full by (auto simp: contents_def nth_append mod_if add.commute)
  have idx: "nat (((int ?p - int k + int ?len) mod int ?len + int i) mod int ?len)
      = (?p + (?len - k + i)) mod ?len" for i
  proof -
    have "((int ?p - int k + int ?len) mod int ?len + int i) mod int ?len
        = (int ?p - int k + int ?len + int i) mod int ?len"
      by (rule mod_add_left_eq)
    also have "\<dots> = int ((?p + (?len - k + i)) mod ?len)"
      using kle by (simp add: zmod_int of_nat_diff algebra_simps)
    finally show ?thesis by simp
  qed
  show ?thesis
    unfolding idx by (rule nth_equalityI) (use len full kle in \<open>auto simp: last_n_def nth\<close>)
qed

lemma Last_view:
  assumes "ring_ok cap b" and "0 \<le> n"
  shows "Last n b = Inr (if last_n (nat n) (contents b) = [] then None
    else Some (last_n (nat n) (contents b)))"
proof -
  let ?es = "lb_entries b" and ?p = "lb_pos b"
  from assms have p: "?p < length ?es" by (auto simp: ring_ok_def)
  have len: "length (contents b) = (if lb_full b then length ?es else ?p)"
    using p by (simp add: contents_def)
  define k where "k = min (nat n) (length (contents b))"
  have same: "last_n (nat n) (contents b) = last_n k (contents b)"
    by (simp add: k_def last_n_def min_def)
  have kle: "k \<le> length (contents b)" by (simp add: k_def)
  have kn: "(if n > (if lb_full b then int (length ?es) else int ?p)
      then (if lb_full b then int (length ?es) else int ?p) else n) = int k"
    using assms(2) len by (auto simp: k_def)
  have part: "take k (drop (?p - k) ?es) = last_n k (contents b)" if "\<not> lb_full b"
    using that p kle len by (auto simp: contents_def last_n_def drop_take)
  have "Last n b = Inr (if k = 0 then None else Some (last_n k (contents b)))"
    unfolding Last_def Let_def kn using ring_window [OF assms(1), of k] part kle len
    by (cases "lb_full b") simp_all
  with same kle show ?thesis by (auto simp: last_n_def)
qed

end
