(* ===== verification/Api.thy ===== *)
theory Api
  imports Config_Sync Logbuf
begin

text \<open>
  What the handlers of \<open>internal/api\<close> share (\<open>server.go\<close>): a response is a status code and a JSON body;
  \<open>writeError\<close> puts the text under the key \<open>error\<close>, and \<open>readJSON\<close> hands the handler the decoded value or
  an error text, so the request body is an argument of type \<open>string + 'a\<close>. A nil slice becomes an
  empty array before it is encoded; lists are lists here. The socket and the routing table
  (\<open>net/http\<close>) are not modelled: a handler is a function from its request to the response and the
  next state of the store.
\<close>

record peer_status =
  ps_node_id :: string
  ps_name :: string
  ps_address :: string
  ps_status :: string
  ps_reachable :: bool
  ps_latency_ms :: rat
  ps_error :: string

record health_info =
  hi_node_id :: string
  hi_name :: string
  hi_role :: string
  hi_uptime :: string
  hi_go_version :: string
  hi_num_goroutines :: int64
  hi_memory_mb :: rat
  hi_db_size_mb :: rat
  hi_coordinator :: string
  hi_active_monitors :: int64
  hi_last_heartbeat :: string
  hi_last_config_sync :: string
  hi_peers :: "peer_status list"

datatype json_body =
    ErrorBody string
  | StatusBody string
  | NodesBody "node list"
  | NodeBody node
  | MonitorsBody "monitor list"
  | MonitorBody monitor
  | IncidentsBody "incident list"
  | ResultsBody "check_result list"
  | ChannelsBody "alert_channel list"
  | ChannelBody alert_channel
  | RecordsBody "alert_record list"
  | ClusterBody cluster_status
  | ConfigBody config_sync
  | JoinBody join_response
  | EntriesBody "entry list"
  | PeersBody "peer_status list option"
  | HealthBody health_info

record response =
  rs_code :: int64
  rs_body :: json_body

definition writeJSON :: "int64 \<Rightarrow> json_body \<Rightarrow> response" where
  "writeJSON code body = \<lparr>rs_code = code, rs_body = body\<rparr>"

definition writeError :: "int64 \<Rightarrow> string \<Rightarrow> response" where
  "writeError code msg = writeJSON code (ErrorBody msg)"

type_synonym 's handler = "'s \<Rightarrow> response \<times> 's"

text \<open>The recurring ends of a handler: a query answered, an object answered, a write acknowledged.\<close>

definition answer :: "(store_error \<Rightarrow> string) \<Rightarrow> ('a \<Rightarrow> json_body) \<Rightarrow> (store_error + 'a) \<times> 's \<Rightarrow> response \<times> 's" where
  "answer txt body p = (case p of
     (Inl e, s1) \<Rightarrow> (writeError 500 (txt e), s1)
   | (Inr x, s1) \<Rightarrow> (writeJSON 200 (body x), s1))"

definition answer_found ::
    "(store_error \<Rightarrow> string) \<Rightarrow> string \<Rightarrow> ('a \<Rightarrow> json_body) \<Rightarrow> (store_error + 'a option) \<times> 's \<Rightarrow> response \<times> 's" where
  "answer_found txt missing body p = (case p of
     (Inl e, s1) \<Rightarrow> (writeError 500 (txt e), s1)
   | (Inr None, s1) \<Rightarrow> (writeError 404 missing, s1)
   | (Inr (Some x), s1) \<Rightarrow> (writeJSON 200 (body x), s1))"

definition acknowledge ::
    "(store_error \<Rightarrow> string) \<Rightarrow> string \<Rightarrow> (store_error + unit) \<times> 's \<Rightarrow> response \<times> 's" where
  "acknowledge txt word p = (case p of
     (Inl e, s1) \<Rightarrow> (writeError 500 (txt e), s1)
   | (Inr _, s1) \<Rightarrow> (writeJSON 200 (StatusBody word), s1))"

lemma response_simps [simp]:
  "rs_code (writeJSON c b) = c" "rs_body (writeJSON c b) = b" "rs_code (writeError c m) = c"
  "rs_body (writeError c m) = ErrorBody m"
  by (simp_all add: writeError_def writeJSON_def)

end
