(* ===== verification/Peer_Api.thy ===== *)
theory Peer_Api
  imports Api
begin

text \<open>
  \<open>internal/api/peer_handlers.go\<close>: what a node answers to other nodes. \<open>net.SplitHostPort\<close> and
  \<open>net.JoinHostPort\<close> are modelled. The certificate authority (\<open>GenerateNodeCertPEM\<close> of \<open>tls.go\<close>, on
  \<open>crypto/x509\<close>), the file \<open>ca.crt\<close>, \<open>net.ParseIP\<close> and the UUID generator are the fields of a
  \<open>join_world\<close>. \<open>err.Error()\<close> of a store error is \<open>txt\<close>.
\<close>

section \<open>Host and port\<close>

text \<open>The index of the last colon, and the address errors, follow the library's code.\<close>

definition last_index :: "char \<Rightarrow> string \<Rightarrow> nat option" where
  "last_index c s = (if c \<in> set s then Some (length s - 1 - length (takeWhile (\<lambda>x. x \<noteq> c) (rev s))) else None)"

definition first_index :: "char \<Rightarrow> string \<Rightarrow> nat option" where
  "first_index c s = (if c \<in> set s then Some (length (takeWhile (\<lambda>x. x \<noteq> c) s)) else None)"

definition SplitHostPort :: "string \<Rightarrow> string + string \<times> string" where
  "SplitHostPort hp =
     (case last_index (CHR '':'') hp of
        None \<Rightarrow> Inl ''missing port in address''
      | Some i \<Rightarrow>
          (if hd hp = CHR ''['' then
             (case first_index (CHR '']'') hp of
                None \<Rightarrow> Inl ''missing ']' in address''
              | Some e \<Rightarrow>
                  (if e + 1 = length hp then Inl ''missing port in address''
                   else if e + 1 \<noteq> i then
                     Inl (if hp ! (e + 1) = CHR '':'' then ''too many colons in address''
                          else ''missing port in address'')
                   else if CHR ''['' \<in> set (drop 1 hp) then Inl ''unexpected '[' in address''
                   else if CHR '']'' \<in> set (drop (e + 1) hp) then Inl ''unexpected ']' in address''
                   else Inr (take (e - 1) (drop 1 hp), drop (i + 1) hp)))
           else if CHR '':'' \<in> set (take i hp) then Inl ''too many colons in address''
           else if CHR ''['' \<in> set hp then Inl ''unexpected '[' in address''
           else if CHR '']'' \<in> set hp then Inl ''unexpected ']' in address''
           else Inr (take i hp, drop (i + 1) hp)))"

text \<open>Where the error is dropped, both parts are empty.\<close>

definition host_port :: "string \<Rightarrow> string \<times> string" where
  "host_port hp = (case SplitHostPort hp of Inl e \<Rightarrow> ([], []) | Inr p \<Rightarrow> p)"

definition JoinHostPort :: "string \<Rightarrow> string \<Rightarrow> string" where
  "JoinHostPort host port =
     (if CHR '':'' \<in> set host then ''['' @ host @ '']:'' @ port else host @ '':'' @ port)"

section \<open>Handlers\<close>

definition handlePeerCheck :: "'s handler" where
  "handlePeerCheck s = (writeError 501 ''peer check not yet implemented'', s)"

definition handlePeerHeartbeat :: "'s store \<Rightarrow> int64 \<Rightarrow> string + heartbeat \<Rightarrow> 's handler" where
  "handlePeerHeartbeat st now req s =
     (case req of
        Inl e \<Rightarrow> (writeError 400 (''invalid JSON: '' @ e), s)
      | Inr hb \<Rightarrow>
          (case UpdateHeartbeat st now (hb_node_id hb) s of
             (Inl e, s1) \<Rightarrow> (writeError 500 ''heartbeat update failed'', s1)
           | (Inr _, s1) \<Rightarrow> (writeJSON 200 (StatusBody ''ok''), s1)))"

definition handlePeerConfigSync :: "'s store \<Rightarrow> string + config_sync \<Rightarrow> 's handler" where
  "handlePeerConfigSync st req s =
     (case req of
        Inl e \<Rightarrow> (writeError 400 (''invalid JSON: '' @ e), s)
      | Inr sync \<Rightarrow>
          (writeJSON 200 (StatusBody ''ok''),
           upsert_nodes st (cs_nodes sync) (upsert_monitors st (cs_monitors sync) s)))"

record join_world =
  jw_uuid :: string
  jw_external_ip :: "string \<Rightarrow> bool"
  jw_node_cert :: "string \<Rightarrow> string list \<Rightarrow> string + string \<times> string"
  jw_ca_cert :: "string + string"

definition resolved_address :: "string \<Rightarrow> string \<Rightarrow> string" where
  "resolved_address listenAddr remoteAddr =
     (case host_port listenAddr of (listenHost, listenPort) \<Rightarrow>
        if listenHost = ''0.0.0.0'' \<or> listenHost = [] then
          JoinHostPort (fst (host_port remoteAddr)) listenPort
        else listenAddr)"

definition cert_addresses :: "join_world \<Rightarrow> string \<Rightarrow> string list" where
  "cert_addresses jw listenAddr =
     (case SplitHostPort listenAddr of
        Inl e \<Rightarrow> [''127.0.0.1'']
      | Inr (host, port) \<Rightarrow> ''127.0.0.1'' # (if jw_external_ip jw host then [host] else []))"

definition joined_node :: "string \<Rightarrow> string \<Rightarrow> string \<Rightarrow> int64 \<Rightarrow> node" where
  "joined_node nodeID name addr now = \<lparr>node_id = nodeID, node_name = name, node_location = [],
     node_address = addr, node_role = RoleNode, node_status = NodeOnline, node_last_seen = now,
     node_created_at = now\<rparr>"

definition handlePeerJoin ::
    "'s store \<Rightarrow> config \<Rightarrow> join_env \<Rightarrow> join_world \<Rightarrow> int64 \<Rightarrow> int64 \<Rightarrow> string \<Rightarrow> string + join_request \<Rightarrow> 's handler" where
  "handlePeerJoin st cfg je jw checkedAt now remoteAddr req s =
     (if cfg_role cfg \<noteq> RoleCoordinator
      then (writeError 403 ''only the coordinator can accept join requests'', s)
      else case req of
        Inl e \<Rightarrow> (writeError 400 (''invalid JSON: '' @ e), s)
      | Inr r \<Rightarrow>
          (case ValidateJoinToken je st checkedAt (jr_secret r) s of
             (Inl e, s1) \<Rightarrow> (writeError 500 ''token validation failed'', s1)
           | (Inr False, s1) \<Rightarrow> (writeError 401 ''invalid or expired join token'', s1)
           | (Inr True, s1) \<Rightarrow>
               (let nodeID = jw_uuid jw;
                    listenAddr = resolved_address (jr_listen_addr r) remoteAddr
                in case jw_node_cert jw nodeID (cert_addresses jw listenAddr) of
                     Inl e \<Rightarrow> (writeError 500 ''certificate generation failed'', s1)
                   | Inr (certPEM, keyPEM) \<Rightarrow>
                       (case jw_ca_cert jw of
                          Inl e \<Rightarrow> (writeError 500 ''reading CA cert failed'', s1)
                        | Inr caCertPEM \<Rightarrow>
                            (case CreateNode st (joined_node nodeID (jr_name r) listenAddr now) s1 of
                               (Inl e, s2) \<Rightarrow> (writeError 500 ''creating node record failed'', s2)
                             | (Inr _, s2) \<Rightarrow>
                                 (writeJSON 200 (JoinBody \<lparr>jp_node_id = nodeID, jp_ca_cert = caCertPEM,
                                    jp_node_cert = certPEM, jp_node_key = keyPEM,
                                    jp_coordinator_id = cfg_node_id cfg\<rparr>), s2))))))"

definition handlePeerConfigSyncPull ::
    "'s store \<Rightarrow> config \<Rightarrow> (store_error \<Rightarrow> string) \<Rightarrow> int64 \<Rightarrow> 's handler" where
  "handlePeerConfigSyncPull st cfg txt now s =
     (if cfg_role cfg \<noteq> RoleCoordinator
      then (writeError 403 ''only the coordinator serves config-sync'', s)
      else case ListMonitors st [] s of
        (Inl e, s1) \<Rightarrow> (writeError 500 (''loading monitors: '' @ txt e), s1)
      | (Inr monitors, s1) \<Rightarrow>
          (case ListNodes st s1 of
             (Inl e, s2) \<Rightarrow> (writeError 500 (''loading nodes: '' @ txt e), s2)
           | (Inr nodes, s2) \<Rightarrow>
               (writeJSON 200 (ConfigBody \<lparr>cs_version = now, cs_monitors = monitors,
                  cs_nodes = nodes\<rparr>), s2)))"

definition handlePeerResult :: "'s store \<Rightarrow> string + check_result \<Rightarrow> 's handler" where
  "handlePeerResult st req s =
     (case req of
        Inl e \<Rightarrow> (writeError 400 (''invalid JSON: '' @ e), s)
      | Inr result \<Rightarrow>
          (case InsertCheckResult st result s of
             (Inl e, s1) \<Rightarrow> (writeError 500 ''storing result failed'', s1)
           | (Inr _, s1) \<Rightarrow> (writeJSON 200 (StatusBody ''ok''), s1)))"

section \<open>Joining\<close>

text \<open>A node joins only with a token that the store accepts, and then its record is in the store.\<close>

lemma join_accepted:
  assumes "handlePeerJoin st cfg je jw t now remote req s = (resp, s')" and "rs_code resp = 200"
  obtains r s1 u where "req = Inr r" "cfg_role cfg = RoleCoordinator"
    "ValidateJoinToken je st t (jr_secret r) s = (Inr True, s1)"
    "CreateNode st (joined_node (jw_uuid jw) (jr_name r) (resolved_address (jr_listen_addr r) remote) now) s1
       = (Inr u, s')"
  using assms
  by (auto simp: handlePeerJoin_def Let_def split: if_splits sum.splits prod.splits bool.splits)

lemma host_port_plain:
  assumes "CHR '':'' \<notin> set h" "CHR ''['' \<notin> set h" "CHR '']'' \<notin> set h"
    and "CHR '':'' \<notin> set p" "CHR ''['' \<notin> set p" "CHR '']'' \<notin> set p"
  shows "SplitHostPort (JoinHostPort h p) = Inr (h, p)"
proof -
  have tw: "takeWhile (\<lambda>x. x \<noteq> CHR '':'') (rev p @ CHR '':'' # rev h) = rev p"
    using assms(4) by (subst takeWhile_append2) auto
  have "last_index (CHR '':'') (h @ CHR '':'' # p) = Some (length h)"
    by (simp add: last_index_def tw)
  moreover have "hd (h @ CHR '':'' # p) \<noteq> CHR ''[''" using assms(2) by (cases h) auto
  ultimately show ?thesis
    using assms by (simp add: SplitHostPort_def JoinHostPort_def)
qed

end
