(* ===== verification/Membership.thy ===== *)
theory Membership
  imports Peer_Api
begin

text \<open>
  How a node becomes and stays a member, over \<open>handlePeerJoin\<close> and the join tokens on the SQLite store:
  what an accepted request has done, what a refused one has not done, and the single use of a token
  whatever the database runs between two requests.
\<close>

section \<open>The address of a node\<close>

text \<open>Splitting what was joined gives the parts back, for a host name as for an IPv6 address.\<close>

lemma split_join:
  assumes host: "CHR ''['' \<notin> set h" "CHR '']'' \<notin> set h"
    and port: "CHR '':'' \<notin> set p" "CHR ''['' \<notin> set p" "CHR '']'' \<notin> set p"
  shows "SplitHostPort (JoinHostPort h p) = Inr (h, p)"
proof (cases "CHR '':'' \<in> set h")
  case False
  with assms show ?thesis by (intro host_port_plain)
next
  case True
  have "takeWhile (\<lambda>x. x \<noteq> CHR '':'') (rev p @ CHR '':'' # CHR '']'' # rev h @ [CHR ''['']) = rev p"
    using port(1) by (subst takeWhile_append2) auto
  then have last: "last_index (CHR '':'') (CHR ''['' # h @ CHR '']'' # CHR '':'' # p) = Some (length h + 2)"
    by (simp add: last_index_def)
  have "takeWhile (\<lambda>x. x \<noteq> CHR '']'') (h @ CHR '']'' # CHR '':'' # p) = h"
    using host(2) by (subst takeWhile_append2) auto
  then have "first_index (CHR '']'') (CHR ''['' # h @ CHR '']'' # CHR '':'' # p) = Some (length h + 1)"
    by (simp add: first_index_def)
  with last True host port show ?thesis by (simp add: SplitHostPort_def JoinHostPort_def)
qed

section \<open>One request\<close>

text \<open>A request that is not accepted leaves the tables of nodes alone; an accepted one adds its node.\<close>

lemma join_refused:
  assumes "handlePeerJoin (sqlite_store eng) cfg je jw t now remote req s = (resp, s')"
    and "rs_code resp \<noteq> 200"
  shows "db_nodes s' = db_nodes s"
proof -
  have keep: "db_nodes s1 = db_nodes s"
    if "ValidateJoinToken je (sqlite_store eng) t k s = (r, s1)" for k r s1
    using that by (auto simp: ValidateJoinToken_def sqlite_ValidateAndConsumeToken_def elim!: db_execE)
  have failed: "db_nodes s2 = db_nodes s1"
    if "CreateNode (sqlite_store eng) n s1 = (Inl e, s2)" for n s1 s2 e
    using that by (auto simp: sqlite_CreateNode_def elim!: db_execE)
  show ?thesis
    using assms keep failed
    by (auto simp: handlePeerJoin_def Let_def split: if_splits sum.splits prod.splits bool.splits)
qed

lemma join_added:
  assumes "handlePeerJoin (sqlite_store eng) cfg je jw t now remote req s = (resp, s')"
    and "rs_code resp = 200" and "db_ok s"
  obtains r x where "req = Inr r" "cfg_role cfg = RoleCoordinator"
    "token_open s (je_digest je (jr_secret r)) = Some x" "x > t"
    "token_open s' (je_digest je (jr_secret r)) = None"
    "\<not> has_key node_id (jw_uuid jw) (db_nodes s)"
    "db_nodes s' = db_nodes s @ [joined_node (jw_uuid jw) (jr_name r)
       (resolved_address (jr_listen_addr r) remote) now]"
proof -
  from join_accepted [OF assms(1,2)] obtain r s1 u where r: "req = Inr r" "cfg_role cfg = RoleCoordinator"
    "ValidateJoinToken je (sqlite_store eng) t (jr_secret r) s = (Inr True, s1)"
    "CreateNode (sqlite_store eng) (joined_node (jw_uuid jw) (jr_name r)
       (resolved_address (jr_listen_addr r) remote) now) s1 = (Inr u, s')" by blast
  note consumed = sqlite_tokens.consume_ok [OF assms(3) r(3) [unfolded ValidateJoinToken_def]]
  have nodes: "db_nodes s1 = db_nodes s"
    using r(3) by (auto simp: ValidateJoinToken_def sqlite_ValidateAndConsumeToken_def elim!: db_execE)
  from r(4) have fresh: "\<not> has_key node_id (jw_uuid jw) (db_nodes s1)"
    and added: "s' = (tick s1)\<lparr>db_nodes := db_nodes s1 @ [joined_node (jw_uuid jw) (jr_name r)
       (resolved_address (jr_listen_addr r) remote) now]\<rparr>"
    by (auto simp: sqlite_CreateNode_def row_insert_Some joined_node_def elim!: db_execE
        split: option.splits)
  have "token_open s' = token_open s1" by (simp add: fun_eq_iff token_open_def added)
  with consumed r(1,2) nodes fresh added that show thesis by auto
qed

text \<open>C21: a join request is all or nothing on the table of nodes. It is accepted only by a coordinator and
  for a stored token that is unused and not expired; then exactly one record is added, with a new id,
  the requested name and the resolved address, online and just seen, and the token is used up. Any
  other answer leaves the table as it was.\<close>

theorem join_all_or_nothing:
  assumes "handlePeerJoin (sqlite_store eng) cfg je jw t now remote req s = (resp, s')" and "db_ok s"
  shows "(rs_code resp = 200 \<and> cfg_role cfg = ''coordinator'' \<and> (\<exists>r x. req = Inr r \<and>
        token_open s (je_digest je (jr_secret r)) = Some x \<and> x > t \<and>
        token_open s' (je_digest je (jr_secret r)) = None \<and>
        \<not> has_key node_id (jw_uuid jw) (db_nodes s) \<and>
        db_nodes s' = db_nodes s @ [\<lparr>node_id = jw_uuid jw, node_name = jr_name r, node_location = [],
          node_address = resolved_address (jr_listen_addr r) remote, node_role = ''node'',
          node_status = ''online'', node_last_seen = now, node_created_at = now\<rparr>])) \<or>
    (rs_code resp \<in> {400, 401, 403, 500} \<and> db_nodes s' = db_nodes s)"
proof (cases "rs_code resp = 200")
  case True
  from join_added [OF assms(1) True assms(2)] show ?thesis
  proof cases
    case (1 r x)
    with True show ?thesis by (auto simp: joined_node_def)
  qed
next
  case False
  then have "rs_code resp \<in> {400, 401, 403, 500}"
    using assms(1)
    by (auto simp: handlePeerJoin_def Let_def split: if_splits sum.splits prod.splits bool.splits)
  with join_refused [OF assms(1) False] show ?thesis by blast
qed

text \<open>A coordinator with one token \<open>d\<close> that expires at 50.\<close>

definition demo_join_env :: join_env where
  "demo_join_env = \<lparr>je_random = Inr ''s'', je_digest = (\<lambda>_. ''d''), je_marshal = (\<lambda>_. Inr ''{}''),
     je_unmarshal = (\<lambda>_. Inl ''e''), je_encode = (\<lambda>x. x), je_decode = Inr, je_error_text = (\<lambda>_. ''e'')\<rparr>"

definition demo_join_world :: "string \<Rightarrow> join_world" where
  "demo_join_world uuid = \<lparr>jw_uuid = uuid, jw_external_ip = (\<lambda>_. True),
     jw_node_cert = (\<lambda>_ _. Inr (''cert'', ''key'')), jw_ca_cert = Inr ''ca''\<rparr>"

definition demo_coordinator :: config where
  "demo_coordinator = DefaultConfig\<lparr>cfg_node_id := ''co'', cfg_role := ''coordinator''\<rparr>"

definition demo_request :: join_request where
  "demo_request = \<lparr>jr_secret = ''s'', jr_name = ''b'', jr_listen_addr = ''0.0.0.0:7433'', jr_cli_addr = []\<rparr>"

definition db_token :: db where
  "db_token = snd (sqlite_StoreJoinToken plain_engine ''d'' 50 1 db_setup)"

definition demo_join :: "string \<Rightarrow> int64 \<Rightarrow> db \<Rightarrow> response \<times> db" where
  "demo_join uuid t s = handlePeerJoin (sqlite_store plain_engine) demo_coordinator demo_join_env
     (demo_join_world uuid) t t ''9.8.7.6:5555'' (Inr demo_request) s"

lemma db_token_ok: "sql_run plain_engine empty_db db_token" "db_ok db_token"
proof -
  have "sql_run plain_engine empty_db db_setup"
    unfolding db_setup_def by (rule exec_all_run)
  moreover have "sql_step plain_engine db_setup db_token"
    unfolding db_token_def by (rule store_token)
  ultimately show "sql_run plain_engine empty_db db_token" by (metis sql_run.simps sql_run_trans)
  then show "db_ok db_token" using sql_run_ok by simp
qed

lemma join_all_or_nothing_witness:
  "map node_address (db_nodes (snd (demo_join ''b'' 10 db_token))) = [''h:1'', ''9.8.7.6:7433'']"
proof -
  have run: "handlePeerJoin (sqlite_store plain_engine) demo_coordinator demo_join_env (demo_join_world ''b'')
      10 10 ''9.8.7.6:5555'' (Inr demo_request) db_token
      = (fst (demo_join ''b'' 10 db_token), snd (demo_join ''b'' 10 db_token))"
    by (simp add: demo_join_def)
  have "rs_code (fst (demo_join ''b'' 10 db_token)) = 200"
    "map node_address (db_nodes db_token) = [''h:1'']"
    "resolved_address ''0.0.0.0:7433'' ''9.8.7.6:5555'' = ''9.8.7.6:7433''" by code_simp+
  with join_all_or_nothing [OF run db_token_ok(2)] show ?thesis
    by (auto simp: demo_request_def)
qed

section \<open>Two requests\<close>

text \<open>C22: a join token admits one node. After an accepted request the database may run any statements, its
  faults included; a second request with the same secret is not accepted and adds no node.\<close>

theorem join_token_single_use:
  assumes "db_ok s"
    and "handlePeerJoin (sqlite_store eng) cfg je jw t now remote (Inr req) s = (resp, s1)"
    and "rs_code resp = 200" and "sql_run eng s1 s2"
    and "handlePeerJoin (sqlite_store eng) cfg je jw' t' now' remote' (Inr req') s2 = (resp', s3)"
    and "jr_secret req' = jr_secret req"
  shows "rs_code resp' \<noteq> 200 \<and> db_nodes s3 = db_nodes s2"
proof
  from join_accepted [OF assms(2,3)] obtain v u where
    v: "ValidateJoinToken je (sqlite_store eng) t (jr_secret req) s = (Inr True, v)"
    and c: "CreateNode (sqlite_store eng) (joined_node (jw_uuid jw) (jr_name req)
       (resolved_address (jr_listen_addr req) remote) now) v = (Inr u, s1)" by blast
  have "sql_step eng v s1"
    using create_node [of eng v "joined_node (jw_uuid jw) (jr_name req)
      (resolved_address (jr_listen_addr req) remote) now"] c by simp
  from sql_run.more [OF sql_run.start this] have between: "sql_run eng v s2"
    by (rule sql_run_trans [OF assms(4)])
  show "rs_code resp' \<noteq> 200"
  proof
    assume "rs_code resp' = 200"
    from join_accepted [OF assms(5) this] obtain w where
      w: "ValidateJoinToken je (sqlite_store eng) t' (jr_secret req') s2 = (Inr True, w)" by blast
    from accepted_then_refused [OF assms(1) v between w [unfolded assms(6)]] show False by simp
  qed
  with join_refused [OF assms(5)] show "db_nodes s3 = db_nodes s2" by blast
qed

lemma join_token_single_use_witness:
  "rs_code (fst (demo_join ''x'' 20 (snd (demo_join ''b'' 10 db_token)))) \<noteq> 200 \<and>
    db_nodes (snd (demo_join ''x'' 20 (snd (demo_join ''b'' 10 db_token))))
      = db_nodes (snd (demo_join ''b'' 10 db_token))"
proof (rule join_token_single_use [OF db_token_ok(2), where ?s1.0 = "snd (demo_join ''b'' 10 db_token)"
      and ?s2.0 = "snd (demo_join ''b'' 10 db_token)" and resp = "fst (demo_join ''b'' 10 db_token)"])
  show "rs_code (fst (demo_join ''b'' 10 db_token)) = 200" by code_simp
  show "sql_run plain_engine (snd (demo_join ''b'' 10 db_token)) (snd (demo_join ''b'' 10 db_token))"
    by (rule sql_run.start)
qed (simp_all add: demo_join_def)

text \<open>A node that listens on all interfaces is recorded with the address its request came from and its
  own port, for IPv4 and IPv6 alike; one that names its interface is recorded as it asks.\<close>

lemma joiner_address:
  assumes "CHR ''['' \<notin> set h" "CHR '']'' \<notin> set h"
    and "\<forall>x \<in> {p, q}. CHR '':'' \<notin> set x \<and> CHR ''['' \<notin> set x \<and> CHR '']'' \<notin> set x"
    and "h' \<noteq> []" "h' \<noteq> ''0.0.0.0''" "CHR ''['' \<notin> set h'" "CHR '']'' \<notin> set h'"
  shows "resolved_address (''0.0.0.0:'' @ p) (JoinHostPort h q) = JoinHostPort h p \<and>
    resolved_address ('':'' @ p) (JoinHostPort h q) = JoinHostPort h p \<and>
    resolved_address (JoinHostPort h' p) remote = JoinHostPort h' p"
proof -
  have parts: "host_port (JoinHostPort ''0.0.0.0'' p) = (''0.0.0.0'', p)" "host_port (JoinHostPort [] p) = ([], p)"
    "host_port (JoinHostPort h q) = (h, q)" "host_port (JoinHostPort h' p) = (h', p)"
    unfolding host_port_def by (subst split_join; use assms in simp)+
  moreover have "JoinHostPort ''0.0.0.0'' p = ''0.0.0.0:'' @ p" "JoinHostPort [] p = '':'' @ p"
    by (simp_all add: JoinHostPort_def)
  ultimately show ?thesis using assms(4,5) by (simp add: resolved_address_def)
qed

text \<open>On a database that does not fail, a pushed check result is accepted exactly if its monitor and its
  node are known; then one row with the next id is added to the results, and nothing else changes.\<close>

lemma pushed_result_accepted:
  assumes "handlePeerResult (sqlite_store (quiet eng)) (Inr r) s = (resp, s')"
  shows "(if has_key mr_id (res_monitor_id r) (db_monitors s) \<and> has_key node_id (res_node_id r) (db_nodes s)
      then resp = writeJSON 200 (StatusBody ''ok'') \<and>
        s' = (tick s)\<lparr>db_results := db_results s @ [bind_result (db_result_seq s + 1) r],
          db_result_seq := db_result_seq s + 1\<rparr>
      else resp = writeError 500 ''storing result failed'' \<and> s' = tick s)"
  using assms by (auto simp: handlePeerResult_def sqlite_InsertCheckResult_def db_exec_def
      split: if_splits)

end
