(* ===== verification/Replication.thy ===== *)
theory Replication
  imports Membership
begin

text \<open>
  The configuration sync between the coordinator and its nodes, end to end: what the coordinator
  serves, and what the tables of a node are after it has applied it (\<open>applyConfigSync\<close>; the push
  handler does the same with what it receives).
\<close>

section \<open>What the coordinator serves\<close>

lemma find_permuted:
  assumes "mset xs = mset ys" and "distinct (map f ys)"
  shows "find (\<lambda>x. f x = k) xs = find (\<lambda>x. f x = k) ys"
proof (cases "find (\<lambda>x. f x = k) ys")
  case None
  with assms(1) show ?thesis by (metis find_None_iff set_mset_mset)
next
  case (Some y)
  then have "y \<in> set ys" "f y = k" by (auto simp: find_Some_iff)
  moreover have "distinct (map f xs)" using assms by (metis mset_eq_imp_distinct_iff mset_map)
  ultimately show ?thesis
    using Some assms(1) by (metis find_Some_iff_unique set_mset_mset)
qed

lemma find_scanned: "find (\<lambda>m. mon_id m = k) (map scanMonitor rows) = map_option scanMonitor (find (\<lambda>r. mr_id r = k) rows)"
  by (induction rows) auto

lemma served_config:
  assumes "handlePeerConfigSyncPull (sqlite_store (quiet eng)) cfg txt now c = (resp, c')"
    and "cfg_role cfg = ''coordinator''" and "db_ok c"
  obtains sync where "resp = writeJSON 200 (ConfigBody sync)" "cs_version sync = now"
    "distinct (map mon_id (cs_monitors sync))" "distinct (map node_id (cs_nodes sync))"
    "\<And>k. find (\<lambda>m. mon_id m = k) (cs_monitors sync) = stored_monitor c k"
    "\<And>k. find (\<lambda>n. node_id n = k) (cs_nodes sync) = stored_node c k"
proof -
  from assms(1,2) obtain sync where sync: "resp = writeJSON 200 (ConfigBody sync)" "cs_version sync = now"
    "mset (cs_monitors sync) = mset (map scanMonitor (db_monitors c))"
    "mset (cs_nodes sync) = mset (db_nodes c)"
    by (auto simp: handlePeerConfigSyncPull_def sqlite_ListMonitors_def sqlite_ListNodes_def db_query_def)
  have keys: "distinct (map mon_id (map scanMonitor (db_monitors c)))" "distinct (map node_id (db_nodes c))"
    using db_ok_keys [OF assms(3)] by (simp_all add: comp_def)
  show thesis
  proof (rule that [OF sync(1,2)])
    show "distinct (map mon_id (cs_monitors sync))" "distinct (map node_id (cs_nodes sync))"
      using keys sync(3,4) by (metis mset_eq_imp_distinct_iff mset_map)+
    show "find (\<lambda>m. mon_id m = k) (cs_monitors sync) = stored_monitor c k" for k
      using find_permuted [OF sync(3) keys(1)] by (simp add: find_scanned stored_monitor_def)
    show "find (\<lambda>n. node_id n = k) (cs_nodes sync) = stored_node c k" for k
      using find_permuted [OF sync(4) keys(2)] by (simp add: stored_node_def)
  qed
qed

section \<open>What a node has after a sync\<close>

text \<open>The value a row takes: that of the configuration, with the creation time the node already had.\<close>

definition synced_monitor :: "monitor option \<Rightarrow> monitor option \<Rightarrow> monitor option" where
  "synced_monitor served own = (case served of None \<Rightarrow> own
     | Some m \<Rightarrow> Some (case own of None \<Rightarrow> m | Some old \<Rightarrow> m\<lparr>mon_created_at := mon_created_at old\<rparr>))"

definition synced_node :: "node option \<Rightarrow> node option \<Rightarrow> node option" where
  "synced_node served own = (case served of None \<Rightarrow> own
     | Some n \<Rightarrow> Some (case own of None \<Rightarrow> n | Some old \<Rightarrow> n\<lparr>node_created_at := node_created_at old\<rparr>))"

lemma synced_simps [simp]:
  "synced_monitor None own = own" "synced_node None own' = own'"
  by (simp_all add: synced_monitor_def synced_node_def)

lemma applied_values:
  assumes "distinct (map mon_id (cs_monitors sync))" and "distinct (map node_id (cs_nodes sync))"
  shows "stored_monitor (applyConfigSync (sqlite_store (quiet eng)) sync s) k
      = synced_monitor (find (\<lambda>m. mon_id m = k) (cs_monitors sync)) (stored_monitor s k)"
    and "stored_node (applyConfigSync (sqlite_store (quiet eng)) sync s) k
      = synced_node (find (\<lambda>n. node_id n = k) (cs_nodes sync)) (stored_node s k)"
  unfolding sqlite_reliable_config.apply_exact merge_monitors_value [OF assms(1)]
    merge_nodes_value [OF assms(2)]
  by (simp_all add: synced_monitor_def synced_node_def refresh_monitor_def refresh_node_def
      split: option.splits)

text \<open>C31: a pull merges the coordinator's tables into those of the node: every monitor and every node that the
  coordinator has is stored as the coordinator has it, except that a row the node already had keeps its creation time, and
  a row that only the node has stays as it was.\<close>

theorem config_pull_converges:
  assumes "handlePeerConfigSyncPull (sqlite_store (quiet eng)) cfg txt now c = (resp, c')"
    and "cfg_role cfg = ''coordinator''" and "db_ok c"
  shows "\<exists>sync. resp = writeJSON 200 (ConfigBody sync) \<and>
    stored_monitor (applyConfigSync (sqlite_store (quiet eng')) sync s)
      = (\<lambda>k. synced_monitor (stored_monitor c k) (stored_monitor s k)) \<and>
    stored_node (applyConfigSync (sqlite_store (quiet eng')) sync s)
      = (\<lambda>k. synced_node (stored_node c k) (stored_node s k))"
proof -
  from served_config [OF assms] obtain sync where sync: "resp = writeJSON 200 (ConfigBody sync)"
    "distinct (map mon_id (cs_monitors sync))" "distinct (map node_id (cs_nodes sync))"
    "\<And>k. find (\<lambda>m. mon_id m = k) (cs_monitors sync) = stored_monitor c k"
    "\<And>k. find (\<lambda>n. node_id n = k) (cs_nodes sync) = stored_node c k" by blast
  with applied_values [OF sync(2,3)] show ?thesis by (auto simp: fun_eq_iff)
qed

definition demo_pull :: "response \<times> db" where
  "demo_pull = handlePeerConfigSyncPull (sqlite_store (quiet plain_engine)) demo_coordinator (\<lambda>_. ''e'') 9 db_setup"

lemma db_setup_ok: "db_ok db_setup"
  unfolding db_setup_def using sql_run_ok [OF exec_all_run] by simp

lemma config_pull_converges_witness:
  "\<exists>sync. fst demo_pull = writeJSON 200 (ConfigBody sync) \<and>
    stored_monitor (applyConfigSync (sqlite_store (quiet plain_engine)) sync empty_db)
      = (\<lambda>k. synced_monitor (stored_monitor db_setup k) (stored_monitor empty_db k)) \<and>
    stored_node (applyConfigSync (sqlite_store (quiet plain_engine)) sync empty_db)
      = (\<lambda>k. synced_node (stored_node db_setup k) (stored_node empty_db k))"
  by (rule config_pull_converges [of plain_engine demo_coordinator "\<lambda>_. ''e''" 9 db_setup _ "snd demo_pull"])
    (simp_all add: demo_pull_def demo_coordinator_def db_setup_ok)

text \<open>A sync may be repeated: applying the same configuration once more changes no monitor and no node.\<close>

lemma config_sync_idempotent:
  assumes "distinct (map mon_id (cs_monitors sync))" and "distinct (map node_id (cs_nodes sync))"
  shows "stored_monitor (applyConfigSync (sqlite_store (quiet eng)) sync
        (applyConfigSync (sqlite_store (quiet eng)) sync s))
      = stored_monitor (applyConfigSync (sqlite_store (quiet eng)) sync s) \<and>
    stored_node (applyConfigSync (sqlite_store (quiet eng)) sync
        (applyConfigSync (sqlite_store (quiet eng)) sync s))
      = stored_node (applyConfigSync (sqlite_store (quiet eng)) sync s)"
  unfolding fun_eq_iff applied_values [OF assms]
  by (auto simp: synced_monitor_def synced_node_def split: option.splits)

definition demo_sync :: config_sync where
  "demo_sync = \<lparr>cs_version = 9, cs_monitors = [mon_m], cs_nodes = [node_a]\<rparr>"

text \<open>C39: a sync deletes no row, and leaves every monitor and every node that the configuration does not name exactly as
  it was, whatever statements fail on the way: a monitor that the coordinator has deleted keeps running on
  the nodes.\<close>

theorem deleted_monitor_survives_sync:
  "dom (stored_monitor s) \<subseteq> dom (stored_monitor (applyConfigSync (sqlite_store eng) sync s)) \<and>
    dom (stored_node s) \<subseteq> dom (stored_node (applyConfigSync (sqlite_store eng) sync s)) \<and>
    (\<forall>k. k \<notin> mon_id ` set (cs_monitors sync) \<longrightarrow>
      stored_monitor (applyConfigSync (sqlite_store eng) sync s) k = stored_monitor s k) \<and>
    (\<forall>k. k \<notin> node_id ` set (cs_nodes sync) \<longrightarrow>
      stored_node (applyConfigSync (sqlite_store eng) sync s) k = stored_node s k)"
  using sqlite_config.apply_keeps [where s = s and eng = eng and sync = sync] by blast

lemma deleted_monitor_survives_sync_witness:
  "stored_monitor (applyConfigSync (sqlite_store plain_engine) (demo_sync\<lparr>cs_monitors := [], cs_nodes := []\<rparr>) db_setup) ''m''
    = Some mon_m \<and>
   stored_node (applyConfigSync (sqlite_store plain_engine) (demo_sync\<lparr>cs_monitors := [], cs_nodes := []\<rparr>) db_setup) ''a''
    = Some node_a"
proof -
  have "stored_monitor db_setup ''m'' = Some mon_m" "stored_node db_setup ''a'' = Some node_a" by code_simp+
  with deleted_monitor_survives_sync [of db_setup plain_engine "demo_sync\<lparr>cs_monitors := [], cs_nodes := []\<rparr>"]
  show ?thesis by simp
qed

section \<open>Whom the coordinator pushes to\<close>

text \<open>A push sends the whole configuration, once, to every node that is online, and not to itself.\<close>

lemma config_push_targets:
  assumes "pushConfigSync (sqlite_store (quiet eng)) cfg now s = (msgs, s')"
  shows "mset (map fst msgs) = mset (map node_address (filter (\<lambda>n. node_id n \<noteq> cfg_node_id cfg \<and>
      node_status n = ''online'') (db_nodes s))) \<and>
    (\<exists>sync. set (map snd msgs) \<subseteq> {sync} \<and> mset (cs_nodes sync) = mset (db_nodes s) \<and>
      mset (cs_monitors sync) = mset (map scanMonitor (db_monitors s)))"
proof -
  let ?ms = "map scanMonitor (order_by (eng_scan_monitors (quiet eng)) mr_name (db_monitors s))"
  let ?ns = "order_by (eng_scan_nodes (quiet eng)) node_created_at (db_nodes s)"
  have "msgs = map (\<lambda>n. (node_address n, \<lparr>cs_version = now, cs_monitors = ?ms, cs_nodes = ?ns\<rparr>))
      (sync_targets cfg ?ns)"
    using assms by (simp add: pushConfigSync_def sqlite_ListMonitors_def sqlite_ListNodes_def db_query_def)
  then obtain ms ns where v: "mset ms = mset (map scanMonitor (db_monitors s))"
    "mset ns = mset (db_nodes s)"
    "msgs = map (\<lambda>n. (node_address n, \<lparr>cs_version = now, cs_monitors = ms, cs_nodes = ns\<rparr>)) (sync_targets cfg ns)"
    using that [of ?ms ?ns] by simp
  have "mset (sync_targets cfg ns) = filter_mset (\<lambda>n. node_id n \<noteq> cfg_node_id cfg \<and>
      node_status n = ''online'') (mset (db_nodes s))"
    using v(2) by (simp add: sync_targets_def)
  with v show ?thesis
    by (auto simp: comp_def intro!: exI [of _ "\<lparr>cs_version = now, cs_monitors = ms, cs_nodes = ns\<rparr>"])
qed

end
