(* ===== verification/Peer_Client.thy ===== *)
theory Peer_Client
  imports Membership Replication
begin

text \<open>
  \<open>internal/cluster/peer_client.go\<close>, the client side of the peer API, and the routing table of its
  server side (\<open>registerPeerRoutes\<close> in \<open>peer_handlers.go\<close>), so that the two can be put together: a
  transport is what \<open>net/http\<close> does with a request, on a state of its own, and \<open>direct\<close> is the one that
  reaches a given server. The JSON codecs of both sides are parameters.
\<close>

section \<open>Requests and replies\<close>

text \<open>A reply: its status, the bytes of its body, and the error that reading the body ends with, if any.\<close>

record raw_reply =
  rw_code :: int64
  rw_bytes :: string
  rw_broken :: "string option"

text \<open>Method, URL and body.\<close>

type_synonym 'w transport = "string \<Rightarrow> string \<Rightarrow> string \<Rightarrow> 'w \<Rightarrow> (string + raw_reply) \<times> 'w"

record peer_codec =
  pc_heartbeat :: "heartbeat \<Rightarrow> string + string"
  pc_result :: "check_result \<Rightarrow> string + string"
  pc_config :: "config_sync \<Rightarrow> string + string"
  pc_join :: "join_request \<Rightarrow> string + string"
  pc_join_response :: "string \<Rightarrow> string + join_response"
  pc_config_response :: "raw_reply \<Rightarrow> string + config_sync"

section \<open>The client\<close>

definition postJSON ::
    "'w transport \<Rightarrow> string \<Rightarrow> string \<Rightarrow> string + string \<Rightarrow> 'w \<Rightarrow> string option \<times> 'w" where
  "postJSON tr addr path marshalled w =
     (case marshalled of
        Inl e \<Rightarrow> (Some (''marshalling request: '' @ e), w)
      | Inr body \<Rightarrow>
          (case tr ''POST'' (''http://'' @ addr @ path) body w of
             (Inl e, w1) \<Rightarrow> (Some (''POST '' @ path @ '': '' @ e), w1)
           | (Inr resp, w1) \<Rightarrow>
               (if rw_code resp \<ge> 400 then Some (''POST '' @ path @ '' returned HTTP '' @
                  show_int (rw_code resp) @ '': '' @ rw_bytes resp) else None, w1)))"

definition SendHeartbeat :: "'w transport \<Rightarrow> peer_codec \<Rightarrow> string \<Rightarrow> heartbeat \<Rightarrow> 'w \<Rightarrow> string option \<times> 'w" where
  "SendHeartbeat tr pc addr hb = postJSON tr addr ''/api/v1/peer/heartbeat'' (pc_heartbeat pc hb)"

definition PushResult :: "'w transport \<Rightarrow> peer_codec \<Rightarrow> string \<Rightarrow> check_result \<Rightarrow> 'w \<Rightarrow> string option \<times> 'w" where
  "PushResult tr pc addr r = postJSON tr addr ''/api/v1/peer/result'' (pc_result pc r)"

definition PushConfigSync :: "'w transport \<Rightarrow> peer_codec \<Rightarrow> string \<Rightarrow> config_sync \<Rightarrow> 'w \<Rightarrow> string option \<times> 'w" where
  "PushConfigSync tr pc addr sync = postJSON tr addr ''/api/v1/peer/config-sync'' (pc_config pc sync)"

definition JoinCluster ::
    "'w transport \<Rightarrow> peer_codec \<Rightarrow> string \<Rightarrow> join_request \<Rightarrow> 'w \<Rightarrow> (string + join_response) \<times> 'w" where
  "JoinCluster tr pc addr req w =
     (case pc_join pc req of
        Inl e \<Rightarrow> (Inl (''marshalling join request: '' @ e), w)
      | Inr body \<Rightarrow>
          (case tr ''POST'' (''http://'' @ addr @ ''/api/v1/peer/join'') body w of
             (Inl e, w1) \<Rightarrow> (Inl (''sending join request: '' @ e), w1)
           | (Inr resp, w1) \<Rightarrow>
               (case rw_broken resp of
                  Some e \<Rightarrow> (Inl (''reading join response: '' @ e), w1)
                | None \<Rightarrow>
                    (if rw_code resp \<noteq> 200 then
                       (Inl (''join failed (HTTP '' @ show_int (rw_code resp) @ ''): '' @ rw_bytes resp), w1)
                     else case pc_join_response pc (rw_bytes resp) of
                       Inl e \<Rightarrow> (Inl (''decoding join response: '' @ e), w1)
                     | Inr joinResp \<Rightarrow> (Inr joinResp, w1)))))"

definition PullConfigSync ::
    "'w transport \<Rightarrow> peer_codec \<Rightarrow> string \<Rightarrow> 'w \<Rightarrow> (string + config_sync) \<times> 'w" where
  "PullConfigSync tr pc addr w =
     (case tr ''GET'' (''http://'' @ addr @ ''/api/v1/peer/config-sync'') [] w of
        (Inl e, w1) \<Rightarrow> (Inl (''GET config-sync: '' @ e), w1)
      | (Inr resp, w1) \<Rightarrow>
          (if rw_code resp \<ge> 400 then
             (Inl (''GET config-sync returned HTTP '' @ show_int (rw_code resp) @ '': '' @ rw_bytes resp), w1)
           else case pc_config_response pc resp of
             Inl e \<Rightarrow> (Inl (''decoding config-sync: '' @ e), w1)
           | Inr sync \<Rightarrow> (Inr sync, w1)))"

section \<open>The server\<close>

text \<open>What a peer server needs beside its store; the clock and the join world may differ per request.\<close>

record peer_server =
  pv_config :: config
  pv_error_text :: "store_error \<Rightarrow> string"
  pv_heartbeat :: "string \<Rightarrow> string + heartbeat"
  pv_sync :: "string \<Rightarrow> string + config_sync"
  pv_join :: "string \<Rightarrow> string + join_request"
  pv_result :: "string \<Rightarrow> string + check_result"
  pv_encode :: "json_body \<Rightarrow> string"
  pv_join_env :: join_env
  pv_join_world :: join_world
  pv_remote :: string
  pv_now :: int64

definition sent :: "peer_server \<Rightarrow> response \<times> 's \<Rightarrow> raw_reply \<times> 's" where
  "sent pv p = (case p of (resp, s) \<Rightarrow>
     (\<lparr>rw_code = rs_code resp, rw_bytes = pv_encode pv (rs_body resp) @ [CHR 0x0A], rw_broken = None\<rparr>, s))"

text \<open>The patterns of \<open>ServeMux\<close>: a path without its method is 405, any other path 404.\<close>

definition peer_paths :: "string list" where
  "peer_paths = [''/api/v1/peer/check'', ''/api/v1/peer/heartbeat'', ''/api/v1/peer/config-sync'',
     ''/api/v1/peer/join'', ''/api/v1/peer/result'']"

definition registerPeerRoutes ::
    "'s store \<Rightarrow> peer_server \<Rightarrow> string \<Rightarrow> string \<Rightarrow> string \<Rightarrow> 's \<Rightarrow> raw_reply \<times> 's" where
  "registerPeerRoutes st pv meth path body s =
     (if meth = ''POST'' \<and> path = ''/api/v1/peer/check'' then sent pv (handlePeerCheck s)
      else if meth = ''POST'' \<and> path = ''/api/v1/peer/heartbeat'' then
        sent pv (handlePeerHeartbeat st (pv_now pv) (pv_heartbeat pv body) s)
      else if meth = ''POST'' \<and> path = ''/api/v1/peer/config-sync'' then
        sent pv (handlePeerConfigSync st (pv_sync pv body) s)
      else if meth = ''GET'' \<and> path = ''/api/v1/peer/config-sync'' then
        sent pv (handlePeerConfigSyncPull st (pv_config pv) (pv_error_text pv) (pv_now pv) s)
      else if meth = ''POST'' \<and> path = ''/api/v1/peer/join'' then
        sent pv (handlePeerJoin st (pv_config pv) (pv_join_env pv) (pv_join_world pv) (pv_now pv) (pv_now pv)
          (pv_remote pv) (pv_join pv body) s)
      else if meth = ''POST'' \<and> path = ''/api/v1/peer/result'' then
        sent pv (handlePeerResult st (pv_result pv body) s)
      else if path \<in> set peer_paths then
        (\<lparr>rw_code = 405, rw_bytes = ''Method Not Allowed'' @ [CHR 0x0A], rw_broken = None\<rparr>, s)
      else (\<lparr>rw_code = 404, rw_bytes = ''404 page not found'' @ [CHR 0x0A], rw_broken = None\<rparr>, s))"

text \<open>A transport that delivers what is sent to the server's address, and nothing else.\<close>

definition direct :: "string \<Rightarrow> (string \<Rightarrow> string \<Rightarrow> string \<Rightarrow> 's \<Rightarrow> raw_reply \<times> 's) \<Rightarrow> 's transport" where
  "direct addr serve meth url body s =
     (if has_prefix (''http://'' @ addr @ ''/'') url then
        (case serve meth (drop (length (''http://'' @ addr)) url) body s of (r, s1) \<Rightarrow> (Inr r, s1))
      else (Inl ''connection refused'', s))"

lemma direct_path:
  "direct addr serve meth (CHR ''h'' # CHR ''t'' # CHR ''t'' # CHR ''p'' # CHR '':'' # CHR ''/'' # CHR ''/'' # addr @ CHR ''/'' # p) body s
    = (case serve meth (CHR ''/'' # p) body s of (r, s1) \<Rightarrow> (Inr r, s1))"
  by (simp add: direct_def has_prefix_def)

section \<open>Client and server together\<close>

text \<open>
  A join that the client takes for accepted has been accepted by the server, with that answer, if the
  codecs of the two sides do not turn one value into another.
\<close>

lemma join_over_network:
  assumes "\<And>body. pc_join pc req = Inr body \<Longrightarrow> pv_join pv body = Inr req"
    and "\<And>jr jr'. pc_join_response pc (pv_encode pv (JoinBody jr) @ [CHR 0x0A]) = Inr jr' \<Longrightarrow> jr' = jr"
    and "JoinCluster (direct addr (registerPeerRoutes st pv)) pc addr req s = (Inr jr, s')"
  shows "\<exists>resp. handlePeerJoin st (pv_config pv) (pv_join_env pv) (pv_join_world pv) (pv_now pv) (pv_now pv)
      (pv_remote pv) (Inr req) s = (resp, s') \<and> rs_code resp = 200 \<and> rs_body resp = JoinBody jr"
proof -
  obtain resp s1 where h: "handlePeerJoin st (pv_config pv) (pv_join_env pv) (pv_join_world pv) (pv_now pv)
      (pv_now pv) (pv_remote pv) (Inr req) s = (resp, s1)" by fastforce
  from assms(3) obtain body where body: "pc_join pc req = Inr body"
    by (auto simp: JoinCluster_def split: sum.splits)
  have "direct addr (registerPeerRoutes st pv) ''POST'' (''http://'' @ addr @ ''/api/v1/peer/join'') body s
      = (Inr \<lparr>rw_code = rs_code resp, rw_bytes = pv_encode pv (rs_body resp) @ [CHR 0x0A], rw_broken = None\<rparr>, s1)"
    by (simp add: direct_path registerPeerRoutes_def sent_def assms(1) [OF body] h)
  with assms(3) body have s1: "s1 = s'" and ok: "rs_code resp = 200"
    and dec: "pc_join_response pc (pv_encode pv (rs_body resp) @ [CHR 0x0A]) = Inr jr"
    by (auto simp: JoinCluster_def split: if_splits sum.splits)
  from h ok obtain jr0 where "rs_body resp = JoinBody jr0"
    by (auto simp: handlePeerJoin_def Let_def split: if_splits sum.splits prod.splits bool.splits)
  with assms(2) dec have "rs_body resp = JoinBody jr" by metis
  with h s1 ok show ?thesis by blast
qed

text \<open>A result that a node pushes over the network moves the counters of the coordinator's consensus: if
  the coordinator knows the monitor and the node and the result is the newest of the pair, the push
  succeeds, an up result resets the failures and counts a success, and any other the reverse.\<close>

lemma pushed_result_counts:
  assumes "pc_result pc r = Inr body" and "pv_result pv body = Inr r"
    and "has_key mr_id (res_monitor_id r) (db_monitors s)" and "has_key node_id (res_node_id r) (db_nodes s)"
    and "timed (res_monitor_id r) (res_node_id r) s"
    and "newest (res_monitor_id r) (res_node_id r) s (res_timestamp r)"
    and "PushResult (direct addr (registerPeerRoutes (sqlite_store (quiet eng)) pv)) pc addr r s = (e, s')"
  shows "e = None \<and>
    fst (sqlite_CountConsecutiveFailures (quiet eng) (res_monitor_id r) (res_node_id r) s')
      = Inr (if res_status r = ''up'' then 0
          else min 100 (failure_run (quiet eng) (res_monitor_id r) (res_node_id r) s + 1)) \<and>
    fst (sqlite_CountConsecutiveSuccesses (quiet eng) (res_monitor_id r) (res_node_id r) s')
      = Inr (if res_status r = ''up''
          then min 100 (success_run (quiet eng) (res_monitor_id r) (res_node_id r) s + 1) else 0)"
proof -
  have "handlePeerResult (sqlite_store (quiet eng)) (Inr r) s
      = (writeJSON 200 (StatusBody ''ok''), snd (sqlite_InsertCheckResult (quiet eng) r s))"
    and ins: "db_results (snd (sqlite_InsertCheckResult (quiet eng) r s))
      = db_results s @ [bind_result (db_result_seq s + 1) r]"
    using assms(3,4) by (simp_all add: handlePeerResult_def sqlite_InsertCheckResult_def db_exec_def)
  then have "e = None" and s': "s' = snd (sqlite_InsertCheckResult (quiet eng) r s)"
    using assms(7)
    by (simp_all add: PushResult_def postJSON_def assms(1,2) direct_path registerPeerRoutes_def sent_def)
  with runs_after_insert [OF assms(5) _ _ _ ins] assms(6) show ?thesis
    by (simp add: count_statements db_query_def)
qed

end
