(* ===== verification/Tls.thy ===== *)
theory Tls
  imports Config
begin

text \<open>
  \<open>internal/cluster/tls.go\<close>: the internal certificate authority and the certificates of the nodes. The
  cryptography (key generation, \<open>x509.CreateCertificate\<close>, the DER and PEM codecs) is the fields of a
  \<open>crypto\<close> environment over an arbitrary type of keys; the files, the templates, the split of the
  addresses and every error path are modelled. \<open>pem.Decode\<close> returns nil for a file that holds no PEM
  block, and the code dereferences it: that is \<open>NilPanic\<close>.
\<close>

section \<open>Certificates and environment\<close>

datatype key_usage = CertSign | CRLSign | DigitalSignature | KeyEncipherment

datatype ext_usage = ServerAuth | ClientAuth

record certificate =
  ct_serial :: int
  ct_organization :: string
  ct_common_name :: string
  ct_not_before :: int
  ct_not_after :: int
  ct_key_usage :: "key_usage list"
  ct_ext_usage :: "ext_usage list"
  ct_basic_constraints :: bool
  ct_is_ca :: bool
  ct_max_path_len :: int
  ct_ip_addresses :: "string list"
  ct_dns_names :: "string list"

datatype tls_error = Failed string | NilPanic

text \<open>\<open>cr_create\<close> takes the template, the parent, the key of the subject and the key that signs.\<close>

record 'k crypto =
  cr_key :: "string + 'k"
  cr_serial :: "string + int"
  cr_create :: "certificate \<Rightarrow> certificate \<Rightarrow> 'k \<Rightarrow> 'k \<Rightarrow> string + string"
  cr_parse_cert :: "string \<Rightarrow> string + certificate"
  cr_marshal_key :: "'k \<Rightarrow> string + string"
  cr_parse_key :: "string \<Rightarrow> string + 'k"
  cr_pem :: "string \<Rightarrow> string \<Rightarrow> string"
  cr_pem_decode :: "string \<Rightarrow> string option"
  cr_parse_ip :: "string \<Rightarrow> bool"
  cr_before :: int
  cr_after :: int

record os_env =
  os_mkdir_error :: "string \<Rightarrow> string option"
  os_read_error :: "string \<Rightarrow> string option"
  os_open_error :: "string \<Rightarrow> string option"

definition read_file :: "os_env \<Rightarrow> files \<Rightarrow> string \<Rightarrow> string + string" where
  "read_file os fs p =
     (case os_read_error os p of
        Some e \<Rightarrow> Inl e
      | None \<Rightarrow> (case fs p of None \<Rightarrow> Inl (''open '' @ p @ '': no such file or directory'') | Some d \<Rightarrow> Inr d))"

section \<open>The authority\<close>

definition ca_template :: "'k crypto \<Rightarrow> int \<Rightarrow> certificate" where
  "ca_template cr serial = \<lparr>ct_serial = serial, ct_organization = ''PingMesh'',
     ct_common_name = ''PingMesh Internal CA'', ct_not_before = cr_before cr,
     ct_not_after = cr_after cr + 10 * 365 * 24 * 3600 * 1000000000, ct_key_usage = [CertSign, CRLSign],
     ct_ext_usage = [], ct_basic_constraints = True, ct_is_ca = True, ct_max_path_len = 1,
     ct_ip_addresses = [], ct_dns_names = []\<rparr>"

definition ca_cert_path :: "string \<Rightarrow> string" where "ca_cert_path certsDir = path_join certsDir ''ca.crt''"
definition ca_key_path :: "string \<Rightarrow> string" where "ca_key_path certsDir = path_join certsDir ''ca.key''"
definition node_cert_path :: "string \<Rightarrow> string" where "node_cert_path certsDir = path_join certsDir ''node.crt''"
definition node_key_path :: "string \<Rightarrow> string" where "node_key_path certsDir = path_join certsDir ''node.key''"

text \<open>The certificate is on disk before the key is marshalled.\<close>

definition write_pair ::
    "'k crypto \<Rightarrow> os_env \<Rightarrow> string \<Rightarrow> string \<Rightarrow> string \<Rightarrow> string \<Rightarrow> 'k \<Rightarrow> files \<Rightarrow> (tls_error + unit) \<times> files" where
  "write_pair cr os what certPath keyPath certDER key fs =
     (case os_open_error os certPath of
        Some e \<Rightarrow> (Inl (Failed (''creating '' @ what @ '' cert file: '' @ e)), fs)
      | None \<Rightarrow>
          (let fs1 = fs(certPath \<mapsto> cr_pem cr ''CERTIFICATE'' certDER) in
           case cr_marshal_key cr key of
             Inl e \<Rightarrow> (Inl (Failed (''marshalling '' @ what @ '' key: '' @ e)), fs1)
           | Inr keyDER \<Rightarrow>
               (case os_open_error os keyPath of
                  Some e \<Rightarrow> (Inl (Failed (''creating '' @ what @ '' key file: '' @ e)), fs1)
                | None \<Rightarrow> (Inr (), fs1(keyPath \<mapsto> cr_pem cr ''EC PRIVATE KEY'' keyDER)))))"

definition GenerateCA :: "'k crypto \<Rightarrow> os_env \<Rightarrow> string \<Rightarrow> files \<Rightarrow> (tls_error + unit) \<times> files" where
  "GenerateCA cr os certsDir fs =
     (case os_mkdir_error os certsDir of
        Some e \<Rightarrow> (Inl (Failed (''creating certs directory: '' @ e)), fs)
      | None \<Rightarrow>
     (case cr_key cr of
        Inl e \<Rightarrow> (Inl (Failed (''generating CA key: '' @ e)), fs)
      | Inr key \<Rightarrow>
     (case cr_serial cr of
        Inl e \<Rightarrow> (Inl (Failed (''generating serial number: '' @ e)), fs)
      | Inr serial \<Rightarrow>
     (case cr_create cr (ca_template cr serial) (ca_template cr serial) key key of
        Inl e \<Rightarrow> (Inl (Failed (''creating CA certificate: '' @ e)), fs)
      | Inr certDER \<Rightarrow>
          write_pair cr os ''CA'' (ca_cert_path certsDir) (ca_key_path certsDir) certDER key fs))))"

section \<open>Node certificates\<close>

definition node_template :: "'k crypto \<Rightarrow> int \<Rightarrow> string \<Rightarrow> string list \<Rightarrow> certificate" where
  "node_template cr serial nodeID addresses = \<lparr>ct_serial = serial, ct_organization = ''PingMesh'',
     ct_common_name = ''pingmesh-'' @ nodeID, ct_not_before = cr_before cr,
     ct_not_after = cr_after cr + 365 * 24 * 3600 * 1000000000,
     ct_key_usage = [DigitalSignature, KeyEncipherment], ct_ext_usage = [ServerAuth, ClientAuth],
     ct_basic_constraints = False, ct_is_ca = False, ct_max_path_len = 0,
     ct_ip_addresses = filter (cr_parse_ip cr) addresses,
     ct_dns_names = filter (\<lambda>a. \<not> cr_parse_ip cr a) addresses\<rparr>"

text \<open>Loading the authority: certificate and key, each read, decoded and parsed.\<close>

definition load_ca :: "'k crypto \<Rightarrow> os_env \<Rightarrow> string \<Rightarrow> files \<Rightarrow> tls_error + certificate \<times> 'k" where
  "load_ca cr os certsDir fs =
     (case read_file os fs (ca_cert_path certsDir) of
        Inl e \<Rightarrow> Inl (Failed (''reading CA cert: '' @ e))
      | Inr caCertPEM \<Rightarrow>
     (case read_file os fs (ca_key_path certsDir) of
        Inl e \<Rightarrow> Inl (Failed (''reading CA key: '' @ e))
      | Inr caKeyPEM \<Rightarrow>
     (case cr_pem_decode cr caCertPEM of
        None \<Rightarrow> Inl NilPanic
      | Some certBytes \<Rightarrow>
     (case cr_parse_cert cr certBytes of
        Inl e \<Rightarrow> Inl (Failed (''parsing CA cert: '' @ e))
      | Inr caCert \<Rightarrow>
     (case cr_pem_decode cr caKeyPEM of
        None \<Rightarrow> Inl NilPanic
      | Some keyBytes \<Rightarrow>
     (case cr_parse_key cr keyBytes of
        Inl e \<Rightarrow> Inl (Failed (''parsing CA key: '' @ e))
      | Inr caKey \<Rightarrow> Inr (caCert, caKey)))))))"

text \<open>The certificate of a node and its key, signed by the authority.\<close>

definition sign_node ::
    "'k crypto \<Rightarrow> string \<Rightarrow> string list \<Rightarrow> certificate \<times> 'k \<Rightarrow> tls_error + string \<times> 'k" where
  "sign_node cr nodeID addresses ca =
     (case cr_key cr of
        Inl e \<Rightarrow> Inl (Failed (''generating node key: '' @ e))
      | Inr nodeKey \<Rightarrow>
     (case cr_serial cr of
        Inl e \<Rightarrow> Inl (Failed (''generating serial number: '' @ e))
      | Inr serial \<Rightarrow>
     (case cr_create cr (node_template cr serial nodeID addresses) (fst ca) nodeKey (snd ca) of
        Inl e \<Rightarrow> Inl (Failed (''creating node certificate: '' @ e))
      | Inr certDER \<Rightarrow> Inr (certDER, nodeKey))))"

definition GenerateNodeCert ::
    "'k crypto \<Rightarrow> os_env \<Rightarrow> string \<Rightarrow> string \<Rightarrow> string list \<Rightarrow> files \<Rightarrow> (tls_error + unit) \<times> files" where
  "GenerateNodeCert cr os certsDir nodeID addresses fs =
     (case load_ca cr os certsDir fs of
        Inl e \<Rightarrow> (Inl e, fs)
      | Inr ca \<Rightarrow>
          (case sign_node cr nodeID addresses ca of
             Inl e \<Rightarrow> (Inl e, fs)
           | Inr (certDER, nodeKey) \<Rightarrow>
               write_pair cr os ''node'' (node_cert_path certsDir) (node_key_path certsDir) certDER nodeKey fs))"

definition GenerateNodeCertPEM ::
    "'k crypto \<Rightarrow> os_env \<Rightarrow> string \<Rightarrow> string \<Rightarrow> string list \<Rightarrow> files \<Rightarrow> tls_error + string \<times> string" where
  "GenerateNodeCertPEM cr os certsDir nodeID addresses fs =
     (case load_ca cr os certsDir fs of
        Inl e \<Rightarrow> Inl e
      | Inr ca \<Rightarrow>
          (case sign_node cr nodeID addresses ca of
             Inl e \<Rightarrow> Inl e
           | Inr (certDER, nodeKey) \<Rightarrow>
               (case cr_marshal_key cr nodeKey of
                  Inl e \<Rightarrow> Inl (Failed (''marshalling node key: '' @ e))
                | Inr keyDER \<Rightarrow>
                    Inr (cr_pem cr ''CERTIFICATE'' certDER, cr_pem cr ''EC PRIVATE KEY'' keyDER))))"

section \<open>The authority and its nodes\<close>

lemma cert_paths:
  "ca_cert_path d \<noteq> ca_key_path d" "node_cert_path d \<noteq> node_key_path d"
  "ca_cert_path d \<noteq> node_cert_path d" "ca_key_path d \<noteq> node_cert_path d"
  "ca_cert_path d \<noteq> node_key_path d" "ca_key_path d \<noteq> node_key_path d"
  unfolding ca_cert_path_def ca_key_path_def node_cert_path_def node_key_path_def
  by (auto dest!: path_join_inj [rotated 2] simp: plain_name_def)

text \<open>The two ways to make a node certificate agree: if the files can be opened, \<open>GenerateNodeCert\<close>
  writes exactly what \<open>GenerateNodeCertPEM\<close> returns, and fails with the same error otherwise.\<close>

lemma node_cert_file_is_pem:
  assumes "os_open_error os (node_cert_path d) = None" and "os_open_error os (node_key_path d) = None"
  shows "(case GenerateNodeCertPEM cr os d nodeID addresses fs of
      Inl e \<Rightarrow> fst (GenerateNodeCert cr os d nodeID addresses fs) = Inl e
    | Inr (certPEM, keyPEM) \<Rightarrow> GenerateNodeCert cr os d nodeID addresses fs
        = (Inr (), fs(node_cert_path d \<mapsto> certPEM, node_key_path d \<mapsto> keyPEM)))"
  using assms
  by (auto simp: GenerateNodeCertPEM_def GenerateNodeCert_def write_pair_def Let_def
      split: sum.splits prod.splits)

text \<open>The times of a template are nanoseconds; X.509 keeps whole seconds, and so does the certificate that
  \<open>x509.ParseCertificate\<close> returns.\<close>

definition whole_seconds :: "int \<Rightarrow> int" where
  "whole_seconds t = t div 1000000000 * 1000000000"

definition parsed :: "certificate \<Rightarrow> certificate" where
  "parsed c = c\<lparr>ct_not_before := whole_seconds (ct_not_before c), ct_not_after := whole_seconds (ct_not_after c)\<rparr>"

text \<open>C30: with codecs that read what they wrote, up to the whole seconds of X.509, the authority that \<open>GenerateCA\<close>
  leaves on disk signs: a node certificate made from it names the node, carries each address once, as an IP or as a
  name, is valid for one year for servers and clients, and is created from the authority's certificate and key; the key
  that is returned with it is the one that was certified.\<close>

theorem authority_signs_nodes:
  assumes "GenerateCA ca os d fs = (Inr (), fs')"
    and "cr_serial ca = Inr serial" and "cr_key ca = Inr caKey"
    and "\<forall>t x. cr_pem_decode cr (cr_pem ca t x) = Some x"
    and "\<forall>der. cr_create ca (ca_template ca serial) (ca_template ca serial) caKey caKey = Inr der \<longrightarrow>
      cr_parse_cert cr der = Inr (parsed (ca_template ca serial))"
    and "\<forall>der. cr_marshal_key ca caKey = Inr der \<longrightarrow> cr_parse_key cr der = Inr caKey"
    and "\<forall>p. os_read_error os p = None"
    and "GenerateNodeCertPEM cr os d nodeID addresses fs' = Inr (certPEM, keyPEM)"
  shows "\<exists>c der nodeKey keyDER. cr_key cr = Inr nodeKey \<and>
    cr_create cr c (parsed (ca_template ca serial)) nodeKey caKey = Inr der \<and>
    certPEM = cr_pem cr ''CERTIFICATE'' der \<and>
    cr_marshal_key cr nodeKey = Inr keyDER \<and> keyPEM = cr_pem cr ''EC PRIVATE KEY'' keyDER \<and> ct_common_name c = ''pingmesh-'' @ nodeID \<and>
    mset (ct_ip_addresses c) + mset (ct_dns_names c) = mset addresses \<and> list_all (cr_parse_ip cr) (ct_ip_addresses c) \<and>
    \<not> ct_is_ca c \<and> ct_not_after c - ct_not_before c = 31536000000000000 + (cr_after cr - cr_before cr) \<and>
    set (ct_ext_usage c) = {ServerAuth, ClientAuth}"
proof -
  from assms(1-3) obtain certDER keyDER where
    der: "cr_create ca (ca_template ca serial) (ca_template ca serial) caKey caKey = Inr certDER"
      "cr_marshal_key ca caKey = Inr keyDER"
    and fs': "fs' = fs(ca_cert_path d \<mapsto> cr_pem ca ''CERTIFICATE'' certDER,
        ca_key_path d \<mapsto> cr_pem ca ''EC PRIVATE KEY'' keyDER)"
    by (auto simp: GenerateCA_def write_pair_def Let_def split: option.splits sum.splits)
  have load: "load_ca cr os d fs' = Inr (parsed (ca_template ca serial), caKey)"
    using assms(4-7) der cert_paths(1) [of d] by (simp add: load_ca_def read_file_def fs')
  from assms(8) obtain nodeKey nserial nder keyDER where node: "cr_key cr = Inr nodeKey" "cr_serial cr = Inr nserial"
    "cr_create cr (node_template cr nserial nodeID addresses) (parsed (ca_template ca serial)) nodeKey caKey = Inr nder"
    "certPEM = cr_pem cr ''CERTIFICATE'' nder"
    "cr_marshal_key cr nodeKey = Inr keyDER" "keyPEM = cr_pem cr ''EC PRIVATE KEY'' keyDER"
    by (auto simp: GenerateNodeCertPEM_def load sign_node_def split: sum.splits)
  then show ?thesis
    by (intro exI [of _ "node_template cr nserial nodeID addresses"] exI [of _ nder] exI [of _ nodeKey]
        exI [of _ keyDER])
      (auto simp: node_template_def list_all_iff)
qed

text \<open>A toy authority: keys are names, and a PEM block is its content.\<close>

definition demo_ca :: "string crypto" where
  "demo_ca = \<lparr>cr_key = Inr ''ca'', cr_serial = Inr 1, cr_create = (\<lambda>c p k s. Inr (ct_common_name c @ s)),
     cr_parse_cert = (\<lambda>_. Inl ''e''), cr_marshal_key = Inr, cr_parse_key = Inr, cr_pem = (\<lambda>_ x. x),
     cr_pem_decode = Some, cr_parse_ip = (\<lambda>a. hd a = CHR ''1''), cr_before = 0, cr_after = 0\<rparr>"

definition demo_node :: "string crypto" where
  "demo_node = demo_ca\<lparr>cr_key := Inr ''node'', cr_parse_cert := (\<lambda>_. Inr (parsed (ca_template demo_ca 1)))\<rparr>"

definition demo_os :: os_env where
  "demo_os = \<lparr>os_mkdir_error = (\<lambda>_. None), os_read_error = (\<lambda>_. None), os_open_error = (\<lambda>_. None)\<rparr>"

definition demo_files :: files where
  "demo_files = snd (GenerateCA demo_ca demo_os ''d'' (\<lambda>_. None))"

lemmas demo_tls = demo_ca_def demo_node_def demo_os_def

lemma demo_authority:
  "GenerateCA demo_ca demo_os ''d'' (\<lambda>_. None) = (Inr (), demo_files)"
  by (simp add: demo_files_def GenerateCA_def write_pair_def demo_tls Let_def)

lemma demo_pem:
  "GenerateNodeCertPEM demo_node demo_os ''d'' ''n'' [''10.0.0.1'', ''host''] demo_files
    = Inr (''pingmesh-nca'', ''node'')"
  by (simp add: demo_files_def GenerateCA_def write_pair_def Let_def GenerateNodeCertPEM_def load_ca_def
      read_file_def sign_node_def node_template_def cert_paths demo_tls)

lemma authority_signs_nodes_witness:
  "\<exists>c der nodeKey keyDER. cr_key demo_node = Inr nodeKey \<and>
    cr_create demo_node c (parsed (ca_template demo_ca 1)) nodeKey ''ca'' = Inr der \<and>
    ''pingmesh-nca'' = cr_pem demo_node ''CERTIFICATE'' der \<and>
    cr_marshal_key demo_node nodeKey = Inr keyDER \<and> ''node'' = cr_pem demo_node ''EC PRIVATE KEY'' keyDER \<and> ct_common_name c = ''pingmesh-'' @ ''n'' \<and>
    mset (ct_ip_addresses c) + mset (ct_dns_names c) = mset [''10.0.0.1'', ''host''] \<and>
    list_all (cr_parse_ip demo_node) (ct_ip_addresses c) \<and> \<not> ct_is_ca c \<and>
    ct_not_after c - ct_not_before c = 31536000000000000 + (cr_after demo_node - cr_before demo_node) \<and>
    set (ct_ext_usage c) = {ServerAuth, ClientAuth}"
  by (rule authority_signs_nodes [OF demo_authority _ _ _ _ _ _ demo_pem]) (simp_all add: demo_tls)

end
