(* ===== verification/Cli_Text.thy ===== *)
theory Cli_Text
  imports Json
begin

text \<open>
  The text side of \<open>internal/cli\<close>: the columns that \<open>fmt\<close> prints, the shortened names and ids, and the
  durations that the flags take (\<open>truncate\<close> and \<open>parseDurationMS\<close> in \<open>monitor.go\<close>). A string is its bytes;
  an index out of range, where Go panics, is \<open>None\<close>.
\<close>

section \<open>Columns\<close>

text \<open>A width of \<open>fmt\<close> counts runes: \<open>utf8.RuneCountInString\<close>.\<close>

fun rune_count :: "string \<Rightarrow> nat" where
  "rune_count [] = 0"
| "rune_count (c # s) = Suc (rune_count (drop (rune_size c s - 1) s))"

text \<open>\<open>%-20s\<close> and \<open>%7s\<close>.\<close>

definition pad :: "nat \<Rightarrow> string \<Rightarrow> string" where
  "pad n s = s @ replicate (n - rune_count s) (CHR '' '')"

definition pad_left :: "nat \<Rightarrow> string \<Rightarrow> string" where
  "pad_left n s = replicate (n - rune_count s) (CHR '' '') @ s"

text \<open>\<open>%.1f\<close>: the nearest tenth, and the even one of two that are as near.\<close>

definition round_even :: "rat \<Rightarrow> int" where
  "round_even x = (let n = \<lfloor>x\<rfloor>; r = x - of_int n
     in if r < 1 / 2 then n else if r > 1 / 2 then n + 1 else if even n then n else n + 1)"

definition one_decimal :: "rat \<Rightarrow> string" where
  "one_decimal x = (let n = nat (round_even (\<bar>x\<bar> * 10))
     in (if x < 0 then ''-'' else []) @ show_nat (n div 10) @ ''.'' @ show_nat (n mod 10))"

text \<open>The slice \<open>s[:n]\<close>, and \<open>truncate\<close>, which cuts bytes and not runes.\<close>

definition slice :: "nat \<Rightarrow> string \<Rightarrow> string option" where
  "slice n s = (if n \<le> length s then Some (take n s) else None)"

definition truncate_to :: "string \<Rightarrow> nat \<Rightarrow> string option" where
  "truncate_to s m = (if length s \<le> m then Some s
     else if m < 3 then None else map_option (\<lambda>t. t @ ''...'') (slice (m - 3) s))"

text \<open>The ids of the history tables, which are cut only if they are longer.\<close>

definition short_id :: "string \<Rightarrow> string" where
  "short_id s = (if length s > 8 then take 8 s else s)"

definition short_error :: "string \<Rightarrow> string" where
  "short_error s = (if length s > 40 then take 37 s @ ''...'' else s)"

section \<open>Durations\<close>

text \<open>\<open>strings.TrimSpace\<close>: the encodings of the runes that \<open>unicode.IsSpace\<close> accepts.\<close>

definition space_runes :: "string list" where
  "space_runes = map (\<lambda>n. [char_of (n :: nat)]) [9, 10, 11, 12, 13, 32]
     @ map (map (char_of :: nat \<Rightarrow> char)) [[194, 133], [194, 160], [225, 154, 128]]
     @ map (\<lambda>n. [char_of (226 :: nat), char_of (128 :: nat), char_of n]) ([128 ..< 139] @ [168, 169, 175])
     @ map (map (char_of :: nat \<Rightarrow> char)) [[226, 129, 159], [227, 128, 128]]"

function trim_runes :: "string list \<Rightarrow> string \<Rightarrow> string" where
  "trim_runes rs s = (case find (\<lambda>r. r \<noteq> [] \<and> has_prefix r s) rs of
     None \<Rightarrow> s | Some r \<Rightarrow> trim_runes rs (drop (length r) s))"
  by pat_completeness auto
termination
proof (relation "measure (length \<circ> snd)")
  fix rs s r
  assume "find (\<lambda>r. r \<noteq> [] \<and> has_prefix r s) rs = Some r"
  then have "r \<noteq> []" "has_prefix r s" by (auto simp: find_Some_iff)
  then show "((rs, drop (length r) s), rs, s) \<in> measure (length \<circ> snd)"
    by (cases s) (auto simp: has_prefix_def)
qed simp

declare trim_runes.simps [simp del]

definition TrimSpace :: "string \<Rightarrow> string" where
  "TrimSpace s = rev (trim_runes (map rev space_runes) (rev (trim_runes space_runes s)))"

text \<open>
  \<open>fmt.Sscanf(s, "%d", &v)\<close>: an optional sign and as many digits as there are; what follows them is left
  unread and is no error. On an error \<open>v\<close> keeps its zero.
\<close>

datatype scan_error = ScanEOF | ScanExpected | ScanNumber string

definition scan_int :: "string \<Rightarrow> scan_error + int64" where
  "scan_int s =
     (let sign = (if s \<noteq> [] \<and> (hd s = CHR ''-'' \<or> hd s = CHR ''+'') then [hd s] else []);
          rest = drop (length sign) s; ds = takeWhile is_digit rest
      in if rest = [] then Inl ScanEOF
         else if ds = [] then Inl ScanExpected
         else case ParseInt (sign @ ds) of IntOk v \<Rightarrow> Inr v | _ \<Rightarrow> Inl (ScanNumber (sign @ ds)))"

definition scaled :: "int64 \<Rightarrow> scan_error + int64 \<Rightarrow> scan_error + int64" where
  "scaled k r = (case r of Inl e \<Rightarrow> Inl e | Inr v \<Rightarrow> Inr (wrap64 (v * k)))"

definition parseDurationMS :: "string \<Rightarrow> scan_error + int64" where
  "parseDurationMS text =
     (let s = TrimSpace text in
      if has_suffix ''ms'' s then scan_int (trim_suffix ''ms'' s)
      else if has_suffix ''s'' s then scaled 1000 (scan_int (trim_suffix ''s'' s))
      else if has_suffix ''m'' s then scaled 60000 (scan_int (trim_suffix ''m'' s))
      else scan_int s)"

section \<open>Lemmas\<close>

lemma rune_count_ascii: "list_all (\<lambda>c. byte c < 128) s \<Longrightarrow> rune_count s = length s"
  by (induction s) (simp_all add: rune_size_def rune_tail_def Let_def)

lemma rune_count_le: "rune_count s \<le> length s"
proof (induction s rule: rune_count.induct)
  case (2 c s)
  then show ?case by simp
qed simp

lemma truncate_to_ok: "3 \<le> m \<Longrightarrow> \<exists>t. truncate_to s m = Some t \<and> length t \<le> max m (length s)"
  by (auto simp: truncate_to_def slice_def)

lemma scan_int_number:
  assumes "in_int64 v" and "rest = [] \<or> \<not> is_digit (hd rest)"
  shows "scan_int (show_int v @ rest) = Inr v"
proof -
  have stop: "takeWhile is_digit (show_nat n @ rest) = show_nat n" for n
    using show_nat_digits [of n] assms(2) by (cases rest) (auto simp: takeWhile_append list_all_iff)
  note parse = ParseInt_show_int [OF assms(1)]
  show ?thesis
  proof (cases "v < 0")
    case True
    then have "show_int v = CHR ''-'' # show_nat (nat (- v))" by (simp add: show_int_def)
    with parse show_nat_digits [of "nat (- v)"] show ?thesis
      by (simp add: scan_int_def Let_def stop)
  next
    case False
    then have n: "show_int v = show_nat (nat v)" by (simp add: show_int_def)
    obtain c cs where c: "show_nat (nat v) = c # cs" "is_digit c"
      using show_nat_digits [of "nat v"] by (cases "show_nat (nat v)") auto
    with digit_not_sign have "c \<noteq> CHR ''-''" "c \<noteq> CHR ''+''" by blast+
    with parse n c stop [of "nat v"] show ?thesis by (simp add: scan_int_def)
  qed
qed

lemma trim_runes_stop:
  assumes "\<And>r. r \<in> set rs \<Longrightarrow> r \<noteq> [] \<Longrightarrow> hd r \<noteq> hd s"
  shows "trim_runes rs s = s"
proof -
  have "find (\<lambda>r. r \<noteq> [] \<and> has_prefix r s) rs = None"
  proof (rule ccontr)
    assume "find (\<lambda>r. r \<noteq> [] \<and> has_prefix r s) rs \<noteq> None"
    then obtain r where "r \<in> set rs" "r \<noteq> []" "has_prefix r s" by (auto simp: find_None_iff)
    moreover from this have "hd r = hd s" by (metis has_prefix_def hd_take length_greater_0_conv)
    ultimately show False using assms by blast
  qed
  then show ?thesis by (subst trim_runes.simps) simp
qed

definition visible :: "char \<Rightarrow> bool" where
  "visible c \<longleftrightarrow> 33 \<le> byte c \<and> byte c < 127"

lemma space_runes_hidden:
  "list_all (\<lambda>r. \<not> visible (hd r)) space_runes" "list_all (\<lambda>r. \<not> visible (hd r)) (map rev space_runes)"
  by code_simp+

lemma TrimSpace_visible:
  assumes "s \<noteq> []" "visible (hd s)" "visible (last s)"
  shows "TrimSpace s = s"
proof -
  have "trim_runes space_runes s = s"
    using assms(2) space_runes_hidden(1) by (intro trim_runes_stop) (auto simp: list_all_iff)
  moreover have "trim_runes (map rev space_runes) (rev s) = rev s"
    using assms(1,3) space_runes_hidden(2) by (intro trim_runes_stop) (auto simp: list_all_iff hd_rev)
  ultimately show ?thesis by (simp add: TrimSpace_def)
qed

lemma visible_digit: "is_digit c \<Longrightarrow> visible c"
  by (simp add: is_digit_def visible_def byte_def)

lemma show_int_ends:
  "show_int v \<noteq> []" "visible (hd (show_int v))" "is_digit (last (show_int v))"
proof -
  have n: "show_nat n \<noteq> []" "is_digit (hd (show_nat n))" "is_digit (last (show_nat n))" for n
    using show_nat_digits [of n] by (auto simp: list_all_iff)
  then show "show_int v \<noteq> []" "visible (hd (show_int v))" "is_digit (last (show_int v))"
    using visible_digit [OF n(2)] by (auto simp: show_int_def) (simp add: visible_def byte_def)
qed

lemma TrimSpace_number:
  "list_all visible u \<Longrightarrow> TrimSpace (show_int v @ u) = show_int v @ u"
  using show_int_ends [of v]
  by (intro TrimSpace_visible) (auto simp: last_append list_all_iff intro: visible_digit)

text \<open>The unit is read off the end of the text; what else stands between it and the number is skipped.\<close>

definition unit_factor :: "string \<Rightarrow> int64" where
  "unit_factor u = (if has_suffix ''ms'' u then 1 else if has_suffix ''s'' u then 1000
     else if has_suffix ''m'' u then 60000 else 1)"

lemma suffix_of_number:
  assumes "w \<in> {''ms'', ''s'', ''m''}"
  shows "has_suffix w (show_int v @ u) \<longleftrightarrow> has_suffix w u"
proof -
  obtain p c where p: "show_int v = p @ [c]" "is_digit c"
    using show_int_ends [of v] by (cases "show_int v" rule: rev_cases) auto
  then have c: "c \<noteq> CHR ''m''" "c \<noteq> CHR ''s''" by (auto simp: is_digit_def)
  consider "u = []" | x where "u = [x]" | q x y where "u = q @ [x, y]"
    by (metis append.assoc append_Cons append_Nil rev_exhaust)
  then show ?thesis using assms c by cases (auto simp: p has_suffix_def has_prefix_def)
qed

lemma parse_unit:
  assumes "in_int64 v" and "list_all visible u" and "u = [] \<or> \<not> is_digit (hd u)"
  shows "parseDurationMS (show_int v @ u) = Inr (wrap64 (v * unit_factor u))"
proof -
  have v: "wrap64 v = v" using assms(1) by (rule wrap64_id)
  have scan: "scan_int (show_int v @ take n u) = Inr v" for n
    using assms(3) by (intro scan_int_number [OF assms(1)]) (cases u; cases n; simp)
  have cut: "trim_suffix w (show_int v @ u) = show_int v @ take (length u - length w) u"
    if "has_suffix w u" "w \<in> {''ms'', ''s'', ''m''}" for w
  proof -
    from that(1) have "length (take (length w) (rev u)) = length w" by (simp add: has_suffix_def has_prefix_def)
    then have "length w \<le> length u" by simp
    with that show ?thesis by (simp add: trim_suffix_def suffix_of_number)
  qed
  show ?thesis
    using scan cut scan [of "length u"] v
    by (simp add: parseDurationMS_def Let_def TrimSpace_number [OF assms(2)] suffix_of_number unit_factor_def scaled_def)
qed

section \<open>Lines\<close>

text \<open>What \<open>Println\<close> writes.\<close>

definition line :: "string \<Rightarrow> string" where
  "line t = t @ [CHR 0x0A]"

end
