(* ===== verification/Setup.thy ===== *)
theory Setup
  imports Peer_Client Tls Cli_Text
begin

text \<open>
  The commands that set a node up: \<open>pingmesh init\<close>, \<open>pingmesh join\<close> and \<open>pingmesh join-token\<close>
  (\<open>internal/cli/init.go\<close>, \<open>join.go\<close>, \<open>token.go\<close>), each from its flags to what it prints and its outcome, on a
  machine with files and databases. The transport of \<open>join\<close> has a state of its own, the rest of the network.
\<close>

section \<open>Machines\<close>

record machine =
  mc_files :: files
  mc_dbs :: "string \<Rightarrow> db option"

datatype outcome = Done | Error string | Panicked

record setup_env =
  se_config :: config_env
  se_os :: os_env
  se_engine :: engine
  se_open_error :: "string \<Rightarrow> string option"
  se_store_error :: "store_error \<Rightarrow> string"
  se_hostname :: string
  se_uuid :: string
  se_now :: int64
  se_rfc3339 :: "int64 \<Rightarrow> string"

text \<open>Opening a database creates it if it is missing, and brings its schema up to date.\<close>

definition NewSQLiteStore :: "setup_env \<Rightarrow> string \<Rightarrow> machine \<Rightarrow> (string + db) \<times> machine" where
  "NewSQLiteStore se dbPath mc =
     (case se_open_error se dbPath of
        Some e \<Rightarrow> (Inl (''opening database: '' @ e), mc)
      | None \<Rightarrow>
          (case migrate (se_engine se) (case mc_dbs mc dbPath of None \<Rightarrow> empty_db | Some s \<Rightarrow> s) of
             (Inl e, s) \<Rightarrow> (Inl (''running migrations: '' @ se_store_error se e), mc\<lparr>mc_dbs := (mc_dbs mc)(dbPath \<mapsto> s)\<rparr>)
           | (Inr _, s) \<Rightarrow> (Inr s, mc\<lparr>mc_dbs := (mc_dbs mc)(dbPath \<mapsto> s)\<rparr>)))"

text \<open>The end that \<open>init\<close> and \<open>join\<close> share: save the configuration, open the database, register the node.\<close>

definition save_and_register :: "setup_env \<Rightarrow> config \<Rightarrow> node \<Rightarrow> machine \<Rightarrow> outcome \<times> machine" where
  "save_and_register se cfg n mc =
     (case Save (se_config se) cfg (mc_files mc) of
        (Inl e, fs) \<Rightarrow> (Error (''saving config: '' @ e), mc\<lparr>mc_files := fs\<rparr>)
      | (Inr _, fs) \<Rightarrow>
          (case NewSQLiteStore se (DBPath cfg) (mc\<lparr>mc_files := fs\<rparr>) of
             (Inl e, mc1) \<Rightarrow> (Error (''initializing database: '' @ e), mc1)
           | (Inr s, mc1) \<Rightarrow>
               (case CreateNode (sqlite_store (se_engine se)) n s of
                  (Inl e, s1) \<Rightarrow> (Error (''registering node: '' @ se_store_error se e),
                    mc1\<lparr>mc_dbs := (mc_dbs mc1)(DBPath cfg \<mapsto> s1)\<rparr>)
                | (Inr _, s1) \<Rightarrow> (Done, mc1\<lparr>mc_dbs := (mc_dbs mc1)(DBPath cfg \<mapsto> s1)\<rparr>))))"

text \<open>What a command has printed before that end, and what it prints when all went well.\<close>

definition concluded :: "string \<Rightarrow> string \<Rightarrow> outcome \<times> machine \<Rightarrow> (string \<times> outcome) \<times> machine" where
  "concluded shown final r = (case r of (out, mc) \<Rightarrow> ((shown @ (if out = Done then final else []), out), mc))"

definition tls_paths :: "tls_config option" where
  "tls_paths = Some \<lparr>tls_ca_path = ''certs/ca.crt'', tls_cert_path = ''certs/node.crt'',
     tls_key_path = ''certs/node.key''\<rparr>"

section \<open>pingmesh init\<close>

definition init_config :: "setup_env \<Rightarrow> string \<Rightarrow> string \<Rightarrow> string \<Rightarrow> config" where
  "init_config se dataDir listenAddr nodeName = \<lparr>cfg_node_id = se_uuid se, cfg_node_name = nodeName,
     cfg_role = RoleCoordinator, cfg_data_dir = dataDir, cfg_listen_addr = listenAddr,
     cfg_cli_addr = cfg_cli_addr DefaultConfig, cfg_coordinator = None, cfg_tls = tls_paths\<rparr>"

definition own_node :: "setup_env \<Rightarrow> config \<Rightarrow> node" where
  "own_node se cfg = \<lparr>node_id = cfg_node_id cfg, node_name = cfg_node_name cfg, node_location = [],
     node_address = cfg_listen_addr cfg, node_role = cfg_role cfg, node_status = NodeOnline,
     node_last_seen = se_now se, node_created_at = se_now se\<rparr>"

definition tls_outcome :: "string \<Rightarrow> tls_error \<Rightarrow> outcome" where
  "tls_outcome what e = (case e of Failed t \<Rightarrow> Error (what @ t) | NilPanic \<Rightarrow> Panicked)"

definition init_output :: "config \<Rightarrow> string" where
  "init_output cfg = line [] @
     line ''PingMesh initialized successfully!'' @
     line (''  Node ID:    '' @ cfg_node_id cfg) @
     line (''  Node Name:  '' @ cfg_node_name cfg) @
     line ''  Role:       coordinator'' @
     line (''  Data Dir:   '' @ cfg_data_dir cfg) @
     line (''  Listen:     '' @ cfg_listen_addr cfg) @
     line [] @
     line ''Next steps:'' @
     line ''  1. Start the agent:    pingmesh agent'' @
     line (''  2. Add a monitor:      pingmesh monitor add --name '' @ [CHR 0x27] @ ''My Site'' @ [CHR 0x27] @
       '' --type http --target example.com'') @
     line ''  3. Generate join token: pingmesh join-token''"

text \<open>\<open>ca\<close> makes the authority, \<open>cr\<close> the certificate of the coordinator.\<close>

definition runInit ::
    "setup_env \<Rightarrow> 'k crypto \<Rightarrow> 'k crypto \<Rightarrow> string \<Rightarrow> string \<Rightarrow> string \<Rightarrow> machine \<Rightarrow> (string \<times> outcome) \<times> machine" where
  "runInit se ca cr dataDir listenAddr name mc =
     (case Load (se_config se) (mc_files mc) dataDir of
        Inr c \<Rightarrow> (([], Error (''already initialized (config exists at '' @ dataDir @ '')'')), mc)
      | Inl e \<Rightarrow>
          (let nodeName = (if name = [] then se_hostname se else name);
               cfg = init_config se dataDir listenAddr nodeName;
               shown = line ''Generating internal CA...''
           in case os_mkdir_error (se_os se) dataDir of
                Some e \<Rightarrow> (([], Error (''creating data directory: '' @ e)), mc)
              | None \<Rightarrow>
                  (case GenerateCA ca (se_os se) (CertsDir cfg) (mc_files mc) of
                     (Inl e, fs) \<Rightarrow> ((shown, tls_outcome ''generating CA: '' e), mc\<lparr>mc_files := fs\<rparr>)
                   | (Inr _, fs) \<Rightarrow>
                       (let shown = shown @ line ''Generating coordinator certificate...''
                        in case GenerateNodeCert cr (se_os se) (CertsDir cfg) (se_uuid se) [''127.0.0.1'', ''0.0.0.0''] fs of
                             (Inl e, fs) \<Rightarrow> ((shown, tls_outcome ''generating node cert: '' e), mc\<lparr>mc_files := fs\<rparr>)
                           | (Inr _, fs) \<Rightarrow>
                               concluded shown (init_output cfg)
                                 (save_and_register se cfg (own_node se cfg) (mc\<lparr>mc_files := fs\<rparr>))))))"

section \<open>pingmesh join\<close>

definition join_config :: "string \<Rightarrow> string \<Rightarrow> string \<Rightarrow> string \<Rightarrow> string \<Rightarrow> string \<Rightarrow> config" where
  "join_config nodeID nodeName dataDir listenAddr cliAddr coordinatorAddr = \<lparr>cfg_node_id = nodeID,
     cfg_node_name = nodeName, cfg_role = RoleNode, cfg_data_dir = dataDir, cfg_listen_addr = listenAddr,
     cfg_cli_addr = cliAddr, cfg_coordinator = Some coordinatorAddr, cfg_tls = tls_paths\<rparr>"

definition write_file :: "setup_env \<Rightarrow> string \<Rightarrow> string \<Rightarrow> files \<Rightarrow> string option \<times> files" where
  "write_file se p data fs =
     (case ce_write_error (se_config se) p of Some e \<Rightarrow> (Some e, fs) | None \<Rightarrow> (None, fs(p \<mapsto> data)))"

text \<open>The three files of the answer, in the order in which they are written.\<close>

definition write_certs :: "setup_env \<Rightarrow> string \<Rightarrow> join_response \<Rightarrow> files \<Rightarrow> string option \<times> files" where
  "write_certs se certsDir resp fs =
     (case os_mkdir_error (se_os se) certsDir of
        Some e \<Rightarrow> (Some (''creating certs directory: '' @ e), fs)
      | None \<Rightarrow>
          (case write_file se (ca_cert_path certsDir) (jp_ca_cert resp) fs of
             (Some e, fs1) \<Rightarrow> (Some (''writing CA cert: '' @ e), fs1)
           | (None, fs1) \<Rightarrow>
               (case write_file se (node_cert_path certsDir) (jp_node_cert resp) fs1 of
                  (Some e, fs2) \<Rightarrow> (Some (''writing node cert: '' @ e), fs2)
                | (None, fs2) \<Rightarrow>
                    (case write_file se (node_key_path certsDir) (jp_node_key resp) fs2 of
                       (Some e, fs3) \<Rightarrow> (Some (''writing node key: '' @ e), fs3)
                     | (None, fs3) \<Rightarrow> (None, fs3)))))"

definition join_output :: "config \<Rightarrow> string" where
  "join_output cfg = line [] @
     line ''Joined cluster successfully!'' @
     line (''  Node ID:      '' @ cfg_node_id cfg) @
     line (''  Node Name:    '' @ cfg_node_name cfg) @
     line ''  Role:         node'' @
     line (''  Data Dir:     '' @ cfg_data_dir cfg) @
     line (''  Listen:       '' @ cfg_listen_addr cfg) @
     line (''  CLI:          '' @ cfg_cli_addr cfg) @
     line (''  Coordinator:  '' @ (case cfg_coordinator cfg of None \<Rightarrow> [] | Some addr \<Rightarrow> addr)) @
     line [] @
     line ''Next: run `pingmesh agent` to start this node.''"

definition runJoin ::
    "setup_env \<Rightarrow> join_env \<Rightarrow> peer_codec \<Rightarrow> 'w transport \<Rightarrow> string \<Rightarrow> string \<Rightarrow> string \<Rightarrow> string \<Rightarrow> string
     \<Rightarrow> machine \<times> 'w \<Rightarrow> (string \<times> outcome) \<times> machine \<times> 'w" where
  "runJoin se je pc tr dataDir name listenAddr cliAddr tokenStr p =
     (case p of (mc, w) \<Rightarrow>
      case Load (se_config se) (mc_files mc) dataDir of
        Inr c \<Rightarrow> (([], Error (''already initialized (config exists at '' @ dataDir @ '')'')), mc, w)
      | Inl e \<Rightarrow>
          (case DecodeJoinToken je tokenStr of
             Inl e \<Rightarrow> (([], Error (''invalid token: '' @ e)), mc, w)
           | Inr token \<Rightarrow>
               (let shown = line (''Coordinator: '' @ jt_coordinator_addr token) @
                      line (''Token expires: '' @ se_rfc3339 se (jt_expires_at token)) @ line ''Joining cluster...'';
                    nodeName = (if name = [] then se_hostname se else name)
                in case JoinCluster tr pc (jt_coordinator_addr token) \<lparr>jr_secret = jt_secret token,
                       jr_name = nodeName, jr_listen_addr = listenAddr, jr_cli_addr = cliAddr\<rparr> w of
                     (Inl e, w1) \<Rightarrow> ((shown, Error (''join failed: '' @ e)), mc, w1)
                   | (Inr resp, w1) \<Rightarrow>
                       (case write_certs se (path_join dataDir ''certs'') resp (mc_files mc) of
                          (Some e, fs) \<Rightarrow> ((shown, Error e), mc\<lparr>mc_files := fs\<rparr>, w1)
                        | (None, fs) \<Rightarrow>
                            (let cfg = join_config (jp_node_id resp) nodeName dataDir listenAddr cliAddr
                                   (jt_coordinator_addr token)
                             in case concluded shown (join_output cfg)
                                   (save_and_register se cfg (own_node se cfg) (mc\<lparr>mc_files := fs\<rparr>)) of
                                  (out, mc1) \<Rightarrow> (out, mc1, w1))))))"

section \<open>pingmesh join-token\<close>

definition token_output :: "string \<Rightarrow> string \<Rightarrow> string" where
  "token_output expires token =
     line (''Join token generated (single-use, expires in '' @ expires @ '')'') @
     line [] @
     line ''Run this on the new node:'' @
     line (''  pingmesh join '' @ token) @
     line []"

text \<open>\<open>duration\<close> is \<open>time.ParseDuration\<close>.\<close>

definition runJoinToken ::
    "setup_env \<Rightarrow> join_env \<Rightarrow> (string \<Rightarrow> string + int64) \<Rightarrow> int64 \<Rightarrow> string \<Rightarrow> string \<Rightarrow> string \<Rightarrow> machine
     \<Rightarrow> (string \<times> outcome) \<times> machine" where
  "runJoinToken se je duration now dataDir expires advertiseAddr mc =
     (case Load (se_config se) (mc_files mc) dataDir of
        Inl e \<Rightarrow> (([], Error e), mc)
      | Inr cfg \<Rightarrow>
          (if cfg_role cfg \<noteq> ''coordinator'' then
             (([], Error ''join tokens can only be generated on the coordinator''), mc)
           else case duration expires of
             Inl e \<Rightarrow> (([], Error (''invalid expiry duration: '' @ e)), mc)
           | Inr expiry \<Rightarrow>
               (case NewSQLiteStore se (DBPath cfg) mc of
                  (Inl e, mc1) \<Rightarrow> (([], Error (''opening database: '' @ e)), mc1)
                | (Inr s, mc1) \<Rightarrow>
                    (let coordAddr = (if advertiseAddr \<noteq> [] then advertiseAddr else cfg_listen_addr cfg)
                     in case GenerateJoinToken je (sqlite_store (se_engine se)) now (se_now se) coordAddr expiry s of
                          (Inl e, s1) \<Rightarrow> (([], Error (''generating token: '' @ e)),
                            mc1\<lparr>mc_dbs := (mc_dbs mc1)(DBPath cfg \<mapsto> s1)\<rparr>)
                        | (Inr token, s1) \<Rightarrow> ((token_output expires token, Done), mc1\<lparr>mc_dbs := (mc_dbs mc1)(DBPath cfg \<mapsto> s1)\<rparr>)))))"

end
