(* ===== verification/Setup_Properties.thy ===== *)
theory Setup_Properties
  imports Setup
begin

text \<open>
  What the commands \<open>init\<close>, \<open>join\<close> and \<open>join-token\<close> leave behind when they succeed: a coordinator, a member
  that both sides agree on, and a token that admits.
\<close>

section \<open>What a command that succeeds has done\<close>

lemma migrate_done:
  "migrate eng s = (Inr u, s') \<Longrightarrow> s' = (tick (tick s))\<lparr>db_schema_version := Some 1\<rparr>"
  by (auto simp: migrate_def schemaVersion_def split: sum.splits prod.splits elim!: db_execE)

lemma save_and_register_done:
  assumes "save_and_register se cfg n mc = (Done, mc')" and "cfg_data_dir cfg \<noteq> []"
    and "\<And>data. ce_marshal (se_config se) cfg = Inr data \<Longrightarrow> ce_unmarshal (se_config se) data = Inr cfg"
    and "ce_read_error (se_config se) (config_path (cfg_data_dir cfg)) = None"
  obtains s data where "Load (se_config se) (mc_files mc') (cfg_data_dir cfg) = Inr cfg"
    "mc_files mc' = (mc_files mc)(config_path (cfg_data_dir cfg) \<mapsto> data)"
    "mc_dbs mc' (DBPath cfg) = Some s" "db_schema_version s = Some 1"
    "db_nodes s = (case mc_dbs mc (DBPath cfg) of None \<Rightarrow> [] | Some s0 \<Rightarrow> db_nodes s0) @ [n]"
proof -
  from assms(1) obtain fs mc1 s s1 u where
    save: "Save (se_config se) cfg (mc_files mc) = (Inr (), fs)"
    and op: "NewSQLiteStore se (DBPath cfg) (mc\<lparr>mc_files := fs\<rparr>) = (Inr s, mc1)"
    and reg: "sqlite_CreateNode (se_engine se) n s = (Inr u, s1)"
    and mc': "mc' = mc1\<lparr>mc_dbs := (mc_dbs mc1)(DBPath cfg \<mapsto> s1)\<rparr>"
    by (auto simp: save_and_register_def split: sum.splits prod.splits)
  obtain data where fs: "fs = (mc_files mc)(config_path (cfg_data_dir cfg) \<mapsto> data)"
    "Load (se_config se) fs (cfg_data_dir cfg) = Inr cfg"
    using save_then_load [OF save assms(2-4)] by blast
  from op obtain v where v: "migrate (se_engine se)
      (case mc_dbs mc (DBPath cfg) of None \<Rightarrow> empty_db | Some s \<Rightarrow> s) = (Inr v, s)"
    and mc1: "mc_files mc1 = fs"
    by (auto simp: NewSQLiteStore_def split: option.splits sum.splits prod.splits)
  have s: "db_nodes s = (case mc_dbs mc (DBPath cfg) of None \<Rightarrow> [] | Some s0 \<Rightarrow> db_nodes s0)"
    "db_schema_version s = Some 1"
    using migrate_done [OF v] by (simp_all add: empty_db_def split: option.splits)
  from reg have "s1 = (tick s)\<lparr>db_nodes := db_nodes s @ [n]\<rparr>"
    by (auto simp: sqlite_CreateNode_def row_insert_Some elim!: db_execE split: option.splits)
  with s fs mc1 mc' that [of data s1] show thesis by simp
qed

text \<open>C27: a successful \<open>init\<close> leaves a coordinator: its configuration can be loaded and says so, its database
  has the current schema and exactly one node, the coordinator itself, online under its listen address,
  and the authority and node certificates are on disk; it ends by printing this configuration. A second \<open>init\<close> is refused and changes nothing.\<close>

theorem init_makes_coordinator:
  assumes "runInit se ca cr dataDir listenAddr name mc = ((text, Done), mc')"
    and "dataDir \<noteq> []" and "\<forall>p. ce_read_error (se_config se) p = None"
    and "\<forall>c data. ce_marshal (se_config se) c = Inr data \<longrightarrow> ce_unmarshal (se_config se) data = Inr c"
    and "\<forall>p. mc_dbs mc p = None"
  shows "\<exists>cfg s. Load (se_config se) (mc_files mc') dataDir = Inr cfg \<and> cfg_role cfg = ''coordinator'' \<and>
    cfg_node_id cfg = se_uuid se \<and> mc_dbs mc' (DBPath cfg) = Some s \<and> db_schema_version s = Some 1 \<and>
    db_nodes s = [\<lparr>node_id = se_uuid se, node_name = cfg_node_name cfg, node_location = [],
      node_address = listenAddr, node_role = ''coordinator'', node_status = ''online'',
      node_last_seen = se_now se, node_created_at = se_now se\<rparr>] \<and>
    {ca_cert_path (CertsDir cfg), ca_key_path (CertsDir cfg), node_cert_path (CertsDir cfg),
      node_key_path (CertsDir cfg)} \<subseteq> dom (mc_files mc') \<and>
    (\<exists>shown. text = shown @ init_output cfg) \<and>
    (\<forall>n. \<exists>e. runInit se ca cr dataDir listenAddr n mc' = (([], Error e), mc'))"
proof -
  let ?cfg = "init_config se dataDir listenAddr (if name = [] then se_hostname se else name)"
  from assms(1) obtain fs1 fs2 where
    auth: "GenerateCA ca (se_os se) (CertsDir ?cfg) (mc_files mc) = (Inr (), fs1)"
    and cert: "GenerateNodeCert cr (se_os se) (CertsDir ?cfg) (se_uuid se) [''127.0.0.1'', ''0.0.0.0''] fs1 = (Inr (), fs2)"
    and reg: "save_and_register se ?cfg (own_node se ?cfg) (mc\<lparr>mc_files := fs2\<rparr>) = (Done, mc')"
    and shown: "\<exists>shown. text = shown @ init_output ?cfg"
    by (auto simp: runInit_def Let_def tls_outcome_def concluded_def
        split: sum.splits prod.splits option.splits tls_error.splits)
  have dir: "cfg_data_dir ?cfg = dataDir" by (simp add: init_config_def)
  have codec: "ce_unmarshal (se_config se) data = Inr ?cfg" if "ce_marshal (se_config se) ?cfg = Inr data" for data
    using assms(4) that by blast
  have "cfg_data_dir ?cfg \<noteq> []" "ce_read_error (se_config se) (config_path (cfg_data_dir ?cfg)) = None"
    using assms(2,3) dir by simp_all
  note reg' = save_and_register_done [OF reg this(1) codec this(2), unfolded dir]
  obtain s data where fin: "Load (se_config se) (mc_files mc') dataDir = Inr ?cfg"
    "mc_files mc' = fs2(config_path dataDir \<mapsto> data)"
    "mc_dbs mc' (DBPath ?cfg) = Some s" "db_schema_version s = Some 1" "db_nodes s = [own_node se ?cfg]"
    by (rule reg') (simp_all add: assms(5))
  have "{ca_cert_path (CertsDir ?cfg), ca_key_path (CertsDir ?cfg)} \<subseteq> dom fs1"
    using auth by (auto simp: GenerateCA_def write_pair_def Let_def split: option.splits sum.splits)
  moreover have "{node_cert_path (CertsDir ?cfg), node_key_path (CertsDir ?cfg)} \<subseteq> dom fs2" "dom fs1 \<subseteq> dom fs2"
    using cert by (auto simp: GenerateNodeCert_def write_pair_def Let_def split: option.splits sum.splits prod.splits)
  ultimately have "{ca_cert_path (CertsDir ?cfg), ca_key_path (CertsDir ?cfg), node_cert_path (CertsDir ?cfg),
      node_key_path (CertsDir ?cfg)} \<subseteq> dom (mc_files mc')"
    using fin(2) by auto
  with fin shown show ?thesis
    by (intro exI [of _ ?cfg] exI [of _ s]) (auto simp: runInit_def init_config_def own_node_def)
qed

definition codec_for :: "config \<Rightarrow> config_env" where
  "codec_for x = \<lparr>ce_marshal = (\<lambda>c. if c = x then Inr ''{}'' else Inl ''e''), ce_unmarshal = (\<lambda>_. Inr x),
     ce_read_error = (\<lambda>_. None), ce_mkdir_error = (\<lambda>_. None), ce_write_error = (\<lambda>_. None)\<rparr>"

definition demo_setup :: "config \<Rightarrow> setup_env" where
  "demo_setup x = \<lparr>se_config = codec_for x, se_os = demo_os, se_engine = plain_engine,
     se_open_error = (\<lambda>_. None), se_store_error = (\<lambda>_. ''e''), se_hostname = ''host'', se_uuid = ''u'',
     se_now = 3, se_rfc3339 = (\<lambda>_. ''t'')\<rparr>"

lemma demo_setup_simps [simp]:
  "se_config (demo_setup x) = codec_for x" "ce_read_error (codec_for x) p = None"
  "ce_marshal (codec_for x) c = Inr data \<longleftrightarrow> c = x \<and> data = ''{}''" "ce_unmarshal (codec_for x) data = Inr x"
  by (auto simp: demo_setup_def codec_for_def)

definition blank :: machine where
  "blank = \<lparr>mc_files = (\<lambda>_. None), mc_dbs = (\<lambda>_. None)\<rparr>"

definition demo_init_config :: config where
  "demo_init_config = \<lparr>cfg_node_id = ''u'', cfg_node_name = ''host'', cfg_role = ''coordinator'',
     cfg_data_dir = ''d'', cfg_listen_addr = ''l:1'', cfg_cli_addr = ''127.0.0.1:7434'', cfg_coordinator = None,
     cfg_tls = tls_paths\<rparr>"

definition demo_init :: "(string \<times> outcome) \<times> machine" where
  "demo_init = runInit (demo_setup demo_init_config) demo_ca demo_node ''d'' ''l:1'' [] blank"

lemma demo_init_done: "snd (fst demo_init) = Done"
  by code_simp

lemma init_makes_coordinator_witness:
  "\<exists>cfg. Load (codec_for demo_init_config) (mc_files (snd demo_init)) ''d'' = Inr cfg \<and> cfg_role cfg = ''coordinator''"
proof -
  have "runInit (demo_setup demo_init_config) demo_ca demo_node ''d'' ''l:1'' [] blank
      = ((fst (fst demo_init), Done), snd demo_init)"
    using demo_init_done by (metis demo_init_def prod.collapse)
  from init_makes_coordinator [OF this] show ?thesis
    unfolding demo_setup_simps by (force simp: blank_def)
qed

section \<open>Joining over the network\<close>

text \<open>The coordinator's side: what a join over the network does to it.\<close>

lemma join_reaches_coordinator:
  assumes joined: "JoinCluster (direct addr (registerPeerRoutes (sqlite_store eng) pv)) pc addr req c = (Inr jr, c')"
    and request: "\<And>body. pc_join pc req = Inr body \<Longrightarrow> pv_join pv body = Inr req"
    and answer: "\<And>jr jr'. pc_join_response pc (pv_encode pv (JoinBody jr) @ [CHR 0x0A]) = Inr jr' \<Longrightarrow> jr' = jr"
    and ok: "db_ok c"
  shows "db_nodes c' = db_nodes c @ [joined_node (jp_node_id jr) (jr_name req)
      (resolved_address (jr_listen_addr req) (pv_remote pv)) (pv_now pv)]"
    and "token_open c' (je_digest (pv_join_env pv) (jr_secret req)) = None"
proof -
  have "\<exists>resp. handlePeerJoin (sqlite_store eng) (pv_config pv) (pv_join_env pv) (pv_join_world pv)
      (pv_now pv) (pv_now pv) (pv_remote pv) (Inr req) c = (resp, c') \<and> rs_code resp = 200 \<and> rs_body resp = JoinBody jr"
    by (rule join_over_network [OF request answer joined])
  then obtain resp where h: "handlePeerJoin (sqlite_store eng) (pv_config pv) (pv_join_env pv) (pv_join_world pv)
      (pv_now pv) (pv_now pv) (pv_remote pv) (Inr req) c = (resp, c')" "rs_code resp = 200" "rs_body resp = JoinBody jr"
    by blast
  have uuid: "jp_node_id jr = jw_uuid (pv_join_world pv)"
    using h by (auto simp: handlePeerJoin_def Let_def split: if_splits sum.splits prod.splits bool.splits)
  obtain r where "Inr req = (Inr r :: string + join_request)"
    "token_open c' (je_digest (pv_join_env pv) (jr_secret r)) = None"
    "db_nodes c' = db_nodes c @ [joined_node (jw_uuid (pv_join_world pv)) (jr_name r)
       (resolved_address (jr_listen_addr r) (pv_remote pv)) (pv_now pv)]"
    by (rule join_added [OF h(1,2) ok]) blast
  then show "db_nodes c' = db_nodes c @ [joined_node (jp_node_id jr) (jr_name req)
      (resolved_address (jr_listen_addr req) (pv_remote pv)) (pv_now pv)]"
    and "token_open c' (je_digest (pv_join_env pv) (jr_secret req)) = None"
    unfolding uuid by auto
qed

text \<open>C26: when \<open>join\<close> succeeds against a coordinator, both sides agree. The coordinator has spent the token's
  secret and has exactly one more node; the new machine has a configuration that can be loaded, with that
  node's id and name, the role of a node and the coordinator's address; its database holds the node
  itself, the certificates of the answer are on its disk, and the command ends by printing this configuration.\<close>

theorem join_makes_member:
  assumes "runJoin se je pc (direct addr (registerPeerRoutes (sqlite_store eng) pv)) dataDir name listenAddr
      cliAddr tokenStr (mc, c) = ((text, Done), mc', c')"
    and "DecodeJoinToken je tokenStr = Inr token" and "jt_coordinator_addr token = addr"
    and "\<forall>req body. pc_join pc req = Inr body \<longrightarrow> pv_join pv body = Inr req"
    and "\<forall>jr jr'. pc_join_response pc (pv_encode pv (JoinBody jr) @ [CHR 0x0A]) = Inr jr' \<longrightarrow> jr' = jr"
    and "\<forall>cfg data. ce_marshal (se_config se) cfg = Inr data \<longrightarrow> ce_unmarshal (se_config se) data = Inr cfg"
    and "\<forall>p. ce_read_error (se_config se) p = None" and "dataDir \<noteq> []" and "db_ok c"
  shows "\<exists>cfg s n. Load (se_config se) (mc_files mc') dataDir = Inr cfg \<and> cfg_role cfg = ''node'' \<and>
    cfg_coordinator cfg = Some addr \<and> db_nodes c' = db_nodes c @ [n] \<and> node_id n = cfg_node_id cfg \<and>
    node_name n = cfg_node_name cfg \<and> node_address n = resolved_address listenAddr (pv_remote pv) \<and>
    token_open c' (je_digest (pv_join_env pv) (jt_secret token)) = None \<and>
    mc_dbs mc' (DBPath cfg) = Some s \<and> own_node se cfg \<in> set (db_nodes s) \<and>
    {ca_cert_path (path_join dataDir ''certs''), node_cert_path (path_join dataDir ''certs''),
      node_key_path (path_join dataDir ''certs'')} \<subseteq> dom (mc_files mc') \<and>
    (\<exists>shown. text = shown @ join_output cfg)"
proof -
  let ?name = "if name = [] then se_hostname se else name"
  let ?req = "\<lparr>jr_secret = jt_secret token, jr_name = ?name, jr_listen_addr = listenAddr, jr_cli_addr = cliAddr\<rparr>"
  from assms(1-3) obtain jr fs where
    joined: "JoinCluster (direct addr (registerPeerRoutes (sqlite_store eng) pv)) pc addr ?req c = (Inr jr, c')"
    and certs: "write_certs se (path_join dataDir ''certs'') jr (mc_files mc) = (None, fs)"
    and reg: "save_and_register se (join_config (jp_node_id jr) ?name dataDir listenAddr cliAddr addr)
        (own_node se (join_config (jp_node_id jr) ?name dataDir listenAddr cliAddr addr))
        (mc\<lparr>mc_files := fs\<rparr>) = (Done, mc')"
    and shown: "\<exists>shown. text = shown @ join_output (join_config (jp_node_id jr) ?name dataDir listenAddr cliAddr addr)"
    by (auto simp: runJoin_def Let_def concluded_def split: sum.splits prod.splits option.splits)
  let ?cfg = "join_config (jp_node_id jr) ?name dataDir listenAddr cliAddr addr"
  have coord: "db_nodes c' = db_nodes c @ [joined_node (jp_node_id jr) ?name
      (resolved_address listenAddr (pv_remote pv)) (pv_now pv)]"
    "token_open c' (je_digest (pv_join_env pv) (jt_secret token)) = None"
    using join_reaches_coordinator [OF joined _ _ assms(9)] assms(4,5) by simp_all
  have dir: "cfg_data_dir ?cfg = dataDir" by (simp add: join_config_def)
  have codec: "ce_unmarshal (se_config se) data = Inr ?cfg" if "ce_marshal (se_config se) ?cfg = Inr data" for data
    using assms(6) that by blast
  have "cfg_data_dir ?cfg \<noteq> []" "ce_read_error (se_config se) (config_path (cfg_data_dir ?cfg)) = None"
    using assms(7,8) dir by simp_all
  note reg' = save_and_register_done [OF reg this(1) codec this(2), unfolded dir]
  obtain s data where fin: "Load (se_config se) (mc_files mc') dataDir = Inr ?cfg"
    "mc_files mc' = fs(config_path dataDir \<mapsto> data)" "mc_dbs mc' (DBPath ?cfg) = Some s"
    "own_node se ?cfg \<in> set (db_nodes s)"
    by (rule reg') simp_all
  have "{ca_cert_path (path_join dataDir ''certs''), node_cert_path (path_join dataDir ''certs''),
      node_key_path (path_join dataDir ''certs'')} \<subseteq> dom fs"
    using certs by (auto simp: write_certs_def write_file_def split: option.splits)
  with fin coord shown show ?thesis
    by (intro exI [of _ ?cfg] exI [of _ s] exI [of _ "joined_node (jp_node_id jr) ?name
      (resolved_address listenAddr (pv_remote pv)) (pv_now pv)"]) (auto simp: join_config_def joined_node_def)
qed

text \<open>The coordinator with token \<open>d\<close>, and a machine that joins it with the answer it will give.\<close>

definition demo_answer :: join_response where
  "demo_answer = \<lparr>jp_node_id = ''b'', jp_ca_cert = ''ca'', jp_node_cert = ''cert'', jp_node_key = ''key'',
     jp_coordinator_id = ''co''\<rparr>"

definition demo_join_request :: join_request where
  "demo_join_request = \<lparr>jr_secret = ''s'', jr_name = ''host'', jr_listen_addr = ''0.0.0.0:7433'', jr_cli_addr = []\<rparr>"

definition demo_codec :: peer_codec where
  "demo_codec = \<lparr>pc_heartbeat = (\<lambda>_. Inl ''e''), pc_result = (\<lambda>_. Inr ''r''), pc_config = (\<lambda>_. Inl ''e''),
     pc_join = (\<lambda>q. if q = demo_join_request then Inr ''q'' else Inl ''e''),
     pc_join_response = (\<lambda>t. if hd t = CHR ''j'' then Inr demo_answer else Inl ''e''),
     pc_config_response = (\<lambda>_. Inl ''e'')\<rparr>"

definition demo_server :: "check_result \<Rightarrow> peer_server" where
  "demo_server r = \<lparr>pv_config = demo_coordinator, pv_error_text = (\<lambda>_. ''e''), pv_heartbeat = (\<lambda>_. Inl ''e''),
     pv_sync = (\<lambda>_. Inl ''e''), pv_join = (\<lambda>_. Inr demo_join_request), pv_result = (\<lambda>_. Inr r),
     pv_encode = (\<lambda>b. if b = JoinBody demo_answer then ''j'' else ''e''), pv_join_env = demo_join_env,
     pv_join_world = demo_join_world ''b'', pv_remote = ''9.8.7.6:5555'', pv_now = 10\<rparr>"

definition demo_token_env :: join_env where
  "demo_token_env = demo_join_env\<lparr>je_unmarshal := (\<lambda>_. Inr \<lparr>jt_coordinator_addr = ''c:1'', jt_secret = ''s'',
     jt_expires_at = 0\<rparr>)\<rparr>"

definition demo_member_config :: config where
  "demo_member_config = \<lparr>cfg_node_id = ''b'', cfg_node_name = ''host'', cfg_role = ''node'', cfg_data_dir = ''d'',
     cfg_listen_addr = ''0.0.0.0:7433'', cfg_cli_addr = [], cfg_coordinator = Some ''c:1'', cfg_tls = tls_paths\<rparr>"

definition demo_member :: "(string \<times> outcome) \<times> machine \<times> db" where
  "demo_member = runJoin (demo_setup demo_member_config) demo_token_env demo_codec
     (direct ''c:1'' (registerPeerRoutes (sqlite_store plain_engine) (demo_server (result_at ''up'' 30))))
     ''d'' [] ''0.0.0.0:7433'' [] ''token'' (blank, db_token)"

lemma demo_member_done: "snd (fst demo_member) = Done"
  by code_simp

lemma join_makes_member_witness:
  "\<exists>n. db_nodes (snd (snd demo_member)) = db_nodes db_token @ [n] \<and>
    node_address n = resolved_address ''0.0.0.0:7433'' (pv_remote (demo_server (result_at ''up'' 30)))"
proof -
  have run: "runJoin (demo_setup demo_member_config) demo_token_env demo_codec
     (direct ''c:1'' (registerPeerRoutes (sqlite_store plain_engine) (demo_server (result_at ''up'' 30))))
     ''d'' [] ''0.0.0.0:7433'' [] ''token'' (blank, db_token)
     = ((fst (fst demo_member), Done), fst (snd demo_member), snd (snd demo_member))"
    using demo_member_done by (metis demo_member_def prod.collapse)
  have token: "DecodeJoinToken demo_token_env ''token''
      = Inr \<lparr>jt_coordinator_addr = ''c:1'', jt_secret = ''s'', jt_expires_at = 0\<rparr>"
    by (simp add: DecodeJoinToken_def demo_token_env_def demo_join_env_def)
  have addr: "jt_coordinator_addr \<lparr>jt_coordinator_addr = ''c:1'', jt_secret = ''s'', jt_expires_at = 0\<rparr> = ''c:1''"
    by simp
  have request: "\<forall>req body. pc_join demo_codec req = Inr body \<longrightarrow>
      pv_join (demo_server (result_at ''up'' 30)) body = Inr req"
    by (simp add: demo_codec_def demo_server_def)
  have answer: "\<forall>jr jr'. pc_join_response demo_codec
      (pv_encode (demo_server (result_at ''up'' 30)) (JoinBody jr) @ [CHR 0x0A]) = Inr jr' \<longrightarrow> jr' = jr"
    by (simp add: demo_codec_def demo_server_def)
  have codec: "\<forall>cfg data. ce_marshal (se_config (demo_setup demo_member_config)) cfg = Inr data \<longrightarrow>
      ce_unmarshal (se_config (demo_setup demo_member_config)) data = Inr cfg"
    "\<forall>p. ce_read_error (se_config (demo_setup demo_member_config)) p = None" by simp_all
  have "''d'' \<noteq> ([] :: string)" by simp
  from join_makes_member [OF run token addr request answer codec this db_token_ok(2)]
  show ?thesis by blast
qed

section \<open>Tokens\<close>

text \<open>C29: a token that \<open>join-token\<close> prints admits: with codecs that read what they wrote, a node decodes from
  it the coordinator's address and the secret, and until the token expires the coordinator accepts that
  secret, once it has been stored.\<close>

theorem generated_token_admits:
  assumes "GenerateJoinToken je (sqlite_store eng) now stored addr expiry s = (Inr tokenStr, s1)"
    and "\<forall>x. je_decode je (je_encode je x) = Inr x"
    and "\<forall>t x. je_marshal je t = Inr x \<longrightarrow> je_unmarshal je x = Inr t"
    and "db_ok s" and "later < unix_milli (now + expiry)"
  shows "\<exists>token. DecodeJoinToken je tokenStr = Inr token \<and> jt_coordinator_addr token = addr \<and>
    fst (ValidateJoinToken je (sqlite_store (quiet eng)) later (jt_secret token) s1) = Inr True"
proof -
  from assms(1) obtain secret json u where v: "je_random je = Inr secret"
    "je_marshal je \<lparr>jt_coordinator_addr = addr, jt_secret = secret, jt_expires_at = now + expiry\<rparr> = Inr json"
    "StoreJoinToken (sqlite_store eng) (je_digest je secret) (unix_milli (now + expiry)) stored s = (Inr u, s1)"
    "tokenStr = je_encode je json"
    by (auto simp: GenerateJoinToken_def Let_def split: sum.splits prod.splits)
  have dec: "DecodeJoinToken je tokenStr
      = Inr \<lparr>jt_coordinator_addr = addr, jt_secret = secret, jt_expires_at = now + expiry\<rparr>"
    using assms(2,3) v(2) by (simp add: DecodeJoinToken_def v(4))
  have "token_open s1 (je_digest je secret) = Some (unix_milli (now + expiry))"
    using sqlite_tokens.store_ok [OF v(3)] by simp
  moreover have ok: "db_ok s1" using StoreJoinToken_ok [OF assms(4)] v(3) by (metis snd_conv sqlite_store_simps2)
  moreover obtain b t where b: "ValidateAndConsumeToken (sqlite_store (quiet eng)) (je_digest je secret) later s1 = (Inr b, t)"
    by (simp add: sqlite_ValidateAndConsumeToken_def db_exec_def Let_def)
  ultimately have "b" using sqlite_tokens.consume_ok [OF ok b] assms(5) by simp
  with b dec show ?thesis by (simp add: ValidateJoinToken_def)
qed


lemma generated_token_admits_witness:
  "\<exists>token. DecodeJoinToken (demo_join_env\<lparr>je_unmarshal := (\<lambda>_. Inr \<lparr>jt_coordinator_addr = ''c:1'',
      jt_secret = ''s'', jt_expires_at = 70000000\<rparr>), je_marshal := (\<lambda>t. if jt_secret t = ''s'' \<and>
        jt_coordinator_addr t = ''c:1'' \<and> jt_expires_at t = 70000000 then Inr ''{}'' else Inl ''e'')\<rparr>) ''{}'' = Inr token \<and>
    jt_coordinator_addr token = ''c:1''"
  (is "\<exists>token. DecodeJoinToken ?je _ = _ \<and> _")
proof -
  have run: "GenerateJoinToken ?je (sqlite_store plain_engine) 20000000 20 ''c:1'' 50000000 db_setup
      = (Inr ''{}'', snd (GenerateJoinToken ?je (sqlite_store plain_engine) 20000000 20 ''c:1'' 50000000 db_setup))"
    by (simp add: GenerateJoinToken_def demo_join_env_def sqlite_StoreJoinToken_def db_exec_def row_insert_def db_setup_eq)
  have "\<forall>x. je_decode ?je (je_encode ?je x) = Inr x" by (simp add: demo_join_env_def)
  moreover have "\<forall>t x. je_marshal ?je t = Inr x \<longrightarrow> je_unmarshal ?je x = Inr t"
    by (auto simp: demo_join_env_def)
  ultimately show ?thesis
    using generated_token_admits [OF run _ _ db_setup_ok, of 30] by (auto simp: unix_milli_def)
qed

end
