(* ===== verification/Cli_Api.thy ===== *)
theory Cli_Api
  imports Peer_Api
begin

text \<open>
  \<open>internal/api/cli_handlers.go\<close>: the local API behind the commands and the dashboard, handler by
  handler in the order of the file. Query parameters are strings (empty if absent), path parameters
  are ids.\<close>

section \<open>Nodes\<close>

definition handleListNodes :: "'s store \<Rightarrow> (store_error \<Rightarrow> string) \<Rightarrow> 's handler" where
  "handleListNodes st txt s = answer txt NodesBody (ListNodes st s)"

definition handleGetNode :: "'s store \<Rightarrow> (store_error \<Rightarrow> string) \<Rightarrow> string \<Rightarrow> 's handler" where
  "handleGetNode st txt k s = answer_found txt ''node not found'' NodeBody (GetNode st k s)"

definition handleDeleteNode :: "'s store \<Rightarrow> (store_error \<Rightarrow> string) \<Rightarrow> string \<Rightarrow> 's handler" where
  "handleDeleteNode st txt k s = acknowledge txt ''deleted'' (DeleteNode st k s)"

section \<open>Monitors\<close>

definition handleListMonitors :: "'s store \<Rightarrow> (store_error \<Rightarrow> string) \<Rightarrow> string \<Rightarrow> 's handler" where
  "handleListMonitors st txt g s = answer txt MonitorsBody (ListMonitors st g s)"

definition or_default :: "int64 \<Rightarrow> int64 \<Rightarrow> int64" where
  "or_default d v = (if v = 0 then d else v)"

text \<open>The monitor that is stored: server-made id and times, defaults for zero values, always enabled.\<close>

definition new_monitor :: "string \<Rightarrow> int64 \<Rightarrow> monitor \<Rightarrow> monitor" where
  "new_monitor uuid now m = m\<lparr>mon_id := uuid, mon_created_at := now, mon_updated_at := now,
     mon_interval_ms := or_default 60000 (mon_interval_ms m),
     mon_timeout_ms := or_default 5000 (mon_timeout_ms m),
     mon_retries := or_default 1 (mon_retries m),
     mon_failure_threshold := or_default 3 (mon_failure_threshold m),
     mon_recovery_threshold := or_default 2 (mon_recovery_threshold m),
     mon_quorum_type := (if mon_quorum_type m = [] then ''majority'' else mon_quorum_type m),
     mon_cooldown_ms := or_default 300000 (mon_cooldown_ms m),
     mon_enabled := True\<rparr>"

definition handleCreateMonitor ::
    "'s store \<Rightarrow> (store_error \<Rightarrow> string) \<Rightarrow> string \<Rightarrow> int64 \<Rightarrow> string + monitor \<Rightarrow> 's handler" where
  "handleCreateMonitor st txt uuid now req s =
     (case req of
        Inl e \<Rightarrow> (writeError 400 (''invalid JSON: '' @ e), s)
      | Inr m \<Rightarrow>
          (case CreateMonitor st (new_monitor uuid now m) s of
             (Inl e, s1) \<Rightarrow> (writeError 500 (txt e), s1)
           | (Inr _, s1) \<Rightarrow> (writeJSON 201 (MonitorBody (new_monitor uuid now m)), s1)))"

definition handleGetMonitor :: "'s store \<Rightarrow> (store_error \<Rightarrow> string) \<Rightarrow> string \<Rightarrow> 's handler" where
  "handleGetMonitor st txt k s = answer_found txt ''monitor not found'' MonitorBody (GetMonitor st k s)"

definition keep_if_zero :: "int64 \<Rightarrow> int64 \<Rightarrow> int64" where
  "keep_if_zero old v = (if v \<noteq> 0 then v else old)"

definition keep_if_empty :: "string \<Rightarrow> string \<Rightarrow> string" where
  "keep_if_empty old v = (if v \<noteq> [] then v else old)"

definition updated_monitor :: "monitor \<Rightarrow> monitor \<Rightarrow> int64 \<Rightarrow> monitor" where
  "updated_monitor existing updates now = existing\<lparr>
     mon_name := keep_if_empty (mon_name existing) (mon_name updates),
     mon_target := keep_if_empty (mon_target existing) (mon_target updates),
     mon_port := keep_if_zero (mon_port existing) (mon_port updates),
     mon_interval_ms := keep_if_zero (mon_interval_ms existing) (mon_interval_ms updates),
     mon_timeout_ms := keep_if_zero (mon_timeout_ms existing) (mon_timeout_ms updates),
     mon_group_name := keep_if_empty (mon_group_name existing) (mon_group_name updates),
     mon_updated_at := now\<rparr>"

text \<open>The body is read after the lookup, so an unknown id is 404 whatever the body.\<close>

definition handleUpdateMonitor ::
    "'s store \<Rightarrow> (store_error \<Rightarrow> string) \<Rightarrow> string \<Rightarrow> int64 \<Rightarrow> string + monitor \<Rightarrow> 's handler" where
  "handleUpdateMonitor st txt k now req s =
     (case GetMonitor st k s of
        (Inl e, s1) \<Rightarrow> (writeError 500 (txt e), s1)
      | (Inr None, s1) \<Rightarrow> (writeError 404 ''monitor not found'', s1)
      | (Inr (Some existing), s1) \<Rightarrow>
          (case req of
             Inl e \<Rightarrow> (writeError 400 (''invalid JSON: '' @ e), s1)
           | Inr updates \<Rightarrow>
               (let m = updated_monitor existing updates now in
                case UpdateMonitor st m s1 of
                  (Inl e, s2) \<Rightarrow> (writeError 500 (txt e), s2)
                | (Inr _, s2) \<Rightarrow> (writeJSON 200 (MonitorBody m), s2))))"

definition handleDeleteMonitor :: "'s store \<Rightarrow> (store_error \<Rightarrow> string) \<Rightarrow> string \<Rightarrow> 's handler" where
  "handleDeleteMonitor st txt k s = acknowledge txt ''deleted'' (DeleteMonitor st k s)"

section \<open>Status, incidents and history\<close>

text \<open>\<open>handleStatus\<close> drops the errors of its three queries; the list is then empty.\<close>

definition dropped :: "(store_error + 'a list) \<times> 's \<Rightarrow> 'a list" where
  "dropped p = (case fst p of Inl e \<Rightarrow> [] | Inr xs \<Rightarrow> xs)"

definition handleStatus :: "'s store \<Rightarrow> config \<Rightarrow> 's handler" where
  "handleStatus st cfg s =
     (let nodes = ListNodes st s;
          monitors = ListMonitors st [] (snd nodes);
          incidents = ListIncidents st True (snd monitors)
      in (writeJSON 200 (ClusterBody \<lparr>st_node_id = cfg_node_id cfg, st_role = cfg_role cfg,
            st_nodes = dropped nodes, st_monitor_count = int (length (dropped monitors)),
            st_active_incidents = dropped incidents\<rparr>), snd incidents))"

definition handleListIncidents ::
    "'s store \<Rightarrow> (store_error \<Rightarrow> string) \<Rightarrow> string \<Rightarrow> 's handler" where
  "handleListIncidents st txt active s = answer txt IncidentsBody (ListIncidents st (active = ''true'') s)"

text \<open>A positive number replaces the default; anything else, an error included, keeps it.\<close>

definition positive_or :: "int64 \<Rightarrow> string \<Rightarrow> int64" where
  "positive_or d q = (if q = [] then d else
     (case ParseInt q of IntOk v \<Rightarrow> if v > 0 then v else d | _ \<Rightarrow> d))"

definition handleHistory ::
    "'s store \<Rightarrow> (store_error \<Rightarrow> string) \<Rightarrow> string \<Rightarrow> string \<Rightarrow> string \<Rightarrow> string \<Rightarrow> 's handler" where
  "handleHistory st txt monitorID nodeID since limit s =
     answer txt ResultsBody (ListCheckResults st monitorID nodeID
       (if since \<noteq> [] then parsed_value (ParseInt since) else 0) (positive_or 50 limit) s)"

section \<open>Logs and peers\<close>

text \<open>\<open>Inl\<close> would be the panic of \<open>Last\<close>; \<open>None\<close> is a server without log buffer.\<close>

definition handleLogs :: "logbuf option \<Rightarrow> string \<Rightarrow> string + response" where
  "handleLogs buf lines =
     (case buf of
        None \<Rightarrow> Inr (writeError 503 ''log buffer not available'')
      | Some b \<Rightarrow>
          (case Last (positive_or 100 lines) b of
             Inl p \<Rightarrow> Inl p
           | Inr None \<Rightarrow> Inr (writeJSON 200 (EntriesBody []))
           | Inr (Some es) \<Rightarrow> Inr (writeJSON 200 (EntriesBody es))))"

text \<open>\<open>dial addr\<close> is the latency of a TCP connection, or the error.\<close>

definition probe :: "(string \<Rightarrow> string + rat) \<Rightarrow> node \<Rightarrow> peer_status" where
  "probe dial n = \<lparr>ps_node_id = node_id n, ps_name = node_name n, ps_address = node_address n,
     ps_status = node_status n,
     ps_reachable = (case dial (node_address n) of Inl e \<Rightarrow> False | Inr l \<Rightarrow> True),
     ps_latency_ms = (case dial (node_address n) of Inl e \<Rightarrow> 0 | Inr l \<Rightarrow> l),
     ps_error = (case dial (node_address n) of Inl e \<Rightarrow> ''dial: '' @ e | Inr l \<Rightarrow> [])\<rparr>"

text \<open>A nil slice, which is encoded as \<open>null\<close>, if the nodes cannot be listed.\<close>

definition probePeers ::
    "'s store \<Rightarrow> config \<Rightarrow> (string \<Rightarrow> string + rat) \<Rightarrow> string \<Rightarrow> 's \<Rightarrow> peer_status list option \<times> 's" where
  "probePeers st cfg dial filterNode s =
     (case ListNodes st s of
        (Inl e, s1) \<Rightarrow> (None, s1)
      | (Inr nodes, s1) \<Rightarrow>
          (Some (map (probe dial) (filter (\<lambda>n. \<not> (node_id n = cfg_node_id cfg) \<and>
             \<not> (filterNode \<noteq> [] \<and> node_id n \<noteq> filterNode)) nodes)), s1))"

definition handleTestPeer ::
    "'s store \<Rightarrow> config \<Rightarrow> (string \<Rightarrow> string + rat) \<Rightarrow> string \<Rightarrow> 's handler" where
  "handleTestPeer st cfg dial filterNode s =
     (case probePeers st cfg dial filterNode s of (peers, s1) \<Rightarrow> (writeJSON 200 (PeersBody peers), s1))"

section \<open>Alert channels\<close>

definition handleListAlertChannels :: "'s store \<Rightarrow> (store_error \<Rightarrow> string) \<Rightarrow> 's handler" where
  "handleListAlertChannels st txt s = answer txt ChannelsBody (ListAlertChannels st s)"

text \<open>\<open>valid\<close> is \<open>json.Valid\<close>.\<close>

definition new_channel :: "string \<Rightarrow> int64 \<Rightarrow> alert_channel \<Rightarrow> alert_channel" where
  "new_channel uuid now ch = ch\<lparr>ch_config := (if ch_config ch = [] then ''{}'' else ch_config ch),
     ch_id := uuid, ch_enabled := True, ch_created_at := now, ch_updated_at := now\<rparr>"

definition handleCreateAlertChannel ::
    "'s store \<Rightarrow> (store_error \<Rightarrow> string) \<Rightarrow> (string \<Rightarrow> bool) \<Rightarrow> string \<Rightarrow> int64 \<Rightarrow> string + alert_channel
     \<Rightarrow> 's handler" where
  "handleCreateAlertChannel st txt valid uuid now req s =
     (case req of
        Inl e \<Rightarrow> (writeError 400 (''invalid JSON: '' @ e), s)
      | Inr ch \<Rightarrow>
          (if ch_name ch = [] \<or> ch_type ch = [] then (writeError 400 ''name and type are required'', s)
           else if ch_type ch \<noteq> ''webhook'' \<and> ch_type ch \<noteq> ''email'' then
             (writeError 400 (''type must be 'webhook' or 'email'' @ [CHR 0x27]), s)
           else if \<not> valid (ch_config (new_channel uuid now ch)) then
             (writeError 400 ''config must be valid JSON'', s)
           else case CreateAlertChannel st (new_channel uuid now ch) s of
             (Inl e, s1) \<Rightarrow> (writeError 500 (txt e), s1)
           | (Inr _, s1) \<Rightarrow> (writeJSON 201 (ChannelBody (new_channel uuid now ch)), s1)))"

definition handleGetAlertChannel :: "'s store \<Rightarrow> (store_error \<Rightarrow> string) \<Rightarrow> string \<Rightarrow> 's handler" where
  "handleGetAlertChannel st txt k s =
     answer_found txt ''alert channel not found'' ChannelBody (GetAlertChannel st k s)"

definition updated_channel :: "alert_channel \<Rightarrow> alert_channel \<Rightarrow> int64 \<Rightarrow> alert_channel" where
  "updated_channel existing updates now = existing\<lparr>
     ch_name := keep_if_empty (ch_name existing) (ch_name updates),
     ch_config := keep_if_empty (ch_config existing) (ch_config updates),
     ch_enabled := ch_enabled updates, ch_updated_at := now\<rparr>"

definition handleUpdateAlertChannel ::
    "'s store \<Rightarrow> (store_error \<Rightarrow> string) \<Rightarrow> (string \<Rightarrow> bool) \<Rightarrow> string \<Rightarrow> int64 \<Rightarrow> string + alert_channel
     \<Rightarrow> 's handler" where
  "handleUpdateAlertChannel st txt valid k now req s =
     (case GetAlertChannel st k s of
        (Inl e, s1) \<Rightarrow> (writeError 500 (txt e), s1)
      | (Inr None, s1) \<Rightarrow> (writeError 404 ''alert channel not found'', s1)
      | (Inr (Some existing), s1) \<Rightarrow>
          (case req of
             Inl e \<Rightarrow> (writeError 400 (''invalid JSON: '' @ e), s1)
           | Inr updates \<Rightarrow>
               (if ch_config updates \<noteq> [] \<and> \<not> valid (ch_config updates) then
                  (writeError 400 ''config must be valid JSON'', s1)
                else
                  (let ch = updated_channel existing updates now in
                   case UpdateAlertChannel st ch s1 of
                     (Inl e, s2) \<Rightarrow> (writeError 500 (txt e), s2)
                   | (Inr _, s2) \<Rightarrow> (writeJSON 200 (ChannelBody ch), s2)))))"

definition handleDeleteAlertChannel :: "'s store \<Rightarrow> (store_error \<Rightarrow> string) \<Rightarrow> string \<Rightarrow> 's handler" where
  "handleDeleteAlertChannel st txt k s = acknowledge txt ''deleted'' (DeleteAlertChannel st k s)"

text \<open>A server without dispatcher has no environment to send with.\<close>

definition handleTestAlertChannel ::
    "'s store \<Rightarrow> alert_env option \<Rightarrow> int64 \<Rightarrow> int64 \<Rightarrow> string \<Rightarrow> 's handler" where
  "handleTestAlertChannel st disp now sendNow k s =
     (case disp of
        None \<Rightarrow> (writeError 503 ''alert dispatcher not available'', s)
      | Some env \<Rightarrow>
          (case SendTest env st now sendNow k s of
             (Some e, s1) \<Rightarrow> (writeError 500 (''test failed: '' @ e), s1)
           | (None, s1) \<Rightarrow> (writeJSON 200 (StatusBody ''sent''), s1)))"

definition handleAlertHistory ::
    "'s store \<Rightarrow> (store_error \<Rightarrow> string) \<Rightarrow> string \<Rightarrow> string \<Rightarrow> 's handler" where
  "handleAlertHistory st txt channelID limit s =
     answer txt RecordsBody (ListAlertHistory st channelID (positive_or 50 limit) s)"

section \<open>Properties of the handlers\<close>

lemma positive_or_pos: "0 < d \<Longrightarrow> 0 < positive_or d q"
  by (auto simp: positive_or_def split: parsed_int.splits)

lemma positive_or_show: "in_int64 n \<Longrightarrow> 0 < n \<Longrightarrow> positive_or d (show_int n) = n"
proof -
  assume n: "in_int64 n" "0 < n"
  have "show_int n \<noteq> []"
    using show_nat_digits [of "nat n"] n by (simp add: show_int_def)
  with n show ?thesis by (simp add: positive_or_def ParseInt_show_int)
qed

lemma new_monitor_fields:
  "mon_interval_ms (new_monitor u now m) \<noteq> 0" "mon_failure_threshold (new_monitor u now m) \<noteq> 0"
  "mon_recovery_threshold (new_monitor u now m) \<noteq> 0" "mon_quorum_type (new_monitor u now m) \<noteq> []"
  "mon_enabled (new_monitor u now m)" "mon_id (new_monitor u now m) = u"
  "mon_quorum_n (new_monitor u now m) = mon_quorum_n m"
  by (simp_all add: new_monitor_def or_default_def)

end
