(* ===== verification/Cli_Server.thy ===== *)
theory Cli_Server
  imports Cli_Api Peer_Client
begin

text \<open>
  The rest of the local server: \<open>handleHealth\<close> and the routing table \<open>registerCLIRoutes\<close> of
  \<open>internal/api/cli_handlers.go\<close>, and \<open>spaHandler\<close> of \<open>server.go\<close>, which answers what no route takes. A
  request is its method, its path, its query and its body. What the Go runtime, the file system, the
  codecs and \<open>http.FileServer\<close> say are the fields of a \<open>cli_server\<close>. \<open>HEAD\<close> requests are left out.
\<close>

section \<open>Health\<close>

text \<open>The agent's times are in nanoseconds; a zero \<open>time.Time\<close> is \<open>None\<close>.\<close>

record agent_info =
  ai_start_time :: int64
  ai_last_heartbeat :: "int64 option"
  ai_last_config_sync :: "int64 option"
  ai_active_monitors :: int64

record runtime_info =
  rt_version :: string
  rt_goroutines :: int64
  rt_alloc :: int64
  rt_db_size :: "int64 option"

text \<open>\<open>Duration.String\<close> on a whole number of seconds.\<close>

definition seconds_string :: "int64 \<Rightarrow> string" where
  "seconds_string n =
     (let a = \<bar>n\<bar>; h = a div 3600; m = a div 60 mod 60; sec = show_int (a mod 60) @ ''s''
      in (if n < 0 then ''-'' else []) @
         (if h > 0 then show_int h @ ''h'' @ show_int m @ ''m'' @ sec
          else if m > 0 then show_int m @ ''m'' @ sec else sec))"

definition handleHealth ::
    "'s store \<Rightarrow> config \<Rightarrow> runtime_info \<Rightarrow> agent_info option \<Rightarrow> (int64 \<Rightarrow> string) \<Rightarrow> int64
     \<Rightarrow> (string \<Rightarrow> string + rat) \<Rightarrow> 's handler" where
  "handleHealth st cfg rt ai rfc3339 now dial s =
     (case probePeers st cfg dial [] s of
        (peers, s1) \<Rightarrow>
          (writeJSON 200 (HealthBody \<lparr>hi_node_id = cfg_node_id cfg, hi_name = cfg_node_name cfg,
             hi_role = cfg_role cfg,
             hi_uptime = (case ai of None \<Rightarrow> []
               | Some a \<Rightarrow> seconds_string (go_div (now - ai_start_time a) 1000000000)),
             hi_go_version = rt_version rt, hi_num_goroutines = rt_goroutines rt,
             hi_memory_mb = of_int (rt_alloc rt) / 1024 / 1024,
             hi_db_size_mb = (case rt_db_size rt of None \<Rightarrow> 0 | Some b \<Rightarrow> of_int b / 1024 / 1024),
             hi_coordinator = (case cfg_coordinator cfg of None \<Rightarrow> [] | Some a \<Rightarrow> a),
             hi_active_monitors = (case ai of None \<Rightarrow> 0 | Some a \<Rightarrow> ai_active_monitors a),
             hi_last_heartbeat = (case ai of None \<Rightarrow> []
               | Some a \<Rightarrow> (case ai_last_heartbeat a of None \<Rightarrow> [] | Some t \<Rightarrow> rfc3339 t)),
             hi_last_config_sync = (case ai of None \<Rightarrow> []
               | Some a \<Rightarrow> (case ai_last_config_sync a of None \<Rightarrow> [] | Some t \<Rightarrow> rfc3339 t)),
             hi_peers = (case peers of None \<Rightarrow> [] | Some ps \<Rightarrow> ps)\<rparr>), s1))"

section \<open>Escapes and queries\<close>

text \<open>
  \<open>url.QueryEscape\<close>, and the two ways back: in a query a plus is a blank, in a path segment it is a plus.
  An escape that is cut off or has no hexadecimal digits is an error.
\<close>

definition hex_digit :: "nat \<Rightarrow> char" where
  "hex_digit n = char_of (if n < 10 then 48 + n else 55 + n)"

definition unreserved :: "char \<Rightarrow> bool" where
  "unreserved c = (let b = of_char c :: nat
     in (97 \<le> b \<and> b \<le> 122) \<or> (65 \<le> b \<and> b \<le> 90) \<or> (48 \<le> b \<and> b \<le> 57) \<or> b \<in> {45, 46, 95, 126})"

fun QueryEscape :: "string \<Rightarrow> string" where
  "QueryEscape [] = []"
| "QueryEscape (c # s) =
     (if unreserved c then [c] else if c = CHR '' '' then ''+''
      else [CHR ''%'', hex_digit (of_char c div 16), hex_digit (of_char c mod 16)]) @ QueryEscape s"

fun unescape :: "bool \<Rightarrow> string \<Rightarrow> string option" where
  "unescape inQuery [] = Some []"
| "unescape inQuery (c # s) =
     (if c = CHR ''%'' then
        (case s of
           a # b # t \<Rightarrow>
             (case (hex_value a, hex_value b) of
                (Some x, Some y) \<Rightarrow> map_option (\<lambda>u. char_of (16 * x + y) # u) (unescape inQuery t)
              | _ \<Rightarrow> None)
         | _ \<Rightarrow> None)
      else map_option (\<lambda>u. (if inQuery \<and> c = CHR ''+'' then CHR '' '' else c) # u) (unescape inQuery s))"

text \<open>\<open>URL.Query().Get(key)\<close>: the value of the first well-formed pair with this key, or the empty string.\<close>

definition cut_at :: "char \<Rightarrow> string \<Rightarrow> string \<times> string" where
  "cut_at c s = (takeWhile (\<lambda>x. x \<noteq> c) s, tl (dropWhile (\<lambda>x. x \<noteq> c) s))"

definition query_pair :: "string \<Rightarrow> (string \<times> string) option" where
  "query_pair part =
     (if part = [] \<or> CHR '';'' \<in> set part then None
      else case cut_at (CHR ''='') part of
        (k, v) \<Rightarrow>
          (case (unescape True k, unescape True v) of (Some k, Some v) \<Rightarrow> Some (k, v) | _ \<Rightarrow> None))"

definition query_get :: "string \<Rightarrow> string \<Rightarrow> string" where
  "query_get query key =
     (case map_of (List.map_filter query_pair (split_on (CHR ''&'') query)) key of
        None \<Rightarrow> [] | Some v \<Rightarrow> v)"

section \<open>The server\<close>

record cli_server =
  sv_config :: config
  sv_error_text :: "store_error \<Rightarrow> string"
  sv_uuid :: string
  sv_now :: int64
  sv_monitor :: "string \<Rightarrow> string + monitor"
  sv_channel :: "string \<Rightarrow> string + alert_channel"
  sv_valid :: "string \<Rightarrow> bool"
  sv_encode :: "json_body \<Rightarrow> string"
  sv_logs :: "logbuf option"
  sv_alerts :: "alert_env option"
  sv_test_sent :: int64
  sv_dial :: "string \<Rightarrow> string + rat"
  sv_runtime :: runtime_info
  sv_agent :: "agent_info option"
  sv_rfc3339 :: "int64 \<Rightarrow> string"
  sv_now_ns :: int64
  sv_file_exists :: "string \<Rightarrow> bool"
  sv_file_server :: "string \<Rightarrow> raw_reply"
  sv_redirect :: "string \<Rightarrow> raw_reply"

text \<open>
  The dashboard of \<open>internal/web\<close>: the files that \<open>go:embed static\<close> puts into the program, and \<open>StaticFS\<close>, whether
  their tree has a file or a directory of this name.
\<close>

definition staticFiles :: "string list" where
  "staticFiles = [''index.html'', ''css/style.css'', ''img/favicon.svg'', ''js/alpine.min.js'', ''js/app.js'',
     ''js/pages/dashboard.js'', ''js/pages/history.js'', ''js/pages/incidents.js'', ''js/pages/monitors.js'',
     ''js/pages/nodes.js'']"

definition StaticFS :: "string \<Rightarrow> bool" where
  "StaticFS name = (name = ''.'' \<or> list_ex (\<lambda>f. f = name \<or> has_prefix (name @ ''/'') f) staticFiles)"

definition spaHandler :: "(string \<Rightarrow> bool) \<Rightarrow> (string \<Rightarrow> raw_reply) \<Rightarrow> string \<Rightarrow> raw_reply" where
  "spaHandler file_exists file_server path =
     (if file_exists (if path = ''/'' then ''index.html'' else tl path) then file_server path
      else file_server ''/'')"

text \<open>
  \<open>NewServer\<close> takes the configuration and the options from its caller; the rest of the record is what
  the handlers get from outside the program. The embedded files are always there, so the dashboard is served; it
  and the routes are in \<open>serve_cli\<close>.
\<close>

type_synonym server_option = "cli_server \<Rightarrow> cli_server"

definition WithLogBuffer :: "logbuf \<Rightarrow> server_option" where
  "WithLogBuffer buf sv = sv\<lparr>sv_logs := Some buf\<rparr>"

definition WithAgentInfo :: "agent_info \<Rightarrow> server_option" where
  "WithAgentInfo ai sv = sv\<lparr>sv_agent := Some ai\<rparr>"

definition WithAlertDispatcher :: "alert_env \<Rightarrow> server_option" where
  "WithAlertDispatcher ad sv = sv\<lparr>sv_alerts := Some ad\<rparr>"

definition NewServer :: "cli_server \<Rightarrow> config \<Rightarrow> server_option list \<Rightarrow> cli_server" where
  "NewServer outside cfg opts = fold (\<lambda>opt sv. opt sv) opts
     (outside\<lparr>sv_config := cfg, sv_logs := None, sv_agent := None, sv_alerts := None,
       sv_file_exists := StaticFS\<rparr>)"

text \<open>
  The two listeners: \<open>listen_error\<close> is what \<open>net.Listen\<close> says to an address, and \<open>Serve\<close> returns once the server
  is shut down or when it fails.
\<close>

datatype served = ServerClosed | ServeError string

definition serve_on :: "(string \<Rightarrow> string option) \<Rightarrow> served \<Rightarrow> string \<Rightarrow> string option" where
  "serve_on listen_error result addr =
     (case listen_error addr of Some e \<Rightarrow> Some e
      | None \<Rightarrow> (case result of ServerClosed \<Rightarrow> None | ServeError e \<Rightarrow> Some e))"

definition StartCLI :: "(string \<Rightarrow> string option) \<Rightarrow> served \<Rightarrow> config \<Rightarrow> string option" where
  "StartCLI listen_error result cfg = serve_on listen_error result (cfg_cli_addr cfg)"

definition StartPeer :: "(string \<Rightarrow> string option) \<Rightarrow> served \<Rightarrow> config \<Rightarrow> string option" where
  "StartPeer listen_error result cfg = serve_on listen_error result (cfg_listen_addr cfg)"

definition handled :: "response \<times> 's \<Rightarrow> ((string + response) \<times> 's) option" where
  "handled p = Some (Inr (fst p), snd p)"

text \<open>
  The routes below \<open>/api/v1/\<close>, by the segments of the path; \<open>None\<close> is a request that no pattern takes. A
  wildcard takes one segment that is not empty. \<open>Inl\<close> is a handler that panics.
\<close>

definition registerCLIRoutes ::
    "'s store \<Rightarrow> cli_server \<Rightarrow> string \<Rightarrow> string list \<Rightarrow> string \<Rightarrow> string \<Rightarrow> 's
     \<Rightarrow> ((string + response) \<times> 's) option" where
  "registerCLIRoutes st sv meth segments query body s =
     (let txt = sv_error_text sv; q = query_get query;
          get = (meth = ''GET''); post = (meth = ''POST''); put = (meth = ''PUT''); del = (meth = ''DELETE'')
      in case segments of
        [a] \<Rightarrow>
          (if get \<and> a = ''nodes'' then handled (handleListNodes st txt s)
           else if get \<and> a = ''monitors'' then handled (handleListMonitors st txt (q ''group'') s)
           else if post \<and> a = ''monitors'' then
             handled (handleCreateMonitor st txt (sv_uuid sv) (sv_now sv) (sv_monitor sv body) s)
           else if get \<and> a = ''status'' then handled (handleStatus st (sv_config sv) s)
           else if get \<and> a = ''incidents'' then handled (handleListIncidents st txt (q ''active'') s)
           else if get \<and> a = ''history'' then
             handled (handleHistory st txt (q ''monitor'') (q ''node'') (q ''since'') (q ''limit'') s)
           else if get \<and> a = ''health'' then
             handled (handleHealth st (sv_config sv) (sv_runtime sv) (sv_agent sv) (sv_rfc3339 sv)
               (sv_now_ns sv) (sv_dial sv) s)
           else if get \<and> a = ''logs'' then Some (handleLogs (sv_logs sv) (q ''lines''), s)
           else if get \<and> a = ''test-peer'' then
             handled (handleTestPeer st (sv_config sv) (sv_dial sv) (q ''node'') s)
           else None)
      | [a, k] \<Rightarrow>
          (if get \<and> a = ''alerts'' \<and> k = ''channels'' then handled (handleListAlertChannels st txt s)
           else if post \<and> a = ''alerts'' \<and> k = ''channels'' then
             handled (handleCreateAlertChannel st txt (sv_valid sv) (sv_uuid sv) (sv_now sv) (sv_channel sv body) s)
           else if get \<and> a = ''alerts'' \<and> k = ''history'' then
             handled (handleAlertHistory st txt (q ''channel'') (q ''limit'') s)
           else if k = [] then None
           else if get \<and> a = ''nodes'' then handled (handleGetNode st txt k s)
           else if del \<and> a = ''nodes'' then handled (handleDeleteNode st txt k s)
           else if get \<and> a = ''monitors'' then handled (handleGetMonitor st txt k s)
           else if put \<and> a = ''monitors'' then
             handled (handleUpdateMonitor st txt k (sv_now sv) (sv_monitor sv body) s)
           else if del \<and> a = ''monitors'' then handled (handleDeleteMonitor st txt k s)
           else None)
      | [a, b, k] \<Rightarrow>
          (if a \<noteq> ''alerts'' \<or> b \<noteq> ''channels'' \<or> k = [] then None
           else if get then handled (handleGetAlertChannel st txt k s)
           else if put then
             handled (handleUpdateAlertChannel st txt (sv_valid sv) k (sv_now sv) (sv_channel sv body) s)
           else if del then handled (handleDeleteAlertChannel st txt k s)
           else None)
      | [a, b, k, c] \<Rightarrow>
          (if post \<and> a = ''alerts'' \<and> b = ''channels'' \<and> k \<noteq> [] \<and> c = ''test'' then
             handled (handleTestAlertChannel st (sv_alerts sv) (sv_now sv) (sv_test_sent sv) k s)
           else None)
      | _ \<Rightarrow> None)"

text \<open>
  A request as the server gets it. The multiplexer redirects a path that is not clean, matches the
  unescaped segments against the patterns, and leaves the rest to the dashboard; \<open>net/http\<close> recovers from
  a panic and closes the connection, which the client sees as an error.
\<close>

definition lenient :: "string \<Rightarrow> string" where
  "lenient seg = (case unescape False seg of None \<Rightarrow> seg | Some u \<Rightarrow> u)"

definition clean_path :: "string \<Rightarrow> bool" where
  "clean_path path = (case split_on (CHR ''/'') path of
     [] # segs \<Rightarrow> segs \<noteq> [] \<and> list_all (\<lambda>x. x \<notin> {[], ''.'', ''..''}) (butlast segs)
       \<and> last segs \<notin> {''.'', ''..''}
   | _ \<Rightarrow> False)"

definition serve_cli ::
    "'s store \<Rightarrow> cli_server \<Rightarrow> string \<Rightarrow> string \<Rightarrow> string \<Rightarrow> 's \<Rightarrow> (string + raw_reply) \<times> 's" where
  "serve_cli st sv meth target body s =
     (case cut_at (CHR ''?'') target of
        (path, query) \<Rightarrow>
          (if \<not> clean_path path then (Inr (sv_redirect sv path), s)
           else
             (case map lenient (tl (split_on (CHR ''/'') path)) of
                ver1 # ver2 # segments \<Rightarrow>
                  (if ver1 = ''api'' \<and> ver2 = ''v1'' then
                     (case registerCLIRoutes st sv meth segments query body s of
                        Some (Inr resp, s1) \<Rightarrow>
                          (Inr \<lparr>rw_code = rs_code resp, rw_bytes = sv_encode sv (rs_body resp) @ [CHR 0x0A],
                             rw_broken = None\<rparr>, s1)
                      | Some (Inl p, s1) \<Rightarrow> (Inl ''EOF'', s1)
                      | None \<Rightarrow> (Inr (spaHandler (sv_file_exists sv) (sv_file_server sv) (lenient path)), s))
                   else (Inr (spaHandler (sv_file_exists sv) (sv_file_server sv) (lenient path)), s))
              | _ \<Rightarrow> (Inr (spaHandler (sv_file_exists sv) (sv_file_server sv) (lenient path)), s))))"

text \<open>The commands reach the server at its address.\<close>

definition local_agent :: "string \<Rightarrow> 's store \<Rightarrow> cli_server \<Rightarrow> 's transport" where
  "local_agent addr st sv meth url body s =
     (if has_prefix (''http://'' @ addr @ ''/'') url then
        serve_cli st sv meth (drop (length (''http://'' @ addr)) url) body s
      else (Inl ''connection refused'', s))"

end
