(* ===== verification/Statements.thy ===== *)
theory Statements
  imports Cli_Server Scheduling
begin

text \<open>
  What every operation of the agent but the consensus loop does to its database: it executes
  statements of \<open>foreign_statement\<close>, none of which writes an incident. With this the environment that the
  consensus loop runs in (theories Shared_Store and Coordinator) is the rest of the program, and not an
  assumption about it.
\<close>

section \<open>Sequences of statements\<close>

named_theorems executed \<open>the statements that an operation executes\<close>

definition executes :: "engine \<Rightarrow> db \<Rightarrow> db \<Rightarrow> bool" where
  "executes eng s t \<longleftrightarrow> (\<exists>fs. t = exec_all eng fs s)"

lemma executes_refl [simp, intro]: "executes eng s s"
  unfolding executes_def by (rule exI [of _ "[]"]) (simp add: exec_all_def)

lemma executes_one: "executes eng s (exec_foreign eng f s)"
  unfolding executes_def by (rule exI [of _ "[f]"]) (simp add: exec_all_def)

lemma executes_trans [trans]: "executes eng s t \<Longrightarrow> executes eng t u \<Longrightarrow> executes eng s u"
  unfolding executes_def by (metis exec_all_def fold_append comp_apply)

lemma executes_incidents: "executes eng s t \<Longrightarrow> db_incidents t = db_incidents s"
  by (auto simp: executes_def)

lemma executes_run: "executes eng s t \<Longrightarrow> coordinator_run eng s [] t"
  by (auto simp: executes_def exec_all_steps)

text \<open>A query executes one statement, whether it fails or not, and so does each of the writes.\<close>

lemma query_executes: "db_query eng f s = (r, t) \<Longrightarrow> executes eng s t"
  using executes_one [of eng s FSelect] by (auto elim!: db_queryE)

lemmas query_defs = sqlite_GetNode_def sqlite_ListNodes_def sqlite_GetMonitor_def sqlite_ListMonitors_def
  sqlite_ListEnabledMonitors_def sqlite_GetLatestResult_def sqlite_CountConsecutiveFailures_def
  sqlite_CountConsecutiveSuccesses_def sqlite_ListCheckResults_def sqlite_GetIncident_def
  sqlite_GetActiveIncident_def sqlite_ListIncidents_def sqlite_GetAlertChannel_def
  sqlite_ListAlertChannels_def sqlite_ListEnabledAlertChannels_def sqlite_ListAlertHistory_def

lemma queries_execute [executed]:
  "sqlite_GetNode eng k s = (r1, t) \<Longrightarrow> executes eng s t"
  "sqlite_ListNodes eng s = (r2, t) \<Longrightarrow> executes eng s t"
  "sqlite_GetMonitor eng k s = (r3, t) \<Longrightarrow> executes eng s t"
  "sqlite_ListMonitors eng g s = (r4, t) \<Longrightarrow> executes eng s t"
  "sqlite_ListEnabledMonitors eng s = (r4, t) \<Longrightarrow> executes eng s t"
  "sqlite_ListCheckResults eng m n a l s = (r5, t) \<Longrightarrow> executes eng s t"
  "sqlite_GetIncident eng k s = (r6, t) \<Longrightarrow> executes eng s t"
  "sqlite_ListIncidents eng b s = (r7, t) \<Longrightarrow> executes eng s t"
  "sqlite_GetAlertChannel eng k s = (r8, t) \<Longrightarrow> executes eng s t"
  "sqlite_ListAlertChannels eng s = (r9, t) \<Longrightarrow> executes eng s t"
  "sqlite_ListEnabledAlertChannels eng s = (r9, t) \<Longrightarrow> executes eng s t"
  "sqlite_ListAlertHistory eng c l s = (r10, t) \<Longrightarrow> executes eng s t"
  by (simp_all only: query_defs query_executes)

lemma writes_execute [executed]:
  "sqlite_CreateNode eng n s = (r, t) \<Longrightarrow> executes eng s t"
  "sqlite_UpdateNode eng n s = (r, t) \<Longrightarrow> executes eng s t"
  "sqlite_UpdateNodeStatus eng k st now s = (r, t) \<Longrightarrow> executes eng s t"
  "sqlite_DeleteNode eng k s = (r, t) \<Longrightarrow> executes eng s t"
  "sqlite_CreateMonitor eng m s = (r, t) \<Longrightarrow> executes eng s t"
  "sqlite_UpdateMonitor eng m s = (r, t) \<Longrightarrow> executes eng s t"
  "sqlite_DeleteMonitor eng k s = (r, t) \<Longrightarrow> executes eng s t"
  "sqlite_InsertCheckResult eng c s = (r, t) \<Longrightarrow> executes eng s t"
  "sqlite_StoreJoinToken eng h expires now s = (r, t) \<Longrightarrow> executes eng s t"
  "sqlite_ValidateAndConsumeToken eng h now s = (q, t) \<Longrightarrow> executes eng s t"
  "sqlite_CreateAlertChannel eng ch s = (r, t) \<Longrightarrow> executes eng s t"
  "sqlite_UpdateAlertChannel eng ch s = (r, t) \<Longrightarrow> executes eng s t"
  "sqlite_DeleteAlertChannel eng k s = (r, t) \<Longrightarrow> executes eng s t"
  "sqlite_InsertAlertRecord eng a s = (r, t) \<Longrightarrow> executes eng s t"
  using executes_one [of eng s] by (metis exec_foreign.simps snd_conv)+

lemma executes_snd: "(\<And>r t. f s = (r, t) \<Longrightarrow> executes eng s t) \<Longrightarrow> executes eng s (snd (f s))"
  by (metis prod.collapse)

section \<open>The loops of the agent\<close>

lemma UpdateHeartbeat_executes [executed]:
  "UpdateHeartbeat (sqlite_store eng) now k s = (r, t) \<Longrightarrow> executes eng s t"
  by (simp add: UpdateHeartbeat_def writes_execute(3))

lemma sendHeartbeat_executes: "executes eng s (snd (sendHeartbeat (sqlite_store eng) cfg now stamp n s))"
  unfolding sendHeartbeat_def using UpdateHeartbeat_executes by (metis prod.collapse snd_conv)

lemma mark_offline_executes: "executes eng s (mark_offline (sqlite_store eng) cutoff ns s)"
proof (induction ns arbitrary: s)
  case (Cons n ns)
  show ?case
  proof (cases "stale cutoff n")
    case True
    obtain r t where t: "sqlite_UpdateNodeStatus eng (node_id n) NodeOffline (node_last_seen n) s = (r, t)" by fastforce
    from executes_trans [OF writes_execute(3) [OF t] Cons] True t show ?thesis by simp
  qed (use Cons in simp)
qed simp

lemma DetectOfflineNodes_executes:
  "executes eng s (snd (DetectOfflineNodes (sqlite_store eng) now timeout s))"
proof -
  obtain r t where t: "sqlite_ListNodes eng s = (r, t)" by fastforce
  from queries_execute(2) [OF t] mark_offline_executes show ?thesis
    by (auto simp: DetectOfflineNodes_def t split: sum.splits intro: executes_trans)
qed

lemma pushConfigSync_executes: "executes eng s (snd (pushConfigSync (sqlite_store eng) cfg now s))"
proof -
  obtain r t where t: "sqlite_ListMonitors eng [] s = (r, t)" by fastforce
  obtain q u where u: "sqlite_ListNodes eng t = (q, u)" by fastforce
  from queries_execute(4) [OF t] queries_execute(2) [OF u] show ?thesis
    by (auto simp: pushConfigSync_def t u split: sum.splits intro: executes_trans)
qed

lemma upsert_executes:
  "executes eng s (upsert_monitor (sqlite_store eng) m s)" "executes eng s (upsert_node (sqlite_store eng) n s)"
proof -
  obtain r t where t: "sqlite_GetMonitor eng (mon_id m) s = (r, t)" by fastforce
  note get = queries_execute(3) [OF t]
  show "executes eng s (upsert_monitor (sqlite_store eng) m s)"
    using executes_trans [OF get executes_snd [OF writes_execute(5)]]
      executes_trans [OF get executes_snd [OF writes_execute(6)]] get
    by (auto simp: upsert_monitor_def t split: sum.splits option.splits)
  obtain q u where u: "sqlite_GetNode eng (node_id n) s = (q, u)" by fastforce
  note get = queries_execute(1) [OF u]
  show "executes eng s (upsert_node (sqlite_store eng) n s)"
    using executes_trans [OF get executes_snd [OF writes_execute(1)]]
      executes_trans [OF get executes_snd [OF writes_execute(2)]] get
    by (auto simp: upsert_node_def u split: sum.splits option.splits)
qed

lemma upserts_execute:
  "executes eng s (upsert_monitors (sqlite_store eng) ms s)" "executes eng s (upsert_nodes (sqlite_store eng) ns s)"
proof -
  show "executes eng s (upsert_monitors (sqlite_store eng) ms s)"
    by (induction ms arbitrary: s) (auto intro: executes_trans upsert_executes)
  show "executes eng s (upsert_nodes (sqlite_store eng) ns s)"
    by (induction ns arbitrary: s) (auto intro: executes_trans upsert_executes)
qed

lemma applyConfigSync_executes: "executes eng s (applyConfigSync (sqlite_store eng) sync s)"
  unfolding applyConfigSync_def by (rule executes_trans [OF upserts_execute])

lemma check_body_executes: "executes eng s (snd (check_body (sqlite_store eng) nodeID reg now k s))"
proof -
  obtain r t where t: "sqlite_GetMonitor eng k s = (r, t)" by fastforce
  note get = queries_execute(3) [OF t]
  show ?thesis
    using get executes_trans [OF get executes_snd [OF writes_execute(8)]]
    by (auto simp: check_body_def t Let_def split: sum.splits option.splits)
qed

end
