(* ===== verification/Api_Properties.thy ===== *)
theory Api_Properties
  imports Cli_Api
begin

text \<open>
  What the local API promises to the commands and the dashboard: the log view, the history page, and
  the effect of creating, editing and deleting monitors and alert channels on what is stored.
\<close>

section \<open>Logs\<close>

definition log_writes :: "(int64 \<times> string) list \<Rightarrow> logbuf \<Rightarrow> logbuf" where
  "log_writes ws b = fold (\<lambda>w b. snd (Write (fst w) (snd w) b)) ws b"

definition logged :: "(int64 \<times> string) list \<Rightarrow> entry list" where
  "logged ws = concat (map (\<lambda>w. stored_lines (fst w) (snd w)) ws)"

lemma log_writes_puts: "log_writes ws b = fold put_entry (logged ws) b"
  unfolding log_writes_def logged_def
  by (induction ws arbitrary: b) (simp_all add: Write_stores)

lemma last_n_min: "last_n k (last_n 1000 xs) = last_n (min k 1000) xs"
  by (rule last_n_last_n)

text \<open>However the log has been written, the endpoint answers without a panic, with the newest lines in the
  order they were written: as many as asked for (100 unless a positive number is given), but never
  more than the 1000 that the buffer keeps.\<close>

lemma logs_newest_lines:
  "handleLogs (Some (log_writes ws New)) q
    = Inr (writeJSON 200 (EntriesBody (last_n (min (nat (positive_or 100 q)) 1000) (logged ws))))"
proof -
  let ?b = "log_writes ws New"
  have ok: "ring_ok 1000 ?b"
    using ring.puts_valid [OF ring_ok_New] by (simp only: log_writes_puts defaultCapacity_def)
  have "contents ?b = last_n 1000 (logged ws)"
    using ring.view_puts [OF ring_ok_New] by (simp only: log_writes_puts defaultCapacity_def contents_New append_Nil)
  then have view: "last_n (nat (positive_or 100 q)) (contents ?b)
      = last_n (min (nat (positive_or 100 q)) 1000) (logged ws)"
    by (simp only: last_n_min)
  have "0 \<le> positive_or 100 q" using positive_or_pos [of 100 q] by simp
  from Last_view [OF ok this] show ?thesis unfolding view by (simp add: handleLogs_def)
qed

section \<open>History\<close>

text \<open>The rows that a history request selects.\<close>

definition selected :: "string \<Rightarrow> string \<Rightarrow> int64 \<Rightarrow> result_row \<Rightarrow> bool" where
  "selected monitorID nodeID since r \<longleftrightarrow> (monitorID = [] \<or> rr_monitor_id r = monitorID) \<and>
     (nodeID = [] \<or> rr_node_id r = nodeID) \<and> (since \<le> 0 \<or> rr_timestamp r \<ge> since)"

lemma sorted_take_drop:
  "sorted_wrt R xs \<Longrightarrow> x \<in> set (take n xs) \<Longrightarrow> y \<in> set (drop n xs) \<Longrightarrow> R x y"
  by (metis append_take_drop_id sorted_wrt_append)

text \<open>A history page holds selected results only, newest first, at most as many as the limit; what it
  leaves out is left out because the page is full, and is not newer than anything on the page.\<close>

lemma history_page:
  assumes "handleHistory (sqlite_store (quiet eng)) err k n since (show_int limit) s = (resp, s')"
    and "in_int64 limit" "0 < limit"
  shows "\<exists>page rest. resp = writeJSON 200 (ResultsBody (map scan_result page)) \<and>
    mset page + mset rest = mset (filter (selected k n (parsed_value (ParseInt since))) (db_results s)) \<and>
    sorted_wrt (\<lambda>a b. rr_timestamp a \<ge> rr_timestamp b) page \<and> length page \<le> nat limit \<and>
    (rest = [] \<or> length page = nat limit) \<and>
    list_all (\<lambda>a. list_all (\<lambda>b. rr_timestamp a \<ge> rr_timestamp b) rest) page"
proof -
  let ?since = "if since \<noteq> [] then parsed_value (ParseInt since) else 0"
  let ?rows = "order_desc (eng_scan_results (quiet eng)) rr_timestamp
    (filter (selected k n (parsed_value (ParseInt since))) (db_results s))"
  have "(\<lambda>r. (k \<noteq> [] \<longrightarrow> rr_monitor_id r = k) \<and> (n \<noteq> [] \<longrightarrow> rr_node_id r = n) \<and>
      (?since > 0 \<longrightarrow> rr_timestamp r \<ge> ?since)) = selected k n (parsed_value (ParseInt since))"
  proof -
    have "parsed_value (ParseInt since) = 0" if "since = []"
      using that by (simp add: ParseInt_def parsed_value_def)
    then have "?since = parsed_value (ParseInt since)" by (cases "since = []") simp_all
    then show ?thesis by (auto simp: selected_def fun_eq_iff)
  qed
  then have resp: "resp = writeJSON 200 (ResultsBody (map scan_result (take (nat limit) ?rows)))"
    using assms by (simp add: handleHistory_def positive_or_show sqlite_ListCheckResults_def db_query_def
        answer_def limit_rows_def Let_def)
  have sorted: "sorted_wrt (\<lambda>a b. rr_timestamp a \<ge> rr_timestamp b) ?rows"
    using sorted_order_by [of "\<lambda>r. - rr_timestamp r"] by (simp add: order_desc_def sorted_map)
  have "mset (take (nat limit) ?rows) + mset (drop (nat limit) ?rows) = mset ?rows"
    by (metis append_take_drop_id mset_append)
  moreover have "drop (nat limit) ?rows = [] \<or> length (take (nat limit) ?rows) = nat limit" by auto
  moreover have "list_all (\<lambda>a. list_all (\<lambda>b. rr_timestamp a \<ge> rr_timestamp b) (drop (nat limit) ?rows))
      (take (nat limit) ?rows)"
    using sorted_take_drop [OF sorted] by (simp add: list_all_iff)
  moreover have "sorted_wrt (\<lambda>a b. rr_timestamp a \<ge> rr_timestamp b) (take (nat limit) ?rows)"
    using sorted by (metis append_take_drop_id sorted_wrt_append)
  ultimately show ?thesis using resp
    by (intro exI [of _ "take (nat limit) ?rows"] exI [of _ "drop (nat limit) ?rows"]) simp
qed

section \<open>Monitors\<close>

text \<open>A monitor that is created is stored with the server's id and times and with the defaults for what the
  request leaves zero; it is read back as answered, it is enabled, and it joins the enabled monitors
  that the scheduler and the consensus loop work on.\<close>

lemma created_monitor_is_active:
  assumes "handleCreateMonitor (sqlite_store (quiet eng)) err uuid now (Inr m) s = (resp, s1)"
    and "\<not> has_key mr_id uuid (db_monitors s)"
  shows "resp = writeJSON 201 (MonitorBody (new_monitor uuid now m)) \<and>
    fst (handleGetMonitor (sqlite_store (quiet eng)) err uuid s1)
      = writeJSON 200 (MonitorBody (new_monitor uuid now m)) \<and>
    mset (filter mon_enabled (map scanMonitor (db_monitors s1)))
      = add_mset (new_monitor uuid now m) (mset (filter mon_enabled (map scanMonitor (db_monitors s))))"
proof -
  let ?m = "new_monitor uuid now m"
  have s1: "s1 = (tick s)\<lparr>db_monitors := db_monitors s @ [bind_monitor ?m]\<rparr>"
    and resp: "resp = writeJSON 201 (MonitorBody ?m)"
  proof -
    have "mr_id (bind_monitor ?m) = uuid" by (simp add: new_monitor_fields(6))
    with assms(2) have "row_insert mr_id (bind_monitor ?m) (db_monitors (tick s))
        = Some (db_monitors s @ [bind_monitor ?m])" by (simp add: row_insert_Some)
    with assms(1) show "s1 = (tick s)\<lparr>db_monitors := db_monitors s @ [bind_monitor ?m]\<rparr>"
      and "resp = writeJSON 201 (MonitorBody ?m)"
      by (simp_all add: handleCreateMonitor_def sqlite_CreateMonitor_def db_exec_def)
  qed
  have "fst (handleGetMonitor (sqlite_store (quiet eng)) err uuid s1) = writeJSON 200 (MonitorBody ?m)"
    using assms(2) find_append_key [where key = mr_id and r = "bind_monitor ?m" and rows = "db_monitors s"]
    by (simp add: s1 handleGetMonitor_def answer_found_def sqlite_GetMonitor_def db_query_def new_monitor_fields(6))
  then show ?thesis by (simp add: resp s1 new_monitor_fields(5))
qed

text \<open>C38: an edit of a monitor changes the name, target, port, interval, timeout and group that it gives, and
  nothing else: the check type, the retries, the thresholds, the quorum and the enabled flag stay, so
  that a request to disable a monitor is answered with success and has no effect.\<close>

theorem monitor_edit_keeps_policy:
  assumes "stored_monitor s k = Some m"
    and "handleUpdateMonitor (sqlite_store (quiet eng)) err k now (Inr u) s = (resp, s')"
  shows "\<exists>m'. resp = writeJSON 200 (MonitorBody m') \<and> stored_monitor s' = (stored_monitor s)(k \<mapsto> m') \<and>
    m' = m\<lparr>mon_name := (if mon_name u = [] then mon_name m else mon_name u),
      mon_target := (if mon_target u = [] then mon_target m else mon_target u),
      mon_port := (if mon_port u = 0 then mon_port m else mon_port u),
      mon_interval_ms := (if mon_interval_ms u = 0 then mon_interval_ms m else mon_interval_ms u),
      mon_timeout_ms := (if mon_timeout_ms u = 0 then mon_timeout_ms m else mon_timeout_ms u),
      mon_group_name := (if mon_group_name u = [] then mon_group_name m else mon_group_name u),
      mon_updated_at := now\<rparr>"
proof -
  let ?m' = "updated_monitor m u now"
  have "mon_id m = k" using assms(1) by (auto simp: stored_monitor_def find_Some_iff)
  then have key: "mon_id ?m' = k" by (simp add: updated_monitor_def)
  have get: "GetMonitor (sqlite_store (quiet eng)) k s = (Inr (Some m), tick s)"
    using assms(1) by (simp add: sqlite_GetMonitor_def db_query_def stored_monitor_def)
  obtain x s2 where upd: "UpdateMonitor (sqlite_store (quiet eng)) ?m' (tick s) = (Inr x, s2)"
    by (simp add: sqlite_UpdateMonitor_def db_exec_def)
  with assms(2) get have "resp = writeJSON 200 (MonitorBody ?m')" "s' = s2"
    by (auto simp: handleUpdateMonitor_def Let_def)
  moreover have "stored_monitor s2 = (stored_monitor s)(k \<mapsto> ?m')"
  proof -
    have "stored_monitor (tick s) = stored_monitor s" by (simp add: fun_eq_iff stored_monitor_def)
    with sqlite_config.update_monitor [OF upd] key assms(1) show ?thesis
      by (simp add: refresh_monitor_def updated_monitor_def)
  qed
  ultimately show ?thesis
    by (simp add: updated_monitor_def keep_if_empty_def keep_if_zero_def)
qed

definition edited :: "response \<times> db" where
  "edited = handleUpdateMonitor (sqlite_store (quiet plain_engine)) (\<lambda>_. ''e'') ''m'' 7
     (Inr (mon_m\<lparr>mon_interval_ms := 9000, mon_enabled := False\<rparr>)) db_setup"

lemma monitor_edit_keeps_policy_witness:
  "stored_monitor (snd edited) ''m'' = Some (mon_m\<lparr>mon_interval_ms := 9000, mon_updated_at := 7\<rparr>)"
proof -
  have "stored_monitor db_setup ''m'' = Some mon_m" by code_simp
  from monitor_edit_keeps_policy [OF this, of plain_engine "\<lambda>_. ''e''" 7
      "mon_m\<lparr>mon_interval_ms := 9000, mon_enabled := False\<rparr>" "fst edited" "snd edited"]
  show ?thesis by (simp add: edited_def mon_m_def)
qed

text \<open>A monitor with a stored result or incident cannot be deleted: the request ends with status 500 and
  every table stays as it was.\<close>

lemma used_monitor_stays:
  assumes "has_key mr_id k (db_monitors s)"
    and "has_key rr_monitor_id k (db_results s) \<or> has_key ir_monitor_id k (db_incidents s)"
    and "handleDeleteMonitor (sqlite_store eng) err k s = (resp, s')"
  shows "rs_code resp = 500 \<and> s' = tick s"
  using assms by (auto simp: handleDeleteMonitor_def acknowledge_def sqlite_DeleteMonitor_def db_exec_def
      split: if_splits)

section \<open>Alert channels\<close>

text \<open>An edit of an alert channel that does not mention \<open>enabled\<close> switches the channel off: the field is
  then false in the decoded request, and is stored as it is. No later notification goes to it.\<close>

lemma channel_edit_disables:
  assumes "handleUpdateAlertChannel (sqlite_store (quiet eng)) err valid k now (Inr u) s = (resp, s')"
    and "fst (sqlite_GetAlertChannel (quiet eng) k s) = Inr (Some c)"
    and "ch_config u = [] \<or> valid (ch_config u)" and "\<not> ch_enabled u"
  shows "rs_code resp = 200 \<and> filter (\<lambda>c. ch_id c = k \<and> ch_enabled c) (stored_channels s') = []"
proof -
  from assms(2) obtain r where r: "find (\<lambda>r. cr_id r = k) (db_channels s) = Some r" "c = scanAlertChannel r"
    by (auto simp: sqlite_GetAlertChannel_def db_query_def)
  then have key: "ch_id (updated_channel c u now) = k"
    by (auto simp: updated_channel_def scanAlertChannel_def find_Some_iff)
  have get: "sqlite_GetAlertChannel (quiet eng) k s = (Inr (Some c), tick s)"
    using assms(2) by (simp add: sqlite_GetAlertChannel_def db_query_def)
  have resp: "rs_code resp = 200"
    and s': "db_channels s' = row_update (\<lambda>r. cr_id r = k) (set_channel_row (updated_channel c u now)) (db_channels s)"
    using assms(1,3) get key
    by (auto simp: handleUpdateAlertChannel_def sqlite_UpdateAlertChannel_def db_exec_def Let_def split: if_splits)
  have "ch_enabled (updated_channel c u now) = False" using assms(4) by (simp add: updated_channel_def)
  then have "\<not> ch_enabled (scanAlertChannel (set_channel_row (updated_channel c u now) r))" for r
    by (simp add: scanAlertChannel_def set_channel_row_def boolToInt_def)
  then have "filter (\<lambda>c. ch_id c = k \<and> ch_enabled c) (stored_channels s') = []"
    by (auto simp: stored_channels_def s' row_update_def filter_empty_conv scanAlertChannel_def)
  with resp show ?thesis by blast
qed

end
