(* ===== verification/Requests.thy ===== *)
theory Requests
  imports Statements Api_Properties
begin

text \<open>
  The two APIs as wholes: every request, whatever its method, path and body, is a sequence of
  statements on the database.
\<close>

section \<open>Requests are statements\<close>

lemma answers_snd [simp]:
  "snd (answer txt b p) = snd p" "snd (answer_found txt m c q) = snd q" "snd (acknowledge txt d r) = snd r"
  by (auto simp: answer_def answer_found_def acknowledge_def split: sum.splits prod.splits option.splits)

lemma sqlite_executes:
  "executes eng s (snd (sqlite_GetNode eng k s))" "executes eng s (snd (sqlite_ListNodes eng s))"
  "executes eng s (snd (sqlite_DeleteNode eng k s))" "executes eng s (snd (sqlite_GetMonitor eng k s))"
  "executes eng s (snd (sqlite_ListMonitors eng g s))" "executes eng s (snd (sqlite_DeleteMonitor eng k s))"
  "executes eng s (snd (sqlite_ListCheckResults eng k m a l s))" "executes eng s (snd (sqlite_ListIncidents eng b s))"
  "executes eng s (snd (sqlite_GetAlertChannel eng k s))" "executes eng s (snd (sqlite_ListAlertChannels eng s))"
  "executes eng s (snd (sqlite_DeleteAlertChannel eng k s))" "executes eng s (snd (sqlite_ListAlertHistory eng k l s))"
  by (rule executes_snd, erule executed)+

lemma reading_handlers:
  "executes eng s (snd (handleListNodes (sqlite_store eng) txt s))"
  "executes eng s (snd (handleGetNode (sqlite_store eng) txt k s))"
  "executes eng s (snd (handleListMonitors (sqlite_store eng) txt g s))"
  "executes eng s (snd (handleGetMonitor (sqlite_store eng) txt k s))"
  "executes eng s (snd (handleListIncidents (sqlite_store eng) txt g s))"
  "executes eng s (snd (handleHistory (sqlite_store eng) txt k g a l s))"
  "executes eng s (snd (handleListAlertChannels (sqlite_store eng) txt s))"
  "executes eng s (snd (handleGetAlertChannel (sqlite_store eng) txt k s))"
  "executes eng s (snd (handleAlertHistory (sqlite_store eng) txt k l s))"
  by (simp_all add: handleListNodes_def handleGetNode_def handleListMonitors_def handleGetMonitor_def
      handleListIncidents_def handleHistory_def handleListAlertChannels_def handleGetAlertChannel_def
      handleAlertHistory_def sqlite_executes)

lemma deleting_handlers:
  "executes eng s (snd (handleDeleteNode (sqlite_store eng) txt k s))"
  "executes eng s (snd (handleDeleteMonitor (sqlite_store eng) txt k s))"
  "executes eng s (snd (handleDeleteAlertChannel (sqlite_store eng) txt k s))"
  by (simp_all add: handleDeleteNode_def handleDeleteMonitor_def handleDeleteAlertChannel_def sqlite_executes)

lemma handleStatus_executes: "executes eng s (snd (handleStatus (sqlite_store eng) cfg s))"
proof -
  have "executes eng s (snd (sqlite_ListIncidents eng True (snd (sqlite_ListMonitors eng [] (snd (sqlite_ListNodes eng s))))))"
    by (rule executes_trans [OF sqlite_executes(2) executes_trans [OF sqlite_executes(5) sqlite_executes(8)]])
  then show ?thesis by (simp add: handleStatus_def Let_def)
qed

lemma probePeers_executes: "executes eng s (snd (probePeers (sqlite_store eng) cfg dial f s))"
  using sqlite_executes(2) [of eng s] by (auto simp: probePeers_def split: prod.splits sum.splits)

lemma peer_probing_handlers:
  "executes eng s (snd (handleTestPeer (sqlite_store eng) cfg dial f s))"
  "executes eng s (snd (handleHealth (sqlite_store eng) cfg rt ai rfc now dial s))"
  using probePeers_executes [of eng s cfg dial f] probePeers_executes [of eng s cfg dial "[]"]
  by (auto simp: handleTestPeer_def handleHealth_def split: prod.splits)

lemma creating_handlers:
  "executes eng s (snd (handleCreateMonitor (sqlite_store eng) txt u now m s))"
  "executes eng s (snd (handleCreateAlertChannel (sqlite_store eng) txt valid u now c s))"
proof -
  show "executes eng s (snd (handleCreateMonitor (sqlite_store eng) txt u now m s))"
    by (auto simp: handleCreateMonitor_def split: sum.splits prod.splits intro: executed)
  show "executes eng s (snd (handleCreateAlertChannel (sqlite_store eng) txt valid u now c s))"
    by (auto simp: handleCreateAlertChannel_def split: sum.splits prod.splits intro: executed)
qed

lemma updating_handlers:
  "executes eng s (snd (handleUpdateMonitor (sqlite_store eng) txt k now m s))" (is ?monitor)
  "executes eng s (snd (handleUpdateAlertChannel (sqlite_store eng) txt valid k now c s))" (is ?channel)
proof -
  obtain r t where t: "sqlite_GetMonitor eng k s = (r, t)" by fastforce
  note get = queries_execute(3) [OF t]
  show ?monitor
    using get executes_trans [OF get writes_execute(6)]
    by (auto simp: handleUpdateMonitor_def t Let_def split: sum.splits prod.splits option.splits)
  obtain q v where v: "sqlite_GetAlertChannel eng k s = (q, v)" by fastforce
  note get = queries_execute(9) [OF v]
  show ?channel
    using get executes_trans [OF get writes_execute(12)]
    by (auto simp: handleUpdateAlertChannel_def v Let_def split: sum.splits prod.splits option.splits)
qed

lemma handleTestAlertChannel_executes:
  "executes eng s (snd (handleTestAlertChannel (sqlite_store eng) disp now sentAt k s))"
proof -
  obtain r t where t: "sqlite_GetAlertChannel eng k s = (r, t)" by fastforce
  note get = queries_execute(9) [OF t]
  have "executes eng s (snd (SendTest env (sqlite_store eng) now sentAt k s))" for env
    using get executes_trans [OF get executes_snd [OF writes_execute(14)]]
    by (auto simp: SendTest_def t Let_def split: sum.splits option.splits)
  then show ?thesis
    by (auto simp: handleTestAlertChannel_def split: option.splits prod.splits) (metis snd_conv)+
qed

lemmas handlers_execute = reading_handlers deleting_handlers handleStatus_executes peer_probing_handlers
  creating_handlers updating_handlers handleTestAlertChannel_executes

lemma handled_executes: "handled p = Some (r, t) \<Longrightarrow> executes eng s (snd p) \<Longrightarrow> executes eng s t"
  by (auto simp: handled_def)

lemma cli_requests_execute:
  assumes "registerCLIRoutes (sqlite_store eng) sv meth segments query body s = Some (r, t)"
  shows "executes eng s t"
  using assms unfolding registerCLIRoutes_def Let_def
  by (auto split: list.splits if_splits elim!: handled_executes intro: handlers_execute)

lemma serve_cli_executes: "executes eng s (snd (serve_cli (sqlite_store eng) sv meth target body s))"
  by (auto simp: serve_cli_def split: prod.splits list.splits option.splits sum.splits dest: cli_requests_execute)

section \<open>Peer requests\<close>

lemma handlePeerJoin_executes:
  "executes eng s (snd (handlePeerJoin (sqlite_store eng) cfg je jw checked now remote req s))"
proof (cases req)
  case (Inr r)
  obtain q t where t: "sqlite_ValidateAndConsumeToken eng (je_digest je (jr_secret r)) checked s = (q, t)" by fastforce
  note get = writes_execute(10) [OF t]
  show ?thesis
    using Inr get executes_trans [OF get writes_execute(1)]
    by (auto simp: handlePeerJoin_def ValidateJoinToken_def t Let_def
        split: sum.splits prod.splits option.splits bool.splits)
qed (simp add: handlePeerJoin_def)

lemma peer_handlers_execute:
  "executes eng s (snd (handlePeerHeartbeat (sqlite_store eng) now hb s))"
  "executes eng s (snd (handlePeerConfigSync (sqlite_store eng) sync s))"
  "executes eng s (snd (handlePeerResult (sqlite_store eng) res s))"
proof -
  show "executes eng s (snd (handlePeerHeartbeat (sqlite_store eng) now hb s))"
    by (auto simp: handlePeerHeartbeat_def split: sum.splits prod.splits intro: executed)
  show "executes eng s (snd (handlePeerConfigSync (sqlite_store eng) sync s))"
    by (auto simp: handlePeerConfigSync_def split: sum.splits intro: executes_trans upserts_execute)
  show "executes eng s (snd (handlePeerResult (sqlite_store eng) res s))"
    by (auto simp: handlePeerResult_def split: sum.splits prod.splits intro: executed)
qed

lemma handlePeerConfigSyncPull_executes:
  "executes eng s (snd (handlePeerConfigSyncPull (sqlite_store eng) cfg txt now s))"
proof -
  obtain r t where t: "sqlite_ListMonitors eng [] s = (r, t)" by fastforce
  obtain q u where u: "sqlite_ListNodes eng t = (q, u)" by fastforce
  from queries_execute(4) [OF t] queries_execute(2) [OF u] show ?thesis
    by (auto simp: handlePeerConfigSyncPull_def t u split: sum.splits intro: executes_trans)
qed

lemma sent_snd [simp]: "snd (sent pv p) = snd p"
  by (simp add: sent_def split: prod.splits)

lemma peer_requests_execute: "executes eng s (snd (registerPeerRoutes (sqlite_store eng) pv meth path body s))"
  by (simp add: registerPeerRoutes_def handlePeerCheck_def peer_handlers_execute handlePeerJoin_executes
      handlePeerConfigSyncPull_executes)

end
