(* ===== verification/Cli_Monitor.thy ===== *)
theory Cli_Monitor
  imports Cli_Server Cli_Text Setup
begin

text \<open>
  The commands that talk to the local agent: what they share, and \<open>internal/cli/monitor.go\<close>. A command is
  a function from the state of the agent to what it prints, how it ends, and the next state of the
  agent. \<open>config.Load\<close> gives \<open>ca_config\<close>; the transport is that of \<open>net/http\<close>. The decoders give the value
  that is left in the variable where the code ignores the error of \<open>Decode\<close>, and the error otherwise.
\<close>

section \<open>Commands\<close>

type_synonym printed = "string \<times> outcome"
type_synonym 'w command = "'w \<Rightarrow> printed \<times> 'w"

record cli_codec =
  cd_scan_text :: "scan_error \<Rightarrow> string"
  cd_time :: "string \<Rightarrow> int64 \<Rightarrow> string"
  cd_stamp :: "int64 \<Rightarrow> string"
  cd_duration :: "string \<Rightarrow> string + int64"
  cd_now_ns :: int64
  cd_monitors :: "raw_reply \<Rightarrow> string + monitor list"
  cd_monitor :: "raw_reply \<Rightarrow> monitor"
  cd_nodes :: "raw_reply \<Rightarrow> string + node list"
  cd_node :: "raw_reply \<Rightarrow> node"
  cd_channels :: "raw_reply \<Rightarrow> string + alert_channel list"
  cd_channel :: "raw_reply \<Rightarrow> alert_channel"
  cd_records :: "raw_reply \<Rightarrow> string + alert_record list"
  cd_results :: "raw_reply \<Rightarrow> string + check_result list"
  cd_incidents :: "raw_reply \<Rightarrow> string + incident list"
  cd_status :: "raw_reply \<Rightarrow> string + cluster_status"
  cd_health :: "raw_reply \<Rightarrow> string + health_info"
  cd_entries :: "raw_reply \<Rightarrow> string + entry list"
  cd_peers :: "raw_reply \<Rightarrow> string + peer_status list"
  cd_webhook :: "string \<Rightarrow> webhook_config"
  cd_email :: "string \<Rightarrow> email_config"
  cd_put_monitor :: "monitor \<Rightarrow> string"
  cd_put_channel :: "alert_channel \<Rightarrow> string"
  cd_put_webhook :: "webhook_config \<Rightarrow> string"
  cd_put_email :: "email_config \<Rightarrow> string"

record 'w cli =
  ca_config :: "string + config"
  ca_http :: "'w transport"
  ca_request_error :: "string \<Rightarrow> string option"
  ca_codec :: cli_codec

definition with_config :: "'w cli \<Rightarrow> (config \<Rightarrow> 'w command) \<Rightarrow> 'w command" where
  "with_config c k w = (case ca_config c of Inl e \<Rightarrow> (([], Error e), w) | Inr cfg \<Rightarrow> k cfg w)"

definition api_url :: "config \<Rightarrow> string \<Rightarrow> string" where
  "api_url cfg path = ''http://'' @ cfg_cli_addr cfg @ ''/api/v1'' @ path"

definition request :: "'w cli \<Rightarrow> string \<Rightarrow> string \<Rightarrow> string \<Rightarrow> (raw_reply \<Rightarrow> printed) \<Rightarrow> 'w command" where
  "request c meth url body k w =
     (case ca_http c meth url body w of
        (Inl e, w1) \<Rightarrow> (([], Error (''connecting to agent: '' @ e @ '' (is the agent running?)'')), w1)
      | (Inr resp, w1) \<Rightarrow> (k resp, w1))"

text \<open>\<open>http.NewRequest\<close> and \<open>Do\<close>: here a URL that does not parse is an error of its own.\<close>

definition do_request :: "'w cli \<Rightarrow> string \<Rightarrow> string \<Rightarrow> string \<Rightarrow> (raw_reply \<Rightarrow> printed) \<Rightarrow> 'w command" where
  "do_request c meth url body k w =
     (case ca_request_error c url of Some e \<Rightarrow> (([], Error e), w) | None \<Rightarrow> request c meth url body k w)"

definition decoded :: "string + 'a \<Rightarrow> ('a \<Rightarrow> printed) \<Rightarrow> printed" where
  "decoded r k = (case r of Inl e \<Rightarrow> ([], Error (''decoding response: '' @ e)) | Inr x \<Rightarrow> k x)"

text \<open>A sequence of calls of \<open>Printf\<close>; one whose arguments panic prints nothing, and nothing follows it.\<close>

fun prints :: "string option list \<Rightarrow> printed" where
  "prints [] = ([], Done)"
| "prints (None # ps) = ([], Panicked)"
| "prints (Some t # ps) = (case prints ps of (u, out) \<Rightarrow> (t @ u, out))"

definition says :: "string \<Rightarrow> printed" where
  "says t = (line t, Done)"

definition columns :: "string list \<Rightarrow> string" where
  "columns cs = line (join_with ''  '' cs)"

definition yes_no :: "bool \<Rightarrow> string" where
  "yes_no b = (if b then ''yes'' else ''no'')"

definition show_bool :: "bool \<Rightarrow> string" where
  "show_bool b = (if b then ''true'' else ''false'')"

section \<open>pingmesh monitor\<close>

definition host_target :: "monitor \<Rightarrow> string" where
  "host_target m = (if mon_port m > 0 then mon_target m @ '':'' @ show_int (mon_port m) else mon_target m)"

definition monitor_row_text :: "monitor \<Rightarrow> string option" where
  "monitor_row_text m =
     (case (truncate_to (mon_name m) 20, truncate_to (host_target m) 30) of
        (Some n, Some t) \<Rightarrow> Some (columns [pad 36 (mon_id m), pad 20 n, pad 12 (mon_check_type m), pad 30 t,
          pad 8 (yes_no (mon_enabled m))])
      | _ \<Rightarrow> None)"

definition runMonitorList :: "'w cli \<Rightarrow> string \<Rightarrow> 'w command" where
  "runMonitorList c grp = with_config c (\<lambda>cfg.
     request c ''GET'' (api_url cfg ''/monitors'' @ (if grp = [] then [] else ''?group='' @ grp)) []
       (\<lambda>resp. decoded (cd_monitors (ca_codec c) resp) (\<lambda>ms.
          if ms = [] then says ''No monitors configured.''
          else prints (Some (columns [pad 36 ''ID'', pad 20 ''NAME'', pad 12 ''TYPE'', pad 30 ''TARGET'', pad 8 ''ENABLED''])
                 # map monitor_row_text ms))))"

record add_flags =
  fl_name :: string
  fl_type :: string
  fl_target :: string
  fl_port :: int64
  fl_interval :: string
  fl_timeout :: string
  fl_group :: string
  fl_keyword :: string
  fl_status :: int64
  fl_dns_type :: string
  fl_dns_expect :: string

definition zero_monitor :: monitor where
  "zero_monitor = \<lparr>mon_id = [], mon_name = [], mon_group_name = [], mon_check_type = [], mon_target = [],
     mon_port = 0, mon_interval_ms = 0, mon_timeout_ms = 0, mon_retries = 0, mon_expected_status = 0,
     mon_expected_keyword = [], mon_dns_record_type = [], mon_dns_expected = [], mon_failure_threshold = 0,
     mon_recovery_threshold = 0, mon_quorum_type = [], mon_quorum_n = 0, mon_cooldown_ms = 0,
     mon_enabled = False, mon_created_at = 0, mon_updated_at = 0\<rparr>"

definition flag_duration :: "string \<Rightarrow> scan_error + int64" where
  "flag_duration t = (if t = [] then Inr 0 else parseDurationMS t)"

definition flag_monitor :: "add_flags \<Rightarrow> int64 \<Rightarrow> int64 \<Rightarrow> monitor" where
  "flag_monitor fl interval timeout = zero_monitor\<lparr>mon_name := fl_name fl, mon_check_type := fl_type fl,
     mon_target := fl_target fl, mon_port := fl_port fl, mon_group_name := fl_group fl,
     mon_expected_keyword := fl_keyword fl, mon_expected_status := fl_status fl,
     mon_dns_record_type := fl_dns_type fl, mon_dns_expected := fl_dns_expect fl,
     mon_interval_ms := interval, mon_timeout_ms := timeout\<rparr>"

definition runMonitorAdd :: "'w cli \<Rightarrow> add_flags \<Rightarrow> 'w command" where
  "runMonitorAdd c fl = with_config c (\<lambda>cfg w.
     if fl_name fl = [] \<or> fl_type fl = [] \<or> fl_target fl = [] then
       (([], Error ''--name, --type, and --target are required''), w)
     else case flag_duration (fl_interval fl) of
       Inl e \<Rightarrow> (([], Error (''invalid interval: '' @ cd_scan_text (ca_codec c) e)), w)
     | Inr interval \<Rightarrow>
         (case flag_duration (fl_timeout fl) of
            Inl e \<Rightarrow> (([], Error (''invalid timeout: '' @ cd_scan_text (ca_codec c) e)), w)
          | Inr timeout \<Rightarrow>
              request c ''POST'' (api_url cfg ''/monitors'')
                (cd_put_monitor (ca_codec c) (flag_monitor fl interval timeout))
                (\<lambda>resp. if rw_code resp \<noteq> 201 then
                     ([], Error (''failed to create monitor: '' @ rw_bytes resp))
                   else let m = cd_monitor (ca_codec c) resp
                     in prints (map Some [line (''Monitor created: '' @ mon_id m), line (''  Name:   '' @ mon_name m),
                          line (''  Type:   '' @ mon_check_type m), line (''  Target: '' @ mon_target m)])) w))"

definition runMonitorShow :: "'w cli \<Rightarrow> string \<Rightarrow> 'w command" where
  "runMonitorShow c k = with_config c (\<lambda>cfg. request c ''GET'' (api_url cfg (''/monitors/'' @ k)) [] (\<lambda>resp.
     if rw_code resp = 404 then ([], Error (''monitor not found: '' @ k))
     else let m = cd_monitor (ca_codec c) resp
       in prints (map Some ([line (''ID:                '' @ mon_id m), line (''Name:              '' @ mon_name m),
            line (''Group:             '' @ mon_group_name m), line (''Type:              '' @ mon_check_type m),
            line (''Target:            '' @ mon_target m)]
          @ (if mon_port m > 0 then [line (''Port:              '' @ show_int (mon_port m))] else [])
          @ [line (''Interval:          '' @ show_int (mon_interval_ms m) @ ''ms''),
             line (''Timeout:           '' @ show_int (mon_timeout_ms m) @ ''ms''),
             line (''Retries:           '' @ show_int (mon_retries m)),
             line (''Failure Threshold: '' @ show_int (mon_failure_threshold m)),
             line (''Recovery Threshold:'' @ show_int (mon_recovery_threshold m)),
             line (''Quorum:            '' @ mon_quorum_type m),
             line (''Enabled:           '' @ show_bool (mon_enabled m))]))))"

definition runMonitorEdit :: "'w cli \<Rightarrow> string \<Rightarrow> string \<Rightarrow> string \<Rightarrow> int64 \<Rightarrow> 'w command" where
  "runMonitorEdit c k name target port = with_config c (\<lambda>cfg.
     do_request c ''PUT'' (api_url cfg (''/monitors/'' @ k))
       (cd_put_monitor (ca_codec c) (zero_monitor\<lparr>mon_name := name, mon_target := target, mon_port := port\<rparr>))
       (\<lambda>resp. if rw_code resp = 404 then ([], Error (''monitor not found: '' @ k)) else says ''Monitor updated.''))"

definition runMonitorDelete :: "'w cli \<Rightarrow> string \<Rightarrow> 'w command" where
  "runMonitorDelete c k = with_config c (\<lambda>cfg.
     do_request c ''DELETE'' (api_url cfg (''/monitors/'' @ k)) [] (\<lambda>resp. says ''Monitor deleted.''))"

end
