(* ===== verification/Cli_Commands.thy ===== *)
theory Cli_Commands
  imports Cli_Monitor
begin

text \<open>
  The other commands on the local API, file by file of \<open>internal/cli\<close>: alert channels, nodes, status,
  incidents, history, health, logs and the test of the peers.
\<close>

section \<open>pingmesh alert\<close>

definition runAlertList :: "'w cli \<Rightarrow> 'w command" where
  "runAlertList c = with_config c (\<lambda>cfg. request c ''GET'' (api_url cfg ''/alerts/channels'') []
     (\<lambda>resp. decoded (cd_channels (ca_codec c) resp) (\<lambda>chs.
        if chs = [] then says ''No alert channels configured.''
        else prints (Some (columns [pad 36 ''ID'', pad 20 ''NAME'', pad 10 ''TYPE'', pad 8 ''ENABLED''])
               # map (\<lambda>ch. map_option (\<lambda>n. columns [pad 36 (ch_id ch), pad 20 n, pad 10 (ch_type ch),
                     pad 8 (yes_no (ch_enabled ch))]) (truncate_to (ch_name ch) 20)) chs))))"

text \<open>The request that \<open>add-webhook\<close> and \<open>add-email\<close> share; \<open>told\<close> is what they print of the answer.\<close>

definition create_channel ::
    "'w cli \<Rightarrow> config \<Rightarrow> string \<Rightarrow> string \<Rightarrow> string \<Rightarrow> (alert_channel \<Rightarrow> string list) \<Rightarrow> 'w command" where
  "create_channel c cfg name kind config told =
     request c ''POST'' (api_url cfg ''/alerts/channels'')
       (cd_put_channel (ca_codec c) \<lparr>ch_id = [], ch_name = name, ch_type = kind, ch_enabled = False,
          ch_config = config, ch_created_at = 0, ch_updated_at = 0\<rparr>)
       (\<lambda>resp. if rw_code resp \<noteq> 201 then ([], Error (''failed to create channel: '' @ rw_bytes resp))
          else prints (map (Some \<circ> line) (told (cd_channel (ca_codec c) resp))))"

definition runAlertAddWebhook :: "'w cli \<Rightarrow> string \<Rightarrow> string \<Rightarrow> string \<Rightarrow> 'w command" where
  "runAlertAddWebhook c name url secret = with_config c (\<lambda>cfg w.
     if name = [] \<or> url = [] then (([], Error ''--name and --url are required''), w)
     else create_channel c cfg name ''webhook''
       (cd_put_webhook (ca_codec c) \<lparr>wh_url = url, wh_secret = secret\<rparr>)
       (\<lambda>ch. [''Webhook channel created: '' @ ch_id ch, ''  Name: '' @ ch_name ch, ''  URL:  '' @ url]) w)"

definition runAlertAddEmail :: "'w cli \<Rightarrow> string \<Rightarrow> email_config \<Rightarrow> 'w command" where
  "runAlertAddEmail c name em = with_config c (\<lambda>cfg w.
     if name = [] \<or> em_to em = [] \<or> em_smtp_host em = [] \<or> em_from em = [] then
       (([], Error ''--name, --to, --smtp-host, and --from are required''), w)
     else create_channel c cfg name ''email'' (cd_put_email (ca_codec c) em)
       (\<lambda>ch. [''Email channel created: '' @ ch_id ch, ''  Name: '' @ ch_name ch, ''  To:   '' @ em_to em,
          ''  SMTP: '' @ em_smtp_host em @ '':'' @ show_int (em_smtp_port em)]) w)"

definition channel_lines :: "cli_codec \<Rightarrow> alert_channel \<Rightarrow> string list" where
  "channel_lines cd ch =
     (if ch_type ch = ''webhook'' then
        (let cfg = cd_webhook cd (ch_config ch)
         in [''URL:       '' @ wh_url cfg] @ (if wh_secret cfg \<noteq> [] then [''Secret:    (configured)''] else []))
      else if ch_type ch = ''email'' then
        (let cfg = cd_email cd (ch_config ch)
         in [''To:        '' @ em_to cfg, ''From:      '' @ em_from cfg,
             ''SMTP:      '' @ em_smtp_host cfg @ '':'' @ show_int (em_smtp_port cfg),
             ''TLS:       '' @ show_bool (em_tls cfg)])
      else [])"

definition runAlertShow :: "'w cli \<Rightarrow> string \<Rightarrow> 'w command" where
  "runAlertShow c k = with_config c (\<lambda>cfg. request c ''GET'' (api_url cfg (''/alerts/channels/'' @ k)) [] (\<lambda>resp.
     if rw_code resp = 404 then ([], Error (''alert channel not found: '' @ k))
     else let ch = cd_channel (ca_codec c) resp
       in prints (map (Some \<circ> line) ([''ID:        '' @ ch_id ch, ''Name:      '' @ ch_name ch,
            ''Type:      '' @ ch_type ch, ''Enabled:   '' @ yes_no (ch_enabled ch),
            ''Created:   '' @ cd_time (ca_codec c) ''2006-01-02T15:04:05Z07:00'' (ch_created_at ch)]
            @ channel_lines (ca_codec c) ch))))"

definition runAlertDelete :: "'w cli \<Rightarrow> string \<Rightarrow> 'w command" where
  "runAlertDelete c k = with_config c (\<lambda>cfg.
     do_request c ''DELETE'' (api_url cfg (''/alerts/channels/'' @ k)) [] (\<lambda>resp. says ''Alert channel deleted.''))"

definition runAlertTest :: "'w cli \<Rightarrow> string \<Rightarrow> 'w command" where
  "runAlertTest c k = with_config c (\<lambda>cfg.
     request c ''POST'' (api_url cfg (''/alerts/channels/'' @ k @ ''/test'')) []
       (\<lambda>resp. if rw_code resp \<noteq> 200 then ([], Error (''test failed: '' @ rw_bytes resp))
          else says ''Test alert sent successfully.''))"

definition runAlertHistory :: "'w cli \<Rightarrow> string \<Rightarrow> int64 \<Rightarrow> 'w command" where
  "runAlertHistory c channelID limit = with_config c (\<lambda>cfg.
     request c ''GET'' (api_url cfg (''/alerts/history?limit='' @ show_int limit) @
         (if channelID \<noteq> [] then ''&channel='' @ channelID else [])) []
       (\<lambda>resp. decoded (cd_records (ca_codec c) resp) (\<lambda>rs.
          if rs = [] then says ''No alert history.''
          else prints (Some (columns [pad 20 ''TIME'', pad 10 ''CHANNEL'', pad 10 ''INCIDENT'', pad 10 ''EVENT'',
                   pad 8 ''STATUS'', ''ERROR''])
                 # map (\<lambda>r. Some (columns [pad 20 (cd_time (ca_codec c) ''15:04:05'' (rec_sent_at r)),
                     pad 10 (short_id (rec_channel_id r)), pad 10 (short_id (rec_incident_id r)),
                     pad 10 (rec_event_type r), pad 8 (rec_status r), short_error (rec_error r)])) rs))))"

section \<open>pingmesh node\<close>

definition runNodeList :: "'w cli \<Rightarrow> 'w command" where
  "runNodeList c = with_config c (\<lambda>cfg. request c ''GET'' (api_url cfg ''/nodes'') []
     (\<lambda>resp. decoded (cd_nodes (ca_codec c) resp) (\<lambda>ns.
        if ns = [] then says ''No nodes found.''
        else prints (Some (columns [pad 36 ''ID'', pad 15 ''NAME'', pad 12 ''ROLE'', pad 8 ''STATUS'', ''ADDRESS''])
               # map (\<lambda>n. Some (columns [pad 36 (node_id n), pad 15 (node_name n), pad 12 (node_role n),
                   pad 8 (node_status n), node_address n])) ns))))"

definition runNodeShow :: "'w cli \<Rightarrow> string \<Rightarrow> 'w command" where
  "runNodeShow c k = with_config c (\<lambda>cfg. request c ''GET'' (api_url cfg (''/nodes/'' @ k)) [] (\<lambda>resp.
     if rw_code resp = 404 then ([], Error (''node not found: '' @ k))
     else let n = cd_node (ca_codec c) resp
       in prints (map (Some \<circ> line) [''ID:        '' @ node_id n, ''Name:      '' @ node_name n,
            ''Location:  '' @ node_location n, ''Address:   '' @ node_address n, ''Role:      '' @ node_role n,
            ''Status:    '' @ node_status n])))"

definition runNodeRemove :: "'w cli \<Rightarrow> string \<Rightarrow> 'w command" where
  "runNodeRemove c k = with_config c (\<lambda>cfg.
     do_request c ''DELETE'' (api_url cfg (''/nodes/'' @ k)) [] (\<lambda>resp. says ''Node removed.''))"

section \<open>pingmesh status, incidents and history\<close>

definition status_node :: "node \<Rightarrow> string option" where
  "status_node n = map_option (\<lambda>k. ''  '' @ columns [k, pad 15 (node_name n), pad 12 (node_role n), node_status n])
     (slice 8 (node_id n))"

definition status_incident :: "incident \<Rightarrow> string option" where
  "status_incident i =
     (case (slice 8 (inc_id i), slice 8 (inc_monitor_id i)) of
        (Some k, Some m) \<Rightarrow> Some (line (''  '' @ k @ ''  monitor='' @ m @ ''  status='' @ inc_status i))
      | _ \<Rightarrow> None)"

definition status_text :: "cluster_status \<Rightarrow> printed" where
  "status_text st = prints
     ([map_option (\<lambda>k. line (''Node:     '' @ k @ '' ('' @ st_role st @ '')'')) (slice 8 (st_node_id st)),
       Some (line (''Nodes:    '' @ show_int (int (length (st_nodes st))))),
       Some (line (''Monitors: '' @ show_int (st_monitor_count st))),
       Some (line (''Active Incidents: '' @ show_int (int (length (st_active_incidents st)))))]
      @ (if st_nodes st = [] then [] else [Some (line []), Some (line ''Nodes:'')] @ map status_node (st_nodes st))
      @ (if st_active_incidents st = [] then []
         else [Some (line []), Some (line ''Active Incidents:'')] @ map status_incident (st_active_incidents st)))"

definition runStatus :: "'w cli \<Rightarrow> 'w command" where
  "runStatus c = with_config c (\<lambda>cfg. request c ''GET'' (api_url cfg ''/status'') []
     (\<lambda>resp. decoded (cd_status (ca_codec c) resp) status_text))"

definition incident_row_text :: "cli_codec \<Rightarrow> incident \<Rightarrow> string option" where
  "incident_row_text cd i =
     (let confirming = (case inc_confirming_nodes i of None \<Rightarrow> [] | Some ns \<Rightarrow> ns) in
      case (slice 8 (inc_id i), slice 8 (inc_monitor_id i)) of
        (Some k, Some m) \<Rightarrow> Some (columns [pad 10 k, pad 10 m, pad 12 (inc_status i),
          pad 20 (cd_time cd ''2006-01-02 15:04'' (inc_started_at i)),
          if confirming = [] then ''-'' else show_int (int (length confirming)) @ '' nodes''])
      | _ \<Rightarrow> None)"

definition runIncidents :: "'w cli \<Rightarrow> bool \<Rightarrow> 'w command" where
  "runIncidents c activeOnly = with_config c (\<lambda>cfg.
     request c ''GET'' (api_url cfg ''/incidents'' @ (if activeOnly then ''?active=true'' else [])) []
       (\<lambda>resp. decoded (cd_incidents (ca_codec c) resp) (\<lambda>is.
          if is = [] then says ''No incidents found.''
          else prints (Some (columns [pad 10 ''ID'', pad 10 ''MONITOR'', pad 12 ''STATUS'', pad 20 ''STARTED'',
                   ''CONFIRMED BY''])
                 # map (incident_row_text (ca_codec c)) is))))"

definition since_query :: "cli_codec \<Rightarrow> string \<Rightarrow> string + string" where
  "since_query cd since =
     (if since = [] then Inr []
      else case cd_duration cd since of
        Inl e \<Rightarrow> Inl (''invalid --since duration: '' @ e)
      | Inr d \<Rightarrow> Inr (''&since='' @ show_int (unix_milli (cd_now_ns cd + wrap64 (- d)))))"

definition history_row_text :: "cli_codec \<Rightarrow> check_result \<Rightarrow> string" where
  "history_row_text cd r = columns [pad 20 (cd_time cd ''15:04:05'' (res_timestamp r)),
     pad 10 (short_id (res_monitor_id r)), pad 10 (short_id (res_node_id r)), pad 8 (res_status r),
     pad_left 7 (one_decimal (res_latency_ms r)) @ ''ms'', short_error (res_error r)]"

definition runHistory :: "'w cli \<Rightarrow> string \<Rightarrow> string \<Rightarrow> string \<Rightarrow> int64 \<Rightarrow> 'w command" where
  "runHistory c monitorID nodeID since limit = with_config c (\<lambda>cfg w.
     case since_query (ca_codec c) since of
       Inl e \<Rightarrow> (([], Error e), w)
     | Inr sinceText \<Rightarrow>
         request c ''GET'' (api_url cfg (''/history?limit='' @ show_int limit)
             @ (if monitorID \<noteq> [] then ''&monitor='' @ monitorID else [])
             @ (if nodeID \<noteq> [] then ''&node='' @ nodeID else []) @ sinceText) []
           (\<lambda>resp. decoded (cd_results (ca_codec c) resp) (\<lambda>rs.
              if rs = [] then says ''No results found.''
              else prints (map Some (columns [pad 20 ''TIME'', pad 10 ''MONITOR'', pad 10 ''NODE'', pad 8 ''STATUS'',
                     pad 10 ''LATENCY'', ''ERROR''] # map (history_row_text (ca_codec c)) rs)))) w)"

section \<open>pingmesh health, logs and test-peer\<close>

text \<open>The columns of the peers are separated by one blank.\<close>

definition reach_text :: "peer_status \<Rightarrow> string" where
  "reach_text p = pad 10 (yes_no (ps_reachable p)) @ '' '' @
     (if ps_reachable p then one_decimal (ps_latency_ms p) @ ''ms'' else ''-'')"

definition peer_columns :: "string \<Rightarrow> string \<Rightarrow> string \<Rightarrow> string" where
  "peer_columns name addr status = join_with '' '' [pad 20 name, pad 25 addr, pad 10 status] @ '' ''"

definition peer_heading :: "string \<Rightarrow> string" where
  "peer_heading first = line (peer_columns first ''ADDRESS'' ''STATUS'' @ pad 10 ''REACH'' @ '' LATENCY'')"

definition health_lines :: "health_info \<Rightarrow> string list" where
  "health_lines h =
     map line [''Node ID:         '' @ hi_node_id h, ''Name:            '' @ hi_name h,
       ''Role:            '' @ hi_role h, ''Uptime:          '' @ hi_uptime h,
       ''Go Version:      '' @ hi_go_version h, ''Goroutines:      '' @ show_int (hi_num_goroutines h),
       ''Memory:          '' @ one_decimal (hi_memory_mb h) @ '' MB'',
       ''DB Size:         '' @ one_decimal (hi_db_size_mb h) @ '' MB'',
       ''Active Monitors: '' @ show_int (hi_active_monitors h)]
     @ (if hi_last_heartbeat h \<noteq> [] then [line (''Last Heartbeat:  '' @ hi_last_heartbeat h)] else [])
     @ (if hi_last_config_sync h \<noteq> [] then [line (''Last Config Sync:'' @ hi_last_config_sync h)] else [])
     @ (if hi_coordinator h \<noteq> [] then [line (''Coordinator:     '' @ hi_coordinator h)] else [])
     @ (if hi_peers h = [] then []
        else [line [], peer_heading ''PEER''] @
          map (\<lambda>p. line (peer_columns (ps_name p) (ps_address p) (ps_status p) @ reach_text p)) (hi_peers h))"

definition runHealth :: "'w cli \<Rightarrow> 'w command" where
  "runHealth c = with_config c (\<lambda>cfg. request c ''GET'' (api_url cfg ''/health'') []
     (\<lambda>resp. decoded (cd_health (ca_codec c) resp) (\<lambda>h. prints (map Some (health_lines h)))))"

definition runLogs :: "'w cli \<Rightarrow> int64 \<Rightarrow> 'w command" where
  "runLogs c n = with_config c (\<lambda>cfg. request c ''GET'' (api_url cfg (''/logs?lines='' @ show_int n)) []
     (\<lambda>resp. decoded (cd_entries (ca_codec c) resp) (\<lambda>es.
        prints (map (\<lambda>e. Some (line (cd_stamp (ca_codec c) (en_time e) @ ''  '' @ en_message e))) es))))"

definition test_peer_line :: "peer_status \<Rightarrow> string" where
  "test_peer_line p = line (peer_columns (ps_name p) (ps_address p) (ps_status p) @ reach_text p @
     (if ps_error p \<noteq> [] then ''  ('' @ ps_error p @ '')'' else []))"

definition runTestPeer :: "'w cli \<Rightarrow> string \<Rightarrow> 'w command" where
  "runTestPeer c nodeID = with_config c (\<lambda>cfg.
     request c ''GET'' (api_url cfg ''/test-peer'' @ (if nodeID \<noteq> [] then ''?node='' @ QueryEscape nodeID else [])) []
       (\<lambda>resp. decoded (cd_peers (ca_codec c) resp) (\<lambda>ps.
          if ps = [] then says ''No peers found.''
          else prints (map Some (peer_heading ''NAME'' # map test_peer_line ps)))))"

end
