(* ===== verification/Cli_Properties.thy ===== *)
theory Cli_Properties
  imports Cli_Commands Api_Properties
begin

text \<open>
  What the commands do, with the local agent behind them: the requests of the client go through the
  routing table to the handlers and the SQLite store.
\<close>

section \<open>Requests that reach the agent\<close>

text \<open>An id as the server makes them: letters, digits, hyphens, underscores and tildes.\<close>

definition plain_id :: "string \<Rightarrow> bool" where
  "plain_id k \<longleftrightarrow> k \<noteq> [] \<and> list_all (\<lambda>c. unreserved c \<and> c \<noteq> CHR ''.'') k"

lemma unreserved_no: "\<not> unreserved (CHR ''/'')" "\<not> unreserved (CHR ''?'')" "\<not> unreserved (CHR ''%'')"
    "\<not> unreserved (CHR ''+'')" "\<not> unreserved (CHR ''&'')" "\<not> unreserved (CHR ''='')" "\<not> unreserved (CHR '';'')"
    "\<not> unreserved (CHR '' '')"
  by (simp_all add: unreserved_def Let_def)

lemma unescape_plain: "list_all unreserved s \<Longrightarrow> unescape b s = Some s"
  using unreserved_no by (induction s) auto

lemma split_on_none: "c \<notin> set s \<Longrightarrow> split_on c s = [s]"
  by (induction s) auto

lemma split_on_piece: "c \<notin> set a \<Longrightarrow> split_on c (a @ c # s) = a # split_on c s"
  by (induction a) auto

lemma cut_at_none: "c \<notin> set s \<Longrightarrow> cut_at c s = (s, [])"
  by (induction s) (auto simp: cut_at_def)

lemma cut_at_piece: "c \<notin> set a \<Longrightarrow> cut_at c (a @ c # s) = (a, s)"
  by (induction a) (auto simp: cut_at_def)

lemma plain_id_parts:
  assumes "plain_id k"
  shows "CHR ''/'' \<notin> set k" "CHR ''?'' \<notin> set k" "k \<noteq> []" "k \<noteq> ''.''" "k \<noteq> ''..''" "lenient k = k"
proof -
  have u: "list_all unreserved k" and dot: "\<forall>c \<in> set k. c \<noteq> CHR ''.''" and ne: "k \<noteq> []"
    using assms by (auto simp: plain_id_def list_all_iff)
  have no: "c \<notin> set k" if "\<not> unreserved c" for c
    using u that by (auto simp: list_all_iff)
  show "CHR ''/'' \<notin> set k" "CHR ''?'' \<notin> set k" by (rule no [OF unreserved_no(1)], rule no [OF unreserved_no(2)])
  show "k \<noteq> []" by (fact ne)
  have "hd k \<noteq> CHR ''.''" using dot ne hd_in_set by blast
  then show "k \<noteq> ''.''" "k \<noteq> ''..''" by (metis list.sel(1))+
  show "lenient k = k" by (simp add: lenient_def unescape_plain [OF u])
qed

lemma local_request:
  "local_agent addr st sv meth (''http://'' @ addr @ ''/api/v1'' @ path) body s
    = serve_cli st sv meth (''/api/v1'' @ path) body s"
proof -
  define p where "p = ''http://'' @ addr"
  have "has_prefix (p @ ''/'') (p @ ''/api/v1'' @ path)" by (simp add: has_prefix_def)
  then show ?thesis by (simp add: local_agent_def p_def [symmetric] flip: append_assoc) (simp add: p_def)
qed

lemma request_local:
  assumes "ca_http c = local_agent (cfg_cli_addr cfg) st sv"
    and "serve_cli st sv meth (''/api/v1'' @ path) body s = (Inr r, s1)"
  shows "request c meth (api_url cfg path) body k s = (k r, s1)"
  unfolding request_def api_url_def assms(1) local_request assms(2) by simp

lemma api_url_append: "api_url cfg (p @ q) = api_url cfg p @ q"
  by (simp add: api_url_def)

lemma serve_collection:
  assumes "registerCLIRoutes st sv meth [''monitors''] [] body s = Some (Inr resp, s1)"
  shows "serve_cli st sv meth (''/api/v1'' @ ''/monitors'') body s
    = (Inr \<lparr>rw_code = rs_code resp, rw_bytes = sv_encode sv (rs_body resp) @ [CHR 0x0A], rw_broken = None\<rparr>, s1)"
  using assms by (simp add: serve_cli_def cut_at_def clean_path_def lenient_def)

lemma serve_member:
  assumes "registerCLIRoutes st sv meth [''monitors'', k] [] body s = Some (Inr resp, s1)" and "plain_id k"
  shows "serve_cli st sv meth (''/api/v1'' @ ''/monitors/'' @ k) body s
    = (Inr \<lparr>rw_code = rs_code resp, rw_bytes = sv_encode sv (rs_body resp) @ [CHR 0x0A], rw_broken = None\<rparr>, s1)"
proof -
  note k = plain_id_parts [OF assms(2)]
  have "cut_at (CHR ''?'') (''/api/v1/monitors/'' @ k) = (''/api/v1/monitors/'' @ k, [])"
    using k(2) by (intro cut_at_none) simp
  moreover have "split_on (CHR ''/'') (''/api/v1/monitors/'' @ k) = [[], ''api'', ''v1'', ''monitors'', k]"
    using split_on_none [OF k(1)] by simp
  moreover have "lenient ''api'' = ''api''" "lenient ''v1'' = ''v1''" "lenient ''monitors'' = ''monitors''"
    by (simp_all add: lenient_def)
  ultimately show ?thesis
    using assms(1) k by (simp add: serve_cli_def clean_path_def)
qed

section \<open>Adding a monitor\<close>

text \<open>C32: an added monitor is the one that was asked for. If the flags parse and the codecs of the two sides
  agree, \<open>monitor add\<close> succeeds, prints the id that the agent has made, and leaves one more monitor in
  the database, with the name, type, target, port, group and expectations of the flags, their interval
  and timeout, the defaults of the API for everything else, and enabled.\<close>

theorem added_monitor_is_stored:
  assumes "ca_config c = Inr cfg"
    and "ca_http c = local_agent (cfg_cli_addr cfg) (sqlite_store (quiet eng)) sv"
    and "sv_monitor sv (cd_put_monitor (ca_codec c) (flag_monitor fl interval timeout))
      = Inr (flag_monitor fl interval timeout)"
    and "cd_monitor (ca_codec c) \<lparr>rw_code = 201, rw_bytes = sv_encode sv (MonitorBody (new_monitor (sv_uuid sv) (sv_now sv)
      (flag_monitor fl interval timeout))) @ [CHR 0x0A], rw_broken = None\<rparr>
      = new_monitor (sv_uuid sv) (sv_now sv) (flag_monitor fl interval timeout)"
    and "fl_name fl \<noteq> []" "fl_type fl \<noteq> []" "fl_target fl \<noteq> []"
    and "flag_duration (fl_interval fl) = Inr interval" "flag_duration (fl_timeout fl) = Inr timeout"
    and "\<not> has_key mr_id (sv_uuid sv) (db_monitors s)"
  shows "\<exists>m s'. runMonitorAdd c fl s = ((''Monitor created: '' @ sv_uuid sv @ [CHR 0x0A] @
        ''  Name:   '' @ fl_name fl @ [CHR 0x0A] @ ''  Type:   '' @ fl_type fl @ [CHR 0x0A] @
        ''  Target: '' @ fl_target fl @ [CHR 0x0A], Done), s') \<and>
    mset (map scanMonitor (db_monitors s')) = add_mset m (mset (map scanMonitor (db_monitors s))) \<and>
    mon_id m = sv_uuid sv \<and> mon_name m = fl_name fl \<and> mon_check_type m = fl_type fl \<and>
    mon_target m = fl_target fl \<and> mon_port m = fl_port fl \<and> mon_group_name m = fl_group fl \<and>
    mon_expected_status m = fl_status fl \<and> mon_expected_keyword m = fl_keyword fl \<and>
    mon_interval_ms m = (if interval = 0 then 60000 else interval) \<and>
    mon_timeout_ms m = (if timeout = 0 then 5000 else timeout) \<and> mon_failure_threshold m = 3 \<and>
    mon_recovery_threshold m = 2 \<and> mon_quorum_type m = ''majority'' \<and> mon_enabled m \<and>
    mon_dns_record_type m = fl_dns_type fl \<and> mon_dns_expected m = fl_dns_expect fl \<and> mon_retries m = 1 \<and>
    mon_quorum_n m = 0 \<and> mon_cooldown_ms m = 300000 \<and> mon_created_at m = sv_now sv \<and> mon_updated_at m = sv_now sv"
proof -
  let ?f = "flag_monitor fl interval timeout" and ?st = "sqlite_store (quiet eng)"
  let ?m = "new_monitor (sv_uuid sv) (sv_now sv) ?f"
  define s' where "s' = (tick s)\<lparr>db_monitors := db_monitors s @ [bind_monitor ?m]\<rparr>"
  have s'_monitors: "db_monitors s' = db_monitors s @ [bind_monitor ?m]" by (simp add: s'_def)
  have "row_insert mr_id (bind_monitor ?m) (db_monitors (tick s)) = Some (db_monitors s @ [bind_monitor ?m])"
    using assms(10) by (simp add: row_insert_Some new_monitor_fields(6))
  then have "sqlite_CreateMonitor (quiet eng) ?m s = (Inr (), s')"
    by (simp add: sqlite_CreateMonitor_def db_exec_def s'_def)
  then have "handleCreateMonitor ?st (sv_error_text sv) (sv_uuid sv) (sv_now sv) (Inr ?f) s
      = (writeJSON 201 (MonitorBody ?m), s')"
    by (simp add: handleCreateMonitor_def)
  then have "registerCLIRoutes ?st sv ''POST'' [''monitors''] [] (cd_put_monitor (ca_codec c) ?f) s
      = Some (Inr (writeJSON 201 (MonitorBody ?m)), s')"
    using assms(3) by (simp add: registerCLIRoutes_def handled_def)
  note sent = request_local [OF assms(2) serve_collection [OF this]]
  have "runMonitorAdd c fl s = (prints (map Some [line (''Monitor created: '' @ mon_id ?m), line (''  Name:   '' @ mon_name ?m),
      line (''  Type:   '' @ mon_check_type ?m), line (''  Target: '' @ mon_target ?m)]), s')"
    using assms(1,4-9) by (simp add: runMonitorAdd_def with_config_def sent Let_def)
  moreover have "mset (map scanMonitor (db_monitors s')) = add_mset ?m (mset (map scanMonitor (db_monitors s)))"
    by (simp add: s'_monitors)
  ultimately show ?thesis
    by (intro exI [of _ ?m] exI [of _ s'])
      (simp add: line_def new_monitor_def flag_monitor_def zero_monitor_def or_default_def)
qed

text \<open>A client and an agent for concrete runs, whose codecs know one monitor.\<close>

definition demo_flags :: add_flags where
  "demo_flags = \<lparr>fl_name = ''web'', fl_type = ''tcp'', fl_target = ''h'', fl_port = 80, fl_interval = ''2m'',
     fl_timeout = [], fl_group = [], fl_keyword = [], fl_status = 0, fl_dns_type = [], fl_dns_expect = []\<rparr>"

definition demo_asked :: monitor where
  "demo_asked = flag_monitor demo_flags 120000 0"

definition demo_agent :: cli_server where
  "demo_agent = \<lparr>sv_config = DefaultConfig, sv_error_text = (\<lambda>_. ''e''), sv_uuid = ''n'', sv_now = 7,
     sv_monitor = (\<lambda>_. Inr demo_asked), sv_channel = (\<lambda>_. Inl ''e''), sv_valid = (\<lambda>_. True),
     sv_encode = (\<lambda>_. ''{}''), sv_logs = None, sv_alerts = None, sv_test_sent = 0, sv_dial = (\<lambda>_. Inl ''e''),
     sv_runtime = \<lparr>rt_version = ''go'', rt_goroutines = 1, rt_alloc = 0, rt_db_size = None\<rparr>, sv_agent = None,
     sv_rfc3339 = (\<lambda>_. []), sv_now_ns = 0, sv_file_exists = (\<lambda>_. False),
     sv_file_server = (\<lambda>_. \<lparr>rw_code = 200, rw_bytes = [], rw_broken = None\<rparr>),
     sv_redirect = (\<lambda>_. \<lparr>rw_code = 301, rw_bytes = [], rw_broken = None\<rparr>)\<rparr>"

definition demo_cli_codec :: cli_codec where
  "demo_cli_codec = \<lparr>cd_scan_text = (\<lambda>_. ''e''), cd_time = (\<lambda>_ _. []), cd_stamp = (\<lambda>_. []),
     cd_duration = (\<lambda>_. Inl ''e''), cd_now_ns = 0, cd_monitors = (\<lambda>_. Inr []),
     cd_monitor = (\<lambda>_. new_monitor ''n'' 7 demo_asked), cd_nodes = (\<lambda>_. Inr []), cd_node = (\<lambda>_. node_a),
     cd_channels = (\<lambda>_. Inr []), cd_channel = (\<lambda>_. channel_c), cd_records = (\<lambda>_. Inr []),
     cd_results = (\<lambda>_. Inr []), cd_incidents = (\<lambda>_. Inr []), cd_status = (\<lambda>_. Inl ''e''),
     cd_health = (\<lambda>_. Inl ''e''), cd_entries = (\<lambda>_. Inr []), cd_peers = (\<lambda>_. Inr [probe (\<lambda>_. Inl ''e'') node_a]),
     cd_webhook = (\<lambda>_. \<lparr>wh_url = [], wh_secret = []\<rparr>),
     cd_email = (\<lambda>_. \<lparr>em_smtp_host = [], em_smtp_port = 0, em_username = [], em_password = [], em_from = [],
       em_to = [], em_tls = False\<rparr>), cd_put_monitor = (\<lambda>_. ''{}''), cd_put_channel = (\<lambda>_. ''{}''),
     cd_put_webhook = (\<lambda>_. ''{}''), cd_put_email = (\<lambda>_. ''{}'')\<rparr>"

definition demo_cli :: "db cli" where
  "demo_cli = \<lparr>ca_config = Inr DefaultConfig,
     ca_http = local_agent (cfg_cli_addr DefaultConfig) (sqlite_store (quiet plain_engine)) demo_agent,
     ca_request_error = (\<lambda>_. None), ca_codec = demo_cli_codec\<rparr>"

lemma demo_cli_simps:
  "ca_config demo_cli = Inr DefaultConfig" "ca_request_error demo_cli u = None"
  "ca_http demo_cli = local_agent (cfg_cli_addr DefaultConfig) (sqlite_store (quiet plain_engine)) demo_agent"
  "sv_monitor demo_agent t = Inr demo_asked" "sv_uuid demo_agent = ''n''" "sv_now demo_agent = 7"
  "cd_monitor (ca_codec demo_cli) r = new_monitor ''n'' 7 demo_asked"
  by (simp_all add: demo_cli_def demo_agent_def demo_cli_codec_def)

lemma demo_flag_durations:
  "flag_duration (fl_interval demo_flags) = Inr 120000" "flag_duration (fl_timeout demo_flags) = Inr 0"
  by code_simp+

lemma added_monitor_is_stored_witness:
  "\<exists>m s'. snd (runMonitorAdd demo_cli demo_flags db_setup) = s' \<and>
    mset (map scanMonitor (db_monitors s')) = add_mset m (mset (map scanMonitor (db_monitors db_setup))) \<and>
    mon_id m = ''n'' \<and> mon_interval_ms m = 120000 \<and> mon_timeout_ms m = 5000"
proof -
  have "\<not> has_key mr_id (sv_uuid demo_agent) (db_monitors db_setup)"
    unfolding demo_cli_simps by code_simp
  moreover have "fl_name demo_flags \<noteq> []" "fl_type demo_flags \<noteq> []" "fl_target demo_flags \<noteq> []"
    by (simp_all add: demo_flags_def)
  ultimately show ?thesis
    using added_monitor_is_stored [of demo_cli DefaultConfig plain_engine demo_agent demo_flags 120000 0 db_setup]
    unfolding demo_cli_simps demo_asked_def [symmetric] demo_flag_durations by fastforce
qed

section \<open>Deleting a monitor\<close>

text \<open>C33: \<open>monitor delete\<close> claims success whatever the agent answers: for a monitor with a stored result or
  incident the agent answers 500 and deletes nothing, and the command still prints that the monitor was
  deleted and ends without an error.\<close>

theorem delete_claims_success:
  assumes "ca_config c = Inr cfg"
    and "ca_http c = local_agent (cfg_cli_addr cfg) (sqlite_store eng) sv"
    and "ca_request_error c (api_url cfg (''/monitors/'' @ k)) = None"
    and "plain_id k" and "has_key mr_id k (db_monitors s)"
    and "has_key rr_monitor_id k (db_results s) \<or> has_key ir_monitor_id k (db_incidents s)"
  shows "runMonitorDelete c k s = ((''Monitor deleted.'' @ [CHR 0x0A], Done), tick s) \<and>
    has_key mr_id k (db_monitors (tick s))"
proof -
  obtain resp s' where h: "handleDeleteMonitor (sqlite_store eng) (sv_error_text sv) k s = (resp, s')" by fastforce
  with used_monitor_stays [OF assms(5,6)] have s': "s' = tick s" by blast
  have "registerCLIRoutes (sqlite_store eng) sv ''DELETE'' [''monitors'', k] [] [] s = Some (Inr resp, s')"
    using h plain_id_parts(3) [OF assms(4)] by (simp add: registerCLIRoutes_def handled_def)
  note sent = request_local [OF assms(2) serve_member [OF this assms(4)]]
  have "runMonitorDelete c k s = (says ''Monitor deleted.'', s')"
    using assms(1,3) sent by (simp add: runMonitorDelete_def with_config_def do_request_def)
  with assms(5) show ?thesis by (simp add: says_def line_def s' tick_def)
qed

lemma delete_claims_success_witness:
  "runMonitorDelete demo_cli ''m'' db_down = ((''Monitor deleted.'' @ [CHR 0x0A], Done), tick db_down)"
proof -
  have "plain_id ''m''" "has_key mr_id ''m'' (db_monitors db_down)" "has_key rr_monitor_id ''m'' (db_results db_down)"
    by code_simp+
  then show ?thesis
    using delete_claims_success [of demo_cli DefaultConfig "quiet plain_engine" demo_agent "''m''" db_down]
    unfolding demo_cli_simps by blast
qed

section \<open>Durations\<close>



section \<open>Asking for one peer\<close>

lemma hex_digit_value: "n < 16 \<Longrightarrow> hex_value (hex_digit n) = Some n"
  by (auto simp: hex_value_def hex_digit_def byte_def Let_def)

lemma unescape_QueryEscape: "unescape True (QueryEscape s) = Some s"
proof (induction s)
  case (Cons c s)
  have "(of_char c :: nat) < 256" by (simp add: of_char_def)
  then have "(of_char c :: nat) div 16 < 16" by (simp add: less_mult_imp_div_less)
  then have "hex_value (hex_digit (of_char c div 16)) = Some (of_char c div 16)"
    "hex_value (hex_digit (of_char c mod 16)) = Some (of_char c mod 16)"
    by (simp_all add: hex_digit_value)
  moreover have "char_of (16 * (of_char c div 16) + of_char c mod 16 :: nat) = c" by simp
  ultimately have coded: "unescape True ([CHR ''%'', hex_digit (of_char c div 16), hex_digit (of_char c mod 16)] @ t)
      = map_option (\<lambda>u. c # u) (unescape True t)" for t by simp
  consider "unreserved c" | "\<not> unreserved c" "c = CHR '' ''" | "\<not> unreserved c" "c \<noteq> CHR '' ''" by blast
  then show ?case
  proof cases
    case 1
    then have "c \<noteq> CHR ''%''" "c \<noteq> CHR ''+''" using unreserved_no(3,4) by blast+
    with 1 Cons show ?thesis by simp
  next
    case 2
    with Cons show ?thesis by simp
  next
    case 3
    then show ?thesis unfolding QueryEscape.simps using coded Cons by simp
  qed
qed simp

lemma QueryEscape_safe:
  assumes "c \<in> set (QueryEscape s)"
  shows "unreserved c \<or> c = CHR ''+'' \<or> c = CHR ''%''"
proof -
  have "unreserved (hex_digit n)" if "n < 16" for n
    using that by (auto simp: unreserved_def hex_digit_def Let_def)
  moreover have "(of_char x :: nat) div 16 < 16" "(of_char x :: nat) mod 16 < 16" for x :: char
    using less_mult_imp_div_less [of "of_char x" 16 16] by (simp_all add: of_char_def)
  ultimately show ?thesis using assms by (induction s) (auto split: if_splits)
qed

lemma query_get_escaped: "query_get (''node='' @ QueryEscape x) ''node'' = x"
proof -
  have no: "c \<notin> set (QueryEscape x)" if "\<not> unreserved c" "c \<noteq> CHR ''+''" "c \<noteq> CHR ''%''" for c
    using QueryEscape_safe that by blast
  have "CHR ''&'' \<notin> set (QueryEscape x)" by (rule no [OF unreserved_no(5)]) simp_all
  then have "split_on (CHR ''&'') (''node='' @ QueryEscape x) = [''node='' @ QueryEscape x]"
    by (intro split_on_none) simp
  moreover have "cut_at (CHR ''='') (''node='' @ QueryEscape x) = (''node'', QueryEscape x)"
    using cut_at_piece [of "CHR ''=''" "''node''" "QueryEscape x"] by simp
  moreover have "CHR '';'' \<notin> set (QueryEscape x)" by (rule no [OF unreserved_no(7)]) simp_all
  ultimately have "List.map_filter query_pair (split_on (CHR ''&'') (''node='' @ QueryEscape x)) = [(''node'', x)]"
    by (simp add: map_filter_simps query_pair_def unescape_QueryEscape)
  then show ?thesis by (simp add: query_get_def)
qed

lemma serve_test_peer:
  assumes "handleTestPeer st (sv_config sv) (sv_dial sv) x s = (resp, s1)"
  shows "serve_cli st sv ''GET'' (''/api/v1'' @ ''/test-peer'' @ (if x \<noteq> [] then ''?node='' @ QueryEscape x else [])) [] s
    = (Inr \<lparr>rw_code = rs_code resp, rw_bytes = sv_encode sv (rs_body resp) @ [CHR 0x0A], rw_broken = None\<rparr>, s1)"
proof -
  define q where "q = (if x \<noteq> [] then ''node='' @ QueryEscape x else [])"
  have q: "query_get q ''node'' = x"
  proof (cases "x = []")
    case True
    then show ?thesis by (simp add: q_def query_get_def map_filter_simps query_pair_def)
  next
    case False
    then show ?thesis unfolding q_def using query_get_escaped [of x] by presburger
  qed
  then have route: "registerCLIRoutes st sv ''GET'' [''test-peer''] q [] s = Some (Inr resp, s1)"
    using assms by (simp add: registerCLIRoutes_def handled_def)
  have cut: "cut_at (CHR ''?'') (''/api/v1'' @ ''/test-peer'' @ (if x \<noteq> [] then ''?node='' @ QueryEscape x else []))
      = (''/api/v1/test-peer'', q)"
    by (cases "x = []") (simp_all add: q_def cut_at_def)
  have "clean_path ''/api/v1/test-peer''" "split_on (CHR ''/'') ''/api/v1/test-peer'' = [[], ''api'', ''v1'', ''test-peer'']"
    "lenient ''api'' = ''api''" "lenient ''v1'' = ''v1''" "lenient ''test-peer'' = ''test-peer''"
    by code_simp+
  then show ?thesis unfolding serve_cli_def cut by (simp add: route)
qed

lemma prints_all: "prints (map Some ts) = (concat ts, Done)"
  by (induction ts) simp_all

text \<open>C35: \<open>test-peer\<close> asks for exactly the node of its flag, whatever bytes the flag holds: the agent decodes
  the escaped query back to it and probes the other nodes with this id, or all of them if the flag is
  empty, and the command prints one line for each of them.\<close>

theorem test_peer_asks_for_node:
  assumes "ca_config c = Inr cfg"
    and "ca_http c = local_agent (cfg_cli_addr cfg) (sqlite_store (quiet eng)) sv"
    and "\<forall>ps. fst (handleTestPeer (sqlite_store (quiet eng)) (sv_config sv) (sv_dial sv) nodeID s)
        = writeJSON 200 (PeersBody (Some ps)) \<longrightarrow>
      cd_peers (ca_codec c) \<lparr>rw_code = 200, rw_bytes = sv_encode sv (PeersBody (Some ps)) @ [CHR 0x0A], rw_broken = None\<rparr> = Inr ps"
  shows "\<exists>ps. mset ps = mset (map (probe (sv_dial sv)) (filter (\<lambda>n. node_id n \<noteq> cfg_node_id (sv_config sv) \<and>
      (nodeID = [] \<or> node_id n = nodeID)) (db_nodes s))) \<and>
    runTestPeer c nodeID s = ((if ps = [] then ''No peers found.'' @ [CHR 0x0A]
      else peer_heading ''NAME'' @ concat (map test_peer_line ps), Done), tick s)"
proof -
  let ?st = "sqlite_store (quiet eng)"
  obtain ns where l: "sqlite_ListNodes (quiet eng) s = (Inr ns, tick s)" and ns: "mset ns = mset (db_nodes s)"
    by (simp add: sqlite_ListNodes_def db_query_def)
  define ps where "ps = map (probe (sv_dial sv)) (filter (\<lambda>n. \<not> (node_id n = cfg_node_id (sv_config sv)) \<and>
    \<not> (nodeID \<noteq> [] \<and> node_id n \<noteq> nodeID)) ns)"
  have h: "handleTestPeer ?st (sv_config sv) (sv_dial sv) nodeID s = (writeJSON 200 (PeersBody (Some ps)), tick s)"
    by (simp add: handleTestPeer_def probePeers_def l ps_def)
  note sent = request_local [OF assms(2) serve_test_peer [OF h], unfolded api_url_append]
  have "runTestPeer c nodeID s = ((if ps = [] then ''No peers found.'' @ [CHR 0x0A]
      else peer_heading ''NAME'' @ concat (map test_peer_line ps), Done), tick s)"
  proof -
    have "cd_peers (ca_codec c) \<lparr>rw_code = 200, rw_bytes = sv_encode sv (PeersBody (Some ps)) @ [CHR 0x0A], rw_broken = None\<rparr>
        = Inr ps"
      using assms(3) h by simp
    with sent show ?thesis
      using assms(1) prints_all [of "peer_heading ''NAME'' # map test_peer_line ps"]
      by (simp add: runTestPeer_def with_config_def decoded_def says_def line_def comp_def)
  qed
  moreover have "mset ps = mset (map (probe (sv_dial sv)) (filter (\<lambda>n. node_id n \<noteq> cfg_node_id (sv_config sv) \<and>
      (nodeID = [] \<or> node_id n = nodeID)) (db_nodes s)))"
    by (simp add: ps_def ns imp_conv_disj)
  ultimately show ?thesis by blast
qed

lemma test_peer_asks_for_node_witness:
  "runTestPeer demo_cli ''a'' db_setup
    = ((peer_heading ''NAME'' @ test_peer_line (probe (\<lambda>_. Inl ''e'') node_a), Done), tick db_setup)"
proof -
  let ?st = "sqlite_store (quiet plain_engine)"
  have dial: "sv_dial demo_agent = (\<lambda>_. Inl ''e'')" by (simp add: demo_agent_def)
  have nodes: "filter (\<lambda>n. node_id n \<noteq> cfg_node_id (sv_config demo_agent) \<and> (''a'' = [] \<or> node_id n = ''a''))
      (db_nodes db_setup) = [node_a]"
    by code_simp
  have "fst (handleTestPeer ?st (sv_config demo_agent) (sv_dial demo_agent) ''a'' db_setup)
      = writeJSON 200 (PeersBody (Some [probe (\<lambda>_. Inl ''e'') node_a]))"
    by code_simp
  then have "\<forall>ps. fst (handleTestPeer ?st (sv_config demo_agent) (sv_dial demo_agent) ''a'' db_setup)
        = writeJSON 200 (PeersBody (Some ps)) \<longrightarrow>
      cd_peers (ca_codec demo_cli) \<lparr>rw_code = 200, rw_bytes = sv_encode demo_agent (PeersBody (Some ps)) @ [CHR 0x0A],
        rw_broken = None\<rparr> = Inr ps"
    by (simp add: writeJSON_def demo_cli_def demo_cli_codec_def)
  from test_peer_asks_for_node [of demo_cli DefaultConfig, OF demo_cli_simps(1,3) this]
  obtain ps where ps: "mset ps = {# probe (\<lambda>_. Inl ''e'') node_a #}"
    "runTestPeer demo_cli ''a'' db_setup = ((if ps = [] then ''No peers found.'' @ [CHR 0x0A]
      else peer_heading ''NAME'' @ concat (map test_peer_line ps), Done), tick db_setup)"
    unfolding nodes dial by auto
  from ps(1) have "ps = [probe (\<lambda>_. Inl ''e'') node_a]" by simp
  with ps(2) show ?thesis by simp
qed

end
