(* ===== verification/Responses.thy ===== *)
theory Responses
  imports Requests Cli_Properties
begin

text \<open>Whatever the request, the local API answers in one form, and a \<open>GET\<close> writes nothing.\<close>

section \<open>The form of a response\<close>

definition proper_response :: "response \<Rightarrow> bool" where
  "proper_response resp \<longleftrightarrow> (case rs_body resp of
     ErrorBody _ \<Rightarrow> rs_code resp \<in> {400, 404, 500, 503}
   | _ \<Rightarrow> rs_code resp \<in> {200, 201})"

lemma proper_simps [simp]:
  "proper_response (writeError c e) \<longleftrightarrow> c \<in> {400, 404, 500, 503}"
  "proper_response (writeJSON c (StatusBody x)) \<longleftrightarrow> c \<in> {200, 201}"
  by (simp_all add: proper_response_def writeError_def)

lemma proper_answers:
  "(\<And>x. \<forall>e. b x \<noteq> ErrorBody e) \<Longrightarrow> proper_response (fst (answer txt b p))"
  "(\<And>x. \<forall>e. c x \<noteq> ErrorBody e) \<Longrightarrow> proper_response (fst (answer_found txt m c q))"
  "proper_response (fst (acknowledge txt d r))"
  by (auto simp: answer_def answer_found_def acknowledge_def split: sum.splits prod.splits option.splits)
    (auto simp: proper_response_def split: json_body.splits)

lemma proper_bodies:
  "proper_response (writeJSON 200 (ClusterBody c))" "proper_response (writeJSON 200 (PeersBody ps))"
  "proper_response (writeJSON 200 (HealthBody h))" "proper_response (writeJSON 200 (EntriesBody es))"
  "proper_response (writeJSON 200 (MonitorBody m))" "proper_response (writeJSON 201 (MonitorBody m))"
  "proper_response (writeJSON 200 (ChannelBody ch))" "proper_response (writeJSON 201 (ChannelBody ch))"
  by (simp_all add: proper_response_def)

lemma proper_handlers:
  "proper_response (fst (handleListNodes st txt s))" "proper_response (fst (handleGetNode st txt k s))"
  "proper_response (fst (handleDeleteNode st txt k s))" "proper_response (fst (handleListMonitors st txt g s))"
  "proper_response (fst (handleGetMonitor st txt k s))" "proper_response (fst (handleDeleteMonitor st txt k s))"
  "proper_response (fst (handleListIncidents st txt g s))" "proper_response (fst (handleHistory st txt k g a l s))"
  "proper_response (fst (handleListAlertChannels st txt s))" "proper_response (fst (handleGetAlertChannel st txt k s))"
  "proper_response (fst (handleDeleteAlertChannel st txt k s))" "proper_response (fst (handleAlertHistory st txt k l s))"
  by (simp_all add: handleListNodes_def handleGetNode_def handleDeleteNode_def handleListMonitors_def
      handleGetMonitor_def handleDeleteMonitor_def handleListIncidents_def handleHistory_def
      handleListAlertChannels_def handleGetAlertChannel_def handleDeleteAlertChannel_def handleAlertHistory_def
      proper_answers)

lemma proper_other_handlers:
  "proper_response (fst (handleStatus st cfg s))" "proper_response (fst (handleTestPeer st cfg dial f s))"
  "proper_response (fst (handleHealth st cfg rt ai rfc now dial s))"
  "proper_response (fst (handleCreateMonitor st txt u now m s))"
  "proper_response (fst (handleUpdateMonitor st txt k now m s))"
  "proper_response (fst (handleCreateAlertChannel st txt valid u now c s))"
  "proper_response (fst (handleUpdateAlertChannel st txt valid k now c s))"
  "proper_response (fst (handleTestAlertChannel st disp now sentAt k s))"
  by (auto simp: handleStatus_def handleTestPeer_def handleHealth_def handleCreateMonitor_def
      handleUpdateMonitor_def handleCreateAlertChannel_def handleUpdateAlertChannel_def
      handleTestAlertChannel_def Let_def proper_bodies split: sum.splits prod.splits option.splits)

lemma handleLogs_answers: "\<exists>resp. handleLogs buf q = Inr resp \<and> proper_response resp"
proof (cases buf)
  case (Some b)
  have "0 < positive_or 100 q" by (simp add: positive_or_pos)
  then have "\<exists>es. Last (positive_or 100 q) b = Inr es"
    unfolding Last_def Let_def by (simp split: if_splits)
  then obtain es where "Last (positive_or 100 q) b = Inr es" by blast
  with Some show ?thesis by (auto simp: handleLogs_def proper_bodies split: option.splits)
qed (simp add: handleLogs_def)

section \<open>Requests that only read\<close>

definition reads :: "db \<Rightarrow> db \<Rightarrow> bool" where
  "reads s t \<longleftrightarrow> t = s\<lparr>db_stmts := db_stmts t\<rparr>"

lemma reads_refl [simp]: "reads s s" by (simp add: reads_def)

lemma reads_tick [simp]: "reads s (tick s)" by (simp add: reads_def tick_def)

lemma reads_trans: "reads s t \<Longrightarrow> reads t u \<Longrightarrow> reads s u"
  unfolding reads_def by (metis db.surjective db.update_convs(11))

lemma getting_handlers_read:
  "reads s (snd (handleListNodes (sqlite_store eng) txt s))"
  "reads s (snd (handleGetNode (sqlite_store eng) txt k s))"
  "reads s (snd (handleListMonitors (sqlite_store eng) txt g s))"
  "reads s (snd (handleGetMonitor (sqlite_store eng) txt k s))"
  "reads s (snd (handleListIncidents (sqlite_store eng) txt g s))"
  "reads s (snd (handleHistory (sqlite_store eng) txt k g a l s))"
  "reads s (snd (handleListAlertChannels (sqlite_store eng) txt s))"
  "reads s (snd (handleGetAlertChannel (sqlite_store eng) txt k s))"
  "reads s (snd (handleAlertHistory (sqlite_store eng) txt k l s))"
  by (simp_all add: handleListNodes_def handleGetNode_def handleListMonitors_def handleGetMonitor_def
      handleListIncidents_def handleHistory_def handleListAlertChannels_def handleGetAlertChannel_def
      handleAlertHistory_def query_defs)

lemma probePeers_reads: "reads s (snd (probePeers (sqlite_store eng) cfg dial f s))"
  by (auto simp: probePeers_def query_defs split: prod.splits sum.splits elim!: db_queryE)

lemma composed_handlers_read:
  "reads s (snd (handleStatus (sqlite_store eng) cfg s))"
  "reads s (snd (handleTestPeer (sqlite_store eng) cfg dial f s))"
  "reads s (snd (handleHealth (sqlite_store eng) cfg rt ai rfc now dial s))"
proof -
  have "reads s (tick (tick (tick s)))" by (blast intro: reads_trans reads_tick)
  then show "reads s (snd (handleStatus (sqlite_store eng) cfg s))"
    by (simp add: handleStatus_def Let_def query_defs)
  show "reads s (snd (handleTestPeer (sqlite_store eng) cfg dial f s))"
    "reads s (snd (handleHealth (sqlite_store eng) cfg rt ai rfc now dial s))"
    using probePeers_reads [of s eng cfg dial f] probePeers_reads [of s eng cfg dial "[]"]
    by (auto simp: handleTestPeer_def handleHealth_def split: prod.splits)
qed

section \<open>The local API\<close>

lemma handled_proper:
  "handled p = Some (r, t) \<Longrightarrow> proper_response (fst p) \<Longrightarrow> \<exists>resp. r = Inr resp \<and> proper_response resp"
  by (auto simp: handled_def)

lemma handled_reads: "handled p = Some (r, t) \<Longrightarrow> reads s (snd p) \<Longrightarrow> reads s t"
  by (auto simp: handled_def)

text \<open>C36: every request that a route of the local API takes, whatever its query and body and whatever the
  engine's faults, is answered: no handler panics, the body is an error text exactly if the status is
  400, 404, 500 or 503, and otherwise the status is 200 or 201. No request touches an incident, and a
  \<open>GET\<close> writes no table at all.\<close>

theorem every_request_is_answered:
  assumes "registerCLIRoutes (sqlite_store eng) sv meth segments query body s = Some (r, t)"
  shows "(\<exists>resp. r = Inr resp \<and> (case rs_body resp of ErrorBody e \<Rightarrow> rs_code resp \<in> {400, 404, 500, 503}
      | b \<Rightarrow> rs_code resp \<in> {200, 201})) \<and>
    db_incidents t = db_incidents s \<and> (meth = ''GET'' \<longrightarrow> t = s\<lparr>db_stmts := db_stmts t\<rparr>)"
proof -
  have "\<exists>resp. r = Inr resp \<and> proper_response resp"
    using assms handleLogs_answers unfolding registerCLIRoutes_def Let_def
    by (auto split: list.splits if_splits elim!: handled_proper intro: proper_handlers proper_other_handlers)
  moreover have "reads s t" if "meth = ''GET''"
    using assms that unfolding registerCLIRoutes_def Let_def
    by (auto split: list.splits if_splits elim!: handled_reads intro: getting_handlers_read composed_handlers_read)
  moreover have "db_incidents t = db_incidents s"
    using executes_incidents [OF cli_requests_execute [OF assms]] .
  ultimately show ?thesis by (auto simp: proper_response_def reads_def)
qed

lemma every_request_is_answered_witness:
  "\<exists>t. registerCLIRoutes (sqlite_store (quiet plain_engine)) demo_agent ''GET'' [''nodes''] [] [] db_setup
      = Some (Inr (writeJSON 200 (NodesBody [node_a])), t) \<and>
    t = db_setup\<lparr>db_stmts := db_stmts t\<rparr>"
proof -
  have run: "registerCLIRoutes (sqlite_store (quiet plain_engine)) demo_agent ''GET'' [''nodes''] [] [] db_setup
      = Some (Inr (writeJSON 200 (NodesBody [node_a])), tick db_setup)"
    by code_simp
  with every_request_is_answered [OF run] show ?thesis by blast
qed

end
