(* ===== verification/Agent_Run.thy ===== *)
theory Agent_Run
  imports Requests Setup Checker
begin

text \<open>
  The agent as a running program: \<open>New\<close>, \<open>Run\<close> and the loops of \<open>internal/agent/agent.go\<close>, together with the
  scheduler's goroutines, the two API servers and the goroutines that deliver alerts, as \<open>cli/agent.go\<close>
  starts them. A step is one of these goroutines doing one thing, or the log
  package writing a line for any of them; the body of a loop is one step, except
  that any statements of the others may be executed between those of the consensus loop (\<open>mo_env\<close>).
\<close>

section \<open>The agent\<close>

datatype agent_loop =
  SyncLoop | HeartbeatLoop | OfflineDetectionLoop | ConfigSyncLoop | ConsensusLoop | ConfigPullLoop

text \<open>
  A goroutine of the agent before its first call, waiting in its \<open>select\<close>, or returned. A ticker's channel
  holds one tick; more are dropped.
\<close>

datatype stage = Starting | Waiting bool | Returned

record 'w agent =
  ag_config :: config
  ag_scheduler :: scheduler
  ag_callback :: "string option"
  ag_start_time :: int64
  ag_last_heartbeat :: "int64 option"
  ag_last_config_sync :: "int64 option"
  ag_db :: db
  ag_net :: 'w
  ag_alerts :: "alert_task list"
  ag_undelivered :: "alert_task list"
  ag_loops :: "agent_loop \<Rightarrow> stage option"
  ag_logs :: logbuf
  ag_cancelled :: bool
  ag_returned :: bool

text \<open>
  \<open>New\<close>; only a node with a coordinator pushes its results. The record also holds what \<open>cli/agent.go\<close> makes around
  the agent: the log buffer, empty at first, and whether the context is cancelled.
\<close>

definition NewAgent :: "config \<Rightarrow> db \<Rightarrow> int64 \<Rightarrow> 'w \<Rightarrow> 'w agent" where
  "NewAgent cfg s now net = \<lparr>ag_config = cfg, ag_scheduler = NewScheduler,
     ag_callback = (if cfg_role cfg \<noteq> RoleCoordinator then cfg_coordinator cfg else None),
     ag_start_time = now, ag_last_heartbeat = None, ag_last_config_sync = None, ag_db = s, ag_net = net,
     ag_alerts = [], ag_undelivered = [], ag_loops = (\<lambda>_. None), ag_logs = New, ag_cancelled = False, ag_returned = False\<rparr>"

definition loops_of :: "config \<Rightarrow> agent_loop list" where
  "loops_of cfg = [SyncLoop, HeartbeatLoop] @
     (if cfg_role cfg = RoleCoordinator then [OfflineDetectionLoop, ConfigSyncLoop, ConsensusLoop]
      else [ConfigPullLoop])"

text \<open>The part of \<open>Run\<close> before it blocks.\<close>

definition Run :: "'w agent \<Rightarrow> 'w agent" where
  "Run a = a\<lparr>ag_loops := (\<lambda>l. if l \<in> set (loops_of (ag_config a)) then Some Starting else None)\<rparr>"

text \<open>What the health endpoint asks the agent.\<close>

definition agent_health :: "'w agent \<Rightarrow> agent_info" where
  "agent_health a = \<lparr>ai_start_time = ag_start_time a, ai_last_heartbeat = ag_last_heartbeat a,
     ai_last_config_sync = ag_last_config_sync a, ai_active_monitors = ActiveCount (ag_scheduler a)\<rparr>"

section \<open>The bodies of the loops\<close>

record 'w surroundings =
  su_engine :: engine
  su_transport :: "'w transport"
  su_codec :: peer_codec

text \<open>
  What one step reads from outside: the clock, random ids, what the network answers to the attempts of a
  check and to a notification; and what the others execute meanwhile.
\<close>

record moment =
  mo_now :: int64
  mo_stamp :: string
  mo_inputs :: "nat \<Rightarrow> tick_inputs"
  mo_env :: "nat \<Rightarrow> foreign_statement list"
  mo_network :: "nat \<Rightarrow> check_world"
  mo_alerts :: alert_env

definition syncMonitors :: "'w surroundings \<Rightarrow> 'w agent \<Rightarrow> 'w agent" where
  "syncMonitors su a =
     (case ListEnabledMonitors (sqlite_store (su_engine su)) (ag_db a) of
        (Inl e, s) \<Rightarrow> a\<lparr>ag_db := s\<rparr>
      | (Inr ms, s) \<Rightarrow> a\<lparr>ag_db := s, ag_scheduler := SyncMonitors ms (ag_scheduler a)\<rparr>)"

definition beat :: "'w surroundings \<Rightarrow> moment \<Rightarrow> 'w agent \<Rightarrow> 'w agent" where
  "beat su mo a =
     (case sendHeartbeat (sqlite_store (su_engine su)) (ag_config a) (mo_now mo) (mo_stamp mo)
         (ActiveCount (ag_scheduler a)) (ag_db a) of
        (msg, s) \<Rightarrow> a\<lparr>ag_db := s,
          ag_net := (case msg of None \<Rightarrow> ag_net a
            | Some (addr, hb) \<Rightarrow> snd (SendHeartbeat (su_transport su) (su_codec su) addr hb (ag_net a))),
          ag_last_heartbeat := Some (mo_now mo)\<rparr>)"

definition detect :: "'w surroundings \<Rightarrow> moment \<Rightarrow> 'w agent \<Rightarrow> 'w agent" where
  "detect su mo a =
     a\<lparr>ag_db := snd (DetectOfflineNodes (sqlite_store (su_engine su)) (mo_now mo) 90000 (ag_db a))\<rparr>"

text \<open>The time of the sync is set unless the monitors or the nodes cannot be loaded.\<close>

definition config_loaded :: "'s store \<Rightarrow> 's \<Rightarrow> bool" where
  "config_loaded st s = (case ListMonitors st [] s of (Inl e, s1) \<Rightarrow> False
     | (Inr ms, s1) \<Rightarrow> (case ListNodes st s1 of (Inl e, s2) \<Rightarrow> False | (Inr ns, s2) \<Rightarrow> True))"

definition push :: "'w surroundings \<Rightarrow> moment \<Rightarrow> 'w agent \<Rightarrow> 'w agent" where
  "push su mo a =
     (case pushConfigSync (sqlite_store (su_engine su)) (ag_config a) (mo_now mo) (ag_db a) of
        (msgs, s) \<Rightarrow> a\<lparr>ag_db := s,
          ag_net := fold (\<lambda>(addr, sync) w. snd (PushConfigSync (su_transport su) (su_codec su) addr sync w))
            msgs (ag_net a),
          ag_last_config_sync := (if config_loaded (sqlite_store (su_engine su)) (ag_db a)
            then Some (mo_now mo) else ag_last_config_sync a)\<rparr>)"

definition pull :: "'w surroundings \<Rightarrow> moment \<Rightarrow> string \<Rightarrow> 'w agent \<Rightarrow> 'w agent" where
  "pull su mo addr a =
     (case PullConfigSync (su_transport su) (su_codec su) addr (ag_net a) of
        (r, w) \<Rightarrow>
          (case pullConfigSync (sqlite_store (su_engine su)) (\<lambda>_. r) addr (ag_db a) of
             (ok, s) \<Rightarrow> a\<lparr>ag_net := w, ag_db := s,
               ag_last_config_sync := (if ok then Some (mo_now mo) else ag_last_config_sync a)\<rparr>))"

definition evaluate :: "'w surroundings \<Rightarrow> moment \<Rightarrow> 'w agent \<Rightarrow> 'w agent" where
  "evaluate su mo a =
     (case evaluateConsensus (shared_store (mo_env mo) (su_engine su)) (mo_inputs mo) (ag_db a, 0) of
        (ts, (s, k)) \<Rightarrow> a\<lparr>ag_db := s, ag_alerts := ag_alerts a @ ts, ag_undelivered := ag_undelivered a @ ts\<rparr>)"

fun body :: "'w surroundings \<Rightarrow> agent_loop \<Rightarrow> moment \<Rightarrow> 'w agent \<Rightarrow> 'w agent" where
  "body su SyncLoop mo a = syncMonitors su a"
| "body su HeartbeatLoop mo a = beat su mo a"
| "body su OfflineDetectionLoop mo a = detect su mo a"
| "body su ConfigSyncLoop mo a = push su mo a"
| "body su ConsensusLoop mo a = evaluate su mo a"
| "body su ConfigPullLoop mo a = (case cfg_coordinator (ag_config a) of None \<Rightarrow> a | Some addr \<Rightarrow> pull su mo addr a)"

text \<open>Three loops call their body before the first tick; the pull loop returns if there is no coordinator.\<close>

definition first :: "'w surroundings \<Rightarrow> agent_loop \<Rightarrow> moment \<Rightarrow> 'w agent \<Rightarrow> 'w agent" where
  "first su l mo a =
     (if l = ConfigPullLoop \<and> cfg_coordinator (ag_config a) = None then
        a\<lparr>ag_loops := (ag_loops a)(l \<mapsto> Returned)\<rparr>
      else (if l \<in> {SyncLoop, HeartbeatLoop, ConfigPullLoop} then body su l mo a else a)
        \<lparr>ag_loops := (ag_loops a)(l \<mapsto> Waiting False)\<rparr>)"

text \<open>The check of goroutine \<open>i\<close> of the scheduler, with its callback.\<close>

definition run_check :: "'w surroundings \<Rightarrow> moment \<Rightarrow> nat \<Rightarrow> 'w agent \<Rightarrow> 'w agent" where
  "run_check su mo i a =
     (case check_body (sqlite_store (su_engine su)) (cfg_node_id (ag_config a)) (registered_check (mo_network mo)) (mo_now mo)
         (lp_monitor (sch_loops (ag_scheduler a) ! i)) (ag_db a) of
        (r, s) \<Rightarrow> a\<lparr>ag_db := s, ag_scheduler := finish_check i (ag_scheduler a),
          ag_net := (case (r, ag_callback a) of
            (Inr (Some res), Some addr) \<Rightarrow> snd (PushResult (su_transport su) (su_codec su) addr res (ag_net a))
          | _ \<Rightarrow> ag_net a)\<rparr>)"

text \<open>
  The output of the log package goes to the log buffer too. A signal is logged and cancels the context; \<open>stamp\<close> is
  the prefix that the log package puts before a line.
\<close>

definition log_output :: "int64 \<Rightarrow> string \<Rightarrow> 'w agent \<Rightarrow> 'w agent" where
  "log_output now text a = a\<lparr>ag_logs := snd (Write now text (ag_logs a))\<rparr>"

definition handle_signal :: "int64 \<Rightarrow> string \<Rightarrow> string \<Rightarrow> 'w agent \<Rightarrow> 'w agent" where
  "handle_signal now stamp sig a =
     (log_output now (stamp @ ''[agent] received signal '' @ sig @ '', shutting down...'' @ [nl]) a)\<lparr>ag_cancelled := True\<rparr>"

text \<open>The goroutines of the two servers: a server that cannot listen or fails is logged, and the agent goes on.\<close>

definition cli_api_goroutine :: "int64 \<Rightarrow> string \<Rightarrow> (string \<Rightarrow> string option) \<Rightarrow> served \<Rightarrow> 'w agent \<Rightarrow> 'w agent" where
  "cli_api_goroutine now stamp listen_error result a =
     (case StartCLI listen_error result (ag_config a) of
        None \<Rightarrow> a
      | Some e \<Rightarrow> log_output now (stamp @ ''[api] CLI server error: '' @ e @ [nl]) a)"

definition peer_api_goroutine :: "int64 \<Rightarrow> string \<Rightarrow> (string \<Rightarrow> string option) \<Rightarrow> served \<Rightarrow> 'w agent \<Rightarrow> 'w agent" where
  "peer_api_goroutine now stamp listen_error result a =
     (case StartPeer listen_error result (ag_config a) of
        None \<Rightarrow> a
      | Some e \<Rightarrow> log_output now (stamp @ ''[api] Peer server error: '' @ e @ [nl]) a)"

text \<open>The API server of the agent: its handlers ask the agent itself for its health and read its log buffer.\<close>

definition agent_server :: "moment \<Rightarrow> cli_server \<Rightarrow> 'w agent \<Rightarrow> cli_server" where
  "agent_server mo outside a = NewServer outside (ag_config a)
     [WithLogBuffer (ag_logs a), WithAgentInfo (agent_health a), WithAlertDispatcher (mo_alerts mo)]"

section \<open>Steps\<close>

datatype agent_action =
    First agent_loop moment
  | Fire agent_loop
  | Tick agent_loop moment
  | Leave agent_loop
  | Signal int64 string string
  | Log int64 string
  | CliServerEnds int64 string "string \<Rightarrow> string option" served
  | PeerServerEnds int64 string "string \<Rightarrow> string option" served
  | Return
  | BeginCheck nat
  | FinishCheck nat moment
  | LeaveCheck nat
  | CliRequest moment cli_server string string string
  | PeerRequest peer_server string string string
  | Deliver alert_task moment int64

inductive agent_step :: "'w surroundings \<Rightarrow> 'w agent \<Rightarrow> agent_action \<Rightarrow> 'w agent \<Rightarrow> bool" for su where
  first_step: "ag_loops a l = Some Starting \<Longrightarrow> agent_step su a (First l mo) (first su l mo a)"
| fire_step: "ag_loops a l = Some (Waiting b) \<Longrightarrow>
    agent_step su a (Fire l) (a\<lparr>ag_loops := (ag_loops a)(l \<mapsto> Waiting True)\<rparr>)"
| tick_step: "ag_loops a l = Some (Waiting True) \<Longrightarrow>
    agent_step su a (Tick l mo) ((body su l mo a)\<lparr>ag_loops := (ag_loops a)(l \<mapsto> Waiting False)\<rparr>)"
| leave_step: "ag_cancelled a \<Longrightarrow> ag_loops a l = Some (Waiting b) \<Longrightarrow>
    agent_step su a (Leave l) (a\<lparr>ag_loops := (ag_loops a)(l \<mapsto> Returned)\<rparr>)"
| signal_step: "agent_step su a (Signal now stamp sig) (handle_signal now stamp sig a)"
| log_step: "agent_step su a (Log now text) (log_output now text a)"
| cli_server_step: "agent_step su a (CliServerEnds now stamp le res) (cli_api_goroutine now stamp le res a)"
| peer_server_step: "agent_step su a (PeerServerEnds now stamp le res) (peer_api_goroutine now stamp le res a)"
| return_step: "ag_cancelled a \<Longrightarrow> \<not> ag_returned a \<Longrightarrow>
    agent_step su a Return (a\<lparr>ag_scheduler := Stop (ag_scheduler a), ag_returned := True\<rparr>)"
| begin_check_step: "sched_step (ag_scheduler a) (Begin i) sch \<Longrightarrow>
    agent_step su a (BeginCheck i) (a\<lparr>ag_scheduler := sch\<rparr>)"
| finish_check_step: "sched_step (ag_scheduler a) (Finish i) sch \<Longrightarrow>
    agent_step su a (FinishCheck i mo) (run_check su mo i a)"
| leave_check_step: "sched_step (ag_scheduler a) (Exit i) sch \<Longrightarrow>
    agent_step su a (LeaveCheck i) (a\<lparr>ag_scheduler := sch\<rparr>)"
| cli_step: "agent_step su a (CliRequest mo outside meth target bdy)
      (a\<lparr>ag_db := snd (serve_cli (sqlite_store (su_engine su)) (agent_server mo outside a)
         meth target bdy (ag_db a))\<rparr>)"
| peer_step: "agent_step su a (PeerRequest pv meth path bdy)
      (a\<lparr>ag_db := snd (registerPeerRoutes (sqlite_store (su_engine su)) (pv\<lparr>pv_config := ag_config a\<rparr>)
         meth path bdy (ag_db a))\<rparr>)"
| deliver_step: "t \<in> set (ag_undelivered a) \<Longrightarrow>
    agent_step su a (Deliver t mo sentAt)
      (a\<lparr>ag_db := run_alert_task (mo_alerts mo) (sqlite_store (su_engine su)) (mo_now mo) sentAt t (ag_db a),
         ag_undelivered := remove1 t (ag_undelivered a)\<rparr>)"

inductive agent_run :: "'w surroundings \<Rightarrow> 'w agent \<Rightarrow> agent_action list \<Rightarrow> 'w agent \<Rightarrow> bool" for su where
  stay: "agent_run su a [] a"
| move: "agent_run su a acts b \<Longrightarrow> agent_step su b act c \<Longrightarrow> agent_run su a (acts @ [act]) c"

text \<open>What only writes to the log leaves the rest of the state alone.\<close>

lemma log_only [simp]:
  "ag_config (log_output now text a) = ag_config a" "ag_scheduler (log_output now text a) = ag_scheduler a"
  "ag_callback (log_output now text a) = ag_callback a" "ag_db (log_output now text a) = ag_db a"
  "ag_net (log_output now text a) = ag_net a" "ag_alerts (log_output now text a) = ag_alerts a"
  "ag_undelivered (log_output now text a) = ag_undelivered a" "ag_loops (log_output now text a) = ag_loops a"
  "ag_cancelled (log_output now text a) = ag_cancelled a" "ag_returned (log_output now text a) = ag_returned a"
  "ag_config (cli_api_goroutine now stamp le res a) = ag_config a" "ag_scheduler (cli_api_goroutine now stamp le res a) = ag_scheduler a"
  "ag_callback (cli_api_goroutine now stamp le res a) = ag_callback a" "ag_db (cli_api_goroutine now stamp le res a) = ag_db a"
  "ag_net (cli_api_goroutine now stamp le res a) = ag_net a" "ag_alerts (cli_api_goroutine now stamp le res a) = ag_alerts a"
  "ag_undelivered (cli_api_goroutine now stamp le res a) = ag_undelivered a" "ag_loops (cli_api_goroutine now stamp le res a) = ag_loops a"
  "ag_cancelled (cli_api_goroutine now stamp le res a) = ag_cancelled a" "ag_returned (cli_api_goroutine now stamp le res a) = ag_returned a"
  "ag_config (peer_api_goroutine now stamp le res a) = ag_config a" "ag_scheduler (peer_api_goroutine now stamp le res a) = ag_scheduler a"
  "ag_callback (peer_api_goroutine now stamp le res a) = ag_callback a" "ag_db (peer_api_goroutine now stamp le res a) = ag_db a"
  "ag_net (peer_api_goroutine now stamp le res a) = ag_net a" "ag_alerts (peer_api_goroutine now stamp le res a) = ag_alerts a"
  "ag_undelivered (peer_api_goroutine now stamp le res a) = ag_undelivered a" "ag_loops (peer_api_goroutine now stamp le res a) = ag_loops a"
  "ag_cancelled (peer_api_goroutine now stamp le res a) = ag_cancelled a" "ag_returned (peer_api_goroutine now stamp le res a) = ag_returned a"
  by (simp_all add: log_output_def cli_api_goroutine_def peer_api_goroutine_def split: option.splits)

inductive_cases agent_stepE:
  "agent_step su a (Tick l mo) b" "agent_step su a (Leave l) b" "agent_step su a Return b"

text \<open>\<open>pingmesh agent\<close>, up to the point where its goroutines run.\<close>

definition runAgent :: "setup_env \<Rightarrow> string \<Rightarrow> int64 \<Rightarrow> 'w \<Rightarrow> machine \<Rightarrow> (string + 'w agent) \<times> machine" where
  "runAgent se dataDir now net mc =
     (case Load (se_config se) (mc_files mc) dataDir of
        Inl e \<Rightarrow> (Inl e, mc)
      | Inr cfg \<Rightarrow>
          (case NewSQLiteStore se (DBPath cfg) mc of
             (Inl e, mc1) \<Rightarrow> (Inl (''opening database: '' @ e), mc1)
           | (Inr s, mc1) \<Rightarrow> (Inr (Run (NewAgent cfg s now net)), mc1)))"

end
