(* ===== verification/Announce.thy ===== *)
theory Announce
  imports Shared_Store
begin

text \<open>
  A consensus tick on a database that does not fail makes one step of the outage state machine of every monitor:
  the composition of the evaluations of one tick, and the interleaved store when nobody else runs.
\<close>

section \<open>All monitors of a tick\<close>

context reliable_store
begin

lemma evaluate_adds_ids:
  assumes "evaluateMonitorConsensus st inp mon online nodes s = (ts, s')"
  shows "inc_id ` set (incidents s') \<subseteq> insert (ti_uuid inp) (inc_id ` set (incidents s))"
  using assms
proof (cases rule: evaluate_cases)
  case idle
  then show ?thesis by (auto simp: opened_by_def new_incident_def)
next
  case (alerted i js ids s1)
  have "inc_id ` set (incidents s') \<subseteq> inc_id ` set js"
    unfolding alerted(6) by (auto simp: set_incident_def) (metis imageI)
  moreover have "inc_id ` set js \<subseteq> insert (ti_uuid inp) (inc_id ` set (incidents s))"
    using alerted(2) by (auto simp: opened_by_def new_incident_def)
  ultimately show ?thesis by (rule subset_trans)
next
  case (recovered i s1)
  show ?thesis unfolding recovered(4) by (auto simp: set_incident_def) (metis imageI)
qed

lemma evaluate_keeps_known:
  assumes run: "evaluateMonitorConsensus st inp mon online nodes s = (ts, s')"
  shows "has_monitor s' = has_monitor s"
  by (rule evaluate_evolves [OF preorders(1) _ _ _ _ _ _ run]; simp add: monitors_keep flip: preserves_evolves)

lemma evaluate_monitors_other:
  assumes "evaluate_monitors st inp k online nodes ms s = (ts, s')" and "incidents_ok (incidents s)"
    and "m \<notin> mon_id ` set ms"
  shows "outage_phase (incidents s') m = outage_phase (incidents s) m"
  using assms
proof (induction ms arbitrary: k s ts s')
  case (Cons x ms)
  obtain us s1 where one: "evaluateMonitorConsensus st (inp k) x online nodes s = (us, s1)" by fastforce
  obtain vs s2 where rest: "evaluate_monitors st inp (Suc k) online nodes ms s1 = (vs, s2)" by fastforce
  have "s' = s2" using Cons.prems(1) one rest by simp
  with Cons.IH [OF rest evaluate_safe(1) [OF one Cons.prems(2)]] evaluate_other_monitor [OF one Cons.prems(2)]
    Cons.prems(3) show ?case by simp
qed simp

lemma evaluate_tasks_of:
  assumes "evaluateMonitorConsensus st inp mon online nodes s = (ts, s')"
  shows "filter (\<lambda>t. task_monitor t = m) ts = (if m = mon then ts else [])"
proof -
  have "task_monitor t = mon" if "t \<in> set ts" for t
    using evaluate_justified(1) [OF assms that] by (simp add: justified_def)
  then show ?thesis by (auto simp: filter_empty_conv filter_id_conv)
qed

lemma evaluate_monitors_tasks:
  assumes "evaluate_monitors st inp k online nodes ms s = (ts, s')" and "m \<notin> set ms"
  shows "filter (\<lambda>t. task_monitor t = m) ts = []"
  using evaluate_monitors_justified(1) [OF assms(1)] assms(2) by (auto simp: filter_empty_conv)

lemma evaluate_monitors_spec:
  assumes "evaluate_monitors st inp k online nodes ms s = (ts, s')" and "incidents_ok (incidents s)"
    and "distinct (map mon_id ms)" and "\<forall>m \<in> set ms. has_monitor s (mon_id m)"
    and "inj (\<lambda>j. ti_uuid (inp j))" and "\<forall>j \<ge> k. ti_uuid (inp j) \<notin> inc_id ` set (incidents s)"
    and "m \<in> set ms"
  shows "\<exists>ev. tick_spec (outage_quorum (failures s) m online nodes) (recovery_quorum (successes s) m online nodes)
      (outage_phase (incidents s) (mon_id m)) = (outage_phase (incidents s') (mon_id m), ev) \<and>
    notified (channels s) ev (filter (\<lambda>t. task_monitor t = m) ts)"
  using assms
proof (induction ms arbitrary: k s ts s')
  case (Cons x ms)
  obtain us s1 where one: "evaluateMonitorConsensus st (inp k) x online nodes s = (us, s1)" by fastforce
  obtain vs s2 where rest: "evaluate_monitors st inp (Suc k) online nodes ms s1 = (vs, s2)" by fastforce
  have run: "ts = us @ vs" "s' = s2" using Cons.prems(1) one rest by simp_all
  note ok1 = evaluate_safe(1) [OF one Cons.prems(2)]
  note keep = evaluate_keeps_counters [OF one] evaluate_keeps_known [OF one]
  have fresh: "ti_uuid (inp k) \<notin> inc_id ` set (incidents s)" using Cons.prems(6) by simp
  show ?case
  proof (cases "m = x")
    case True
    then have new: "mon_id m \<notin> mon_id ` set ms" using Cons.prems(3) by simp
    then have "m \<notin> set ms" by blast
    then have "filter (\<lambda>t. task_monitor t = m) ts = us"
      using evaluate_tasks_of [OF one, of m] evaluate_monitors_tasks [OF rest, of m] True run(1) by simp
    moreover have "outage_phase (incidents s') (mon_id m) = outage_phase (incidents s1) (mon_id m)"
      using evaluate_monitors_other [OF rest ok1 new] run(2) by simp
    moreover have "has_monitor s (mon_id x)" using Cons.prems(4) by simp
    note evaluate_refines [OF one Cons.prems(2) this fresh]
    ultimately show ?thesis using True by simp
  next
    case False
    then have m: "m \<in> set ms" using Cons.prems(7) by auto
    then have other: "mon_id m \<noteq> mon_id x" using Cons.prems(3) by (metis distinct.simps(2) imageI list.map(2) set_map)
    have "\<forall>j \<ge> Suc k. ti_uuid (inp j) \<notin> inc_id ` set (incidents s1)"
    proof (intro allI impI notI)
      fix j
      assume "Suc k \<le> j" and "ti_uuid (inp j) \<in> inc_id ` set (incidents s1)"
      with evaluate_adds_ids [OF one] Cons.prems(6) have "ti_uuid (inp j) = ti_uuid (inp k)"
        by (meson Suc_leD insertE subsetD)
      with Cons.prems(5) \<open>Suc k \<le> j\<close> show False by (auto dest: injD)
    qed
    note IH = Cons.IH [OF rest ok1 _ _ Cons.prems(5) this m]
    have "filter (\<lambda>t. task_monitor t = m) ts = filter (\<lambda>t. task_monitor t = m) vs"
      using evaluate_tasks_of [OF one, of m] False run(1) by simp
    with IH Cons.prems(3,4) keep run(2) evaluate_other_monitor [OF one Cons.prems(2) other]
    show ?thesis by simp
  qed
qed simp

end

section \<open>The interleaved store when nobody else runs\<close>

text \<open>\<open>alone f p r\<close>: on the interleaved store \<open>f\<close> does what it does on the store itself.\<close>

definition alone :: "'a \<times> shared \<Rightarrow> 'a \<times> db \<Rightarrow> bool" where
  "alone p q \<longleftrightarrow> fst p = fst q \<and> fst (snd p) = snd q"

lemma alone_op: "alone (interleave eng (\<lambda>_. []) opn (s, k)) (opn s)"
  by (simp add: alone_def interleave_def exec_all_def split: prod.splits)

lemma aloneE:
  assumes "alone p q"
  obtains r s k where "p = (r, (s, k))" "q = (r, s)"
  using assms by (cases p; cases q) (auto simp: alone_def)

lemma count_failing_alone:
  "alone (count_failing (shared_store (\<lambda>_. []) eng) mon ns c ids (s, k)) (count_failing (sqlite_store eng) mon ns c ids s)"
proof (induction ns arbitrary: c ids s k)
  case (Cons n ns)
  obtain r t j where "interleave eng (\<lambda>_. []) (sqlite_CountConsecutiveFailures eng (mon_id mon) (node_id n)) (s, k)
      = (r, (t, j))" "sqlite_CountConsecutiveFailures eng (mon_id mon) (node_id n) s = (r, t)"
    using alone_op by (rule aloneE)
  with Cons show ?case by (simp split: sum.splits)
qed (simp add: alone_def)

lemma count_recovered_alone:
  "alone (count_recovered (shared_store (\<lambda>_. []) eng) mon ns c (s, k)) (count_recovered (sqlite_store eng) mon ns c s)"
proof (induction ns arbitrary: c s k)
  case (Cons n ns)
  obtain r t j where "interleave eng (\<lambda>_. []) (sqlite_CountConsecutiveSuccesses eng (mon_id mon) (node_id n)) (s, k)
      = (r, (t, j))" "sqlite_CountConsecutiveSuccesses eng (mon_id mon) (node_id n) s = (r, t)"
    using alone_op by (rule aloneE)
  with Cons show ?case by (simp split: sum.splits)
qed (simp add: alone_def)

lemma dispatch_alone:
  "alone (dispatch (shared_store (\<lambda>_. []) eng) i mon ev (s, k)) (dispatch (sqlite_store eng) i mon ev s)"
proof -
  obtain r t j where "interleave eng (\<lambda>_. []) (sqlite_ListEnabledAlertChannels eng) (s, k) = (r, (t, j))"
    "sqlite_ListEnabledAlertChannels eng s = (r, t)"
    using alone_op by (rule aloneE)
  then show ?thesis by (simp add: dispatch_def alone_def split: sum.splits)
qed

lemma get_or_create_alone:
  "alone (GetOrCreateIncident (shared_store (\<lambda>_. []) eng) u now m (s, k)) (GetOrCreateIncident (sqlite_store eng) u now m s)"
proof -
  obtain r t j where g: "interleave eng (\<lambda>_. []) (sqlite_GetActiveIncident eng m) (s, k) = (r, (t, j))"
    "sqlite_GetActiveIncident eng m s = (r, t)"
    using alone_op by (rule aloneE)
  obtain r' t' j' where c: "interleave eng (\<lambda>_. []) (sqlite_CreateIncident eng (new_incident u now m)) (t, j) = (r', (t', j'))"
    "sqlite_CreateIncident eng (new_incident u now m) t = (r', t')"
    using alone_op by (rule aloneE)
  from g c show ?thesis by (simp add: GetOrCreateIncident_def Let_def alone_def split: sum.splits option.splits)
qed

lemma update_alone:
  obtains r t j where "interleave eng (\<lambda>_. []) (sqlite_UpdateIncident eng i) (s, k) = (r, (t, j))"
    "sqlite_UpdateIncident eng i s = (r, t)"
  using alone_op by (rule aloneE)

lemma evaluate_outage_alone:
  assumes count: "count_failing (shared_store (\<lambda>_. []) eng) mon online 0 None (s, k) = ((c, ids), (t, j))"
      "count_failing (sqlite_store eng) mon online 0 None s = ((c, ids), t)"
    and quorum: "EvaluateQuorum (mon_quorum_type mon) (mon_quorum_n mon) c nodes"
  shows "alone (evaluateMonitorConsensus (shared_store (\<lambda>_. []) eng) inp mon online nodes (s, k))
    (evaluateMonitorConsensus (sqlite_store eng) inp mon online nodes s)"
proof -
  obtain g t1 j1 where g: "GetOrCreateIncident (shared_store (\<lambda>_. []) eng) (ti_uuid inp) (ti_created inp) (mon_id mon) (t, j)
      = (g, (t1, j1))" "GetOrCreateIncident (sqlite_store eng) (ti_uuid inp) (ti_created inp) (mon_id mon) t = (g, t1)"
    using get_or_create_alone by (rule aloneE)
  show ?thesis
  proof (cases "\<exists>i. g = Inr i \<and> inc_status i = IncidentSuspect")
    case False
    with quorum count g show ?thesis by (auto simp: evaluateMonitorConsensus_def alone_def split: sum.splits)
  next
    case suspect: True
    then obtain i where i: "g = Inr i" "inc_status i = IncidentSuspect" by blast
    obtain u t2 j2 where "interleave eng (\<lambda>_. []) (sqlite_UpdateIncident eng (confirmed_incident i ids (ti_written inp))) (t1, j1)
        = (u, (t2, j2))" "sqlite_UpdateIncident eng (confirmed_incident i ids (ti_written inp)) t1 = (u, t2)"
      using update_alone .
    with quorum count g i show ?thesis
      by (auto simp: evaluateMonitorConsensus_def ConfirmIncident_def SendAlert_def dispatch_alone alone_def [of "([], _)"]
          split: sum.splits)
  qed
qed

lemma evaluate_no_outage_alone:
  assumes count: "count_failing (shared_store (\<lambda>_. []) eng) mon online 0 None (s, k) = ((c, ids), (t, j))"
      "count_failing (sqlite_store eng) mon online 0 None s = ((c, ids), t)"
    and quorum: "\<not> EvaluateQuorum (mon_quorum_type mon) (mon_quorum_n mon) c nodes"
  shows "alone (evaluateMonitorConsensus (shared_store (\<lambda>_. []) eng) inp mon online nodes (s, k))
    (evaluateMonitorConsensus (sqlite_store eng) inp mon online nodes s)"
proof -
  obtain g t1 j1 where g: "interleave eng (\<lambda>_. []) (sqlite_GetActiveIncident eng (mon_id mon)) (t, j) = (g, (t1, j1))"
    "sqlite_GetActiveIncident eng (mon_id mon) t = (g, t1)"
    using alone_op by (rule aloneE)
  show ?thesis
  proof (cases "\<exists>i. g = Inr (Some i)")
    case none: False
    with quorum count g show ?thesis
      by (auto simp: evaluateMonitorConsensus_def alone_def split: sum.splits option.splits)
  next
    case True
    then obtain i where i: "g = Inr (Some i)" by blast
    obtain r t2 j2 where r: "count_recovered (shared_store (\<lambda>_. []) eng) mon online 0 (t1, j1) = (r, (t2, j2))"
      "count_recovered (sqlite_store eng) mon online 0 t1 = (r, t2)"
      using count_recovered_alone by (rule aloneE)
    obtain u t3 j3 where "interleave eng (\<lambda>_. []) (sqlite_UpdateIncident eng (resolved_incident i (ti_written inp))) (t2, j2)
        = (u, (t3, j3))" "sqlite_UpdateIncident eng (resolved_incident i (ti_written inp)) t2 = (u, t3)"
      using update_alone .
    with quorum count g i r show ?thesis
      by (auto simp: evaluateMonitorConsensus_def ResolveIncident_def SendRecovery_def dispatch_alone
          alone_def [of "([], _)"] split: sum.splits)
  qed
qed

lemma evaluate_alone:
  "alone (evaluateMonitorConsensus (shared_store (\<lambda>_. []) eng) inp mon online nodes (s, k))
    (evaluateMonitorConsensus (sqlite_store eng) inp mon online nodes s)"
proof -
  obtain q t j where count: "count_failing (shared_store (\<lambda>_. []) eng) mon online 0 None (s, k) = (q, (t, j))"
    "count_failing (sqlite_store eng) mon online 0 None s = (q, t)"
    using count_failing_alone by (rule aloneE)
  obtain c ids where q: "q = (c, ids)" by fastforce
  note count = count [unfolded this]
  show ?thesis using evaluate_outage_alone [OF count] evaluate_no_outage_alone [OF count] by blast
qed

lemma evaluate_monitors_alone:
  "alone (evaluate_monitors (shared_store (\<lambda>_. []) eng) inp n online nodes ms (s, k))
    (evaluate_monitors (sqlite_store eng) inp n online nodes ms s)"
proof (induction ms arbitrary: n s k)
  case (Cons m ms)
  obtain us t j where one: "evaluateMonitorConsensus (shared_store (\<lambda>_. []) eng) (inp n) m online nodes (s, k) = (us, (t, j))"
    "evaluateMonitorConsensus (sqlite_store eng) (inp n) m online nodes s = (us, t)"
    using evaluate_alone by (rule aloneE)
  obtain vs u i where "evaluate_monitors (shared_store (\<lambda>_. []) eng) inp (Suc n) online nodes ms (t, j) = (vs, (u, i))"
    "evaluate_monitors (sqlite_store eng) inp (Suc n) online nodes ms t = (vs, u)"
    using Cons by (rule aloneE)
  with one show ?case by (simp add: alone_def)
qed (simp add: alone_def)

lemma evaluateConsensus_alone:
  "alone (evaluateConsensus (shared_store (\<lambda>_. []) eng) inp (s, k)) (evaluateConsensus (sqlite_store eng) inp s)"
proof -
  obtain q t j where q: "interleave eng (\<lambda>_. []) (sqlite_ListEnabledMonitors eng) (s, k) = (q, (t, j))"
    "sqlite_ListEnabledMonitors eng s = (q, t)"
    using alone_op by (rule aloneE)
  obtain r u i where r: "interleave eng (\<lambda>_. []) (sqlite_ListNodes eng) (t, j) = (r, (u, i))"
    "sqlite_ListNodes eng t = (r, u)"
    using alone_op by (rule aloneE)
  from q r evaluate_monitors_alone show ?thesis
    by (auto simp: evaluateConsensus_def GetOnlineNodes_def Let_def alone_def [of "([], _)"] split: sum.splits)
qed

section \<open>The tick on the SQLite store\<close>

lemma quorum_mset:
  assumes "mset ns = mset ns'"
  shows "outage_quorum F m ns k = outage_quorum F m ns' k" "recovery_quorum F m ns k = recovery_quorum F m ns' k"
proof -
  have "mset (failing F m ns) = mset (failing F m ns')" "mset (recovered F m ns) = mset (recovered F m ns')"
    by (simp_all add: failing_def recovered_def assms)
  then have "length (failing F m ns) = length (failing F m ns')" "length (recovered F m ns) = length (recovered F m ns')"
    by (metis size_mset)+
  then show "outage_quorum F m ns k = outage_quorum F m ns' k" "recovery_quorum F m ns k = recovery_quorum F m ns' k"
    by (simp_all add: outage_quorum_def recovery_quorum_def)
qed

text \<open>What a tick without nodes online does: nothing; otherwise it evaluates the enabled monitors.\<close>

lemma sqlite_tick_cases:
  fixes s :: db
  defines "online \<equiv> filter (\<lambda>n. node_status n = NodeOnline) (db_nodes s)"
  assumes run: "evaluateConsensus (sqlite_store (quiet eng)) inp s = (ts, s')" and ok: "db_ok s" and on: "online \<noteq> []"
  obtains ms ns s2 where "evaluate_monitors (sqlite_store (quiet eng)) inp 0 ns (int (length online)) ms s2 = (ts, s')"
    "s2 = tick (tick s)" "mset ns = mset online" "distinct (map mon_id ms)"
    "set ms = {m \<in> set (map scanMonitor (db_monitors s)). mon_enabled m}"
proof -
  obtain q s1 where q: "sqlite_ListEnabledMonitors (quiet eng) s = (q, s1)" by fastforce
  then obtain ms where ms: "q = Inr ms" "s1 = tick s" "mset ms = mset (filter mon_enabled (map scanMonitor (db_monitors s)))"
    by (auto simp: sqlite_ListEnabledMonitors_def db_query_def filter_map comp_def)
  obtain r s2 where r: "GetOnlineNodes (sqlite_store (quiet eng)) s1 = (r, s2)" by fastforce
  then have s2: "s2 = tick (tick s)" and "is_ok r"
    using ms(2) by (auto simp: GetOnlineNodes_def sqlite_ListNodes_def db_query_def)
  then obtain ns where ns: "r = Inr ns" by (auto simp: is_ok_iff)
  have on': "mset ns = mset online"
    using sqlite_nodes.online_nodes(1) [OF r [unfolded ns]] ms(2) by (simp add: online_def)
  then have len: "length ns = length online" by (metis size_mset)
  have eval: "evaluate_monitors (sqlite_store (quiet eng)) inp 0 ns (int (length online)) ms s2 = (ts, s')"
    using run q ms(1) r ns on len by (simp add: evaluateConsensus_def Let_def)
  have "map mon_id (filter mon_enabled (map scanMonitor (db_monitors s)))
      = map mr_id (filter (\<lambda>r. mon_enabled (scanMonitor r)) (db_monitors s))"
    by (simp add: filter_map comp_def)
  then have "mset (map mon_id ms) = mset (map mr_id (filter (\<lambda>r. mon_enabled (scanMonitor r)) (db_monitors s)))"
    by (metis ms(3) mset_map)
  moreover have "distinct (map mr_id (filter (\<lambda>r. mon_enabled (scanMonitor r)) (db_monitors s)))"
    using ok by (auto simp: db_ok_def keys_unique_def intro: distinct_map_filter)
  ultimately have dist: "distinct (map mon_id ms)" by (metis mset_eq_imp_distinct_iff)
  have set: "set ms = {m \<in> set (map scanMonitor (db_monitors s)). mon_enabled m}"
    using mset_eq_setD [OF ms(3)] by auto
  show thesis using that [OF eval s2 on' dist set] .
qed

lemma sqlite_tick_refines:
  fixes s :: db
  defines "online \<equiv> filter (\<lambda>n. node_status n = NodeOnline) (db_nodes s)"
  assumes run: "evaluateConsensus (sqlite_store (quiet eng)) inp s = (ts, s')"
    and ok: "db_ok s" "incidents_ok (stored_incidents s)"
    and ids: "inj (\<lambda>j. ti_uuid (inp j))" "\<forall>j. \<not> has_key ir_id (ti_uuid (inp j)) (db_incidents s)"
    and m: "m \<in> set (map scanMonitor (db_monitors s))" and online: "online \<noteq> []"
  shows "\<exists>ev. (if mon_enabled m
      then tick_spec (outage_quorum (\<lambda>m n. failure_run (quiet eng) m n s) m online (int (length online)))
        (recovery_quorum (\<lambda>m n. success_run (quiet eng) m n s) m online (int (length online)))
        (outage_phase (stored_incidents s) (mon_id m))
      else (outage_phase (stored_incidents s) (mon_id m), None))
      = (outage_phase (stored_incidents s') (mon_id m), ev) \<and>
    notified (stored_channels s) ev (filter (\<lambda>t. task_monitor t = m) ts)"
proof -
  obtain ms ns s2 where eval: "evaluate_monitors (sqlite_store (quiet eng)) inp 0 ns (int (length online)) ms s2 = (ts, s')"
    and s2: "s2 = tick (tick s)" and on: "mset ns = mset online" and dist: "distinct (map mon_id ms)"
    and set: "set ms = {m \<in> set (map scanMonitor (db_monitors s)). mon_enabled m}"
    by (rule sqlite_tick_cases [OF run ok(1) online [unfolded online_def], folded online_def])
  have same: "stored_incidents s2 = stored_incidents s" "stored_channels s2 = stored_channels s"
    "db_results s2 = db_results s" "db_monitors s2 = db_monitors s"
    by (simp_all add: s2 stored_incidents_def stored_channels_def)
  have ok2: "incidents_ok (stored_incidents s2)" using ok(2) same(1) by simp
  show ?thesis
  proof (cases "mon_enabled m")
    case False
    have "distinct (map mr_id (db_monitors s))" using ok(1) by (simp add: db_ok_def keys_unique_def)
    then have inj: "inj_on mon_id (set (map scanMonitor (db_monitors s)))" by (simp add: distinct_map inj_on_def) metis
    have other: "mon_id m \<notin> mon_id ` set ms"
    proof
      assume "mon_id m \<in> mon_id ` set ms"
      then obtain x where x: "x \<in> set (map scanMonitor (db_monitors s))" "mon_enabled x" "mon_id m = mon_id x"
        unfolding set by blast
      with inj_onD [OF inj x(3) m x(1)] False show False by simp
    qed
    then have "m \<notin> set ms" by blast
    from sqlite_reliable.evaluate_monitors_other [OF eval ok2 other]
      sqlite_reliable.evaluate_monitors_tasks [OF eval this]
    show ?thesis using False by (simp add: same notified_def)
  next
    case True
    have known: "\<forall>m \<in> set ms. monitor_known s2 (mon_id m)"
      using set by (auto simp: monitor_known_def same has_key_def)
    have "\<forall>j. ti_uuid (inp j) \<notin> inc_id ` set (stored_incidents s)"
      using ids(2) by (auto simp: stored_incidents_def has_key_def) (metis imageI)
    then have fresh: "\<forall>j \<ge> 0. ti_uuid (inp j) \<notin> inc_id ` set (stored_incidents s2)" by (simp add: same(1))
    have runs: "(\<lambda>m n. failure_run (quiet eng) m n s2) = (\<lambda>m n. failure_run (quiet eng) m n s)"
      "(\<lambda>m n. success_run (quiet eng) m n s2) = (\<lambda>m n. success_run (quiet eng) m n s)"
      using runs_of_tables [OF same(3)] by (simp_all add: fun_eq_iff)
    have "m \<in> set ms" using m True set by simp
    from sqlite_reliable.evaluate_monitors_spec [OF eval ok2 dist known ids(1) fresh this] True
    show ?thesis by (simp add: same runs quorum_mset [OF on])
  qed
qed

lemma sqlite_tick_announces:
  fixes s :: db
  defines "online \<equiv> filter (\<lambda>n. node_status n = NodeOnline) (db_nodes s)"
  assumes run: "evaluateConsensus (sqlite_store (quiet eng)) inp s = (ts, s')"
    and ok: "db_ok s" "incidents_ok (stored_incidents s)"
    and ids: "inj (\<lambda>j. ti_uuid (inp j))" "\<forall>j. \<not> has_key ir_id (ti_uuid (inp j)) (db_incidents s)"
    and m: "m \<in> set (map scanMonitor (db_monitors s))" "mon_enabled m" and online: "online \<noteq> []"
    and outage: "outage_quorum (\<lambda>m n. failure_run (quiet eng) m n s) m online (int (length online))"
  shows "outage_phase (stored_incidents s') (mon_id m) = Some Confirmed \<and>
     notified (stored_channels s) (if outage_phase (stored_incidents s) (mon_id m) = Some Confirmed then None
      else Some ''alert'') (filter (\<lambda>t. task_monitor t = m) ts)"
  using sqlite_tick_refines [OF run ok ids m(1)] m(2) online outage
  by (auto simp: online_def tick_spec_def split: if_splits)

lemma majority_exclusive:
  assumes "mon_quorum_type mon \<noteq> ''n_of_m''"
    and "mon_failure_threshold mon > 0" and "mon_recovery_threshold mon > 0"
    and "outage_quorum (\<lambda>m n. failure_run eng m n s) mon online (int (length online))"
  shows "\<not> recovery_quorum (\<lambda>m n. success_run eng m n s) mon online (int (length online))"
proof
  assume "recovery_quorum (\<lambda>m n. success_run eng m n s) mon online (int (length online))"
  with assms(1,4) have "int (length (failing (\<lambda>m n. failure_run eng m n s) mon online)) +
      int (length (recovered (\<lambda>m n. success_run eng m n s) mon online)) > int (length online)"
    unfolding outage_quorum_def recovery_quorum_def by (intro majority_intersect) auto
  moreover have "length (failing (\<lambda>m n. failure_run eng m n s) mon online) +
      length (recovered (\<lambda>m n. success_run eng m n s) mon online) \<le> length online"
    unfolding failing_def recovered_def
  proof (rule length_filter_disjoint)
    fix n
    show "\<not> (mon_failure_threshold mon \<le> failure_run eng (mon_id mon) (node_id n) s \<and>
        mon_recovery_threshold mon \<le> success_run eng (mon_id mon) (node_id n) s)"
      using runs_exclusive [of eng "mon_id mon" "node_id n" s] assms(2,3) by linarith
  qed
  ultimately show False by linarith
qed

lemma sqlite_tick_recovers:
  fixes s :: db
  defines "online \<equiv> filter (\<lambda>n. node_status n = NodeOnline) (db_nodes s)"
  assumes run: "evaluateConsensus (sqlite_store (quiet eng)) inp s = (ts, s')"
    and ok: "db_ok s" "incidents_ok (stored_incidents s)"
    and ids: "inj (\<lambda>j. ti_uuid (inp j))" "\<forall>j. \<not> has_key ir_id (ti_uuid (inp j)) (db_incidents s)"
    and m: "m \<in> set (map scanMonitor (db_monitors s))" "mon_enabled m" and online: "online \<noteq> []"
    and majority: "mon_quorum_type m \<noteq> ''n_of_m''" "mon_failure_threshold m > 0" "mon_recovery_threshold m > 0"
    and recovery: "recovery_quorum (\<lambda>m n. success_run (quiet eng) m n s) m online (int (length online))"
  shows "outage_phase (stored_incidents s') (mon_id m) = None \<and>
    notified (stored_channels s) (if outage_phase (stored_incidents s) (mon_id m) = None then None
      else Some ''recovery'') (filter (\<lambda>t. task_monitor t = m) ts)"
proof -
  have "\<not> outage_quorum (\<lambda>m n. failure_run (quiet eng) m n s) m online (int (length online))"
    using majority_exclusive [OF majority] recovery by blast
  with sqlite_tick_refines [OF run ok ids m(1)] m(2) online recovery show ?thesis
    by (auto simp: online_def tick_spec_def split: if_splits)
qed

end
