(* ===== verification/Agent_Properties.thy ===== *)
theory Agent_Properties
  imports Agent_Run Coordinator Scheduling Checker_Properties Announce
begin

text \<open>
  The running agent as a whole: it implements the coordinator of theory \<open>Coordinator\<close>, a plain node never
  alerts, the program stops once its context is cancelled, and an outage is announced.
\<close>

section \<open>What a step does to the database\<close>

lemma run_alert_task_executes: "executes eng s (run_alert_task env (sqlite_store eng) now sentAt t s)"
  by (simp add: run_alert_task_def Let_def executes_snd writes_execute(14))

text \<open>A loop's body changes neither the configuration nor the goroutines of the agent.\<close>

definition same_program :: "'w agent \<Rightarrow> 'w agent \<Rightarrow> bool" where
  "same_program a b \<longleftrightarrow> ag_config b = ag_config a \<and> ag_callback b = ag_callback a \<and> ag_loops b = ag_loops a \<and>
     ag_cancelled b = ag_cancelled a \<and> ag_returned b = ag_returned a"

text \<open>The bodies other than the consensus tick are statements, and start no alert.\<close>

definition quietly :: "engine \<Rightarrow> 'w agent \<Rightarrow> 'w agent \<Rightarrow> bool" where
  "quietly eng a b \<longleftrightarrow> executes eng (ag_db a) (ag_db b) \<and> ag_alerts b = ag_alerts a \<and>
     ag_undelivered b = ag_undelivered a"

lemma syncMonitors_quiet:
  "same_program a (syncMonitors su a)" "quietly (su_engine su) a (syncMonitors su a)"
  by (auto simp: syncMonitors_def same_program_def quietly_def split: prod.splits sum.splits intro: executed)

lemma beat_quiet: "same_program a (beat su mo a)" "quietly (su_engine su) a (beat su mo a)"
proof -
  obtain msg t where t: "sendHeartbeat (sqlite_store (su_engine su)) (ag_config a) (mo_now mo) (mo_stamp mo)
      (ActiveCount (ag_scheduler a)) (ag_db a) = (msg, t)" by fastforce
  then show "same_program a (beat su mo a)" "quietly (su_engine su) a (beat su mo a)"
    using sendHeartbeat_executes [of "su_engine su" "ag_db a"] 
    by (auto simp: beat_def same_program_def quietly_def) (metis snd_conv)
qed

lemma detect_quiet: "same_program a (detect su mo a)" "quietly (su_engine su) a (detect su mo a)"
  by (simp_all add: detect_def same_program_def quietly_def DetectOfflineNodes_executes)

lemma push_quiet: "same_program a (push su mo a)" "quietly (su_engine su) a (push su mo a)"
proof -
  obtain msgs t where t: "pushConfigSync (sqlite_store (su_engine su)) (ag_config a) (mo_now mo) (ag_db a) = (msgs, t)"
    by fastforce
  then show "same_program a (push su mo a)" "quietly (su_engine su) a (push su mo a)"
    using pushConfigSync_executes [of "su_engine su" "ag_db a" "ag_config a" "mo_now mo"]
    by (simp_all add: push_def same_program_def quietly_def)
qed

lemma pull_quiet: "same_program a (pull su mo addr a)" "quietly (su_engine su) a (pull su mo addr a)"
  by (auto simp: pull_def pullConfigSync_def same_program_def quietly_def
      split: prod.splits sum.splits intro: applyConfigSync_executes)

lemma same_quietly_refl: "same_program a a" "quietly eng a a"
  by (simp_all add: same_program_def quietly_def)

lemma body_quiet:
  assumes "l \<noteq> ConsensusLoop"
  shows "same_program a (body su l mo a) \<and> quietly (su_engine su) a (body su l mo a)"
  using assms
  by (cases l) (auto simp: syncMonitors_quiet beat_quiet detect_quiet push_quiet pull_quiet same_quietly_refl
    split: option.splits)

lemma run_check_quiet: "same_program a (run_check su mo i a)" "quietly (su_engine su) a (run_check su mo i a)"
proof -
  obtain r t where t: "check_body (sqlite_store (su_engine su)) (cfg_node_id (ag_config a)) (registered_check (mo_network mo))
      (mo_now mo) (lp_monitor (sch_loops (ag_scheduler a) ! i)) (ag_db a) = (r, t)" by fastforce
  then show "same_program a (run_check su mo i a)" "quietly (su_engine su) a (run_check su mo i a)"
    using check_body_executes [of "su_engine su" "ag_db a"]
    by (auto simp: run_check_def same_program_def quietly_def) (metis snd_conv)
qed

lemma evaluate_program: "same_program a (evaluate su mo a)"
  by (simp add: evaluate_def same_program_def split: prod.splits)

lemma evaluate_step:
  obtains ts where "coordinator_step (su_engine su) (ag_db a) ts (ag_db (evaluate su mo a))"
    "ag_alerts (evaluate su mo a) = ag_alerts a @ ts" "ag_undelivered (evaluate su mo a) = ag_undelivered a @ ts"
proof -
  obtain ts s k where t: "evaluateConsensus (shared_store (mo_env mo) (su_engine su)) (mo_inputs mo) (ag_db a, 0)
      = (ts, (s, k))" by (metis surj_pair)
  show ?thesis by (rule that [of ts]) (use consensus_tick [OF t] t in \<open>simp_all add: evaluate_def\<close>)
qed


text \<open>The alerts whose goroutine has ended.\<close>

definition delivered :: "agent_action list \<Rightarrow> alert_task list" where
  "delivered acts = concat (map (\<lambda>act. case act of Deliver t mo sentAt \<Rightarrow> [t] | _ \<Rightarrow> []) acts)"

lemma delivered_simps [simp]:
  "delivered [] = []" "delivered (acts @ bcts) = delivered acts @ delivered bcts"
  by (simp_all add: delivered_def)

lemma first_effect:
  "quietly (su_engine su) a (first su l mo a) \<and> ag_config (first su l mo a) = ag_config a \<and>
    ag_cancelled (first su l mo a) = ag_cancelled a \<and> ag_returned (first su l mo a) = ag_returned a \<and>
    (\<exists>st \<in> {Returned, Waiting False}. ag_loops (first su l mo a) = (ag_loops a)(l \<mapsto> st))"
  using body_quiet [of l a su mo] by (auto simp: first_def quietly_def same_program_def)

text \<open>Only the tick of the consensus loop starts alerts.\<close>

lemma quiet_step:
  assumes "agent_step su a act b" and "\<nexists>mo. act = Tick ConsensusLoop mo"
  shows "executes (su_engine su) (ag_db a) (ag_db b) \<and> ag_alerts b = ag_alerts a \<and>
    mset (delivered [act]) + mset (ag_undelivered b) = mset (ag_undelivered a)"
  using assms(1)
proof cases
  case (first_step l mo)
  with first_effect [of su a l mo] show ?thesis by (simp add: quietly_def delivered_def)
next
  case (tick_step l mo)
  with assms(2) have "l \<noteq> ConsensusLoop" by blast
  with tick_step body_quiet [of l a su mo] show ?thesis by (simp add: quietly_def delivered_def)
next
  case (finish_check_step i sch mo)
  with run_check_quiet(2) [of su a mo i] show ?thesis by (simp add: quietly_def delivered_def)
next
  case (cli_step mo outside meth target bdy)
  then show ?thesis by (simp add: delivered_def serve_cli_executes)
next
  case (peer_step pv meth path bdy)
  then show ?thesis by (simp add: delivered_def peer_requests_execute)
next
  case (deliver_step t mo sentAt)
  then show ?thesis by (simp add: delivered_def run_alert_task_executes)
qed (simp_all add: delivered_def handle_signal_def)

lemma step_effect:
  assumes "agent_step su a act b"
  obtains ts where "coordinator_run (su_engine su) (ag_db a) ts (ag_db b)" "ag_alerts b = ag_alerts a @ ts"
    "mset (delivered [act]) + mset (ag_undelivered b) = mset (ag_undelivered a) + mset ts"
proof (cases "\<exists>mo. act = Tick ConsensusLoop mo")
  case True
  then obtain mo where act: "act = Tick ConsensusLoop mo" by blast
  obtain ts where ts: "coordinator_step (su_engine su) (ag_db a) ts (ag_db (evaluate su mo a))"
    "ag_alerts (evaluate su mo a) = ag_alerts a @ ts" "ag_undelivered (evaluate su mo a) = ag_undelivered a @ ts"
    using evaluate_step .
  have "coordinator_run (su_engine su) (ag_db a) ([] @ ts) (ag_db (evaluate su mo a))"
    by (rule coordinator_run.more [OF coordinator_run.start ts(1)])
  moreover have "b = (evaluate su mo a)\<lparr>ag_loops := (ag_loops a)(ConsensusLoop \<mapsto> Waiting False)\<rparr>"
    using assms unfolding act by (auto elim: agent_stepE)
  ultimately show ?thesis using that [of ts] ts(2,3) by (simp add: act delivered_def)
next
  case False
  from that [of "[]"] quiet_step [OF assms False] show ?thesis by (simp add: executes_run)
qed

text \<open>No check brings the program down: the nil dereference of the scheduler needs a checker that returns neither
  a result nor an error, and none of the registered ones does.\<close>

lemma run_attempts_defined:
  "(\<And>i. chk i \<noteq> (None, None)) \<Longrightarrow> \<exists>reply. run_attempts chk i k latest = Inr reply"
  by (induction chk i k latest rule: run_attempts.induct) (auto split: prod.splits option.splits)

lemma checks_never_panic: "\<exists>r. fst (check_body st nodeID (registered_check world) now k s) = Inr r"
proof -
  obtain q t where q: "GetMonitor st k s = (q, t)" by fastforce
  show ?thesis
  proof (cases "\<exists>m check. q = Inr (Some m) \<and> registered_check world (mon_check_type m) = Some check")
    case True
    then obtain m check where m: "q = Inr (Some m)" and check: "registered_check world (mon_check_type m) = Some check"
      by blast
    have "check m i \<noteq> (None, None)" for i using registered_reply [OF check, of m i] by auto
    then obtain reply where "run_attempts (check m) 0 (attempt_count m) (None, None) = Inr reply"
      using run_attempts_defined by blast
    with q m check show ?thesis by (simp add: check_body_def Let_def)
  next
    case False
    with q show ?thesis by (auto simp: check_body_def split: sum.splits option.splits)
  qed
qed

section \<open>The scheduler within the agent\<close>

lemma syncMonitors_scheduler:
  "\<exists>sacts. sched_run (ag_scheduler a) sacts (ag_scheduler (syncMonitors su a))"
proof -
  have "sched_run s [] s \<and> sched_run s [Sync ms] (SyncMonitors ms s)" for s ms
    using sched_more [OF sync_step sched_done] sched_done by blast
  then show ?thesis by (force simp: syncMonitors_def split: prod.splits sum.splits)
qed

lemma other_bodies_scheduler:
  "l \<noteq> SyncLoop \<Longrightarrow> ag_scheduler (body su l mo a) = ag_scheduler a"
  by (cases l) (auto simp: beat_def detect_def push_def pull_def evaluate_def split: prod.splits option.splits)

lemma body_scheduler: "\<exists>sacts. sched_run (ag_scheduler a) sacts (ag_scheduler (body su l mo a))"
  using syncMonitors_scheduler [of a su] sched_done [of "ag_scheduler a"]
  by (cases "l = SyncLoop") (simp, metis other_bodies_scheduler)

lemma sched_one: "sched_step s act t \<Longrightarrow> \<exists>sacts. sched_run s sacts t"
  using sched_more [OF _ sched_done] by blast

lemma step_scheduler:
  assumes "agent_step su a act b"
  shows "\<exists>sacts. sched_run (ag_scheduler a) sacts (ag_scheduler b)"
  using assms
proof cases
  case (first_step l mo)
  with body_scheduler [of a su l mo] sched_done show ?thesis by (auto simp: first_def)
next
  case (tick_step l mo)
  with body_scheduler [of a su l mo] show ?thesis by simp
next
  case return_step
  with sched_one [OF stop_step] show ?thesis by simp
next
  case (finish_check_step i sch mo)
  then have "sch = finish_check i (ag_scheduler a)" by (auto elim: sched_stepE)
  with finish_check_step sched_one show ?thesis by (auto simp: run_check_def split: prod.splits)
qed (auto simp: handle_signal_def intro: sched_done sched_one)

lemma sched_append: "sched_run s acts t \<Longrightarrow> sched_run t bcts u \<Longrightarrow> sched_run s (acts @ bcts) u"
  by (induction rule: sched_run.induct) (auto intro: sched_more)


section \<open>The agent implements the coordinator\<close>

text \<open>A coordinator that runs one tick of its consensus loop.\<close>

definition demo_surroundings :: "unit surroundings" where
  "demo_surroundings = \<lparr>su_engine = plain_engine, su_transport = (\<lambda>_ _ _ w. (Inl ''no route'', w)),
     su_codec = \<lparr>pc_heartbeat = (\<lambda>_. Inl ''e''), pc_result = (\<lambda>_. Inl ''e''), pc_config = (\<lambda>_. Inl ''e''),
       pc_join = (\<lambda>_. Inl ''e''), pc_join_response = (\<lambda>_. Inl ''e''), pc_config_response = (\<lambda>_. Inl ''e'')\<rparr>\<rparr>"

definition demo_moment :: moment where
  "demo_moment = \<lparr>mo_now = 20, mo_stamp = ''t'', mo_inputs = (\<lambda>j. inputs_i\<lparr>ti_uuid := replicate (Suc j) CHR ''i''\<rparr>), mo_env = (\<lambda>_. []), mo_network = (\<lambda>_. quiet_world),
     mo_alerts = \<lparr>ae_rfc3339 = (\<lambda>_. ''t''), ae_stamp = (\<lambda>_. ''t''), ae_duration = (\<lambda>_. ''d''),
       ae_parse_webhook = (\<lambda>_. Inl ''e''), ae_parse_email = (\<lambda>_. Inl ''e''), ae_marshal = (\<lambda>_. Inl ''e''),
       ae_hmac = (\<lambda>_ _. ''s''), ae_request_error = (\<lambda>_. None), ae_post = (\<lambda>_. Inr 200), ae_smtp = (\<lambda>_. None),
       ae_error_text = (\<lambda>_. ''e'')\<rparr>\<rparr>"

definition demo_start :: "string \<Rightarrow> unit agent" where
  "demo_start role = Run (NewAgent (DefaultConfig\<lparr>cfg_node_id := ''a'', cfg_role := role\<rparr>) db_down 1 ())"

definition demo_waiting :: "unit agent" where
  "demo_waiting = first demo_surroundings ConsensusLoop demo_moment (demo_start ''coordinator'')"

definition demo_fired :: "unit agent" where
  "demo_fired = demo_waiting\<lparr>ag_loops := (ag_loops demo_waiting)(ConsensusLoop \<mapsto> Waiting True)\<rparr>"

definition demo_ticked :: "unit agent" where
  "demo_ticked = (body demo_surroundings ConsensusLoop demo_moment demo_fired)
     \<lparr>ag_loops := (ag_loops demo_fired)(ConsensusLoop \<mapsto> Waiting False)\<rparr>"

definition demo_actions :: "agent_action list" where
  "demo_actions = [First ConsensusLoop demo_moment, Fire ConsensusLoop, Tick ConsensusLoop demo_moment]"

lemma demo_waiting_run:
  "agent_run demo_surroundings (demo_start ''coordinator'') [First ConsensusLoop demo_moment, Fire ConsensusLoop] demo_fired"
proof -
  have "ag_loops (demo_start ''coordinator'') ConsensusLoop = Some Starting"
    by (simp add: demo_start_def Run_def NewAgent_def loops_of_def)
  then have 1: "agent_step demo_surroundings (demo_start ''coordinator'') (First ConsensusLoop demo_moment) demo_waiting"
    unfolding demo_waiting_def by (rule first_step)
  have "ag_loops demo_waiting ConsensusLoop = Some (Waiting False)"
    by (simp add: demo_waiting_def first_def)
  then have 2: "agent_step demo_surroundings demo_waiting (Fire ConsensusLoop) demo_fired"
    unfolding demo_fired_def by (rule fire_step)
  from move [OF move [OF stay 1] 2] show ?thesis by simp
qed

lemma demo_tick_step: "agent_step demo_surroundings demo_fired (Tick ConsensusLoop demo_moment) demo_ticked"
proof -
  have "ag_loops demo_fired ConsensusLoop = Some (Waiting True)" by (simp add: demo_fired_def)
  then show ?thesis unfolding demo_ticked_def by (rule tick_step)
qed

lemma demo_agent_run: "agent_run demo_surroundings (demo_start ''coordinator'') demo_actions demo_ticked"
  using move [OF demo_waiting_run demo_tick_step] by (simp add: demo_actions_def)

lemma agent_run_effect:
  assumes "agent_run su a acts b"
  shows "\<exists>ts sacts. coordinator_run (su_engine su) (ag_db a) ts (ag_db b) \<and> ag_alerts b = ag_alerts a @ ts \<and>
    mset (delivered acts) + mset (ag_undelivered b) = mset (ag_undelivered a) + mset ts \<and>
    sched_run (ag_scheduler a) sacts (ag_scheduler b)"
  using assms
proof (induction rule: agent_run.induct)
  case (stay a)
  have "coordinator_run (su_engine su) (ag_db a) [] (ag_db a) \<and> sched_run (ag_scheduler a) [] (ag_scheduler a)"
    by (simp add: coordinator_run.start sched_done)
  then show ?case by force
next
  case (move a acts b act c)
  then obtain ts sacts where b: "coordinator_run (su_engine su) (ag_db a) ts (ag_db b)"
    "ag_alerts b = ag_alerts a @ ts" "mset (delivered acts) + mset (ag_undelivered b) = mset (ag_undelivered a) + mset ts"
    "sched_run (ag_scheduler a) sacts (ag_scheduler b)" by blast
  obtain us where c: "coordinator_run (su_engine su) (ag_db b) us (ag_db c)" "ag_alerts c = ag_alerts b @ us"
    "mset (delivered [act]) + mset (ag_undelivered c) = mset (ag_undelivered b) + mset us"
    using step_effect [OF move.hyps(2)] .
  obtain bcts where s: "sched_run (ag_scheduler b) bcts (ag_scheduler c)"
    using step_scheduler [OF move.hyps(2)] by blast
  have "mset (delivered (acts @ [act])) + mset (ag_undelivered c)
      = mset (delivered acts) + (mset (delivered [act]) + mset (ag_undelivered c))"
    by simp
  also have "\<dots> = mset (ag_undelivered a) + mset (ts @ us)"
    unfolding c(3) by (simp add: b(3) flip: add.assoc)
  finally have "mset (delivered (acts @ [act])) + mset (ag_undelivered c) = mset (ag_undelivered a) + mset (ts @ us)" .
  with run_append [OF c(1) b(1)] b(2) c(2) sched_append [OF b(4) s] show ?case by force
qed

text \<open>C4: whatever the agent's goroutines do, in any order and with any faults, its database goes through a run
  of the coordinator, its scheduler through a run of the scheduler, and the goroutines that deliver alerts
  are those of the run's notifications, each of which is delivered at most once.\<close>

theorem agent_refines_coordinator:
  assumes "agent_run su a acts b"
  shows "\<exists>ts sacts. coordinator_run (su_engine su) (ag_db a) ts (ag_db b) \<and> ag_alerts b = ag_alerts a @ ts \<and>
    mset (delivered acts) + mset (ag_undelivered b) = mset (ag_undelivered a) + mset ts \<and>
    sched_run (ag_scheduler a) sacts (ag_scheduler b)"
  using agent_run_effect [OF assms] .

lemma agent_refines_coordinator_witness:
  "\<exists>ts sacts. coordinator_run plain_engine db_down ts (ag_db demo_ticked) \<and> ag_alerts demo_ticked = [] @ ts \<and>
    mset (delivered demo_actions) + mset (ag_undelivered demo_ticked) = {#} + mset ts \<and>
    sched_run NewScheduler sacts (ag_scheduler demo_ticked)"
  using agent_refines_coordinator [OF demo_agent_run]
  by (simp add: demo_surroundings_def demo_start_def Run_def NewAgent_def)

section \<open>Loops and their end\<close>

text \<open>What a goroutine of the agent does by itself, and what its ticker does.\<close>

fun own :: "agent_action \<Rightarrow> bool" where
  "own (First l mo) = True"
| "own (Tick l mo) = True"
| "own (Leave l) = True"
| "own Return = True"
| "own _ = False"

fun fires :: "agent_action \<Rightarrow> bool" where
  "fires (Fire l) = True"
| "fires _ = False"

fun stage_left :: "stage option \<Rightarrow> nat" where
  "stage_left None = 0"
| "stage_left (Some Starting) = 3"
| "stage_left (Some (Waiting b)) = (if b then 2 else 1)"
| "stage_left (Some Returned) = 0"

definition agent_loops :: "agent_loop list" where
  "agent_loops = [SyncLoop, HeartbeatLoop, OfflineDetectionLoop, ConfigSyncLoop, ConsensusLoop, ConfigPullLoop]"

definition work :: "'w agent \<Rightarrow> nat" where
  "work a = (\<Sum>l\<leftarrow>agent_loops. stage_left (ag_loops a l)) + (if ag_returned a then 0 else 1)"

lemma work_loops:
  assumes "ag_loops b = (ag_loops a)(l \<mapsto> st)" and "ag_returned b = ag_returned a"
  shows "work b + stage_left (ag_loops a l) = work a + stage_left (Some st)"
  using assms by (cases l) (auto simp: work_def agent_loops_def)

lemma work_bound: "work a \<le> 19"
proof -
  have "stage_left st \<le> 3" for st by (cases st rule: stage_left.cases) simp_all
  then have "(\<Sum>l\<leftarrow>agent_loops. stage_left (ag_loops a l)) \<le> (\<Sum>l\<leftarrow>agent_loops. 3)"
    by (intro sum_list_mono)
  then show ?thesis by (simp add: work_def agent_loops_def)
qed

lemma work_zero: "work a = 0 \<longleftrightarrow> ag_returned a \<and> ran (ag_loops a) \<subseteq> {Returned}"
proof -
  have all: "l \<in> set agent_loops" for l by (cases l) (simp_all add: agent_loops_def)
  have zero: "stage_left st = 0 \<longleftrightarrow> st = None \<or> st = Some Returned" for st
    by (cases st rule: stage_left.cases) simp_all
  have "work a = 0 \<longleftrightarrow> ag_returned a \<and> (\<forall>l \<in> set agent_loops. stage_left (ag_loops a l) = 0)"
    unfolding work_def add_eq_0_iff_both_eq_0 by (simp add: agent_loops_def)
  also have "\<dots> \<longleftrightarrow> ag_returned a \<and> (\<forall>l. ag_loops a l = None \<or> ag_loops a l = Some Returned)"
    using all zero by blast
  also have "(\<forall>l. ag_loops a l = None \<or> ag_loops a l = Some Returned) \<longleftrightarrow> ran (ag_loops a) \<subseteq> {Returned}"
  proof
    assume either: "\<forall>l. ag_loops a l = None \<or> ag_loops a l = Some Returned"
    show "ran (ag_loops a) \<subseteq> {Returned}"
    proof
      fix st
      assume "st \<in> ran (ag_loops a)"
      then obtain l where "ag_loops a l = Some st" by (auto simp: ran_def)
      with either [THEN spec, of l] show "st \<in> {Returned}" by simp
    qed
  next
    assume sub: "ran (ag_loops a) \<subseteq> {Returned}"
    show "\<forall>l. ag_loops a l = None \<or> ag_loops a l = Some Returned"
    proof
      fix l
      show "ag_loops a l = None \<or> ag_loops a l = Some Returned"
        using sub by (cases "ag_loops a l") (auto dest: ranI)
    qed
  qed
  finally show ?thesis .
qed

lemma step_program:
  assumes "agent_step su a act b"
  shows "ag_config b = ag_config a \<and> dom (ag_loops b) = dom (ag_loops a) \<and> (ag_cancelled a \<longrightarrow> ag_cancelled b) \<and>
    work b + of_bool (own act) \<le> work a + of_bool (fires act)"
  using assms
proof cases
  case (first_step l mo)
  obtain st where st: "st \<in> {Returned, Waiting False}" "ag_loops b = (ag_loops a)(l \<mapsto> st)"
    using first_effect [of su a l mo] first_step by blast
  with first_effect [of su a l mo] first_step work_loops [of b a l st] show ?thesis by auto
next
  case (fire_step l p)
  with work_loops [of b a l "Waiting True"] show ?thesis by (cases p) auto
next
  case (tick_step l mo)
  have same: "same_program a (body su l mo a)"
    using body_quiet [of l a su mo] evaluate_program [of a su mo] by (cases "l = ConsensusLoop") auto
  with tick_step work_loops [of b a l "Waiting False"] show ?thesis by (auto simp: same_program_def)
next
  case (leave_step l p)
  with work_loops [of b a l Returned] show ?thesis by (auto split: if_splits)
next
  case (finish_check_step i sch mo)
  with run_check_quiet(1) [of a su mo i] show ?thesis by (simp add: same_program_def work_def)
qed (auto simp: work_def handle_signal_def)

lemma run_program:
  assumes "agent_run su a acts b"
  shows "ag_config b = ag_config a \<and> dom (ag_loops b) = dom (ag_loops a) \<and> (ag_cancelled a \<longrightarrow> ag_cancelled b) \<and>
    work b + length (filter own acts) \<le> work a + length (filter fires acts)"
  using assms
proof (induction rule: agent_run.induct)
  case (move a acts b act c)
  with step_program [OF move.hyps(2)] show ?case by (auto simp: of_bool_def split: if_splits)
qed simp

lemma own_step_enabled:
  assumes "ag_cancelled a" and "work a \<noteq> 0"
  shows "\<exists>act b. own act \<and> agent_step su a act b"
proof (cases "ag_returned a")
  case False
  with return_step [OF assms(1)] own.simps(4) show ?thesis by blast
next
  case True
  with assms(2) obtain l st where l: "ag_loops a l = Some st" "st \<noteq> Returned"
    unfolding work_zero by (auto simp: ran_def)
  show ?thesis
  proof (cases st)
    case Starting
    with l first_step own.simps(1) show ?thesis by blast
  next
    case (Waiting p)
    with l leave_step [OF assms(1)] own.simps(3) show ?thesis by blast
  qed (use l in simp)
qed

lemma own_not_fires: "own act \<Longrightarrow> \<not> fires act"
  by (cases act) simp_all

text \<open>From every cancelled state the agent can return by its own steps alone.\<close>

lemma return_path:
  assumes "agent_run su a acts b" and "ag_cancelled b"
  shows "\<exists>more c. agent_run su a (acts @ more) c \<and> list_all own more \<and> length more \<le> work b \<and> work c = 0"
  using assms
proof (induction "work b" arbitrary: acts b rule: less_induct)
  case less
  show ?case
  proof (cases "work b = 0")
    case True
    with less.prems(1) show ?thesis by (intro exI [of _ "[]"] exI [of _ b]) simp
  next
    case False
    from own_step_enabled [OF less.prems(2) this] obtain act c where c: "own act" "agent_step su b act c" by blast
    with step_program [OF c(2)] own_not_fires have w: "work c < work b" "ag_cancelled c"
      using less.prems(2) by (auto simp: of_bool_def)
    from less.hyps [OF w(1) agent_run.move [OF less.prems(1) c(2)] w(2)] obtain more d where
      "agent_run su a ((acts @ [act]) @ more) d" "list_all own more" "length more \<le> work c" "work d = 0" by blast
    with c(1) w(1) show ?thesis by (intro exI [of _ "act # more"] exI [of _ d]) simp
  qed
qed

text \<open>An agent whose role is not coordinator never opens, changes or announces an incident, whatever its
  goroutines do and whatever requests it is sent.\<close>

lemma nodes_never_alert:
  assumes "agent_run su (Run (NewAgent cfg s now net)) acts b" and "cfg_role cfg \<noteq> RoleCoordinator"
  shows "ag_alerts b = [] \<and> db_incidents (ag_db b) = db_incidents s"
proof -
  have quiet: "ag_loops a ConsensusLoop = None \<Longrightarrow>
      ag_alerts c = ag_alerts a \<and> db_incidents (ag_db c) = db_incidents (ag_db a) \<and> ag_loops c ConsensusLoop = None"
    if "agent_run su a acts c" for a c :: "'a agent" and acts
    using that
  proof (induction rule: agent_run.induct)
    case (move a acts b act c)
    then have b: "ag_loops b ConsensusLoop = None" by blast
    have "\<nexists>mo. act = Tick ConsensusLoop mo"
      using move.hyps(2) b by (auto elim: agent_stepE)
    moreover have "ag_loops c ConsensusLoop = None"
      using step_program [OF move.hyps(2)] b by (metis domIff)
    ultimately show ?case
      using move quiet_step [OF move.hyps(2)] by (auto dest: executes_incidents)
  qed simp
  show ?thesis
    using quiet [OF assms(1)] assms(2) by (simp add: Run_def NewAgent_def loops_of_def)
qed

text \<open>C11: once its context is cancelled the agent stops as soon as its tickers do. \<open>Run\<close> and its loops take at most 19
  steps plus one for each tick that a ticker still delivers (a \<open>select\<close> may prefer a tick to the cancellation); as long
  as one of them has not returned it has a step to take; and from every state at most 19 steps of their own,
  without any further tick, lead to one where all have returned.\<close>

theorem shutdown_terminates:
  assumes "agent_run su a acts b" and "ag_cancelled a"
  shows "length (filter own acts) \<le> 19 + length (filter fires acts) \<and>
    ((ag_returned b \<and> ran (ag_loops b) \<subseteq> {Returned}) \<or> (\<exists>act c. own act \<and> agent_step su b act c)) \<and>
    (\<exists>more c. agent_run su a (acts @ more) c \<and> list_all own more \<and> length more \<le> 19 \<and>
      ag_returned c \<and> ran (ag_loops c) \<subseteq> {Returned})"
proof -
  have b: "ag_cancelled b" using run_program [OF assms(1)] assms(2) by blast
  from return_path [OF assms(1) b] obtain more c where c: "agent_run su a (acts @ more) c" "list_all own more"
    "length more \<le> work b" "work c = 0" by blast
  have "length more \<le> 19" using c(3) work_bound [of b] by simp
  moreover have "ag_returned c \<and> ran (ag_loops c) \<subseteq> {Returned}" using c(4) unfolding work_zero .
  moreover have "length (filter own acts) \<le> 19 + length (filter fires acts)"
    using run_program [OF assms(1)] work_bound [of a] by linarith
  moreover have "(ag_returned b \<and> ran (ag_loops b) \<subseteq> {Returned}) \<or> (\<exists>act c. own act \<and> agent_step su b act c)"
    using own_step_enabled [OF b, of su] work_zero [of b] by blast
  ultimately show ?thesis using c(1,2) by blast
qed

definition demo_returned :: "unit agent" where
  "demo_returned = (let a = (demo_start ''node'')\<lparr>ag_cancelled := True\<rparr>
     in a\<lparr>ag_scheduler := Stop (ag_scheduler a), ag_returned := True\<rparr>)"

lemma shutdown_terminates_witness:
  "\<exists>more c. agent_run demo_surroundings ((demo_start ''node'')\<lparr>ag_cancelled := True\<rparr>) ([Return] @ more) c \<and>
    list_all own more \<and> length more \<le> 19 \<and> ag_returned c \<and> ran (ag_loops c) \<subseteq> {Returned}"
proof -
  let ?a = "(demo_start ''node'')\<lparr>ag_cancelled := True\<rparr>"
  have "agent_step demo_surroundings ?a Return demo_returned"
    unfolding demo_returned_def Let_def
    by (rule return_step) (simp_all add: demo_start_def Run_def NewAgent_def)
  from move [OF stay this] have "agent_run demo_surroundings ?a [Return] demo_returned" by simp
  from shutdown_terminates [OF this] show ?thesis by simp
qed

section \<open>A consensus tick of the agent\<close>

lemma agent_tick_runs:
  assumes "agent_step su a (Tick ConsensusLoop mo) b" and "su_engine su = quiet eng" and "mo_env mo = (\<lambda>_. [])"
  obtains ts where "evaluateConsensus (sqlite_store (quiet eng)) (mo_inputs mo) (ag_db a) = (ts, ag_db b)"
    "ag_alerts b = ag_alerts a @ ts"
proof -
  obtain us t k where run: "evaluateConsensus (shared_store (\<lambda>_. []) (quiet eng)) (mo_inputs mo) (ag_db a, 0) = (us, (t, k))"
    "evaluateConsensus (sqlite_store (quiet eng)) (mo_inputs mo) (ag_db a) = (us, t)"
    using evaluateConsensus_alone by (rule aloneE)
  have "ag_db b = t" "ag_alerts b = ag_alerts a @ us"
    using assms run(1) by (auto elim!: agent_stepE simp: evaluate_def)
  with run(2) that show thesis by simp
qed

lemma agent_run_ok:
  assumes "agent_run su (Run (NewAgent cfg s now net)) acts a" and "db_ok s" and "incidents_ok (stored_incidents s)"
  shows "db_ok (ag_db a)" and "incidents_ok (stored_incidents (ag_db a))"
proof -
  obtain ts where "coordinator_run (su_engine su) s ts (ag_db a)"
    using agent_run_effect [OF assms(1)] by (auto simp: Run_def NewAgent_def)
  from run_safe(1,2) [OF this assms(2,3)]
  show "db_ok (ag_db a)" and "incidents_ok (stored_incidents (ag_db a))" .
qed

text \<open>C8: in every state that an agent reaches from a sound database, when the consensus loop of a coordinator ticks
  undisturbed on a database that does not fail and with a node online, the tick makes one step of the abstract outage
  state machine of every stored monitor: the phase of its open incident and the event announced, with one alert on each
  enabled channel, are those of the specification; a disabled monitor keeps its phase and announces nothing. The machine
  is that of the code and not that of \<open>openapi.yaml\<close>: one step opens an outage, confirms it and sends the alert,
  where the document has it confirmed when sustained, and no step looks at the monitor's cooldown.\<close>

theorem tick_refines_state_machines:
  assumes "agent_run su (Run (NewAgent cfg s now net)) acts a" and "db_ok s" and "incidents_ok (stored_incidents s)"
    and "agent_step undisturbed a (Tick ConsensusLoop mo) b" and "su_engine undisturbed = quiet eng" and "mo_env mo = (\<lambda>_. [])"
    and "inj (\<lambda>j. ti_uuid (mo_inputs mo j))"
    and "\<forall>j. \<not> has_key ir_id (ti_uuid (mo_inputs mo j)) (db_incidents (ag_db a))"
    and "m \<in> set (map scanMonitor (db_monitors (ag_db a)))"
    and "online = filter (\<lambda>n. node_status n = NodeOnline) (db_nodes (ag_db a))" and "online \<noteq> []"
  shows "\<exists>ts ev. ag_alerts b = ag_alerts a @ ts \<and>
    (if mon_enabled m
     then tick_spec (outage_quorum (\<lambda>m n. failure_run (quiet eng) m n (ag_db a)) m online (int (length online)))
       (recovery_quorum (\<lambda>m n. success_run (quiet eng) m n (ag_db a)) m online (int (length online)))
       (outage_phase (stored_incidents (ag_db a)) (mon_id m))
     else (outage_phase (stored_incidents (ag_db a)) (mon_id m), None))
     = (outage_phase (stored_incidents (ag_db b)) (mon_id m), ev) \<and>
    notified (stored_channels (ag_db a)) ev (filter (\<lambda>t. task_monitor t = m) ts)"
proof -
  obtain ts where "evaluateConsensus (sqlite_store (quiet eng)) (mo_inputs mo) (ag_db a) = (ts, ag_db b)"
    "ag_alerts b = ag_alerts a @ ts" using agent_tick_runs [OF assms(4-6)] .
  from sqlite_tick_refines [OF this(1) agent_run_ok [OF assms(1-3)] assms(7-9)] assms(10,11) this(2)
  show ?thesis by blast
qed

text \<open>In particular every outage that has quorum is announced, once on each enabled channel.\<close>

lemma outage_is_announced:
  assumes "agent_run su (Run (NewAgent cfg s now net)) acts a" and "db_ok s" and "incidents_ok (stored_incidents s)"
    and "agent_step undisturbed a (Tick ConsensusLoop mo) b" and "su_engine undisturbed = quiet eng" and "mo_env mo = (\<lambda>_. [])"
    and "inj (\<lambda>j. ti_uuid (mo_inputs mo j))"
    and "\<forall>j. \<not> has_key ir_id (ti_uuid (mo_inputs mo j)) (db_incidents (ag_db a))"
    and "m \<in> set (map scanMonitor (db_monitors (ag_db a)))" and "mon_enabled m"
    and "online = filter (\<lambda>n. node_status n = NodeOnline) (db_nodes (ag_db a))" and "online \<noteq> []"
    and "outage_quorum (\<lambda>m n. failure_run (quiet eng) m n (ag_db a)) m online (int (length online))"
  shows "\<exists>ts. ag_alerts b = ag_alerts a @ ts \<and> outage_phase (stored_incidents (ag_db b)) (mon_id m) = Some Confirmed \<and>
    notified (stored_channels (ag_db a)) (if outage_phase (stored_incidents (ag_db a)) (mon_id m) = Some Confirmed
      then None else Some ''alert'') (filter (\<lambda>t. task_monitor t = m) ts)"
proof -
  obtain ts where "evaluateConsensus (sqlite_store (quiet eng)) (mo_inputs mo) (ag_db a) = (ts, ag_db b)"
    "ag_alerts b = ag_alerts a @ ts" using agent_tick_runs [OF assms(4-6)] .
  from sqlite_tick_announces [OF this(1) agent_run_ok [OF assms(1-3)] assms(7-10) assms(12,13) [unfolded assms(11)]]
    this(2) show ?thesis by blast
qed

lemma demo_down_ok: "db_ok db_down" "incidents_ok (stored_incidents db_down)"
  using run_safe(1,2) [OF demo_runs(1)] by simp_all

lemma demo_fired_db: "ag_db demo_fired = db_down" "ag_alerts demo_fired = []"
  by (simp_all add: demo_fired_def demo_waiting_def first_def demo_start_def Run_def NewAgent_def)

definition demo_online :: "node list" where
  "demo_online = filter (\<lambda>n. node_status n = NodeOnline) (db_nodes (ag_db demo_fired))"

lemma tick_refines_state_machines_witness:
  "\<exists>ts ev. ag_alerts demo_ticked = ag_alerts demo_fired @ ts \<and>
    (if mon_enabled mon_m
     then tick_spec (outage_quorum (\<lambda>m n. failure_run (quiet plain_engine) m n (ag_db demo_fired)) mon_m demo_online (int (length demo_online)))
       (recovery_quorum (\<lambda>m n. success_run (quiet plain_engine) m n (ag_db demo_fired)) mon_m demo_online (int (length demo_online)))
       (outage_phase (stored_incidents (ag_db demo_fired)) (mon_id mon_m))
     else (outage_phase (stored_incidents (ag_db demo_fired)) (mon_id mon_m), None))
     = (outage_phase (stored_incidents (ag_db demo_ticked)) (mon_id mon_m), ev) \<and>
    notified (stored_channels (ag_db demo_fired)) ev (filter (\<lambda>t. task_monitor t = mon_m) ts)"
proof (rule tick_refines_state_machines [OF _ demo_down_ok, where eng = plain_engine and mo = demo_moment])
  show "agent_run demo_surroundings (Run (NewAgent (DefaultConfig\<lparr>cfg_node_id := ''a'', cfg_role := ''coordinator''\<rparr>) db_down 1 ()))
      [First ConsensusLoop demo_moment, Fire ConsensusLoop] demo_fired"
    using demo_waiting_run by (simp add: demo_start_def)
  show "agent_step demo_surroundings demo_fired (Tick ConsensusLoop demo_moment) demo_ticked"
    by (rule demo_tick_step)
  show "su_engine demo_surroundings = quiet plain_engine"
    by (simp add: demo_surroundings_def plain_engine_def quiet_def)
  show "inj (\<lambda>j. ti_uuid (mo_inputs demo_moment j))"
    by (rule injI, drule arg_cong [where f = length]) (simp add: demo_moment_def)
  show "\<forall>j. \<not> has_key ir_id (ti_uuid (mo_inputs demo_moment j)) (db_incidents (ag_db demo_fired))"
    by (simp add: demo_fired_db db_down_eq db_setup_eq has_key_def)
  show "mon_m \<in> set (map scanMonitor (db_monitors (ag_db demo_fired)))"
    unfolding demo_fired_db by code_simp+
  show "demo_online = filter (\<lambda>n. node_status n = NodeOnline) (db_nodes (ag_db demo_fired))" by (rule demo_online_def)
  show "demo_online \<noteq> []" unfolding demo_online_def demo_fired_db by code_simp
qed (simp add: demo_moment_def)

end
