(* ===== verification/Agent_Log.thy ===== *)
theory Agent_Log
  imports Agent_Properties Cli_Properties
begin

text \<open>
  The log of a running agent: everything that the program writes to its log goes through the ring buffer, and
  the local API serves the newest lines of it.
\<close>

section \<open>The log of the agent\<close>

text \<open>What the actions write to the log, with the time.\<close>

fun log_written :: "config \<Rightarrow> agent_action \<Rightarrow> (int64 \<times> string) list" where
  "log_written cfg (Log now text) = [(now, text)]"
| "log_written cfg (Signal now stamp sig) =
     [(now, stamp @ ''[agent] received signal '' @ sig @ '', shutting down...'' @ [nl])]"
| "log_written cfg (CliServerEnds now stamp le res) = (case StartCLI le res cfg of None \<Rightarrow> []
     | Some e \<Rightarrow> [(now, stamp @ ''[api] CLI server error: '' @ e @ [nl])])"
| "log_written cfg (PeerServerEnds now stamp le res) = (case StartPeer le res cfg of None \<Rightarrow> []
     | Some e \<Rightarrow> [(now, stamp @ ''[api] Peer server error: '' @ e @ [nl])])"
| "log_written cfg _ = []"

lemma body_logs: "ag_logs (body su l mo a) = ag_logs a"
  by (cases l) (auto simp: syncMonitors_def beat_def detect_def push_def pull_def evaluate_def
      split: prod.splits sum.splits option.splits)

lemma step_logs: "agent_step su a act b \<Longrightarrow> ag_logs b = log_writes (log_written (ag_config a) act) (ag_logs a)"
  by (induction rule: agent_step.induct)
    (auto simp: first_def body_logs run_check_def log_output_def handle_signal_def cli_api_goroutine_def
      peer_api_goroutine_def log_writes_def split: prod.splits option.splits)

lemma run_logs:
  assumes "agent_run su a acts b"
  shows "ag_config b = ag_config a \<and> ag_logs b = log_writes (concat (map (log_written (ag_config a)) acts)) (ag_logs a)"
  using assms
proof (induction rule: agent_run.induct)
  case (stay a)
  show ?case by (simp add: log_writes_def)
next
  case (move a acts b act c)
  with step_program [OF move.hyps(2)] step_logs [OF move.hyps(2)] show ?case by (simp add: log_writes_def)
qed

text \<open>C37: whatever a running agent has done and logged, its log endpoint answers without a panic, with the newest
  lines of what the program has written to its log since the start, in order: as many as asked for (100 unless a
  positive number is given), but never more than 1000.\<close>

theorem agent_serves_its_log:
  assumes "agent_run su (Run (NewAgent cfg s now w)) acts a"
  shows "handleLogs (sv_logs (agent_server mo outside a)) q
    = Inr (writeJSON 200 (EntriesBody (last_n (min (nat (positive_or 100 q)) 1000)
        (logged (concat (map (log_written cfg) acts))))))"
proof -
  have "sv_logs (agent_server mo outside a) = Some (ag_logs a)"
    by (simp add: agent_server_def NewServer_def WithLogBuffer_def WithAgentInfo_def WithAlertDispatcher_def)
  moreover have "ag_logs a = log_writes (concat (map (log_written cfg) acts)) New"
    using run_logs [OF assms] by (simp add: Run_def NewAgent_def)
  ultimately show ?thesis using logs_newest_lines by simp
qed

definition demo_logging :: "unit agent" where
  "demo_logging = handle_signal 30 ''12:00 '' ''interrupt'' (log_output 20 ''started'' (demo_start ''node''))"

lemma agent_serves_its_log_witness:
  "handleLogs (sv_logs (agent_server demo_moment demo_agent demo_logging)) ''1''
    = Inr (writeJSON 200 (EntriesBody [\<lparr>en_time = 30, en_message = ''12:00 [agent] received signal interrupt, shutting down...''\<rparr>]))"
proof -
  let ?acts = "[Log 20 ''started'', Signal 30 ''12:00 '' ''interrupt'']"
  have run: "agent_run demo_surroundings (demo_start ''node'') ?acts demo_logging"
    unfolding demo_logging_def using move [OF move [OF stay log_step] signal_step] by simp
  have "last_n (min (nat (positive_or 100 ''1'')) 1000) (logged (concat (map (log_written (DefaultConfig\<lparr>cfg_node_id := ''a'', cfg_role := ''node''\<rparr>)) ?acts)))
      = [\<lparr>en_time = 30, en_message = ''12:00 [agent] received signal interrupt, shutting down...''\<rparr>]" by code_simp
  with agent_serves_its_log [OF run [unfolded demo_start_def], of demo_moment demo_agent "''1''"] show ?thesis by simp
qed

end
