(* ===== verification/Cli_Tree.thy ===== *)
theory Cli_Tree
  imports Cli_Properties Agent_Run
begin

text \<open>
  The command tree of \<open>internal/cli\<close> and \<open>cmd/pingmesh\<close>: every command with its flags and their defaults, and
  what \<open>main\<close> does with an invocation. Parsing the words of the command line is the work of the cobra
  library: an invocation is what cobra has made of them. Help texts are left out.
\<close>

section \<open>The tree\<close>

datatype flag_value = TextFlag string | IntFlag int64 | BoolFlag bool

text \<open>The name, whether exactly one argument is required (\<open>ExactArgs(1)\<close>), the flags, the subcommands.\<close>

datatype cobra_command =
  Command (cc_name: string) (cc_one_arg: bool) (cc_flags: "(string \<times> flag_value) list") (cc_subs: "cobra_command list")

definition newInitCmd :: cobra_command where
  "newInitCmd = Command ''init'' False [(''listen'', TextFlag (cfg_listen_addr DefaultConfig)), (''name'', TextFlag [])] []"

definition newJoinCmd :: cobra_command where
  "newJoinCmd = Command ''join'' True [(''name'', TextFlag []), (''listen'', TextFlag (cfg_listen_addr DefaultConfig)),
     (''cli-addr'', TextFlag (cfg_cli_addr DefaultConfig))] []"

definition newJoinTokenCmd :: cobra_command where
  "newJoinTokenCmd = Command ''join-token'' False [(''expires'', TextFlag ''1h''), (''advertise'', TextFlag [])] []"

definition newAgentCmd :: cobra_command where
  "newAgentCmd = Command ''agent'' False [] []"

definition newNodeListCmd :: cobra_command where "newNodeListCmd = Command ''list'' False [] []"

definition newNodeShowCmd :: cobra_command where "newNodeShowCmd = Command ''show'' True [] []"

definition newNodeRemoveCmd :: cobra_command where "newNodeRemoveCmd = Command ''remove'' True [] []"

definition newNodeCmd :: cobra_command where
  "newNodeCmd = Command ''node'' False [] [newNodeListCmd, newNodeShowCmd, newNodeRemoveCmd]"

definition newMonitorListCmd :: cobra_command where
  "newMonitorListCmd = Command ''list'' False [(''group'', TextFlag [])] []"

definition newMonitorAddCmd :: cobra_command where
  "newMonitorAddCmd = Command ''add'' False [(''name'', TextFlag []), (''type'', TextFlag []), (''target'', TextFlag []),
     (''port'', IntFlag 0), (''interval'', TextFlag ''60s''), (''timeout'', TextFlag ''5s''), (''group'', TextFlag []),
     (''keyword'', TextFlag []), (''status'', IntFlag 0), (''dns-type'', TextFlag []), (''dns-expect'', TextFlag [])] []"

definition newMonitorShowCmd :: cobra_command where "newMonitorShowCmd = Command ''show'' True [] []"

definition newMonitorEditCmd :: cobra_command where
  "newMonitorEditCmd = Command ''edit'' True [(''name'', TextFlag []), (''target'', TextFlag []), (''port'', IntFlag 0)] []"

definition newMonitorDeleteCmd :: cobra_command where "newMonitorDeleteCmd = Command ''delete'' True [] []"

definition newMonitorCmd :: cobra_command where
  "newMonitorCmd = Command ''monitor'' False []
     [newMonitorListCmd, newMonitorAddCmd, newMonitorShowCmd, newMonitorEditCmd, newMonitorDeleteCmd]"

definition newStatusCmd :: cobra_command where "newStatusCmd = Command ''status'' False [] []"

definition newIncidentsCmd :: cobra_command where
  "newIncidentsCmd = Command ''incidents'' False [(''active'', BoolFlag False)] []"

definition newHistoryCmd :: cobra_command where
  "newHistoryCmd = Command ''history'' False [(''monitor'', TextFlag []), (''node'', TextFlag []),
     (''since'', TextFlag ''24h''), (''limit'', IntFlag 50)] []"

definition newHealthCmd :: cobra_command where "newHealthCmd = Command ''health'' False [] []"

definition newLogsCmd :: cobra_command where "newLogsCmd = Command ''logs'' False [(''lines'', IntFlag 100)] []"

definition newTestPeerCmd :: cobra_command where
  "newTestPeerCmd = Command ''test-peer'' False [(''node'', TextFlag [])] []"

definition newAlertListCmd :: cobra_command where "newAlertListCmd = Command ''list'' False [] []"

definition newAlertAddWebhookCmd :: cobra_command where
  "newAlertAddWebhookCmd = Command ''add-webhook'' False
     [(''name'', TextFlag []), (''url'', TextFlag []), (''secret'', TextFlag [])] []"

definition newAlertAddEmailCmd :: cobra_command where
  "newAlertAddEmailCmd = Command ''add-email'' False [(''name'', TextFlag []), (''to'', TextFlag []),
     (''smtp-host'', TextFlag []), (''smtp-port'', IntFlag 587), (''username'', TextFlag []), (''password'', TextFlag []),
     (''from'', TextFlag []), (''tls'', BoolFlag False)] []"

definition newAlertShowCmd :: cobra_command where "newAlertShowCmd = Command ''show'' True [] []"

definition newAlertDeleteCmd :: cobra_command where "newAlertDeleteCmd = Command ''delete'' True [] []"

definition newAlertTestCmd :: cobra_command where "newAlertTestCmd = Command ''test'' True [] []"

definition newAlertHistoryCmd :: cobra_command where
  "newAlertHistoryCmd = Command ''history'' False [(''channel'', TextFlag []), (''limit'', IntFlag 50)] []"

definition newAlertCmd :: cobra_command where
  "newAlertCmd = Command ''alert'' False [] [newAlertListCmd, newAlertAddWebhookCmd, newAlertAddEmailCmd,
     newAlertShowCmd, newAlertDeleteCmd, newAlertTestCmd, newAlertHistoryCmd]"

definition NewRootCmd :: cobra_command where
  "NewRootCmd = Command ''pingmesh'' False [(''data-dir'', TextFlag ''/var/lib/pingmesh'')] [newInitCmd, newJoinCmd,
     newJoinTokenCmd, newNodeCmd, newMonitorCmd, newStatusCmd, newIncidentsCmd, newHistoryCmd, newHealthCmd,
     newLogsCmd, newTestPeerCmd, newAlertCmd, newAgentCmd]"

lemmas command_defs = newInitCmd_def newJoinCmd_def newJoinTokenCmd_def newAgentCmd_def newNodeListCmd_def
  newNodeShowCmd_def newNodeRemoveCmd_def newNodeCmd_def newMonitorListCmd_def newMonitorAddCmd_def
  newMonitorShowCmd_def newMonitorEditCmd_def newMonitorDeleteCmd_def newMonitorCmd_def newStatusCmd_def
  newIncidentsCmd_def newHistoryCmd_def newHealthCmd_def newLogsCmd_def newTestPeerCmd_def newAlertListCmd_def
  newAlertAddWebhookCmd_def newAlertAddEmailCmd_def newAlertShowCmd_def newAlertDeleteCmd_def newAlertTestCmd_def
  newAlertHistoryCmd_def newAlertCmd_def NewRootCmd_def

section \<open>Invocations\<close>

text \<open>What cobra finds on the command line: the command, the flags that are given, and the arguments.\<close>

record invocation =
  iv_path :: "string list"
  iv_given :: "(string \<times> flag_value) list"
  iv_args :: "string list"

fun find_command :: "cobra_command \<Rightarrow> string list \<Rightarrow> cobra_command option" where
  "find_command cc [] = Some cc"
| "find_command cc (k # ks) = (case find (\<lambda>sub. cc_name sub = k) (cc_subs cc) of
     None \<Rightarrow> None | Some sub \<Rightarrow> find_command sub ks)"

definition flag_of :: "invocation \<Rightarrow> cobra_command \<Rightarrow> string \<Rightarrow> flag_value option" where
  "flag_of iv cc name = map_of (iv_given iv @ cc_flags cc @ cc_flags NewRootCmd) name"

fun flag_text :: "flag_value option \<Rightarrow> string" where
  "flag_text (Some (TextFlag t)) = t" | "flag_text _ = []"

fun flag_int :: "flag_value option \<Rightarrow> int64" where
  "flag_int (Some (IntFlag n)) = n" | "flag_int _ = 0"

fun flag_bool :: "flag_value option \<Rightarrow> bool" where
  "flag_bool (Some (BoolFlag b)) = b" | "flag_bool _ = False"

text \<open>The commands that ask the local agent, by their path; \<open>t\<close>, \<open>n\<close> and \<open>b\<close> read the flags, \<open>a\<close> is the argument.\<close>

definition agent_commands ::
    "'w cli \<Rightarrow> (string \<Rightarrow> string) \<Rightarrow> (string \<Rightarrow> int64) \<Rightarrow> (string \<Rightarrow> bool) \<Rightarrow> string \<Rightarrow> (string list \<times> 'w command) list" where
  "agent_commands c t n b a = [
     ([''node'', ''list''], runNodeList c),
     ([''node'', ''show''], runNodeShow c a),
     ([''node'', ''remove''], runNodeRemove c a),
     ([''monitor'', ''list''], runMonitorList c (t ''group'')),
     ([''monitor'', ''add''], runMonitorAdd c \<lparr>fl_name = t ''name'', fl_type = t ''type'', fl_target = t ''target'',
        fl_port = n ''port'', fl_interval = t ''interval'', fl_timeout = t ''timeout'', fl_group = t ''group'',
        fl_keyword = t ''keyword'', fl_status = n ''status'', fl_dns_type = t ''dns-type'',
        fl_dns_expect = t ''dns-expect''\<rparr>),
     ([''monitor'', ''show''], runMonitorShow c a),
     ([''monitor'', ''edit''], runMonitorEdit c a (t ''name'') (t ''target'') (n ''port'')),
     ([''monitor'', ''delete''], runMonitorDelete c a),
     ([''status''], runStatus c),
     ([''incidents''], runIncidents c (b ''active'')),
     ([''history''], runHistory c (t ''monitor'') (t ''node'') (t ''since'') (n ''limit'')),
     ([''health''], runHealth c),
     ([''logs''], runLogs c (n ''lines'')),
     ([''test-peer''], runTestPeer c (t ''node'')),
     ([''alert'', ''list''], runAlertList c),
     ([''alert'', ''add-webhook''], runAlertAddWebhook c (t ''name'') (t ''url'') (t ''secret'')),
     ([''alert'', ''add-email''], runAlertAddEmail c (t ''name'') \<lparr>em_smtp_host = t ''smtp-host'',
        em_smtp_port = n ''smtp-port'', em_username = t ''username'', em_password = t ''password'',
        em_from = t ''from'', em_to = t ''to'', em_tls = b ''tls''\<rparr>),
     ([''alert'', ''show''], runAlertShow c a),
     ([''alert'', ''delete''], runAlertDelete c a),
     ([''alert'', ''test''], runAlertTest c a),
     ([''alert'', ''history''], runAlertHistory c (t ''channel'') (n ''limit''))]"

text \<open>An invocation of one of them; \<open>None\<close> for the others and for a path that is no command.\<close>

definition run_agent_command :: "'w cli \<Rightarrow> invocation \<Rightarrow> 'w command option" where
  "run_agent_command c iv =
     (case find_command NewRootCmd (iv_path iv) of
        None \<Rightarrow> None
      | Some cc \<Rightarrow>
          (if cc_one_arg cc \<and> length (iv_args iv) \<noteq> 1 then
             Some (\<lambda>w. (([], Error (''accepts 1 arg(s), received '' @ show_int (int (length (iv_args iv))))), w))
           else map_of (agent_commands c (\<lambda>k. flag_text (flag_of iv cc k)) (\<lambda>k. flag_int (flag_of iv cc k))
             (\<lambda>k. flag_bool (flag_of iv cc k)) (hd (iv_args iv))) (iv_path iv)))"

section \<open>The commands that set a node up\<close>

text \<open>What \<open>init\<close>, \<open>join\<close> and \<open>join-token\<close> need of their surroundings.\<close>

record 'k setup_run =
  sr_env :: setup_env
  sr_ca :: "'k crypto"
  sr_cert :: "'k crypto"
  sr_join :: join_env
  sr_codec :: peer_codec
  sr_duration :: "string \<Rightarrow> string + int64"
  sr_now :: int64

text \<open>An invocation of one of them.\<close>

definition run_setup_command ::
    "'k setup_run \<Rightarrow> 'w transport \<Rightarrow> invocation \<Rightarrow> machine \<times> 'w \<Rightarrow> ((string \<times> outcome) \<times> machine \<times> 'w) option" where
  "run_setup_command sr tr iv p =
     (case (p, find_command NewRootCmd (iv_path iv)) of
        (_, None) \<Rightarrow> None
      | ((mc, w), Some cc) \<Rightarrow>
          (let t = (\<lambda>k. flag_text (flag_of iv cc k)); dataDir = t ''data-dir''
           in if cc_one_arg cc \<and> length (iv_args iv) \<noteq> 1 then
                Some (([], Error (''accepts 1 arg(s), received '' @ show_int (int (length (iv_args iv))))), mc, w)
              else if iv_path iv = [''init''] then
                (case runInit (sr_env sr) (sr_ca sr) (sr_cert sr) dataDir (t ''listen'') (t ''name'') mc of
                   (out, mc1) \<Rightarrow> Some (out, mc1, w))
              else if iv_path iv = [''join''] then
                Some (runJoin (sr_env sr) (sr_join sr) (sr_codec sr) tr dataDir (t ''name'') (t ''listen'') (t ''cli-addr'')
                  (hd (iv_args iv)) (mc, w))
              else if iv_path iv = [''join-token''] then
                (case runJoinToken (sr_env sr) (sr_join sr) (sr_duration sr) (sr_now sr) dataDir (t ''expires'')
                    (t ''advertise'') mc of
                   (out, mc1) \<Rightarrow> Some (out, mc1, w))
              else None))"

text \<open>What \<open>Execute\<close> writes to the standard error, and the exit status of the process.\<close>

fun Execute :: "outcome \<Rightarrow> string \<times> int" where
  "Execute Done = ([], 0)"
| "Execute (Error e) = (line (''Error: '' @ e), 1)"
| "Execute Panicked = ([], 2)"

section \<open>The tree is well formed\<close>

text \<open>pflag panics at the start if a command defines a flag twice; and a name must mean one subcommand.\<close>

fun well_formed_command :: "cobra_command \<Rightarrow> bool" where
  "well_formed_command (Command name one flags subs) \<longleftrightarrow>
     distinct (map fst flags) \<and> distinct (map cc_name subs) \<and> list_all well_formed_command subs"

fun leaves :: "cobra_command \<Rightarrow> string list list" where
  "leaves (Command name one flags subs) =
     (if subs = [] then [[]] else concat (map (\<lambda>sub. map ((#) (cc_name sub)) (leaves sub)) subs))"

lemma tree_well_formed: "well_formed_command NewRootCmd"
  by (simp add: command_defs)

lemma every_command_runs:
  "set (leaves NewRootCmd) = fst ` set (agent_commands c t n b a) \<union> {[''init''], [''join''], [''join-token''], [''agent'']}"
  by (simp add: command_defs agent_commands_def insert_commute)

text \<open>A monitor added with nothing but its name, type and target is checked every minute with five seconds to answer.\<close>

lemma monitor_add_defaults:
  assumes "iv_path iv = [''monitor'', ''add'']"
    and "iv_given iv = [(''name'', TextFlag k), (''type'', TextFlag ty), (''target'', TextFlag tg)]"
  shows "run_agent_command c iv = Some (runMonitorAdd c \<lparr>fl_name = k, fl_type = ty, fl_target = tg, fl_port = 0,
      fl_interval = ''60s'', fl_timeout = ''5s'', fl_group = [], fl_keyword = [], fl_status = 0, fl_dns_type = [],
      fl_dns_expect = []\<rparr>)"
  using assms by (simp add: run_agent_command_def command_defs agent_commands_def flag_of_def)

end
