(* ===== verification/Detection.thy ===== *)
theory Detection
  imports Announce Peer_Client Coordinator
begin

text \<open>
  From the nodes to the alert: the results that the nodes push arrive at \<open>handlePeerResult\<close>, move the counters
  of consecutive failures, and the next consensus tick announces the outage.
\<close>

section \<open>Pushed results\<close>

definition reports :: "engine \<Rightarrow> check_result list \<Rightarrow> db \<Rightarrow> db" where
  "reports eng rs s = fold (\<lambda>r t. snd (handlePeerResult (sqlite_store eng) (Inr r) t)) rs s"

text \<open>The results of one node for one monitor, and how many of the last of them are up, or are not up.\<close>

definition reported_by :: "string \<Rightarrow> string \<Rightarrow> check_result \<Rightarrow> bool" where
  "reported_by m n r \<longleftrightarrow> res_monitor_id r = m \<and> res_node_id r = n"

definition reported_last :: "bool \<Rightarrow> string \<Rightarrow> string \<Rightarrow> check_result list \<Rightarrow> int64" where
  "reported_last up m n rs =
     int (length (takeWhile (\<lambda>r. (res_status r = StatusUp) = up) (rev (filter (reported_by m n) rs))))"

text \<open>Each result is newer than what is stored of its pair and than the earlier ones; and it is of a known monitor and node.\<close>

definition in_sequence :: "db \<Rightarrow> check_result list \<Rightarrow> bool" where
  "in_sequence s rs \<longleftrightarrow> (\<forall>r \<in> set rs. newest (res_monitor_id r) (res_node_id r) s (res_timestamp r)) \<and>
     sorted_wrt (\<lambda>r q. reported_by (res_monitor_id r) (res_node_id r) q \<longrightarrow> res_timestamp r < res_timestamp q) rs"

definition in_order :: "db \<Rightarrow> check_result list \<Rightarrow> bool" where
  "in_order s rs \<longleftrightarrow> in_sequence s rs \<and>
     (\<forall>r \<in> set rs. has_key mr_id (res_monitor_id r) (db_monitors s) \<and> has_key node_id (res_node_id r) (db_nodes s))"

text \<open>A database that has received results, and whatever else but results, since another one.\<close>

definition received :: "check_result list \<Rightarrow> db \<Rightarrow> db \<Rightarrow> bool" where
  "received rs s t \<longleftrightarrow> (\<exists>ks. length ks = length rs \<and> db_results t = db_results s @ map2 bind_result ks rs)"

lemma received_Nil: "received [] s t \<longleftrightarrow> db_results t = db_results s"
  by (auto simp: received_def)

lemma received_snoc:
  "received (rs @ [r]) s t \<longleftrightarrow> (\<exists>u k. received rs s u \<and> db_results t = db_results u @ [bind_result k r])"
proof
  assume "received (rs @ [r]) s t"
  then obtain ks where ks: "length ks = Suc (length rs)" "db_results t = db_results s @ map2 bind_result ks (rs @ [r])"
    by (auto simp: received_def)
  then obtain js k where js: "ks = js @ [k]" "length js = length rs" by (metis length_Suc_conv_rev)
  let ?u = "s\<lparr>db_results := db_results s @ map2 bind_result js rs\<rparr>"
  have "received rs s ?u" "db_results t = db_results ?u @ [bind_result k r]"
    using ks(2) js by (auto simp: received_def)
  then show "\<exists>u k. received rs s u \<and> db_results t = db_results u @ [bind_result k r]" by blast
next
  assume "\<exists>u k. received rs s u \<and> db_results t = db_results u @ [bind_result k r]"
  then obtain u k ks where "length ks = length rs" "db_results t = db_results s @ map2 bind_result (ks @ [k]) (rs @ [r])"
    by (auto simp: received_def)
  then show "received (rs @ [r]) s t" unfolding received_def by (metis length_append_singleton)
qed

lemma in_sequence_snoc: "in_sequence s (rs @ [r]) \<Longrightarrow> in_sequence s rs"
  by (auto simp: in_sequence_def sorted_wrt_append)

lemma received_later:
  assumes "in_sequence s (rs @ [r])" and "received rs s u"
  shows "newest (res_monitor_id r) (res_node_id r) u (res_timestamp r)"
proof -
  obtain ks where ks: "length ks = length rs" "db_results u = db_results s @ map2 bind_result ks rs"
    using assms(2) by (auto simp: received_def)
  have "rr_timestamp q < res_timestamp r"
    if "q \<in> set (db_results s @ map2 bind_result ks rs)" "rr_monitor_id q = res_monitor_id r" "rr_node_id q = res_node_id r" for q
  proof (cases "q \<in> set (db_results s)")
    case True
    with that assms(1) show ?thesis by (simp add: in_sequence_def newest_def pair_results_def)
  next
    case False
    with that(1) obtain k x where "x \<in> set rs" "q = bind_result k x"
      by (auto dest: set_zip_rightD)
    with that(2,3) assms(1) show ?thesis by (auto simp: in_sequence_def sorted_wrt_append reported_by_def)
  qed
  then show ?thesis by (auto simp: newest_def pair_results_def ks(2))
qed

section \<open>The counters\<close>

lemma reported_last_snoc:
  "reported_last up m n (rs @ [r]) = (if \<not> reported_by m n r then reported_last up m n rs
     else if (res_status r = StatusUp) = up then reported_last up m n rs + 1 else 0)"
  by (simp add: reported_last_def)

text \<open>The counters see at least what was reported, up to their window of 100 results.\<close>

lemma received_counts:
  assumes "in_sequence s rs" and "timed m n s" and "received rs s t"
  shows "timed m n t \<and> min 100 (reported_last False m n rs) \<le> failure_run eng m n t \<and>
    min 100 (reported_last True m n rs) \<le> success_run eng m n t"
  using assms(1,3)
proof (induction rs arbitrary: t rule: rev_induct)
  case Nil
  with assms(2) show ?case by (simp add: received_Nil reported_last_def runs_bounded timed_def pair_results_def)
next
  case (snoc r rs)
  then obtain u k where u: "received rs s u" and rows: "db_results t = db_results u @ [bind_result k r]"
    by (auto simp: received_snoc)
  note IH = snoc.IH [OF in_sequence_snoc [OF snoc.prems(1)] u]
  show ?case
  proof (cases "reported_by m n r")
    case False
    then have other: "\<not> (rr_monitor_id (bind_result k r) = m \<and> rr_node_id (bind_result k r) = n)"
      by (simp add: reported_by_def)
    then have "pair_results m n t = pair_results m n u"
      by (simp add: pair_results_def rows)
    with IH False results_desc_insert_other [OF other rows, of eng] show ?thesis
      by (simp add: timed_def failure_run_def success_run_def reported_last_snoc)
  next
    case True
    then have m: "res_monitor_id r = m" and n: "res_node_id r = n" by (simp_all add: reported_by_def)
    have new: "newest m n u (rr_timestamp (bind_result k r))"
      using received_later [OF snoc.prems(1) u] by (simp add: m n)
    have "pair_results m n t = pair_results m n u @ [bind_result k r]"
      by (simp add: pair_results_def rows m n)
    then have "timed m n t" using IH new by (auto simp: timed_def newest_def)
    with IH True runs_after_insert [OF _ new _ _ rows, of eng] m n show ?thesis
      by (auto simp: reported_last_snoc)
  qed
qed

text \<open>The online nodes whose last results for a monitor are as many successes, or failures, as it asks for.\<close>

definition reporting :: "bool \<Rightarrow> monitor \<Rightarrow> check_result list \<Rightarrow> node list \<Rightarrow> node list" where
  "reporting up m rs online = filter (\<lambda>n. (if up then mon_recovery_threshold m else mon_failure_threshold m)
     \<le> reported_last up (mon_id m) (node_id n) rs) online"

lemma length_filter_mono: "(\<And>x. x \<in> set xs \<Longrightarrow> P x \<Longrightarrow> Q x) \<Longrightarrow> length (filter P xs) \<le> length (filter Q xs)"
  by (induction xs) auto

lemma received_failures_quorum:
  assumes "in_sequence s rs" and "received rs s t" and "mon_quorum_type m \<noteq> ''n_of_m''" and "mon_failure_threshold m \<le> 100"
    and "\<forall>n \<in> set (reporting False m rs online). timed (mon_id m) (node_id n) s"
    and "2 * length (reporting False m rs online) > length online"
  shows "outage_quorum (\<lambda>m n. failure_run eng m n t) m online (int (length online))"
proof -
  have "length (reporting False m rs online) \<le> length (failing (\<lambda>m n. failure_run eng m n t) m online)"
    unfolding reporting_def failing_def
  proof (rule length_filter_mono)
    fix n
    assume "n \<in> set online" and "(if False then mon_recovery_threshold m else mon_failure_threshold m)
      \<le> reported_last False (mon_id m) (node_id n) rs"
    with assms(5) received_counts [OF assms(1) _ assms(2), of "mon_id m" "node_id n" eng] assms(4)
    show "mon_failure_threshold m \<le> failure_run eng (mon_id m) (node_id n) t"
      by (auto simp: reporting_def)
  qed
  with assms(3,6) show ?thesis by (simp add: outage_quorum_def majority_iff)
qed

lemma received_successes_quorum:
  assumes "in_sequence s rs" and "received rs s t" and "mon_quorum_type m \<noteq> ''n_of_m''" and "mon_recovery_threshold m \<le> 100"
    and "\<forall>n \<in> set (reporting True m rs online). timed (mon_id m) (node_id n) s"
    and "2 * length (reporting True m rs online) > length online"
  shows "recovery_quorum (\<lambda>m n. success_run eng m n t) m online (int (length online))"
proof -
  have "length (reporting True m rs online) \<le> length (recovered (\<lambda>m n. success_run eng m n t) m online)"
    unfolding reporting_def recovered_def
  proof (rule length_filter_mono)
    fix n
    assume "n \<in> set online" and "(if True then mon_recovery_threshold m else mon_failure_threshold m)
      \<le> reported_last True (mon_id m) (node_id n) rs"
    with assms(5) received_counts [OF assms(1) _ assms(2), of "mon_id m" "node_id n" eng] assms(4)
    show "mon_recovery_threshold m \<le> success_run eng (mon_id m) (node_id n) t"
      by (auto simp: reporting_def)
  qed
  with assms(3,6) show ?thesis by (simp add: recovery_quorum_def majority_iff)
qed

section \<open>Pushed results are received\<close>

lemma reports_snoc: "reports eng (rs @ [r]) s = snd (handlePeerResult (sqlite_store eng) (Inr r) (reports eng rs s))"
  by (simp add: reports_def)

lemma in_order_snoc: "in_order s (rs @ [r]) \<Longrightarrow> in_order s rs"
  by (auto simp: in_order_def in_sequence_snoc)

lemma report_effect:
  assumes "has_key mr_id (res_monitor_id r) (db_monitors s)" and "has_key node_id (res_node_id r) (db_nodes s)"
  shows "snd (handlePeerResult (sqlite_store (quiet eng)) (Inr r) s)
    = (tick s)\<lparr>db_results := db_results s @ [bind_result (db_result_seq s + 1) r], db_result_seq := db_result_seq s + 1\<rparr>"
  using insert_result_ok [OF quiet_simps(2) assms] by (simp add: handlePeerResult_def)

lemma reports_tables:
  assumes "in_order s rs"
  shows "db_nodes (reports (quiet eng) rs s) = db_nodes s" "db_monitors (reports (quiet eng) rs s) = db_monitors s"
    "db_incidents (reports (quiet eng) rs s) = db_incidents s" "db_channels (reports (quiet eng) rs s) = db_channels s"
    "db_ok s \<Longrightarrow> db_ok (reports (quiet eng) rs s)"
    "\<exists>ks. length ks = length rs \<and> db_results (reports (quiet eng) rs s) = db_results s @ map2 bind_result ks rs"
proof -
  have "db_nodes (reports (quiet eng) rs s) = db_nodes s \<and> db_monitors (reports (quiet eng) rs s) = db_monitors s \<and>
    db_incidents (reports (quiet eng) rs s) = db_incidents s \<and> db_channels (reports (quiet eng) rs s) = db_channels s \<and>
    (db_ok s \<longrightarrow> db_ok (reports (quiet eng) rs s)) \<and>
    (\<exists>ks. length ks = length rs \<and> db_results (reports (quiet eng) rs s) = db_results s @ map2 bind_result ks rs)"
    using assms
  proof (induction rs rule: rev_induct)
    case Nil
    show ?case by (simp add: reports_def)
  next
    case (snoc r rs)
    let ?t = "reports (quiet eng) rs s"
    from snoc.IH [OF in_order_snoc [OF snoc.prems]] obtain ks where IH: "db_nodes ?t = db_nodes s"
      "db_monitors ?t = db_monitors s" "db_incidents ?t = db_incidents s" "db_channels ?t = db_channels s"
      "db_ok s \<longrightarrow> db_ok ?t" "length ks = length rs" "db_results ?t = db_results s @ map2 bind_result ks rs" by blast
    from snoc.prems have known: "has_key mr_id (res_monitor_id r) (db_monitors ?t)"
      "has_key node_id (res_node_id r) (db_nodes ?t)"
      unfolding IH by (simp_all add: in_order_def)
    note eff = report_effect [OF known, of eng]
    have "sqlite_InsertCheckResult (quiet eng) r ?t = (Inr (), reports (quiet eng) (rs @ [r]) s)"
      using insert_result_ok [OF quiet_simps(2) known] eff by (simp add: reports_snoc)
    then have "db_ok s \<longrightarrow> db_ok (reports (quiet eng) (rs @ [r]) s)"
      using IH(5) InsertCheckResult_ok [of ?t "quiet eng" r] by (metis snd_conv)
    moreover have "db_results (reports (quiet eng) (rs @ [r]) s) = db_results s @ map2 bind_result (ks @ [db_result_seq ?t + 1]) (rs @ [r])"
      unfolding reports_snoc eff using IH(6,7) by simp
    ultimately show ?case
      using IH(1-4,6) by (auto simp: reports_snoc eff intro!: exI [of _ "ks @ [db_result_seq ?t + 1]"])
  qed
  then show "db_nodes (reports (quiet eng) rs s) = db_nodes s" "db_monitors (reports (quiet eng) rs s) = db_monitors s"
    "db_incidents (reports (quiet eng) rs s) = db_incidents s" "db_channels (reports (quiet eng) rs s) = db_channels s"
    "db_ok s \<Longrightarrow> db_ok (reports (quiet eng) rs s)"
    "\<exists>ks. length ks = length rs \<and> db_results (reports (quiet eng) rs s) = db_results s @ map2 bind_result ks rs"
    by blast+
qed

lemma reports_received: "in_order s rs \<Longrightarrow> received rs s (reports (quiet eng) rs s)"
  using reports_tables(6) by (simp add: received_def)

section \<open>The outage and the recovery are announced\<close>

text \<open>Pushed results change neither the incidents, the channels, the monitors nor the nodes.\<close>

lemma reports_same:
  assumes "in_order s rs"
  shows "stored_incidents (reports (quiet eng) rs s) = stored_incidents s"
    "stored_channels (reports (quiet eng) rs s) = stored_channels s"
  by (simp_all add: stored_incidents_def stored_channels_def reports_tables [OF assms])

text \<open>C9: from the nodes to the alert: if for more than half of the online nodes the last results that they push for an
  enabled majority monitor are as many failures as its threshold asks for, at most 100, then on a database that does not fail
  the next consensus tick leaves the outage confirmed, and unless it was so before, alerts every enabled channel once. It
  does so at once, also if the same tick opens the incident, and whatever the monitor's cooldown and the alerts sent before:
  the code has neither the sustained period nor the cooldown of \<open>openapi.yaml\<close>.\<close>

theorem reported_outage_is_announced:
  assumes "db_ok s" and "incidents_ok (stored_incidents s)"
    and "m \<in> set (map scanMonitor (db_monitors s))" and "mon_enabled m" and "mon_quorum_type m \<noteq> ''n_of_m''"
    and "mon_failure_threshold m \<le> 100" and "in_order s rs"
    and "online = filter (\<lambda>n. node_status n = NodeOnline) (db_nodes s)"
    and "\<forall>n \<in> set (reporting False m rs online). timed (mon_id m) (node_id n) s"
    and "2 * length (reporting False m rs online) > length online"
    and "inj (\<lambda>j. ti_uuid (inp j))" and "\<forall>j. \<not> has_key ir_id (ti_uuid (inp j)) (db_incidents s)"
    and "evaluateConsensus (sqlite_store (quiet eng)) inp (reports (quiet eng) rs s) = (ts, s')"
  shows "outage_phase (stored_incidents s') (mon_id m) = Some Confirmed \<and>
    notified (stored_channels s) (if outage_phase (stored_incidents s) (mon_id m) = Some Confirmed then None
      else Some ''alert'') (filter (\<lambda>t. task_monitor t = m) ts)"
proof -
  note tabs = reports_tables [OF assms(7), of eng] and same = reports_same [OF assms(7), of eng]
  have sequence: "in_sequence s rs" using assms(7) by (simp add: in_order_def)
  have some: "online \<noteq> []" using assms(10) by (auto simp: reporting_def)
  from sqlite_tick_announces [OF assms(13) tabs(5) [OF assms(1)] _ assms(11) _ _ assms(4), unfolded tabs(1-3) same,
      folded assms(8), OF assms(2,12,3) some received_failures_quorum [OF sequence reports_received [OF assms(7)] assms(5,6,9,10)]]
  show ?thesis .
qed

text \<open>C10: and back: if for more than half of the online nodes the last pushed results of the monitor are as many successes
  as its positive recovery threshold asks for, at most 100, the next tick leaves no open outage of the monitor, and if there
  was one, announces the recovery on every enabled channel once.\<close>

theorem reported_recovery_is_announced:
  assumes "db_ok s" and "incidents_ok (stored_incidents s)"
    and "m \<in> set (map scanMonitor (db_monitors s))" and "mon_enabled m" and "mon_quorum_type m \<noteq> ''n_of_m''"
    and "mon_failure_threshold m > 0" and "mon_recovery_threshold m > 0" and "mon_recovery_threshold m \<le> 100"
    and "in_order s rs" and "online = filter (\<lambda>n. node_status n = NodeOnline) (db_nodes s)"
    and "\<forall>n \<in> set (reporting True m rs online). timed (mon_id m) (node_id n) s"
    and "2 * length (reporting True m rs online) > length online"
    and "inj (\<lambda>j. ti_uuid (inp j))" and "\<forall>j. \<not> has_key ir_id (ti_uuid (inp j)) (db_incidents s)"
    and "evaluateConsensus (sqlite_store (quiet eng)) inp (reports (quiet eng) rs s) = (ts, s')"
  shows "outage_phase (stored_incidents s') (mon_id m) = None \<and>
    notified (stored_channels s) (if outage_phase (stored_incidents s) (mon_id m) = None then None
      else Some ''recovery'') (filter (\<lambda>t. task_monitor t = m) ts)"
proof -
  note tabs = reports_tables [OF assms(9), of eng] and same = reports_same [OF assms(9), of eng]
  have sequence: "in_sequence s rs" using assms(9) by (simp add: in_order_def)
  have some: "online \<noteq> []" using assms(12) by (auto simp: reporting_def)
  from sqlite_tick_recovers [OF assms(15) tabs(5) [OF assms(1)] _ assms(13) _ _ assms(4) _ assms(5-7),
      unfolded tabs(1-3) same, folded assms(10), OF assms(2,14,3) some received_successes_quorum [OF sequence reports_received [OF assms(9)] assms(5,8,11,12)]]
  show ?thesis .
qed

definition demo_reports :: "check_result list" where
  "demo_reports = [result_at ''up'' 10, result_at ''down'' 20]"

definition demo_ids :: "nat \<Rightarrow> tick_inputs" where
  "demo_ids j = inputs_i\<lparr>ti_uuid := replicate (Suc j) CHR ''i''\<rparr>"

definition demo_detection :: "alert_task list \<times> db" where
  "demo_detection = evaluateConsensus (sqlite_store (quiet plain_engine)) demo_ids
     (reports (quiet plain_engine) demo_reports db_setup)"

lemma demo_ids_inj:
  "inj (\<lambda>j. ti_uuid (demo_ids j))"
  by (rule injI, drule arg_cong [where f = length]) (simp add: demo_ids_def)

lemma reported_outage_is_announced_witness:
  "outage_phase (stored_incidents (snd demo_detection)) (mon_id mon_m) = Some Confirmed \<and>
    notified (stored_channels db_setup) (if outage_phase (stored_incidents db_setup) (mon_id mon_m) = Some Confirmed then None
      else Some ''alert'') (filter (\<lambda>t. task_monitor t = mon_m) (fst demo_detection))"
proof (rule reported_outage_is_announced [where rs = demo_reports and online = "[node_a]" and inp = demo_ids
      and eng = plain_engine])
  show "db_ok db_setup" "incidents_ok (stored_incidents db_setup)"
    by (simp_all add: db_ok_defs db_setup_eq stored_incidents_def incidents_ok_def)
  show "mon_m \<in> set (map scanMonitor (db_monitors db_setup))" "mon_enabled mon_m" "mon_quorum_type mon_m \<noteq> ''n_of_m''"
    "mon_failure_threshold mon_m \<le> 100"
    by (simp_all add: db_setup_eq mon_m_def)
  show "in_order db_setup demo_reports"
    by (simp add: in_order_def in_sequence_def demo_reports_def result_at_def db_setup_eq has_key_def newest_def pair_results_def
        mon_m_def node_a_def reported_by_def)
  show "[node_a] = filter (\<lambda>n. node_status n = NodeOnline) (db_nodes db_setup)"
    by (simp add: db_setup_eq node_a_def)
  show "\<forall>n \<in> set (reporting False mon_m demo_reports [node_a]). timed (mon_id mon_m) (node_id n) db_setup"
    by (simp add: timed_def pair_results_def db_setup_eq)
  show "2 * length (reporting False mon_m demo_reports [node_a]) > length [node_a]"
    by (simp add: reporting_def reported_last_def demo_reports_def result_at_def mon_m_def node_a_def reported_by_def)
  show "\<forall>j. \<not> has_key ir_id (ti_uuid (demo_ids j)) (db_incidents db_setup)"
    by (simp add: db_setup_eq has_key_def)
qed (simp_all add: demo_detection_def demo_ids_inj)

text \<open>After the outage is confirmed, the node reports successes.\<close>

definition demo_successes :: "check_result list" where
  "demo_successes = [result_at ''up'' 50, result_at ''up'' 60]"

definition demo_more_ids :: "nat \<Rightarrow> tick_inputs" where
  "demo_more_ids j = inputs_i\<lparr>ti_uuid := CHR ''j'' # replicate (Suc j) CHR ''i''\<rparr>"

definition demo_recovery :: "alert_task list \<times> db" where
  "demo_recovery = evaluateConsensus (sqlite_store (quiet plain_engine)) demo_more_ids
     (reports (quiet plain_engine) demo_successes db_alerted)"

lemma reported_recovery_is_announced_witness:
  "outage_phase (stored_incidents (snd demo_recovery)) (mon_id mon_m) = None \<and>
    notified (stored_channels db_alerted) (if outage_phase (stored_incidents db_alerted) (mon_id mon_m) = None then None
      else Some ''recovery'') (filter (\<lambda>t. task_monitor t = mon_m) (fst demo_recovery))"
proof (rule reported_recovery_is_announced [where rs = demo_successes and online = "[node_a]" and inp = demo_more_ids
      and eng = plain_engine])
  show "db_ok db_alerted" "incidents_ok (stored_incidents db_alerted)" using run_safe(1,2) [OF demo_runs(2)] by simp_all
  show "mon_m \<in> set (map scanMonitor (db_monitors db_alerted))" "mon_enabled mon_m" "mon_quorum_type mon_m \<noteq> ''n_of_m''"
    "mon_failure_threshold mon_m > 0" "mon_recovery_threshold mon_m > 0" "mon_recovery_threshold mon_m \<le> 100"
    by code_simp+
  show "in_order db_alerted demo_successes" by code_simp
  show "[node_a] = filter (\<lambda>n. node_status n = NodeOnline) (db_nodes db_alerted)" by code_simp
  show "\<forall>n \<in> set (reporting True mon_m demo_successes [node_a]). timed (mon_id mon_m) (node_id n) db_alerted" by code_simp
  show "2 * length (reporting True mon_m demo_successes [node_a]) > length [node_a]" by code_simp
  show "inj (\<lambda>j. ti_uuid (demo_more_ids j))"
    by (rule injI, drule arg_cong [where f = length]) (simp add: demo_more_ids_def)
  have "map ir_id (db_incidents db_alerted) = [''i'']" by code_simp
  then show "\<forall>j. \<not> has_key ir_id (ti_uuid (demo_more_ids j)) (db_incidents db_alerted)"
    by (auto simp: has_key_def demo_more_ids_def map_eq_Cons_conv)
qed (simp add: demo_recovery_def)

end
