(* ===== verification/Mesh.thy ===== *)
theory Mesh
  imports Agent_Properties Detection
begin

text \<open>
  Several agents and the network between them. Each agent runs as in theory \<open>Agent_Run\<close>; what its peer client
  sends arrives at the peer API (\<open>registerPeerRoutes\<close>) of the agent that listens on the address, works on that agent's
  database, and is answered, unless the link loses the request or the answer.
\<close>

section \<open>The network\<close>

text \<open>The database behind each address, and what becomes of a request to it.\<close>

type_synonym wire = "string \<Rightarrow> db option"

datatype link = Delivered | AnswerLost | Unreachable

text \<open>\<open>http://host:port/path\<close>, taken apart.\<close>

definition addressee :: "string \<Rightarrow> string \<times> string" where
  "addressee url = (let rest = drop (length ''http://'') url in
     (takeWhile (\<lambda>c. c \<noteq> CHR ''/'') rest, dropWhile (\<lambda>c. c \<noteq> CHR ''/'') rest))"

lemma addressee_of: "CHR ''/'' \<notin> set addr \<Longrightarrow> addressee (''http://'' @ addr @ CHR ''/'' # path) = (addr, CHR ''/'' # path)"
  by (auto simp: addressee_def Let_def takeWhile_tail dropWhile_append)

definition network ::
    "(string \<Rightarrow> link) \<Rightarrow> (string \<Rightarrow> engine) \<Rightarrow> (string \<Rightarrow> peer_server) \<Rightarrow> wire transport" where
  "network links eng pv meth url bdy w =
     (case addressee url of (host, path) \<Rightarrow>
        (case w host of
           None \<Rightarrow> (Inl ''no such host'', w)
         | Some s \<Rightarrow>
             (if links host = Unreachable then (Inl ''connection refused'', w)
              else case registerPeerRoutes (sqlite_store (eng host)) (pv host) meth path bdy s of
                (r, t) \<Rightarrow> (if links host = Delivered then Inr r else Inl ''timeout'', w(host \<mapsto> t)))))"

section \<open>The mesh\<close>

text \<open>The agents by their address. A step of one of them finds the databases of the others on its wire.\<close>

type_synonym mesh = "string \<Rightarrow> wire agent option"

record mesh_env =
  me_engine :: "string \<Rightarrow> engine"
  me_server :: "string \<Rightarrow> peer_server"
  me_codec :: peer_codec

definition wire_of :: "mesh \<Rightarrow> string \<Rightarrow> wire" where
  "wire_of M x = (\<lambda>y. if y = x then None else map_option ag_db (M y))"

definition server_at :: "mesh_env \<Rightarrow> mesh \<Rightarrow> string \<Rightarrow> peer_server" where
  "server_at E M y = (case M y of None \<Rightarrow> me_server E y | Some a \<Rightarrow> (me_server E y)\<lparr>pv_config := ag_config a\<rparr>)"

definition member_surroundings :: "mesh_env \<Rightarrow> (string \<Rightarrow> link) \<Rightarrow> mesh \<Rightarrow> string \<Rightarrow> wire surroundings" where
  "member_surroundings E links M x = \<lparr>su_engine = me_engine E x,
     su_transport = network links (me_engine E) (server_at E M), su_codec = me_codec E\<rparr>"

definition written_back :: "string \<Rightarrow> wire agent \<Rightarrow> mesh \<Rightarrow> mesh" where
  "written_back x b M = (\<lambda>y. if y = x then Some b
     else (case (M y, ag_net b y) of (Some a, Some s) \<Rightarrow> Some (a\<lparr>ag_db := s\<rparr>) | (m, _) \<Rightarrow> m))"

inductive mesh_step :: "mesh_env \<Rightarrow> mesh \<Rightarrow> string \<Rightarrow> (string \<Rightarrow> link) \<Rightarrow> agent_action \<Rightarrow> mesh \<Rightarrow> bool" for E where
  member_step: "M x = Some a \<Longrightarrow> agent_step (member_surroundings E links M x) (a\<lparr>ag_net := wire_of M x\<rparr>) act b \<Longrightarrow>
    mesh_step E M x links act (written_back x b M)"

inductive mesh_run :: "mesh_env \<Rightarrow> mesh \<Rightarrow> (string \<times> agent_action) list \<Rightarrow> mesh \<Rightarrow> bool" for E where
  idle: "mesh_run E M [] M"
| then_step: "mesh_run E M acts M1 \<Longrightarrow> mesh_step E M1 x links act M2 \<Longrightarrow> mesh_run E M (acts @ [(x, act)]) M2"

inductive_cases mesh_stepE: "mesh_step E M x links act M'"

text \<open>Every agent just started, on a sound database.\<close>

definition started :: "mesh \<Rightarrow> bool" where
  "started M \<longleftrightarrow> (\<forall>x a. M x = Some a \<longrightarrow>
     (\<exists>cfg s now w. a = Run (NewAgent cfg s now w) \<and> db_ok s \<and> incidents_ok (stored_incidents s)))"

text \<open>The result of the check that goroutine \<open>i\<close> of a member finishes.\<close>

definition checked :: "engine \<Rightarrow> wire agent \<Rightarrow> nat \<Rightarrow> moment \<Rightarrow> check_result option" where
  "checked eng a i mo = (case fst (check_body (sqlite_store eng) (cfg_node_id (ag_config a))
     (registered_check (mo_network mo)) (mo_now mo) (lp_monitor (sch_loops (ag_scheduler a) ! i)) (ag_db a)) of
     Inl p \<Rightarrow> None | Inr r \<Rightarrow> r)"

section \<open>What a request does to the others\<close>

definition wire_executes :: "(string \<Rightarrow> engine) \<Rightarrow> wire \<Rightarrow> wire \<Rightarrow> bool" where
  "wire_executes eng w v \<longleftrightarrow> (\<forall>y. case w y of None \<Rightarrow> v y = None
     | Some s \<Rightarrow> (\<exists>t. v y = Some t \<and> executes (eng y) s t))"

lemma wire_executes_refl [simp, intro]: "wire_executes eng w w"
  by (auto simp: wire_executes_def split: option.splits)

lemma wire_executesD:
  assumes "wire_executes eng w v"
  shows "w y = None \<Longrightarrow> v y = None" "w y = Some s \<Longrightarrow> \<exists>t. v y = Some t \<and> executes (eng y) s t"
  using assms by (auto simp: wire_executes_def dest: spec [of _ y])

lemma wire_executes_trans:
  assumes "wire_executes eng u v" and "wire_executes eng v w"
  shows "wire_executes eng u w"
  unfolding wire_executes_def
proof
  fix y
  show "case u y of None \<Rightarrow> w y = None | Some s \<Rightarrow> \<exists>t. w y = Some t \<and> executes (eng y) s t"
  proof (cases "u y")
    case None
    with wire_executesD(1) [OF assms(1)] wire_executesD(1) [OF assms(2)] show ?thesis by simp
  next
    case (Some s)
    with wire_executesD(2) [OF assms(1)] obtain t where t: "v y = Some t" "executes (eng y) s t" by blast
    with wire_executesD(2) [OF assms(2)] obtain r where "w y = Some r" "executes (eng y) t r" by blast
    with t(2) Some show ?thesis using executes_trans by auto
  qed
qed

lemma network_executes: "wire_executes eng w (snd (network links eng pv meth url bdy w))"
proof -
  obtain host path where url: "addressee url = (host, path)" by fastforce
  show ?thesis
  proof (cases "w host")
    case None
    then show ?thesis by (simp add: network_def url)
  next
    case (Some s)
    obtain r t where rt: "registerPeerRoutes (sqlite_store (eng host)) (pv host) meth path bdy s = (r, t)" by fastforce
    then have "executes (eng host) s t"
      using peer_requests_execute [of "eng host" s "pv host" meth path bdy] by simp
    with Some show ?thesis
      by (auto simp: network_def url rt wire_executes_def split: option.splits)
  qed
qed

text \<open>The peer client sends one request, or none.\<close>

lemma client_executes:
  assumes "\<And>meth url bdy w. wire_executes eng w (snd (tr meth url bdy w))"
  shows "wire_executes eng w (snd (SendHeartbeat tr pc addr hb w))"
    and "wire_executes eng w (snd (PushResult tr pc addr r w))"
    and "wire_executes eng w (snd (PushConfigSync tr pc addr sync w))"
    and "wire_executes eng w (snd (PullConfigSync tr pc addr w))"
proof -
  have post: "wire_executes eng w (snd (postJSON tr addr path q w))" for path q
    using assms by (auto simp: postJSON_def split: sum.splits prod.splits) (metis snd_conv)+
  show "wire_executes eng w (snd (SendHeartbeat tr pc addr hb w))" "wire_executes eng w (snd (PushResult tr pc addr r w))"
    "wire_executes eng w (snd (PushConfigSync tr pc addr sync w))"
    by (simp_all add: SendHeartbeat_def PushResult_def PushConfigSync_def post)
  show "wire_executes eng w (snd (PullConfigSync tr pc addr w))"
    using assms by (auto simp: PullConfigSync_def split: sum.splits prod.splits) (metis snd_conv)+
qed

lemma pushes_execute:
  assumes "\<And>meth url bdy w. wire_executes eng w (snd (tr meth url bdy w))"
  shows "wire_executes eng w (fold (\<lambda>(addr, sync) w. snd (PushConfigSync tr pc addr sync w)) msgs w)"
proof (induction msgs arbitrary: w)
  case (Cons p msgs)
  obtain addr sync where p: "p = (addr, sync)" by fastforce
  show ?case
    using wire_executes_trans [OF client_executes(3) [OF assms] Cons] by (simp add: p)
qed simp

lemma body_wire:
  assumes "\<And>meth url bdy w. wire_executes eng w (snd (su_transport su meth url bdy w))"
  shows "wire_executes eng (ag_net a) (ag_net (body su l mo a))"
proof (cases l)
  case SyncLoop
  then show ?thesis by (auto simp: syncMonitors_def split: prod.splits sum.splits)
next
  case HeartbeatLoop
  then show ?thesis by (auto simp: beat_def client_executes(1) [OF assms] split: prod.splits option.splits)
next
  case OfflineDetectionLoop
  then show ?thesis by (simp add: detect_def)
next
  case ConfigSyncLoop
  then show ?thesis by (auto simp: push_def pushes_execute [OF assms] split: prod.splits)
next
  case ConsensusLoop
  then show ?thesis by (auto simp: evaluate_def split: prod.splits)
next
  case ConfigPullLoop
  have "wire_executes eng (ag_net a) (ag_net (pull su mo addr a))" for addr
    using client_executes(4) [where tr = "su_transport su" and w = "ag_net a" and pc = "su_codec su" and addr = addr, OF assms]
    by (auto simp: pull_def split: prod.splits)
  with ConfigPullLoop show ?thesis by (auto split: option.splits)
qed

lemma step_wire:
  assumes step: "agent_step su a act b"
    and net: "\<And>meth url bdy w. wire_executes eng w (snd (su_transport su meth url bdy w))"
  shows "wire_executes eng (ag_net a) (ag_net b)"
  using step
proof cases
  case (first_step l mo)
  then show ?thesis using body_wire [OF net, of a l mo] by (simp add: first_def)
next
  case (tick_step l mo)
  then show ?thesis using body_wire [OF net, of a l mo] by simp
next
  case (finish_check_step i sch mo)
  then show ?thesis
    by (auto simp: run_check_def client_executes(2) [OF net] split: prod.splits sum.splits option.splits)
qed (simp_all add: handle_signal_def)

end
