(* ===== verification/Mesh_Samples.thy ===== *)
theory Mesh_Samples
  imports Mesh Setup_Properties
begin

text \<open>
  A small mesh for the witnesses: a coordinator with the database of theory \<open>Samples\<close> and a node with an empty one.
  The node pulls the configuration, syncs its scheduler, and finishes a check that cannot reach its target; then the
  coordinator ticks.
\<close>

definition node_config :: config where
  "node_config = DefaultConfig\<lparr>cfg_node_id := ''a'', cfg_role := ''node'', cfg_coordinator := Some ''c''\<rparr>"

definition down_moment :: moment where
  "down_moment = demo_moment\<lparr>mo_network := (\<lambda>_. quiet_world\<lparr>cw_dial := (\<lambda>_ _. Some ''refused'')\<rparr>)\<rparr>"

definition down_result :: check_result where
  "down_result = stored_check ''m'' ''a'' \<lparr>cres_status = ''down'', cres_latency_ms = 1, cres_status_code = 0,
     cres_error = ''tcp connect failed: refused''\<rparr> 20"

definition mesh_sync :: config_sync where
  "mesh_sync = \<lparr>cs_version = 10, cs_monitors = [mon_m], cs_nodes = [node_a]\<rparr>"

definition sample_env :: mesh_env where
  "sample_env = \<lparr>me_engine = (\<lambda>_. plain_engine), me_server = (\<lambda>_. demo_server down_result),
     me_codec = demo_codec\<lparr>pc_config_response := (\<lambda>_. Inr mesh_sync)\<rparr>\<rparr>"

definition links_up :: "string \<Rightarrow> link" where
  "links_up x = Delivered"

definition does :: "string \<Rightarrow> (wire surroundings \<Rightarrow> wire agent \<Rightarrow> wire agent) \<Rightarrow> mesh \<Rightarrow> mesh" where
  "does x f M = (case M x of None \<Rightarrow> M
     | Some a \<Rightarrow> written_back x (f (member_surroundings sample_env links_up M x) (a\<lparr>ag_net := wire_of M x\<rparr>)) M)"

definition mesh_0 :: mesh where
  "mesh_0 = [''c'' \<mapsto> Run (NewAgent demo_coordinator db_setup 1 (\<lambda>_. None)),
     ''n'' \<mapsto> Run (NewAgent node_config empty_db 1 (\<lambda>_. None))]"

definition mesh_1 :: mesh where
  "mesh_1 = does ''n'' (\<lambda>su. first su ConfigPullLoop demo_moment) mesh_0"

definition mesh_2 :: mesh where
  "mesh_2 = does ''n'' (\<lambda>su. first su SyncLoop demo_moment) mesh_1"

definition mesh_3 :: mesh where
  "mesh_3 = does ''n'' (\<lambda>su a. a\<lparr>ag_scheduler := begin_check 0 (ag_scheduler a)\<rparr>) mesh_2"

definition mesh_4 :: mesh where
  "mesh_4 = does ''c'' (\<lambda>su. first su ConsensusLoop demo_moment) mesh_3"

definition mesh_5 :: mesh where
  "mesh_5 = does ''c'' (\<lambda>su a. a\<lparr>ag_loops := (ag_loops a)(ConsensusLoop \<mapsto> Waiting True)\<rparr>) mesh_4"

definition mesh_6 :: mesh where
  "mesh_6 = does ''n'' (\<lambda>su. run_check su down_moment 0) mesh_5"

definition mesh_7 :: mesh where
  "mesh_7 = does ''c'' (\<lambda>su a. (body su ConsensusLoop demo_moment a)
     \<lparr>ag_loops := (ag_loops a)(ConsensusLoop \<mapsto> Waiting False)\<rparr>) mesh_6"

lemma does_step:
  assumes "M x = Some a" and "agent_step (member_surroundings sample_env links_up M x) (a\<lparr>ag_net := wire_of M x\<rparr>) act
    (f (member_surroundings sample_env links_up M x) (a\<lparr>ag_net := wire_of M x\<rparr>))"
  shows "mesh_step sample_env M x links_up act (does x f M)"
  using member_step [OF assms] by (simp add: does_def assms(1))

text \<open>What the steps need of a member.\<close>

definition loop_at :: "mesh \<Rightarrow> string \<Rightarrow> agent_loop \<Rightarrow> stage option" where
  "loop_at M x l = (case M x of None \<Rightarrow> None | Some a \<Rightarrow> ag_loops a l)"

lemma loop_atE:
  assumes "loop_at M x l = Some st"
  obtains a where "M x = Some a" "ag_loops (a\<lparr>ag_net := wire_of M x\<rparr>) l = Some st"
  using assms by (auto simp: loop_at_def split: option.splits)

lemma does_own: "M x = Some a \<Longrightarrow>
    does x f M x = Some (f (member_surroundings sample_env links_up M x) (a\<lparr>ag_net := wire_of M x\<rparr>))"
  by (simp add: does_def written_back_def)

lemma does_other:
  assumes "x \<noteq> y"
  shows "loop_at (does x f M) y l = loop_at M y l"
  using assms by (auto simp: does_def loop_at_def written_back_def split: option.splits)

lemma loop_at_first:
  assumes "loop_at M x l' = Some st" and "l \<noteq> l'"
  shows "loop_at (does x (\<lambda>su. first su l mo) M) x l' = Some st"
proof -
  obtain a where a: "M x = Some a" "ag_loops (a\<lparr>ag_net := wire_of M x\<rparr>) l' = Some st" using assms(1) by (rule loop_atE)
  with first_effect [of "member_surroundings sample_env links_up M x" "a\<lparr>ag_net := wire_of M x\<rparr>" l mo] assms(2)
  show ?thesis by (auto simp: loop_at_def does_own [where M = M and x = x, OF a(1)])
qed

lemma sample_loops:
  "loop_at mesh_0 ''n'' ConfigPullLoop = Some Starting" "loop_at mesh_1 ''n'' SyncLoop = Some Starting"
  "loop_at mesh_3 ''c'' ConsensusLoop = Some Starting" "loop_at mesh_4 ''c'' ConsensusLoop = Some (Waiting False)"
  "loop_at mesh_6 ''c'' ConsensusLoop = Some (Waiting True)"
proof -
  note init = loop_at_def mesh_0_def Run_def NewAgent_def loops_of_def node_config_def demo_coordinator_def
  show "loop_at mesh_0 ''n'' ConfigPullLoop = Some Starting" by (simp add: init)
  have "loop_at mesh_0 ''n'' SyncLoop = Some Starting" by (simp add: init)
  then show "loop_at mesh_1 ''n'' SyncLoop = Some Starting" unfolding mesh_1_def by (rule loop_at_first) simp
  have "loop_at mesh_0 ''c'' ConsensusLoop = Some Starting" by (simp add: init)
  then show three: "loop_at mesh_3 ''c'' ConsensusLoop = Some Starting"
    by (simp add: mesh_1_def mesh_2_def mesh_3_def does_other)
  obtain a where "mesh_3 ''c'' = Some a" using three by (rule loop_atE)
  then show four: "loop_at mesh_4 ''c'' ConsensusLoop = Some (Waiting False)"
    by (simp add: mesh_4_def loop_at_def does_own first_def)
  obtain b where "mesh_4 ''c'' = Some b" using four by (rule loop_atE)
  then have "loop_at mesh_5 ''c'' ConsensusLoop = Some (Waiting True)"
    by (simp add: mesh_5_def loop_at_def does_own)
  then show "loop_at mesh_6 ''c'' ConsensusLoop = Some (Waiting True)" by (simp add: mesh_6_def does_other)
qed

definition goroutine_at :: "mesh \<Rightarrow> string \<Rightarrow> (bool \<times> bool \<times> string) option" where
  "goroutine_at M x = (case M x of None \<Rightarrow> None | Some a \<Rightarrow>
     (case sch_loops (ag_scheduler a) of [] \<Rightarrow> None | l # ls \<Rightarrow> Some (lp_exited l, lp_busy l, lp_monitor l)))"

lemma goroutine_atE:
  assumes "goroutine_at M x = Some (e, b, k)"
  obtains a where "M x = Some a" "0 < length (sch_loops (ag_scheduler a))" "lp_exited (sch_loops (ag_scheduler a) ! 0) = e"
    "lp_busy (sch_loops (ag_scheduler a) ! 0) = b" "lp_monitor (sch_loops (ag_scheduler a) ! 0) = k"
  using assms by (auto simp: goroutine_at_def split: option.splits list.splits)

lemma goroutine_other:
  assumes "x \<noteq> y"
  shows "goroutine_at (does x f M) y = goroutine_at M y"
  using assms by (auto simp: does_def goroutine_at_def written_back_def split: option.splits)

lemma sample_goroutines:
  "goroutine_at mesh_2 ''n'' = Some (False, False, ''m'')" "goroutine_at mesh_5 ''n'' = Some (False, True, ''m'')"
proof -
  show "goroutine_at mesh_2 ''n'' = Some (False, False, ''m'')" by code_simp
  have "goroutine_at mesh_3 ''n'' = Some (False, True, ''m'')" by code_simp
  then show "goroutine_at mesh_5 ''n'' = Some (False, True, ''m'')"
    by (simp add: mesh_4_def mesh_5_def goroutine_other)
qed

text \<open>The databases before the check, and the coordinator's after it.\<close>

definition db_at :: "mesh \<Rightarrow> string \<Rightarrow> db option" where
  "db_at M x = map_option ag_db (M x)"

lemma db_at_elsewhere:
  assumes "\<And>su a. ag_net (f su a) = ag_net a" and "x \<noteq> y"
  shows "db_at (does x f M) y = db_at M y"
  using assms by (auto simp: db_at_def does_def written_back_def wire_of_def split: option.splits)

lemma db_at_unchanged:
  assumes "\<And>su a. ag_net (f su a) = ag_net a" and "\<And>su a. ag_db (f su a) = ag_db a"
  shows "db_at (does x f M) y = db_at M y"
  using assms by (auto simp: db_at_def does_def written_back_def wire_of_def split: option.splits)

definition before_check :: db where
  "before_check = db_setup\<lparr>db_stmts := 5\<rparr>"

definition after_check :: db where
  "after_check = db_setup\<lparr>db_results := [bind_result 1 down_result], db_result_seq := 1, db_stmts := 6\<rparr>"

definition node_tables :: db where
  "node_tables = empty_db\<lparr>db_nodes := [node_a], db_monitors := [bind_monitor mon_m], db_stmts := 5\<rparr>"

lemma sample_tables:
  "db_at mesh_5 ''c'' = Some before_check" "db_at mesh_5 ''n'' = Some node_tables"
proof -
  have sync: "ag_net (first su SyncLoop demo_moment a) = ag_net a" for su :: "wire surroundings" and a
    by (auto simp: first_def syncMonitors_def split: prod.splits sum.splits)
  have "db_at mesh_3 x = db_at mesh_2 x" for x unfolding mesh_3_def by (rule db_at_unchanged) simp_all
  moreover have "db_at mesh_4 x = db_at mesh_3 x" for x
    unfolding mesh_4_def by (rule db_at_unchanged) (simp_all add: first_def)
  moreover have "db_at mesh_5 x = db_at mesh_4 x" for x unfolding mesh_5_def by (rule db_at_unchanged) simp_all
  ultimately have later: "db_at mesh_5 x = db_at mesh_2 x" for x by simp
  have "db_at mesh_1 ''c'' = Some before_check" by code_simp
  then show "db_at mesh_5 ''c'' = Some before_check"
    unfolding later mesh_2_def by (subst db_at_elsewhere [where f = "\<lambda>su. first su SyncLoop demo_moment"]) (simp_all add: sync)
  have "db_at mesh_2 ''n'' = Some node_tables" by code_simp
  then show "db_at mesh_5 ''n'' = Some node_tables" unfolding later .
qed

lemma sample_result:
  assumes "ag_config a = node_config" and "ag_db a = node_tables" and "lp_monitor (sch_loops (ag_scheduler a) ! 0) = ''m''"
  shows "checked plain_engine a 0 down_moment = Some down_result"
  unfolding checked_def assms by code_simp

lemma sample_steps:
  "mesh_step sample_env mesh_0 ''n'' links_up (First ConfigPullLoop demo_moment) mesh_1"
  "mesh_step sample_env mesh_1 ''n'' links_up (First SyncLoop demo_moment) mesh_2"
  "mesh_step sample_env mesh_2 ''n'' links_up (BeginCheck 0) mesh_3"
  "mesh_step sample_env mesh_3 ''c'' links_up (First ConsensusLoop demo_moment) mesh_4"
  "mesh_step sample_env mesh_4 ''c'' links_up (Fire ConsensusLoop) mesh_5"
  "mesh_step sample_env mesh_5 ''n'' links_up (FinishCheck 0 down_moment) mesh_6"
  "mesh_step sample_env mesh_6 ''c'' links_up (Tick ConsensusLoop demo_moment) mesh_7"
proof -
  show "mesh_step sample_env mesh_0 ''n'' links_up (First ConfigPullLoop demo_moment) mesh_1"
    unfolding mesh_1_def by (rule loop_atE [OF sample_loops(1)]) (rule does_step, assumption, erule first_step)
  show "mesh_step sample_env mesh_1 ''n'' links_up (First SyncLoop demo_moment) mesh_2"
    unfolding mesh_2_def by (rule loop_atE [OF sample_loops(2)]) (rule does_step, assumption, erule first_step)
  show "mesh_step sample_env mesh_2 ''n'' links_up (BeginCheck 0) mesh_3"
    unfolding mesh_3_def
    by (rule goroutine_atE [OF sample_goroutines(1)])
      (rule does_step, assumption, rule begin_check_step, rule begin_step, simp_all)
  show "mesh_step sample_env mesh_3 ''c'' links_up (First ConsensusLoop demo_moment) mesh_4"
    unfolding mesh_4_def by (rule loop_atE [OF sample_loops(3)]) (rule does_step, assumption, erule first_step)
  show "mesh_step sample_env mesh_4 ''c'' links_up (Fire ConsensusLoop) mesh_5"
    unfolding mesh_5_def by (rule loop_atE [OF sample_loops(4)]) (rule does_step, assumption, erule fire_step)
  show "mesh_step sample_env mesh_5 ''n'' links_up (FinishCheck 0 down_moment) mesh_6"
    unfolding mesh_6_def
    by (rule goroutine_atE [OF sample_goroutines(2)])
      (rule does_step, assumption, rule finish_check_step, rule finish_step, simp_all)
  show "mesh_step sample_env mesh_6 ''c'' links_up (Tick ConsensusLoop demo_moment) mesh_7"
    unfolding mesh_7_def by (rule loop_atE [OF sample_loops(5)]) (rule does_step, assumption, erule tick_step)
qed

definition sample_actions :: "(string \<times> agent_action) list" where
  "sample_actions = [(''n'', First ConfigPullLoop demo_moment), (''n'', First SyncLoop demo_moment), (''n'', BeginCheck 0),
     (''c'', First ConsensusLoop demo_moment), (''c'', Fire ConsensusLoop)]"

lemma sample_run: "mesh_run sample_env mesh_0 sample_actions mesh_5"
  using then_step [OF then_step [OF then_step [OF then_step [OF then_step [OF idle sample_steps(1)] sample_steps(2)]
    sample_steps(3)] sample_steps(4)] sample_steps(5)] by (simp add: sample_actions_def)

lemma sample_started: "started mesh_0"
  unfolding started_def mesh_0_def
proof (intro allI impI)
  have "incidents_ok (stored_incidents db_setup)" by (simp add: stored_incidents_def db_setup_eq incidents_ok_def)
  then have ok: "db_ok empty_db" "incidents_ok (stored_incidents empty_db)" "db_ok db_setup"
    "incidents_ok (stored_incidents db_setup)" using db_setup_ok by simp_all
  fix x and a :: "wire agent"
  assume "[''c'' \<mapsto> Run (NewAgent demo_coordinator db_setup 1 (\<lambda>_. None)),
     ''n'' \<mapsto> Run (NewAgent node_config empty_db 1 (\<lambda>_. None))] x = Some a"
  then consider "a = Run (NewAgent demo_coordinator db_setup 1 (\<lambda>_. None))"
    | "a = Run (NewAgent node_config empty_db 1 (\<lambda>_. None))" by (auto split: if_splits)
  then show "\<exists>cfg s now w. a = Run (NewAgent cfg s now w) \<and> db_ok s \<and> incidents_ok (stored_incidents s)"
    by cases (use ok in blast)+
qed

end
