(* ===== verification/Mesh_Properties.thy ===== *)
theory Mesh_Properties
  imports Mesh_Samples
begin

text \<open>
  The mesh as a whole: each member is an agent of its own, only the coordinator alerts, a monitor added at the
  coordinator runs on the nodes, and the failures that the nodes see become an alert.
\<close>

section \<open>Members of a mesh\<close>

text \<open>What any step of the mesh does to a member, its own or one of another agent.\<close>

definition member_evolves :: "engine \<Rightarrow> wire agent \<Rightarrow> alert_task list \<Rightarrow> wire agent \<Rightarrow> bool" where
  "member_evolves eng a ts b \<longleftrightarrow> coordinator_run eng (ag_db a) ts (ag_db b) \<and> ag_alerts b = ag_alerts a @ ts \<and>
     (\<exists>sacts. sched_run (ag_scheduler a) sacts (ag_scheduler b)) \<and>
     ag_config b = ag_config a \<and> ag_callback b = ag_callback a \<and> dom (ag_loops b) = dom (ag_loops a) \<and>
     (ag_loops a ConsensusLoop = None \<longrightarrow> ts = [] \<and> db_incidents (ag_db b) = db_incidents (ag_db a))"

lemma member_evolves_trans:
  assumes "member_evolves eng a ts b" and "member_evolves eng b us c"
  shows "member_evolves eng a (ts @ us) c"
proof -
  obtain acts bcts where "sched_run (ag_scheduler a) acts (ag_scheduler b)" "sched_run (ag_scheduler b) bcts (ag_scheduler c)"
    using assms by (auto simp: member_evolves_def)
  then have "\<exists>sacts. sched_run (ag_scheduler a) sacts (ag_scheduler c)" using sched_append by blast
  moreover have "coordinator_run eng (ag_db a) (ts @ us) (ag_db c)"
    using assms run_append by (simp add: member_evolves_def) blast
  moreover have "ag_loops b ConsensusLoop = None \<longleftrightarrow> ag_loops a ConsensusLoop = None"
    using assms(1) by (metis domIff member_evolves_def)
  ultimately show ?thesis using assms by (simp add: member_evolves_def)
qed

lemma step_callback: "agent_step su a act b \<Longrightarrow> ag_callback b = ag_callback a"
proof (induction rule: agent_step.induct)
  case (first_step a l mo)
  show ?case using body_quiet [of l a su mo] by (auto simp: first_def same_program_def)
next
  case (tick_step a l mo)
  show ?case using body_quiet [of l a su mo] evaluate_program [of a su mo]
    by (cases "l = ConsensusLoop") (auto simp: same_program_def)
next
  case (finish_check_step a i sch mo)
  show ?case using run_check_quiet(1) [of a su mo i] by (simp add: same_program_def)
qed (simp_all add: handle_signal_def)

lemma step_evolves:
  assumes "agent_step su a act b"
  shows "\<exists>ts. member_evolves (su_engine su) a ts b"
proof -
  obtain ts where ts: "coordinator_run (su_engine su) (ag_db a) ts (ag_db b)" "ag_alerts b = ag_alerts a @ ts"
    using step_effect [OF assms] .
  have "ts = [] \<and> db_incidents (ag_db b) = db_incidents (ag_db a)" if "ag_loops a ConsensusLoop = None"
  proof -
    have "\<nexists>mo. act = Tick ConsensusLoop mo" using assms that by (auto elim: agent_stepE)
    from quiet_step [OF assms this] ts(2) show ?thesis by (auto dest: executes_incidents)
  qed
  with ts step_program [OF assms] step_callback [OF assms] step_scheduler [OF assms] show ?thesis
    by (auto simp: member_evolves_def)
qed

lemma executed_evolves: "executes eng (ag_db a) s \<Longrightarrow> member_evolves eng a [] (a\<lparr>ag_db := s\<rparr>)"
  using sched_done [of "ag_scheduler a"]
  by (auto simp: member_evolves_def executes_run dest: executes_incidents)

lemma net_evolves: "member_evolves eng (a\<lparr>ag_net := w\<rparr>) ts b \<longleftrightarrow> member_evolves eng a ts b"
  by (simp add: member_evolves_def)

lemma mesh_step_evolves:
  assumes "mesh_step E M x links act M'" and "M y = Some a"
  shows "\<exists>b ts. M' y = Some b \<and> member_evolves (me_engine E y) a ts b"
  using assms(1)
proof (rule mesh_stepE)
  fix c d
  let ?su = "member_surroundings E links M x"
  assume M': "M' = written_back x d M" and c: "M x = Some c"
    and step: "agent_step ?su (c\<lparr>ag_net := wire_of M x\<rparr>) act d"
  show ?thesis
  proof (cases "y = x")
    case True
    with step_evolves [OF step] c assms(2) M' show ?thesis
      by (auto simp: net_evolves written_back_def member_surroundings_def)
  next
    case False
    have "wire_executes (me_engine E) (wire_of M x) (ag_net d)"
      using step_wire [OF step, of "me_engine E"] network_executes by (simp add: member_surroundings_def)
    from wire_executesD(2) [OF this, of y "ag_db a"] False assms(2) obtain s
      where s: "ag_net d y = Some s" "executes (me_engine E y) (ag_db a) s" by (auto simp: wire_of_def)
    then have "M' y = Some (a\<lparr>ag_db := s\<rparr>)" using M' False assms(2) by (simp add: written_back_def)
    with executed_evolves [OF s(2)] show ?thesis by blast
  qed
qed

lemma mesh_run_evolves:
  assumes "mesh_run E M acts M'" and "M y = Some a"
  shows "\<exists>b ts. M' y = Some b \<and> member_evolves (me_engine E y) a ts b"
  using assms
proof (induction rule: mesh_run.induct)
  case (idle M)
  have "executes (me_engine E y) (ag_db a) (ag_db a)" by simp
  from executed_evolves [OF this] idle show ?case by auto
next
  case (then_step M acts M1 x links act M2)
  then obtain b ts where b: "M1 y = Some b" "member_evolves (me_engine E y) a ts b" by blast
  from mesh_step_evolves [OF then_step.hyps(2) b(1)] member_evolves_trans [OF b(2)] show ?case by blast
qed

text \<open>C5: in a mesh, whatever its agents do in any order, over links that lose requests and answers and on databases
  that fail, each member's database goes through a run of the coordinator, whose notifications are the member's alerts,
  and its scheduler through a run of the scheduler; a member that is not the coordinator alerts nobody and its incidents
  do not change.\<close>

theorem mesh_refines_coordinators:
  assumes "mesh_run E M acts M'" and "M x = Some (Run (NewAgent cfg s now w))"
  shows "\<exists>b sacts. M' x = Some b \<and> coordinator_run (me_engine E x) s (ag_alerts b) (ag_db b) \<and>
    sched_run NewScheduler sacts (ag_scheduler b) \<and> ag_config b = cfg \<and>
    (cfg_role cfg \<noteq> RoleCoordinator \<longrightarrow> ag_alerts b = [] \<and> db_incidents (ag_db b) = db_incidents s)"
  using mesh_run_evolves [OF assms]
  by (auto simp: member_evolves_def Run_def NewAgent_def loops_of_def)

lemma mesh_refines_coordinators_witness:
  "\<exists>b sacts. mesh_5 ''n'' = Some b \<and> coordinator_run plain_engine empty_db (ag_alerts b) (ag_db b) \<and>
    sched_run NewScheduler sacts (ag_scheduler b) \<and> ag_config b = node_config \<and>
    ag_alerts b = [] \<and> db_incidents (ag_db b) = db_incidents empty_db"
proof -
  have "mesh_0 ''n'' = Some (Run (NewAgent node_config empty_db 1 (\<lambda>_. None)))" by (simp add: mesh_0_def)
  moreover have "me_engine sample_env ''n'' = plain_engine" "cfg_role node_config \<noteq> RoleCoordinator"
    by (simp_all add: sample_env_def node_config_def)
  ultimately show ?thesis using mesh_refines_coordinators [OF sample_run] by metis
qed

section \<open>A monitor reaches the nodes\<close>

lemma mesh_run_append:
  assumes "mesh_run E M1 bcts M2" and "mesh_run E M acts M1"
  shows "mesh_run E M (acts @ bcts) M2"
  using assms
proof (induction rule: mesh_run.induct)
  case (then_step N cts N1 x links act N2)
  from mesh_run.then_step [OF then_step.IH [OF then_step.prems] then_step.hyps(2)] show ?case by simp
qed simp

lemma started_member:
  assumes "started M0" and "mesh_run E M0 acts M" and "M x = Some a" and "M0 x \<noteq> None"
  shows "db_ok (ag_db a)" "incidents_ok (stored_incidents (ag_db a))" "sched_ok (ag_scheduler a)"
proof -
  obtain cfg s now w where 0: "M0 x = Some (Run (NewAgent cfg s now w))" "db_ok s" "incidents_ok (stored_incidents s)"
    using assms(1,4) unfolding started_def by blast
  from mesh_run_evolves [OF assms(2) 0(1)] assms(3) obtain ts sacts where
    "coordinator_run (me_engine E x) s ts (ag_db a)" "sched_run NewScheduler sacts (ag_scheduler a)"
    by (auto simp: member_evolves_def Run_def NewAgent_def)
  with run_safe(1,2) [OF _ 0(2,3)] sched_run_ok [OF _ sched_ok_new]
  show "db_ok (ag_db a)" "incidents_ok (stored_incidents (ag_db a))" "sched_ok (ag_scheduler a)" by blast+
qed

lemma mesh_step_members: "mesh_step E M x links act M' \<Longrightarrow> M' y = None \<longleftrightarrow> M y = None"
  by (auto elim!: mesh_stepE simp: written_back_def split: option.splits if_splits)

lemma mesh_run_members: "mesh_run E M acts M' \<Longrightarrow> M' y = None \<longleftrightarrow> M y = None"
  by (induction rule: mesh_run.induct) (auto dest: mesh_step_members [where y = y])

lemma network_delivers:
  assumes "CHR ''/'' \<notin> set c" and "w c = Some s" and "links c = Delivered"
    and "registerPeerRoutes (sqlite_store (eng c)) (pv c) meth (CHR ''/'' # path) bdy s = (r, t)"
  shows "network links eng pv meth (''http://'' @ c @ CHR ''/'' # path) bdy w = (Inr r, w(c \<mapsto> t))"
  unfolding network_def addressee_of [OF assms(1)] using assms by simp

lemma pull_over_network:
  assumes "CHR ''/'' \<notin> set c" and "w c = Some s" and "links c = Delivered"
    and "handlePeerConfigSyncPull (sqlite_store (eng c)) (pv_config (pv c)) (pv_error_text (pv c)) (pv_now (pv c)) s
      = (writeJSON 200 (ConfigBody sync), t)"
    and "pc_config_response pc \<lparr>rw_code = 200, rw_bytes = pv_encode (pv c) (ConfigBody sync) @ [CHR 0x0A], rw_broken = None\<rparr>
      = Inr sync"
  shows "PullConfigSync (network links eng pv) pc c w = (Inr sync, w(c \<mapsto> t))"
proof -
  have "registerPeerRoutes (sqlite_store (eng c)) (pv c) ''GET'' ''/api/v1/peer/config-sync'' [] s
      = (\<lparr>rw_code = 200, rw_bytes = pv_encode (pv c) (ConfigBody sync) @ [CHR 0x0A], rw_broken = None\<rparr>, t)"
    using assms(4) by (simp add: registerPeerRoutes_def sent_def)
  from network_delivers [where links = links and eng = eng and pv = pv and c = c and w = w, OF assms(1-3) this] assms(5) show ?thesis by (simp add: PullConfigSync_def)
qed

text \<open>A step that runs the body of a loop, the first time or on a tick.\<close>

lemma body_step:
  assumes "agent_step su a act b" and "act \<in> {First l mo, Tick l mo}" and "l \<in> {SyncLoop, HeartbeatLoop, ConfigPullLoop}"
    and "cfg_coordinator (ag_config a) \<noteq> None"
  shows "ag_db b = ag_db (body su l mo a) \<and> ag_scheduler b = ag_scheduler (body su l mo a) \<and> ag_config b = ag_config a"
  using assms step_program [OF assms(1)] by cases (auto simp: first_def)

lemma synced_fields:
  "synced_monitor (Some m) x = Some m' \<Longrightarrow> mon_id m' = mon_id m \<and> mon_enabled m' = mon_enabled m"
  by (auto simp: synced_monitor_def split: option.splits)

lemma stored_monitor_enabled:
  assumes "db_ok s" and "sqlite_ListEnabledMonitors (quiet eng) s = (Inr ms, t)" and "stored_monitor s k = Some m"
  shows "k \<in> mon_id ` set ms \<longleftrightarrow> mon_enabled m"
proof -
  have set: "set ms = {m \<in> set (map scanMonitor (db_monitors s)). mon_enabled m}"
    using assms(2) by (auto simp: sqlite_ListEnabledMonitors_def db_query_def filter_map comp_def)
  have keys: "distinct (map mr_id (db_monitors s))" using assms(1) by (simp add: db_ok_def keys_unique_def)
  obtain r where found: "find (\<lambda>r. mr_id r = k) (db_monitors s) = Some r" and m: "m = scanMonitor r"
    using assms(3) by (auto simp: stored_monitor_def)
  then have r: "r \<in> set (db_monitors s)" "mr_id r = k" by (auto simp: find_Some_iff)
  have "q = r" if "q \<in> set (db_monitors s)" "mr_id q = k" for q
    using distinct_map_unique [OF keys that(1) r(1)] that(2) r(2) by simp
  note only = this
  show ?thesis
  proof
    assume "k \<in> mon_id ` set ms"
    then obtain q where q: "q \<in> set (db_monitors s)" "mon_enabled (scanMonitor q)" "mr_id q = k" unfolding set by auto
    with only [OF q(1,3)] m show "mon_enabled m" by simp
  next
    assume "mon_enabled m"
    with r(1) m have "m \<in> set ms" unfolding set by simp
    then have "mon_id m \<in> mon_id ` set ms" by (rule imageI)
    with r(2) m show "k \<in> mon_id ` set ms" by simp
  qed
qed

lemma syncMonitors_runs:
  assumes "su_engine su = quiet eng" and "db_ok (ag_db a)" and "sched_ok (ag_scheduler a)"
    and "stored_monitor (ag_db a) k = Some m"
  shows "(\<exists>!i. i < length (sch_loops (ag_scheduler (syncMonitors su a))) \<and>
      \<not> lp_cancelled (sch_loops (ag_scheduler (syncMonitors su a)) ! i) \<and>
      lp_monitor (sch_loops (ag_scheduler (syncMonitors su a)) ! i) = k) \<longleftrightarrow> mon_enabled m"
proof -
  obtain ms t where ms: "sqlite_ListEnabledMonitors (quiet eng) (ag_db a) = (Inr ms, t)"
    by (simp add: sqlite_ListEnabledMonitors_def db_query_def)
  have sch: "ag_scheduler (syncMonitors su a) = SyncMonitors ms (ag_scheduler a)"
    by (simp add: syncMonitors_def assms(1) ms)
  show ?thesis
    unfolding sch live_loop(1) [OF SyncMonitors_ok [OF assms(3)]] SyncMonitors_ids [OF assms(3)]
    by (rule stored_monitor_enabled [OF assms(2) ms assms(4)])
qed

lemma own_step:
  assumes "mesh_step E M x links act M'" and "M x = Some a"
  obtains b where "agent_step (member_surroundings E links M x) (a\<lparr>ag_net := wire_of M x\<rparr>) act b"
    "M' x = Some b" "M' = written_back x b M"
  using assms(1) by (rule mesh_stepE) (use assms(2) that in \<open>simp add: written_back_def\<close>)

lemma pull_step:
  assumes step: "mesh_step E M x links act M1" and act: "act \<in> {First ConfigPullLoop mo, Tick ConfigPullLoop mo}"
    and a: "M x = Some a" "cfg_coordinator (ag_config a) = Some c" and hub: "M c = Some hub" "cfg_role (ag_config hub) = RoleCoordinator"
    and c: "c \<noteq> x" "CHR ''/'' \<notin> set c" "links c = Delivered"
    and eng: "me_engine E x = quiet e" "me_engine E c = quiet e'" and ok: "db_ok (ag_db hub)"
    and codec: "\<forall>sync. fst (handlePeerConfigSyncPull (sqlite_store (me_engine E c)) (ag_config hub)
        (pv_error_text (me_server E c)) (pv_now (me_server E c)) (ag_db hub)) = writeJSON 200 (ConfigBody sync) \<longrightarrow>
      pc_config_response (me_codec E) \<lparr>rw_code = 200, rw_bytes = pv_encode (me_server E c) (ConfigBody sync) @ [CHR 0x0A],
        rw_broken = None\<rparr> = Inr sync"
  shows "\<exists>b. M1 x = Some b \<and> ag_scheduler b = ag_scheduler a \<and>
    stored_monitor (ag_db b) = (\<lambda>k. synced_monitor (stored_monitor (ag_db hub) k) (stored_monitor (ag_db a) k))"
proof -
  let ?su = "member_surroundings E links M x" and ?a = "a\<lparr>ag_net := wire_of M x\<rparr>"
  obtain b where b: "agent_step ?su ?a act b" "M1 x = Some b" using own_step [OF step a(1)] by blast
  obtain resp t where h: "handlePeerConfigSyncPull (sqlite_store (quiet e')) (ag_config hub)
      (pv_error_text (me_server E c)) (pv_now (me_server E c)) (ag_db hub) = (resp, t)" by fastforce
  obtain sync where sync: "resp = writeJSON 200 (ConfigBody sync)"
    "distinct (map mon_id (cs_monitors sync))" "distinct (map node_id (cs_nodes sync))"
    "\<And>k. find (\<lambda>m. mon_id m = k) (cs_monitors sync) = stored_monitor (ag_db hub) k"
    using served_config [OF h hub(2) [unfolded RoleCoordinator_def] ok] by blast
  have srv: "server_at E M c = (me_server E c)\<lparr>pv_config := ag_config hub\<rparr>" by (simp add: server_at_def hub(1))
  have "PullConfigSync (network links (me_engine E) (server_at E M)) (me_codec E) c (wire_of M x)
      = (Inr sync, (wire_of M x)(c \<mapsto> t))"
  proof (rule pull_over_network [where links = links and c = c, OF c(2) _ c(3)])
    show "wire_of M x c = Some (ag_db hub)" using c(1) hub(1) by (simp add: wire_of_def)
    show "handlePeerConfigSyncPull (sqlite_store (me_engine E c)) (pv_config (server_at E M c)) (pv_error_text (server_at E M c))
        (pv_now (server_at E M c)) (ag_db hub) = (writeJSON 200 (ConfigBody sync), t)"
      using h sync(1) eng(2) by (simp add: srv)
    show "pc_config_response (me_codec E) \<lparr>rw_code = 200, rw_bytes = pv_encode (server_at E M c) (ConfigBody sync) @ [CHR 0x0A],
        rw_broken = None\<rparr> = Inr sync"
      using codec h sync(1) eng(2) by (simp add: srv)
  qed
  then have db: "ag_db (body ?su ConfigPullLoop mo ?a) = applyConfigSync (sqlite_store (quiet e)) sync (ag_db a)"
    using a(2) by (simp add: pull_def pullConfigSync_def member_surroundings_def eng(1) split: prod.splits)
  have "ag_scheduler (body ?su ConfigPullLoop mo ?a) = ag_scheduler a"
    using other_bodies_scheduler [of ConfigPullLoop ?su mo ?a] by simp
  with body_step [OF b(1) act] a(2) db b(2) applied_values(1) [OF sync(2,3)] sync(4) show ?thesis by auto
qed

text \<open>C7: from the coordinator to the schedulers: in a mesh, after a node has pulled the configuration of its coordinator
  over a link that delivers and has then synced its scheduler, on databases that do not fail, each monitor of the
  coordinator has one live goroutine in the node's scheduler if it is enabled, and none if not.\<close>

theorem monitor_reaches_nodes:
  assumes "started M0" and "mesh_run E M0 acts M" and "M x = Some a" and "cfg_coordinator (ag_config a) = Some c"
    and "M c = Some hub" and "cfg_role (ag_config hub) = RoleCoordinator" and "c \<noteq> x" and "CHR ''/'' \<notin> set c"
    and "me_engine E x = quiet e" and "me_engine E c = quiet e'"
    and "\<forall>sync. fst (handlePeerConfigSyncPull (sqlite_store (me_engine E c)) (ag_config hub)
        (pv_error_text (me_server E c)) (pv_now (me_server E c)) (ag_db hub)) = writeJSON 200 (ConfigBody sync) \<longrightarrow>
      pc_config_response (me_codec E) \<lparr>rw_code = 200, rw_bytes = pv_encode (me_server E c) (ConfigBody sync) @ [CHR 0x0A],
        rw_broken = None\<rparr> = Inr sync"
    and "mesh_step E M x links act M1" and "act \<in> {First ConfigPullLoop mo, Tick ConfigPullLoop mo}" and "links c = Delivered"
    and "mesh_step E M1 x links' act' M2" and "act' \<in> {First SyncLoop mo', Tick SyncLoop mo'}"
    and "stored_monitor (ag_db hub) k = Some m"
  shows "\<exists>b. M2 x = Some b \<and>
    ((\<exists>!i. i < length (sch_loops (ag_scheduler b)) \<and> \<not> lp_cancelled (sch_loops (ag_scheduler b) ! i) \<and>
      lp_monitor (sch_loops (ag_scheduler b) ! i) = k) \<longleftrightarrow> mon_enabled m)"
proof -
  have in0: "M0 c \<noteq> None" "M0 x \<noteq> None"
    using mesh_run_members [OF assms(2), of c] mesh_run_members [OF assms(2), of x] assms(3,5) by auto
  note hub = started_member(1) [OF assms(1,2,5) in0(1)]
  from pull_step [OF assms(12,13,3,4,5,6,7,8,14,9,10) hub assms(11)] obtain b where b: "M1 x = Some b"
    "ag_scheduler b = ag_scheduler a"
    "stored_monitor (ag_db b) = (\<lambda>k. synced_monitor (stored_monitor (ag_db hub) k) (stored_monitor (ag_db a) k))"
    by blast
  have run: "mesh_run E M0 (acts @ [(x, act)]) M1" by (rule mesh_run.then_step [OF assms(2,12)])
  note ok = started_member(1,3) [OF assms(1) run b(1) in0(2)]
  from mesh_step_evolves [OF assms(12,3)] b(1) have "ag_config b = ag_config a" by (auto simp: member_evolves_def)
  then have conf: "cfg_coordinator (ag_config (b\<lparr>ag_net := wire_of M1 x\<rparr>)) \<noteq> None" using assms(4) by simp
  have served: "stored_monitor (ag_db b) k = synced_monitor (Some m) (stored_monitor (ag_db a) k)"
    using b(3) assms(17) by simp
  then obtain m' where m': "stored_monitor (ag_db b) k = Some m'" by (simp add: synced_monitor_def)
  with served synced_fields have enabled: "mon_enabled m' = mon_enabled m" by metis
  obtain d where d: "agent_step (member_surroundings E links' M1 x) (b\<lparr>ag_net := wire_of M1 x\<rparr>) act' d" "M2 x = Some d"
    using own_step [OF assms(15) b(1)] by blast
  have "ag_scheduler d = ag_scheduler (syncMonitors (member_surroundings E links' M1 x) (b\<lparr>ag_net := wire_of M1 x\<rparr>))"
    using body_step [OF d(1) assms(16) _ conf] by simp
  with syncMonitors_runs [of "member_surroundings E links' M1 x" e "b\<lparr>ag_net := wire_of M1 x\<rparr>" k m'] ok m' enabled assms(9) d(2)
  show ?thesis by (simp add: member_surroundings_def)
qed

lemma monitor_reaches_nodes_witness:
  "\<exists>b. mesh_2 ''n'' = Some b \<and>
    ((\<exists>!i. i < length (sch_loops (ag_scheduler b)) \<and> \<not> lp_cancelled (sch_loops (ag_scheduler b) ! i) \<and>
      lp_monitor (sch_loops (ag_scheduler b) ! i) = ''m'') \<longleftrightarrow> mon_enabled mon_m)"
proof (rule monitor_reaches_nodes [OF sample_started mesh_run.idle, where c = "''c''" and e = plain_engine and e' = plain_engine,
      OF _ _ _ _ _ _ _ _ _ sample_steps(1) _ _ sample_steps(2)])
  let ?hub = "Run (NewAgent demo_coordinator db_setup 1 (\<lambda>_. None)) :: wire agent"
  show "mesh_0 ''n'' = Some (Run (NewAgent node_config empty_db 1 (\<lambda>_. None)))" "mesh_0 ''c'' = Some ?hub"
    by (simp_all add: mesh_0_def)
  have "fst (handlePeerConfigSyncPull (sqlite_store (me_engine sample_env ''c'')) demo_coordinator
        (pv_error_text (me_server sample_env ''c'')) (pv_now (me_server sample_env ''c'')) db_setup)
      = writeJSON 200 (ConfigBody mesh_sync)" by code_simp
  then show "\<forall>sync. fst (handlePeerConfigSyncPull (sqlite_store (me_engine sample_env ''c'')) (ag_config ?hub)
        (pv_error_text (me_server sample_env ''c'')) (pv_now (me_server sample_env ''c'')) (ag_db ?hub))
      = writeJSON 200 (ConfigBody sync) \<longrightarrow>
      pc_config_response (me_codec sample_env) \<lparr>rw_code = 200, rw_bytes = pv_encode (me_server sample_env ''c'') (ConfigBody sync)
        @ [CHR 0x0A], rw_broken = None\<rparr> = Inr sync"
    by (simp add: Run_def NewAgent_def writeJSON_def sample_env_def)
  show "stored_monitor (ag_db ?hub) ''m'' = Some mon_m"
    by (simp add: Run_def NewAgent_def stored_monitor_def db_setup_eq) (simp add: mon_m_def)
qed (simp_all add: Run_def NewAgent_def node_config_def demo_coordinator_def sample_env_def quiet_def plain_engine_def links_up_def)

end
