(* ===== verification/Mesh_Detection.thy ===== *)
theory Mesh_Detection
  imports Mesh_Properties
begin

text \<open>
  From the checks of the nodes to the alert of the coordinator: the results that the members of a mesh compute
  and push are the rows of the coordinator's table, and its next tick acts on them.
\<close>

section \<open>Rounds of checks\<close>

text \<open>
  A stretch of a run of the mesh, with the results that reach the coordinator \<open>c\<close>: those of the checks of other members
  whose callback is the coordinator over a link that delivers. Everything else may happen too, as long as
  it leaves the coordinator's table of results alone.
\<close>

definition results_at :: "string \<Rightarrow> mesh \<Rightarrow> result_row list option" where
  "results_at c M = map_option (\<lambda>a. db_results (ag_db a)) (M c)"

inductive mesh_checks :: "mesh_env \<Rightarrow> string \<Rightarrow> mesh \<Rightarrow> check_result list \<Rightarrow> mesh \<Rightarrow> bool" for E c where
  no_check: "mesh_checks E c M [] M"
| aside: "mesh_checks E c M rs M1 \<Longrightarrow> mesh_step E M1 x links act M2 \<Longrightarrow> results_at c M2 = results_at c M1 \<Longrightarrow>
    mesh_checks E c M rs M2"
| pushed: "mesh_checks E c M rs M1 \<Longrightarrow> mesh_step E M1 x links (FinishCheck i mo) M2 \<Longrightarrow>
    M1 x = Some a \<Longrightarrow> x \<noteq> c \<Longrightarrow> ag_callback a = Some c \<Longrightarrow> links c = Delivered \<Longrightarrow> checked (me_engine E x) a i mo = Some r \<Longrightarrow>
    M1 c = Some h \<Longrightarrow> has_key mr_id (res_monitor_id r) (db_monitors (ag_db h)) \<Longrightarrow>
    has_key node_id (res_node_id r) (db_nodes (ag_db h)) \<Longrightarrow> mesh_checks E c M (rs @ [r]) M2"

lemma mesh_checks_run: "mesh_checks E c M rs M1 \<Longrightarrow> \<exists>acts. mesh_run E M acts M1"
  by (induction rule: mesh_checks.induct) (auto intro: mesh_run.idle mesh_run.then_step)

lemma push_over_network:
  assumes "CHR ''/'' \<notin> set c" and "w c = Some s" and "links c = Delivered"
    and "pc_result pc r = Inr bdy" and "pv_result (pv c) bdy = Inr r"
  shows "snd (PushResult (network links eng pv) pc c r w) = w(c \<mapsto> snd (handlePeerResult (sqlite_store (eng c)) (Inr r) s))"
proof -
  obtain q t where t: "handlePeerResult (sqlite_store (eng c)) (Inr r) s = (q, t)" by fastforce
  then have "registerPeerRoutes (sqlite_store (eng c)) (pv c) ''POST'' ''/api/v1/peer/result'' bdy s
      = (fst (sent (pv c) (q, t)), t)"
    using assms(5) by (simp add: registerPeerRoutes_def sent_def)
  from network_delivers [where links = links and eng = eng and pv = pv and c = c and w = w, OF assms(1-3) this] t assms(4)
  show ?thesis by (simp add: PushResult_def postJSON_def)
qed

text \<open>The push of a member is a row of the coordinator.\<close>

lemma pushed_row:
  assumes step: "mesh_step E M x links (FinishCheck i mo) M'" and a: "M x = Some a" "ag_callback a = Some c"
    and c: "x \<noteq> c" "CHR ''/'' \<notin> set c" "links c = Delivered" "me_engine E c = quiet eng"
    and r: "checked (me_engine E x) a i mo = Some r"
    and codec: "pc_result (me_codec E) r = Inr bdy" "pv_result (me_server E c) bdy = Inr r"
    and h: "M c = Some h" "has_key mr_id (res_monitor_id r) (db_monitors (ag_db h))"
      "has_key node_id (res_node_id r) (db_nodes (ag_db h))"
  shows "M' c = Some (h\<lparr>ag_db := (tick (ag_db h))\<lparr>db_results := db_results (ag_db h) @
      [bind_result (db_result_seq (ag_db h) + 1) r], db_result_seq := db_result_seq (ag_db h) + 1\<rparr>\<rparr>)"
proof -
  let ?su = "member_surroundings E links M x" and ?a = "a\<lparr>ag_net := wire_of M x\<rparr>"
  obtain b where b: "agent_step ?su ?a (FinishCheck i mo) b" "M' = written_back x b M" using own_step [OF step a(1)] by blast
  then have run: "b = run_check ?su mo i ?a" by (auto elim: agent_step.cases)
  obtain q t where q: "check_body (sqlite_store (me_engine E x)) (cfg_node_id (ag_config a)) (registered_check (mo_network mo))
      (mo_now mo) (lp_monitor (sch_loops (ag_scheduler a) ! i)) (ag_db a) = (q, t)" by fastforce
  with r have "q = Inr (Some r)" by (auto simp: checked_def split: sum.splits)
  with q run a(2) have net: "ag_net b = snd (PushResult (network links (me_engine E) (server_at E M)) (me_codec E) c r (wire_of M x))"
    by (simp add: run_check_def member_surroundings_def)
  have at_c: "wire_of M x c = Some (ag_db h)" using c(1) h(1) by (simp add: wire_of_def)
  have pv: "pv_result (server_at E M c) bdy = Inr r" using codec(2) h(1) by (simp add: server_at_def)
  have "ag_net b c = Some (snd (handlePeerResult (sqlite_store (quiet eng)) (Inr r) (ag_db h)))"
    unfolding net push_over_network [where links = links and c = c and w = "wire_of M x" and pv = "server_at E M", OF c(2) at_c c(3) codec(1) pv]
    by (simp add: c(4))
  then have "M' c = Some (h\<lparr>ag_db := snd (handlePeerResult (sqlite_store (quiet eng)) (Inr r) (ag_db h))\<rparr>)"
    using b(2) c(1) h(1) by (simp add: written_back_def)
  with report_effect [OF h(2,3), of eng] show ?thesis by simp
qed

lemma mesh_checks_received:
  assumes "mesh_checks E c M rs M'" and "CHR ''/'' \<notin> set c" and "me_engine E c = quiet eng"
    and "\<forall>r \<in> set rs. \<exists>bdy. pc_result (me_codec E) r = Inr bdy \<and> pv_result (me_server E c) bdy = Inr r"
    and "M c = Some h"
  shows "\<exists>h'. M' c = Some h' \<and> received rs (ag_db h) (ag_db h')"
  using assms
proof (induction rule: mesh_checks.induct)
  case (no_check M)
  then show ?case by (simp add: received_Nil)
next
  case (aside M rs M1 x links act M2)
  then obtain h1 where "M1 c = Some h1" "received rs (ag_db h) (ag_db h1)" by blast
  moreover from this(1) aside.hyps(3) obtain h2 where "M2 c = Some h2" "db_results (ag_db h2) = db_results (ag_db h1)"
    by (auto simp: results_at_def)
  ultimately show ?case by (auto simp: received_def)
next
  case (pushed M rs M1 x links i mo M2 a r h0)
  from pushed.prems(3) have "\<forall>r \<in> set rs. \<exists>bdy. pc_result (me_codec E) r = Inr bdy \<and> pv_result (me_server E c) bdy = Inr r"
    by simp
  from pushed.IH [OF pushed.prems(1,2) this pushed.prems(4)] pushed.hyps(8) have rec: "received rs (ag_db h) (ag_db h0)"
    by simp
  obtain bdy where bdy: "pc_result (me_codec E) r = Inr bdy" "pv_result (me_server E c) bdy = Inr r"
    using pushed.prems(3) by auto
  from pushed_row [OF pushed.hyps(2,3,5,4) pushed.prems(1) pushed.hyps(6) pushed.prems(2) pushed.hyps(7) bdy pushed.hyps(8,9,10)]
    rec show ?case unfolding received_snoc by (intro exI conjI) auto
qed

section \<open>The alert\<close>

text \<open>C6: the mesh announces an outage: if the results that the members of a mesh compute and push to the coordinator end,
  for more than half of the nodes that are online, with as many failures of an enabled majority monitor as its threshold
  asks for, at most 100, then whatever else happens meanwhile, the coordinator's next tick on a database that
  does not fail leaves the outage confirmed and, unless it was so before, alerts each enabled channel once; at once, without
  the sustained period and the cooldown that \<open>openapi.yaml\<close> describes.\<close>

theorem mesh_announces_outage:
  assumes "started M0" and "mesh_run E M0 acts M" and "M c = Some h" and "mesh_checks E c M rs M1" and "M1 c = Some h1"
    and "mesh_step E M1 c links (Tick ConsensusLoop mo) M2"
    and "CHR ''/'' \<notin> set c" and "me_engine E c = quiet eng" and "mo_env mo = (\<lambda>_. [])"
    and "\<forall>r \<in> set rs. \<exists>bdy. pc_result (me_codec E) r = Inr bdy \<and> pv_result (me_server E c) bdy = Inr r"
    and "in_sequence (ag_db h) rs" and "m \<in> set (map scanMonitor (db_monitors (ag_db h1)))" and "mon_enabled m"
    and "mon_quorum_type m \<noteq> ''n_of_m''" and "mon_failure_threshold m \<le> 100"
    and "online = filter (\<lambda>n. node_status n = NodeOnline) (db_nodes (ag_db h1))"
    and "\<forall>n \<in> set (reporting False m rs online). timed (mon_id m) (node_id n) (ag_db h)"
    and "2 * length (reporting False m rs online) > length online"
    and "inj (\<lambda>j. ti_uuid (mo_inputs mo j))"
    and "\<forall>j. \<not> has_key ir_id (ti_uuid (mo_inputs mo j)) (db_incidents (ag_db h1))"
  shows "\<exists>h2 ts. M2 c = Some h2 \<and> ag_alerts h2 = ag_alerts h1 @ ts \<and>
    outage_phase (stored_incidents (ag_db h2)) (mon_id m) = Some Confirmed \<and>
    notified (stored_channels (ag_db h1)) (if outage_phase (stored_incidents (ag_db h1)) (mon_id m) = Some Confirmed then None
      else Some ''alert'') (filter (\<lambda>t. task_monitor t = m) ts)"
proof -
  obtain bcts where "mesh_run E M bcts M1" using mesh_checks_run [OF assms(4)] by blast
  note run = mesh_run_append [OF this assms(2)]
  have "M0 c \<noteq> None" using mesh_run_members [OF run, of c] assms(5) by simp
  note ok = started_member(1,2) [OF assms(1) run assms(5) this]
  have rec: "received rs (ag_db h) (ag_db h1)"
    using mesh_checks_received [OF assms(4,7,8,10,3)] assms(5) by simp
  note quorum = received_failures_quorum [OF assms(11) rec assms(14,15,17,18)]
  have some: "online \<noteq> []" using assms(18) by (auto simp: reporting_def)
  let ?su = "member_surroundings E links M1 c" and ?h = "h1\<lparr>ag_net := wire_of M1 c\<rparr>"
  obtain b where b: "agent_step ?su ?h (Tick ConsensusLoop mo) b" "M2 c = Some b" using own_step [OF assms(6,5)] by blast
  have "su_engine ?su = quiet eng" using assms(8) by (simp add: member_surroundings_def)
  from agent_tick_runs [OF b(1) this assms(9)] obtain ts where
    ts: "evaluateConsensus (sqlite_store (quiet eng)) (mo_inputs mo) (ag_db h1) = (ts, ag_db b)" "ag_alerts b = ag_alerts h1 @ ts"
    by auto
  from sqlite_tick_announces [OF ts(1) ok assms(19,20,12,13) some [unfolded assms(16)] quorum [unfolded assms(16)]] ts(2) b(2)
  show ?thesis by blast
qed

lemma sample_check:
  obtains a h where "mesh_5 ''n'' = Some a" "ag_callback a = Some ''c''"
    "checked (me_engine sample_env ''n'') a 0 down_moment = Some down_result"
    "mesh_5 ''c'' = Some h" "ag_db h = before_check"
    "has_key mr_id (res_monitor_id down_result) (db_monitors (ag_db h))"
    "has_key node_id (res_node_id down_result) (db_nodes (ag_db h))"
proof -
  obtain a where a: "mesh_5 ''n'' = Some a" "lp_monitor (sch_loops (ag_scheduler a) ! 0) = ''m''"
    using sample_goroutines(2) by (rule goroutine_atE)
  obtain h where h: "mesh_5 ''c'' = Some h" "ag_db h = before_check" using sample_tables(1) by (auto simp: db_at_def)
  have "mesh_0 ''n'' = Some (Run (NewAgent node_config empty_db 1 (\<lambda>_. None)))" by (simp add: mesh_0_def)
  from mesh_run_evolves [OF sample_run this] a(1) have "ag_callback a = Some ''c''" "ag_config a = node_config"
    by (auto simp: member_evolves_def Run_def NewAgent_def node_config_def)
  moreover have "ag_db a = node_tables" using sample_tables(2) a(1) by (simp add: db_at_def)
  moreover note sample_result [OF calculation(2) this a(2)]
  moreover have "me_engine sample_env ''n'' = plain_engine" by (simp add: sample_env_def)
  moreover have "has_key mr_id (res_monitor_id down_result) (db_monitors (ag_db h))"
    "has_key node_id (res_node_id down_result) (db_nodes (ag_db h))"
    by (simp_all add: h(2) down_result_def stored_check_def before_check_def db_setup_eq has_key_def mon_m_def node_a_def)
  ultimately show thesis using that [OF a(1) _ _ h] by simp
qed

lemma sample_checks: "mesh_checks sample_env ''c'' mesh_5 [down_result] mesh_6"
proof -
  obtain a h where "mesh_5 ''n'' = Some a" "ag_callback a = Some ''c''"
    "checked (me_engine sample_env ''n'') a 0 down_moment = Some down_result" "mesh_5 ''c'' = Some h"
    "has_key mr_id (res_monitor_id down_result) (db_monitors (ag_db h))"
    "has_key node_id (res_node_id down_result) (db_nodes (ag_db h))" by (rule sample_check)
  from mesh_checks.pushed [OF no_check sample_steps(6) this(1) _ this(2) _ this(3,4,5,6)]
  show ?thesis by (simp add: links_up_def)
qed

lemma sample_after: "db_at mesh_6 ''c'' = Some after_check"
proof -
  obtain a h where c: "mesh_5 ''n'' = Some a" "ag_callback a = Some ''c''"
    "checked (me_engine sample_env ''n'') a 0 down_moment = Some down_result" "mesh_5 ''c'' = Some h" "ag_db h = before_check"
    "has_key mr_id (res_monitor_id down_result) (db_monitors (ag_db h))"
    "has_key node_id (res_node_id down_result) (db_nodes (ag_db h))" by (rule sample_check)
  have "links_up ''c'' = Delivered" "me_engine sample_env ''c'' = quiet plain_engine"
    "pc_result (me_codec sample_env) down_result = Inr ''r''" "pv_result (me_server sample_env ''c'') ''r'' = Inr down_result"
    by (simp_all add: links_up_def sample_env_def quiet_def plain_engine_def demo_codec_def demo_server_def)
  from pushed_row [OF sample_steps(6) c(1,2) _ _ this(1,2) c(3) this(3,4) c(4,6,7)] c(5) show ?thesis
    by (simp add: db_at_def before_check_def after_check_def db_setup_eq tick_def)
qed

lemma mesh_announces_outage_witness:
  "\<exists>h2 ts. mesh_7 ''c'' = Some h2 \<and> ag_alerts h2 = ag_alerts (the (mesh_6 ''c'')) @ ts \<and>
    outage_phase (stored_incidents (ag_db h2)) (mon_id mon_m) = Some Confirmed \<and>
    notified (stored_channels (ag_db (the (mesh_6 ''c''))))
      (if outage_phase (stored_incidents (ag_db (the (mesh_6 ''c'')))) (mon_id mon_m) = Some Confirmed then None
       else Some ''alert'') (filter (\<lambda>t. task_monitor t = mon_m) ts)"
proof (rule mesh_announces_outage [OF sample_started sample_run _ sample_checks _ sample_steps(7),
      where h = "the (mesh_5 ''c'')" and eng = plain_engine and online = "[node_a]"])
  have "mesh_5 ''c'' \<noteq> None" "mesh_6 ''c'' \<noteq> None"
    using mesh_run_members [OF sample_run, of "''c''"] mesh_step_members [OF sample_steps(6), of "''c''"]
    by (auto simp: mesh_0_def)
  then show "mesh_5 ''c'' = Some (the (mesh_5 ''c''))" "mesh_6 ''c'' = Some (the (mesh_6 ''c''))" by auto
  show "\<forall>r \<in> set [down_result]. \<exists>bdy. pc_result (me_codec sample_env) r = Inr bdy \<and>
      pv_result (me_server sample_env ''c'') bdy = Inr r"
    by (simp add: sample_env_def demo_codec_def demo_server_def)
  have dbs: "ag_db (the (mesh_5 ''c'')) = before_check" "ag_db (the (mesh_6 ''c'')) = after_check"
    using sample_tables(1) sample_after by (auto simp: db_at_def)
  show "in_sequence (ag_db (the (mesh_5 ''c''))) [down_result]"
    "mon_m \<in> set (map scanMonitor (db_monitors (ag_db (the (mesh_6 ''c'')))))"
    "[node_a] = filter (\<lambda>n. node_status n = NodeOnline) (db_nodes (ag_db (the (mesh_6 ''c''))))"
    "\<forall>n \<in> set (reporting False mon_m [down_result] [node_a]). timed (mon_id mon_m) (node_id n) (ag_db (the (mesh_5 ''c'')))"
    "2 * length (reporting False mon_m [down_result] [node_a]) > length [node_a]"
    unfolding dbs by code_simp+
  show "inj (\<lambda>j. ti_uuid (mo_inputs demo_moment j))"
    by (rule injI, drule arg_cong [where f = length]) (simp add: demo_moment_def)
  have "db_incidents (ag_db (the (mesh_6 ''c''))) = []" unfolding dbs by code_simp
  then show "\<forall>j. \<not> has_key ir_id (ti_uuid (mo_inputs demo_moment j)) (db_incidents (ag_db (the (mesh_6 ''c''))))"
    by (simp add: has_key_def)
qed (simp_all add: sample_env_def quiet_def plain_engine_def demo_moment_def mon_m_def)

end
