(* ===== verification/Spec2Isabelle.thy ===== *)
theory Spec2Isabelle
  imports Checker_Properties Setup_Properties Responses Agent_Log Cli_Tree Mesh_Detection
begin

text \<open>
  PingMesh: a mesh of nodes that run checks, and a coordinator that alerts when a quorum of them agrees
  (Go, under \<open>src/\<close>).

  \<^bold>\<open>The program.\<close> Every node runs \<open>pingmesh agent\<close>: a scheduler with one goroutine per enabled monitor, the
  loops of the agent, an API for the local commands and one for the other nodes, over one SQLite file. A
  node that is not the coordinator pushes each check result and a heartbeat to the coordinator and pulls
  its monitors and nodes from there. The coordinator pushes the same configuration, marks silent nodes
  offline, and every 15 seconds evaluates for each monitor how many of the online nodes see it down: a
  quorum opens and confirms an incident and alerts the enabled channels, a quorum of recovered nodes
  resolves it. A node joins with a token that is good for one use; \<open>init\<close> makes the coordinator and its
  certificate authority; the other commands ask the local API.

  \<^bold>\<open>Theories and sources\<close> (paths under \<open>src/internal/\<close>). A Go struct is a \<open>record\<close> with its fields in
  order, a function or method a definition of the same name; a prefix or suffix is added where a name is
  taken (\<open>sqlite_CreateNode\<close>, \<open>check_http\<close>, \<open>runMonitorAdd\<close> for the \<open>RunE\<close> of \<open>newMonitorAddCmd\<close>).
  \<^item> \<open>Prelude\<close>: 64-bit integers with their wrap-around, truncating division, decimal text, sorting, results
    as sums. \<open>Json\<close>: UTF-8, and the JSON text of a slice of strings. \<open>Model_Types\<close>: \<open>model/types.go\<close>.
  \<^item> \<open>Store_Interface\<close> is \<open>store/store.go\<close> as a record of operations; \<open>Contracts\<close> states what each client
    relies on, one locale per part of it. \<open>Database\<close> and \<open>Sqlite_Store\<close> are \<open>store/migrations.go\<close> and
    \<open>store/sqlite.go\<close>: tables as lists of rows, every statement with the constraints that the schema
    checks. \<open>Store_Integrity\<close>, \<open>Store_Queries\<close> and \<open>Sqlite_Contracts\<close> prove the invariants of the
    tables and interpret every locale on the SQLite store.
  \<^item> \<open>Consensus\<close>: \<open>consensus/\<close>. \<open>Alert\<close>: \<open>alert/alert.go\<close>. \<open>Cluster\<close>, \<open>Join\<close>, \<open>Tls\<close>, \<open>Peer_Client\<close>:
    \<open>cluster/\<close>. \<open>Config\<close>: \<open>config/config.go\<close>. \<open>Logbuf\<close>: \<open>logbuf/logbuf.go\<close>. \<open>Checker\<close>: \<open>checker/\<close>.
  \<^item> \<open>agent/\<close>: \<open>Agent\<close> (the consensus tick), \<open>Config_Sync\<close> (heartbeat, push and pull of the configuration),
    \<open>Scheduler\<close> (\<open>scheduler.go\<close>), \<open>Agent_Run\<close> (\<open>New\<close>, \<open>Run\<close> and the loops, composed with everything else, and
    \<open>cli/agent.go\<close> around them). \<open>Mesh\<close> puts several agents together: what the peer client of one sends arrives at
    the peer API of another.
  \<^item> \<open>api/\<close>: \<open>Api\<close> and \<open>Cli_Server\<close> (\<open>server.go\<close>), \<open>Peer_Api\<close> (\<open>peer_handlers.go\<close>), \<open>Cli_Api\<close> and \<open>Cli_Server\<close>
    (\<open>cli_handlers.go\<close> with its routing table). \<open>web/embed.go\<close> is \<open>StaticFS\<close> in \<open>Cli_Server\<close>.
  \<^item> \<open>cli/\<close>: \<open>Setup\<close> (\<open>init\<close>, \<open>join\<close>, \<open>join-token\<close>), \<open>Cli_Text\<close> (columns, durations), \<open>Cli_Monitor\<close>, \<open>Cli_Commands\<close>
    (the commands on the local API), \<open>Cli_Tree\<close> (the command tree, its flags, \<open>main\<close>).

  \<^bold>\<open>How it is modelled.\<close> Operations pass the state explicitly; an error is the left of a sum or \<open>Some\<close> text, a
  panic is a value too (\<open>NilPanic\<close>, \<open>Panicked\<close>, the left of a handler's result). The SQL engine
  (\<open>engine\<close>) may fail any statement and may return rows with equal sort keys in any order; \<open>quiet eng\<close> is the
  engine without faults. Goroutines are interleavings: of statements for the consensus loop
  (\<open>shared_store env eng\<close> in \<open>Shared_Store\<close> executes the statements \<open>env k\<close> of the others before the \<open>k\<close>-th of
  the loop), of locked sections for the scheduler (\<open>sched_step\<close>), of deliveries for alerts
  (\<open>run_alert_tasks\<close>), of all of them for the agent (\<open>agent_step\<close>), and of the agents for the mesh (\<open>mesh_step\<close>),
  where each link may deliver a request, lose its answer or lose it altogether; an agent that asks its own address
  finds nobody there.

  \<^bold>\<open>What is shown.\<close>
  \<^item> Consensus: over all interleavings and faults, unique ids and at most one open incident per monitor, at most one
    alert and one recovery per incident and channel, in this order and in different ticks, incidents that only move
    forward (\<open>Coordinator\<close>);
    every notification has its quorum, and on a database that does not fail a tick makes one step of an
    abstract state machine (\<open>tick_spec\<close> in \<open>Agent_Refinement\<close>) for every monitor (\<open>Announce\<close>), so that
    the results that the nodes push end in the alert and in the recovery (\<open>Detection\<close>).
    \<open>Statements\<close> and \<open>Requests\<close> prove that everything else the agent does executes statements that never
    write an incident, so that the running agent refines the coordinator, a plain node never alerts, and
    the shutdown ends (\<open>Agent_Properties\<close>); its log endpoint serves what it has logged (\<open>Agent_Log\<close>).
  \<^item> Mesh: each agent of a mesh refines the coordinator, only the coordinator alerts, and its monitors reach the
    schedulers of the nodes (\<open>Mesh_Properties\<close>); the failures that the nodes' checks find become an alert
    (\<open>Mesh_Detection\<close>). \<open>Mesh_Samples\<close> is a run of a small mesh, from the pull of the configuration to the alert.
  \<^item> Store: keys, sequences and references at all times; rows are read back as they were stored; the
    counters of consecutive results.
  \<^item> Membership: offline detection, single-use tokens, all-or-nothing joins, \<open>init\<close> and \<open>join\<close> end to end
    (\<open>Membership\<close>, \<open>Setup_Properties\<close>), the merge of a pulled configuration (\<open>Replication\<close>).
  \<^item> Checks: one goroutine per monitor, one check at a time, one result per check, and when each
    kind of check is up (\<open>Scheduling\<close>, \<open>Checker_Properties\<close>).
  \<^item> The local API and its commands: every request is answered in one form (\<open>Responses\<close>), log view, history page
    and edits (\<open>Api_Properties\<close>), and commands end to end through URL, routing table, handler and table
    (\<open>Cli_Properties\<close>).
  Theorems also record where the code does less than it means to: the default of \<open>n_of_m\<close>, thresholds above
  the window, a heartbeat lost during detection, deleted monitors that survive a sync, deletions that
  claim success, units of durations that are dropped; and where it differs from \<open>openapi.yaml\<close>: an outage is confirmed
  and alerted by the tick that opens it (\<open>tick_refines_state_machines\<close> and what follows from it), and the cooldown of a
  monitor is never read (\<open>cooldown_is_ignored\<close>).

  \<^bold>\<open>Bounds.\<close> They are the code's own: 100 results in the window of the counters, 1000 log lines, ten requests
  in a chain of redirects, one megabyte of a body, 90 seconds without a heartbeat, ids cut at 8
  characters. No recursion needs fuel beyond the retries of a monitor and the ten requests.

  \<^bold>\<open>Parameters.\<close> Code that is not in the repository is an argument: the JSON of messages and files (decoders and
  encoders, in \<open>peer_codec\<close>, \<open>cli_codec\<close>, \<open>alert_env\<close>, \<open>config_env\<close>; that of the column \<open>confirming_nodes\<close> is modelled), cryptography, PEM and base64 (\<open>crypto\<close>, \<open>join_env\<close>),
  the network as the checkers and clients see it (\<open>check_world\<close>, \<open>transport\<close>, \<open>ae_post\<close>, \<open>ae_smtp\<close>), files
  (a map, \<open>os_env\<close>), clocks, random ids and the formatting of times.

  \<^bold>\<open>Not modelled.\<close> The contents of the dashboard's files (their names and \<open>spaHandler\<close> are modelled); sockets, timeouts
  and \<open>HEAD\<close> requests of \<open>net/http\<close>; the parsing of the command line by cobra and its help texts; which lines the
  components log (any goroutine may write any line at any time, but for those of the signal handler and of a server that
  ends); memory, and the closing of files and connections; the largest row id, at which SQLite refuses an insertion. In \<open>agent_step\<close>
  a request, a check and the body of a loop other than the consensus loop are one step each: the statements of two of
  them are not interleaved with each other there, only with those of the consensus tick. \<open>Store_Integrity\<close> and
  \<open>Coordinator\<close> allow every interleaving of statements. An agent that has been cancelled may still start the check of a monitor between
  \<open>Stop\<close> and the end of the process; the process ends when \<open>Run\<close> returns.
\<close>

section \<open>The consensus tick on the SQLite store\<close>

lemma sqlite_lists:
  "sqlite_ListEnabledMonitors eng s = (Inr ms, s1) \<Longrightarrow>
     s1 = tick s \<and> mset ms = mset (filter mon_enabled (map scanMonitor (db_monitors s)))"
  by (auto simp: sqlite_ListEnabledMonitors_def filter_map comp_def elim!: db_queryE)

lemma evaluateConsensus_monitors:
  assumes "evaluateConsensus (sqlite_store eng) inp s = (ts, s')" and "ts \<noteq> []"
  obtains ms online t where "mset ms = mset (filter mon_enabled (map scanMonitor (db_monitors s)))"
    "mset online = mset (filter (\<lambda>n. node_status n = NodeOnline) (db_nodes s))"
    "evaluate_monitors (sqlite_store eng) inp 0 online (int (length online)) ms t = (ts, s')"
    "db_results t = db_results s" "db_channels t = db_channels s"
proof -
  obtain q s1 where q: "sqlite_ListEnabledMonitors eng s = (q, s1)" by fastforce
  obtain o1 s2 where o1: "GetOnlineNodes (sqlite_store eng) s1 = (o1, s2)" by fastforce
  have s2: "s2 = tick s1"
    using o1 by (auto simp: GetOnlineNodes_def sqlite_ListNodes_def split: sum.splits prod.splits elim!: db_queryE)
  from assms q o1 obtain ms online where v: "q = Inr ms" "o1 = Inr online"
    "evaluate_monitors (sqlite_store eng) inp 0 online (int (length online)) ms s2 = (ts, s')"
    by (auto simp: evaluateConsensus_def Let_def split: sum.splits if_splits)
  have s1: "s1 = tick s" and ms: "mset ms = mset (filter mon_enabled (map scanMonitor (db_monitors s)))"
    using sqlite_lists [OF q [unfolded v]] by blast+
  have "mset online = mset (filter (\<lambda>n. node_status n = NodeOnline) (db_nodes s))"
    using sqlite_nodes.online_nodes(1) [OF o1 [unfolded v]] s1 by simp
  with that [OF ms _ v(3)] s1 s2 show ?thesis by simp
qed

text \<open>C12: every notification that a tick starts, whatever the engine's faults, is for an enabled monitor
  and an enabled channel, and either an alert of a confirmed incident whose failing online nodes meet the
  monitor's quorum, or a recovery of a resolved one whose recovered online nodes meet it.\<close>

theorem notification_has_quorum:
  assumes "evaluateConsensus (sqlite_store eng) inp s = (ts, s')" and "t \<in> set ts"
  shows "\<exists>online. mset online = mset (filter (\<lambda>n. node_status n = NodeOnline) (db_nodes s)) \<and>
    task_monitor t \<in> set (map scanMonitor (db_monitors s)) \<and> mon_enabled (task_monitor t) \<and>
    task_channel t \<in> set (stored_channels s) \<and> ch_enabled (task_channel t) \<and>
    justified (\<lambda>m n. failure_run eng m n s) (\<lambda>m n. success_run eng m n s) online
      (int (length online)) (task_monitor t) t"
proof -
  from assms(2) have "ts \<noteq> []" by auto
  with assms(1) obtain ms online v where v:
    "mset ms = mset (filter mon_enabled (map scanMonitor (db_monitors s)))"
    "mset online = mset (filter (\<lambda>n. node_status n = NodeOnline) (db_nodes s))"
    "evaluate_monitors (sqlite_store eng) inp 0 online (int (length online)) ms v = (ts, s')"
    "db_results v = db_results s" "db_channels v = db_channels s"
    by (rule evaluateConsensus_monitors)
  note j = sqlite_alerting.evaluate_monitors_justified [OF v(3) assms(2)]
  have "task_monitor t \<in> set (filter mon_enabled (map scanMonitor (db_monitors s)))"
    using j(1) v(1) by (metis set_mset_mset)
  moreover have "(\<lambda>m n. failure_run eng m n v) = (\<lambda>m n. failure_run eng m n s)"
    "(\<lambda>m n. success_run eng m n v) = (\<lambda>m n. success_run eng m n s)"
    using runs_of_tables [OF v(4)] by (simp_all add: fun_eq_iff)
  moreover have "stored_channels v = stored_channels s" by (simp add: stored_channels_def v(5))
  ultimately show ?thesis using j(2,3) v(2) by auto
qed

lemma notification_has_quorum_witness:
  "\<exists>online. mset online = mset (filter (\<lambda>n. node_status n = NodeOnline) (db_nodes db_down)) \<and>
    task_monitor (hd (fst (evaluateConsensus (sqlite_store plain_engine) demo_inputs db_down)))
      \<in> set (map scanMonitor (db_monitors db_down)) \<and>
    mon_enabled (task_monitor (hd (fst (evaluateConsensus (sqlite_store plain_engine) demo_inputs db_down)))) \<and>
    task_channel (hd (fst (evaluateConsensus (sqlite_store plain_engine) demo_inputs db_down)))
      \<in> set (stored_channels db_down) \<and>
    ch_enabled (task_channel (hd (fst (evaluateConsensus (sqlite_store plain_engine) demo_inputs db_down)))) \<and>
    justified (\<lambda>m n. failure_run plain_engine m n db_down) (\<lambda>m n. success_run plain_engine m n db_down) online
      (int (length online))
      (task_monitor (hd (fst (evaluateConsensus (sqlite_store plain_engine) demo_inputs db_down))))
      (hd (fst (evaluateConsensus (sqlite_store plain_engine) demo_inputs db_down)))"
proof (rule notification_has_quorum)
  show "evaluateConsensus (sqlite_store plain_engine) demo_inputs db_down =
      (fst (evaluateConsensus (sqlite_store plain_engine) demo_inputs db_down),
       snd (evaluateConsensus (sqlite_store plain_engine) demo_inputs db_down))" by simp
  show "hd (fst (evaluateConsensus (sqlite_store plain_engine) demo_inputs db_down))
      \<in> set (fst (evaluateConsensus (sqlite_store plain_engine) demo_inputs db_down))" by code_simp
qed

text \<open>On a database that does not fail, the evaluation of a monitor implements the abstract outage state
  machine: the phase of the monitor's open incident and the event sent are those of the specification,
  one task per enabled channel, and no other monitor's phase changes.\<close>

lemma evaluation_refines_state_machine:
  assumes "evaluateMonitorConsensus (sqlite_store (quiet eng)) inp mon online nodes s = (ts, s')"
    and "incidents_ok (stored_incidents s)" and "has_key mr_id (mon_id mon) (db_monitors s)"
    and "\<not> has_key ir_id (ti_uuid inp) (db_incidents s)"
  shows "(\<exists>ev. tick_spec
        (outage_quorum (\<lambda>m n. failure_run (quiet eng) m n s) mon online nodes)
        (recovery_quorum (\<lambda>m n. success_run (quiet eng) m n s) mon online nodes)
        (outage_phase (stored_incidents s) (mon_id mon))
      = (outage_phase (stored_incidents s') (mon_id mon), ev) \<and> notified (stored_channels s) ev ts) \<and>
    (\<forall>m. m \<noteq> mon_id mon \<longrightarrow> outage_phase (stored_incidents s') m = outage_phase (stored_incidents s) m)"
proof
  have "ti_uuid inp \<notin> inc_id ` set (stored_incidents s)"
    using assms(4) by (auto simp: stored_incidents_def has_key_def)
  from sqlite_reliable.evaluate_refines [OF assms(1,2) _ this] assms(3)
  show "\<exists>ev. tick_spec
        (outage_quorum (\<lambda>m n. failure_run (quiet eng) m n s) mon online nodes)
        (recovery_quorum (\<lambda>m n. success_run (quiet eng) m n s) mon online nodes)
        (outage_phase (stored_incidents s) (mon_id mon))
      = (outage_phase (stored_incidents s') (mon_id mon), ev) \<and> notified (stored_channels s) ev ts"
    by (simp add: monitor_known_def)
  show "\<forall>m. m \<noteq> mon_id mon \<longrightarrow> outage_phase (stored_incidents s') m = outage_phase (stored_incidents s) m"
    using sqlite_alerting.evaluate_other_monitor [OF assms(1,2)] by blast
qed

text \<open>C13: with a majority quorum and positive thresholds, the same node table can never call for an outage
  and for a recovery at once: the failing and the recovered nodes are disjoint.\<close>

theorem no_outage_with_recovery:
  assumes "mon_quorum_type mon \<noteq> ''n_of_m''"
    and "mon_failure_threshold mon > 0" and "mon_recovery_threshold mon > 0"
    and "outage_quorum (\<lambda>m n. failure_run eng m n s) mon online (int (length online))"
  shows "\<not> recovery_quorum (\<lambda>m n. success_run eng m n s) mon online (int (length online))"
  by (rule majority_exclusive [OF assms])

lemma no_outage_with_recovery_witness:
  "\<not> recovery_quorum (\<lambda>m n. success_run plain_engine m n db_down) mon_m [node_a] (int (length [node_a]))"
  by (rule no_outage_with_recovery; code_simp)

text \<open>C14: the counters look at the 100 newest results only, so a failure threshold above 100 can never be
  met by a majority monitor: its evaluation opens no incident and alerts nobody.\<close>

theorem threshold_above_limit_is_silent:
  assumes "evaluateMonitorConsensus (sqlite_store eng) inp mon online (int (length online)) s = (ts, s')"
    and "mon_failure_threshold mon > 100" and "mon_quorum_type mon \<noteq> ''n_of_m''"
  shows "length (stored_incidents s') = length (stored_incidents s) \<and> filter (\<lambda>t. task_event t = ''alert'') ts = []"
proof
  have none: "\<not> outage_quorum (\<lambda>m n. failure_run eng m n s) mon online (int (length online))"
  proof -
    have "failing (\<lambda>m n. failure_run eng m n s) mon online = []"
      unfolding failing_def filter_empty_conv
      using assms(2) runs_bounded(2) [of eng "mon_id mon" _ s] by (meson le_less_trans not_le)
    with assms(3) show ?thesis by (simp add: outage_quorum_def majority_iff)
  qed
  show "length (stored_incidents s') = length (stored_incidents s)"
    using assms(1)
    by (cases rule: sqlite_alerting.evaluate_cases) (use none in \<open>auto, metis?\<close>)
  show "filter (\<lambda>t. task_event t = ''alert'') ts = []"
    using sqlite_alerting.evaluate_justified(1) [OF assms(1)] none
    by (auto simp: justified_def filter_empty_conv)
qed

definition mon_deaf :: monitor where
  "mon_deaf = mon_m\<lparr>mon_failure_threshold := 101\<rparr>"

definition deaf_evaluation :: "alert_task list \<times> db" where
  "deaf_evaluation = evaluateMonitorConsensus (sqlite_store plain_engine) inputs_i mon_deaf [node_a]
     (int (length [node_a])) db_down"

lemma threshold_above_limit_is_silent_witness:
  "length (stored_incidents (snd deaf_evaluation)) = length (stored_incidents db_down) \<and>
    filter (\<lambda>t. task_event t = ''alert'') (fst deaf_evaluation) = []"
proof (rule threshold_above_limit_is_silent)
  show "evaluateMonitorConsensus (sqlite_store plain_engine) inputs_i mon_deaf [node_a]
      (int (length [node_a])) db_down = (fst deaf_evaluation, snd deaf_evaluation)"
    by (simp add: deaf_evaluation_def)
qed (simp_all add: mon_deaf_def mon_m_def)

text \<open>C15: a monitor created with the quorum \<open>n_of_m\<close> and no number keeps the number 0, and its very first
  evaluation confirms an outage although no node has seen a failure.\<close>

theorem n_of_m_default_always_alarms:
  assumes "mon_quorum_type m = ''n_of_m''" and "mon_quorum_n m = 0"
    and "evaluateMonitorConsensus (sqlite_store (quiet eng)) inp (new_monitor uuid now m) online nodes s = (ts, s')"
    and "incidents_ok (stored_incidents s)" and "has_key mr_id uuid (db_monitors s)"
    and "\<not> has_key ir_id (ti_uuid inp) (db_incidents s)"
  shows "outage_phase (stored_incidents s') uuid = Some Confirmed"
proof -
  have "outage_quorum (\<lambda>m n. failure_run (quiet eng) m n s) (new_monitor uuid now m) online nodes"
    using assms(1,2) by (simp add: outage_quorum_def new_monitor_def EvaluateQuorum_def)
  moreover have "ti_uuid inp \<notin> inc_id ` set (stored_incidents s)"
    using assms(6) by (auto simp: stored_incidents_def has_key_def)
  ultimately show ?thesis
    using sqlite_reliable.evaluate_refines_outage [OF assms(3,4)] assms(5)
    by (simp add: monitor_known_def new_monitor_def)
qed

definition mon_n_of_m :: monitor where
  "mon_n_of_m = mon_m\<lparr>mon_quorum_type := ''n_of_m''\<rparr>"

lemma n_of_m_default_always_alarms_witness:
  "outage_phase (stored_incidents (snd (evaluateMonitorConsensus (sqlite_store (quiet plain_engine)) inputs_i
    (new_monitor ''m'' 1 mon_n_of_m) [node_a] 1 db_setup))) ''m'' = Some Confirmed"
proof (rule n_of_m_default_always_alarms)
  show "evaluateMonitorConsensus (sqlite_store (quiet plain_engine)) inputs_i
      (new_monitor ''m'' 1 mon_n_of_m) [node_a] 1 db_setup =
    (fst (evaluateMonitorConsensus (sqlite_store (quiet plain_engine)) inputs_i
      (new_monitor ''m'' 1 mon_n_of_m) [node_a] 1 db_setup),
     snd (evaluateMonitorConsensus (sqlite_store (quiet plain_engine)) inputs_i
      (new_monitor ''m'' 1 mon_n_of_m) [node_a] 1 db_setup))" by simp
qed code_simp+

text \<open>The evaluation never looks at the cooldown of a monitor.\<close>

definition with_cooldown :: "(monitor \<Rightarrow> int64) \<Rightarrow> monitor \<Rightarrow> monitor" where
  "with_cooldown f m = m\<lparr>mon_cooldown_ms := f m\<rparr>"

definition retold :: "(monitor \<Rightarrow> int64) \<Rightarrow> alert_task \<Rightarrow> alert_task" where
  "retold f t = t\<lparr>task_monitor := with_cooldown f (task_monitor t)\<rparr>"

lemma with_cooldown_fields [simp]:
  "mon_id (with_cooldown f m) = mon_id m" "mon_quorum_type (with_cooldown f m) = mon_quorum_type m"
  "mon_quorum_n (with_cooldown f m) = mon_quorum_n m"
  "mon_failure_threshold (with_cooldown f m) = mon_failure_threshold m"
  "mon_recovery_threshold (with_cooldown f m) = mon_recovery_threshold m"
  by (simp_all add: with_cooldown_def)

lemma counts_ignore_cooldown [simp]:
  "count_failing st (with_cooldown f mon) ns c ids s = count_failing st mon ns c ids s"
  "count_recovered st (with_cooldown f mon) ns c s = count_recovered st mon ns c s"
  by (induction ns arbitrary: c ids s) (simp_all split: prod.splits sum.splits)

lemma dispatch_with_cooldown:
  "dispatch st i (with_cooldown f mon) ev s = apfst (map (retold f)) (dispatch st i mon ev s)"
  by (simp add: dispatch_def retold_def comp_def split: prod.splits sum.splits)

lemma evaluate_ignores_cooldown:
  "evaluateMonitorConsensus st inp (with_cooldown f mon) online n s
    = apfst (map (retold f)) (evaluateMonitorConsensus st inp mon online n s)"
  by (simp add: evaluateMonitorConsensus_def SendAlert_def SendRecovery_def dispatch_with_cooldown
      split: prod.splits sum.splits option.splits)

text \<open>C40: the cooldown of a monitor has no effect, although \<open>openapi.yaml\<close> calls it the minimum time between repeated alerts
  for the same monitor: whatever other cooldowns the monitors have, on any store and in any state the tick leaves the same
  state, and starts the same alerts on the same channels for the same incidents.\<close>

theorem cooldown_is_ignored:
  "evaluate_monitors st inp k online n (map (\<lambda>m. m\<lparr>mon_cooldown_ms := f m\<rparr>) ms) s =
    (case evaluate_monitors st inp k online n ms s of (ts, s') \<Rightarrow>
      (map (\<lambda>t. t\<lparr>task_monitor := (task_monitor t)\<lparr>mon_cooldown_ms := f (task_monitor t)\<rparr>\<rparr>) ts, s'))"
proof -
  have "evaluate_monitors st inp k online n (map (with_cooldown f) ms) s
      = apfst (map (retold f)) (evaluate_monitors st inp k online n ms s)"
    by (induction ms arbitrary: k s) (simp_all add: evaluate_ignores_cooldown split: prod.splits)
  then show ?thesis
    unfolding with_cooldown_def [abs_def] retold_def [abs_def] by (simp add: apfst_def map_prod_def case_prod_unfold)
qed

section \<open>The store\<close>

text \<open>C16: whatever statements run on a fresh database, in whatever order and with whatever faults, primary
  keys stay unique, generated ids stay within their sequence, and every foreign key resolves.\<close>

theorem tables_keep_integrity:
  assumes "sql_run eng empty_db s"
  shows "db_ok s"
  using sql_run_ok [OF assms] by simp

lemma tables_keep_integrity_witness: "db_ok db_down"
proof (rule tables_keep_integrity)
  show "sql_run plain_engine empty_db db_down"
    unfolding db_down_def db_setup_def using sql_run_trans exec_all_run by blast
qed

text \<open>C17: what a monitor, an alert channel, an incident and a result look like when they are read back after
  they were stored: unchanged, except that the node ids of an incident, which are stored as JSON, lose what is not
  UTF-8, and that a result gets its id and loses empty details.\<close>

theorem stored_rows_read_back:
  assumes "sqlite_CreateMonitor eng m s = (Inr (), s1)"
    and "sqlite_CreateAlertChannel eng c s1 = (Inr (), s2)"
    and "sqlite_CreateIncident eng i s2 = (Inr (), s3)"
    and "sqlite_InsertCheckResult eng r s3 = (Inr (), s4)"
    and "timed (res_monitor_id r) (res_node_id r) s3"
    and "newest (res_monitor_id r) (res_node_id r) s3 (res_timestamp r)"
  shows "fst (sqlite_GetMonitor (quiet eng) (mon_id m) s4) = Inr (Some m) \<and>
    fst (sqlite_GetAlertChannel (quiet eng) (ch_id c) s4) = Inr (Some c) \<and>
    fst (sqlite_GetIncident (quiet eng) (inc_id i) s4)
      = Inr (Some (i\<lparr>inc_confirming_nodes := map_option (map utf8_text) (inc_confirming_nodes i)\<rparr>)) \<and>
    (\<forall>n. valid_utf8 n \<longrightarrow> utf8_text n = n) \<and>
    fst (sqlite_GetLatestResult (quiet eng) (res_monitor_id r) (res_node_id r) s4)
      = Inr (Some (r\<lparr>res_id := db_result_seq s4,
          res_details := (if res_details r = Some [] then None else res_details r)\<rparr>))"
proof -
  from assms(1) have m: "\<not> has_key mr_id (mon_id m) (db_monitors s)"
    "s1 = (tick s)\<lparr>db_monitors := db_monitors s @ [bind_monitor m]\<rparr>"
    by (auto simp: sqlite_CreateMonitor_def row_insert_Some elim!: db_execE split: option.splits)
  from assms(2) have c: "\<not> has_key cr_id (ch_id c) (db_channels s1)"
    "s2 = (tick s1)\<lparr>db_channels := db_channels s1 @ [bind_channel c]\<rparr>"
    by (auto simp: sqlite_CreateAlertChannel_def row_insert_Some elim!: db_execE split: option.splits)
  from assms(3) have i: "\<not> has_key ir_id (inc_id i) (db_incidents s2)"
    "s3 = (tick s2)\<lparr>db_incidents := db_incidents s2 @ [bind_incident i]\<rparr>"
    by (auto simp: sqlite_CreateIncident_def row_insert_Some elim!: db_execE split: option.splits if_splits)
  from assms(4) have r: "s4 = (tick s3)\<lparr>db_results := db_results s3 @ [bind_result (db_result_seq s3 + 1) r],
      db_result_seq := db_result_seq s3 + 1\<rparr>"
    by (auto simp: sqlite_InsertCheckResult_def elim!: db_execE split: if_splits)
  have "results_desc (quiet eng) (res_monitor_id r) (res_node_id r) s4
      = bind_result (db_result_seq s3 + 1) r # results_desc (quiet eng) (res_monitor_id r) (res_node_id r) s3"
    by (rule results_desc_insert) (use assms(5,6) r in simp_all)
  with m c i r show ?thesis
    by (simp add: sqlite_GetMonitor_def sqlite_GetAlertChannel_def sqlite_GetIncident_def
        sqlite_GetLatestResult_def db_query_def find_append_key)
qed

definition inc_i :: incident where
  "inc_i = (new_incident ''i'' 5 ''m'')\<lparr>inc_confirming_nodes := Some [''a'', ''<b>'' @ bytes [195, 164]]\<rparr>"

definition readback_steps :: "db list" where
  "readback_steps = (let s0 = exec_foreign plain_engine (FCreateNode node_a) empty_db;
     s1 = snd (sqlite_CreateMonitor plain_engine mon_m s0);
     s2 = snd (sqlite_CreateAlertChannel plain_engine channel_c s1);
     s3 = snd (sqlite_CreateIncident plain_engine inc_i s2);
     s4 = snd (sqlite_InsertCheckResult plain_engine (result_at ''down'' 10) s3)
   in [s0, s1, s2, s3, s4])"

lemma stored_rows_read_back_witness:
  "fst (sqlite_GetMonitor (quiet plain_engine) (mon_id mon_m) (readback_steps ! 4)) = Inr (Some mon_m) \<and>
    fst (sqlite_GetAlertChannel (quiet plain_engine) (ch_id channel_c) (readback_steps ! 4))
      = Inr (Some channel_c) \<and>
    fst (sqlite_GetIncident (quiet plain_engine) (inc_id inc_i) (readback_steps ! 4)) = Inr (Some inc_i) \<and>
    ir_confirming_nodes (bind_incident inc_i) = ''[\"a\",\"'' @ bslash # ''u003cb'' @ bslash # ''u003e'' @ bytes [195, 164] @ ''\"]'' \<and>
    fst (sqlite_GetLatestResult (quiet plain_engine) (res_monitor_id (result_at ''down'' 10))
        (res_node_id (result_at ''down'' 10)) (readback_steps ! 4))
      = Inr (Some (result_at ''down'' 10\<lparr>res_id := db_result_seq (readback_steps ! 4),
          res_details := (if res_details (result_at ''down'' 10) = Some [] then None
            else res_details (result_at ''down'' 10))\<rparr>))"
proof -
  let ?s = "\<lambda>k. readback_steps ! k"
  have "sqlite_CreateMonitor plain_engine mon_m (?s 0) = (Inr (), ?s 1)"
    "sqlite_CreateAlertChannel plain_engine channel_c (?s 1) = (Inr (), ?s 2)"
    "sqlite_CreateIncident plain_engine inc_i (?s 2) = (Inr (), ?s 3)"
    "sqlite_InsertCheckResult plain_engine (result_at ''down'' 10) (?s 3) = (Inr (), ?s 4)"
    "timed (res_monitor_id (result_at ''down'' 10)) (res_node_id (result_at ''down'' 10)) (?s 3)"
    "newest (res_monitor_id (result_at ''down'' 10)) (res_node_id (result_at ''down'' 10)) (?s 3)
      (res_timestamp (result_at ''down'' 10))"
    by code_simp+
  note stored_rows_read_back [OF this]
  moreover have "valid_utf8 ''a''" "valid_utf8 (''<b>'' @ bytes [195, 164])"
    "ir_confirming_nodes (bind_incident inc_i) = ''[\"a\",\"'' @ bslash # ''u003cb'' @ bslash # ''u003e'' @ bytes [195, 164] @ ''\"]''"
    by code_simp+
  moreover from this have "inc_i\<lparr>inc_confirming_nodes := map_option (map utf8_text) (inc_confirming_nodes inc_i)\<rparr> = inc_i"
    by (simp add: inc_i_def)
  ultimately show ?thesis by simp
qed

section \<open>Membership\<close>

text \<open>C18: on a database that does not fail, one pass of offline detection marks exactly the online nodes that
  were last seen before the cutoff, and changes nothing else of any node.\<close>

theorem offline_detection_exact:
  assumes "distinct (map node_id (db_nodes s))"
    and "DetectOfflineNodes (sqlite_store (quiet eng)) now timeout s = (r, s')"
  shows "r = Inr () \<and> db_nodes s' = map (\<lambda>n. if node_last_seen n < wrap64 (now - timeout) \<and>
    node_status n = NodeOnline then n\<lparr>node_status := NodeOffline\<rparr> else n) (db_nodes s)"
proof -
  have "is_ok r"
    using assms(2) by (auto simp: DetectOfflineNodes_def sqlite_ListNodes_def db_query_def)
  moreover have "is_ok (fst (UpdateNodeStatus (sqlite_store (quiet eng)) k x t s))" for k x t s
    by (simp add: sqlite_UpdateNodeStatus_def db_exec_def)
  ultimately have "db_nodes s' = map (mark_stale (wrap64 (now - timeout))) (db_nodes s)"
    using sqlite_nodes.detect_offline(2) [OF assms] by blast
  with \<open>is_ok r\<close> show ?thesis by (auto simp: is_ok_iff mark_stale_def stale_def)
qed

lemma offline_detection_exact_witness:
  "db_nodes (snd (DetectOfflineNodes (sqlite_store (quiet plain_engine)) 100000 90000 db_setup))
     = [node_a\<lparr>node_status := NodeOffline\<rparr>]"
proof -
  have "distinct (map node_id (db_nodes db_setup))" by code_simp
  from offline_detection_exact [OF this, of plain_engine 100000 90000]
  show ?thesis by (simp add: db_setup_eq node_a_def wrap64_def) (metis prod.collapse)
qed

text \<open>C19: a heartbeat that arrives between the listing of the nodes and the update is lost: the node is marked
  offline with its old last-seen time, although it has just been seen.\<close>

theorem heartbeat_lost_in_detection:
  assumes "db_nodes s = [n]" and "node_status n = NodeOnline"
    and "node_last_seen n < wrap64 (now - timeout)"
    and "env 0 = []" and "env 1 = [FUpdateNodeStatus (node_id n) NodeOnline now]"
  shows "db_nodes (fst (snd (DetectOfflineNodes (shared_store env (quiet eng)) now timeout (s, 0))))
    = [n\<lparr>node_status := NodeOffline\<rparr>]"
proof -
  have "order_by (eng_scan_nodes (quiet eng)) node_created_at [n] = [n]"
    by (metis length_order_by mset_order_by mset_single_iff)
  with assms show ?thesis
    by (cases n) (simp add: DetectOfflineNodes_def interleave_def exec_all_def sqlite_ListNodes_def
      sqlite_UpdateNodeStatus_def db_query_def db_exec_def stale_def row_update_def)
qed

lemma heartbeat_lost_in_detection_witness:
  "db_nodes (fst (snd (DetectOfflineNodes
      (shared_store ((\<lambda>_. [])(1 := [FUpdateNodeStatus ''a'' ''online'' 100000])) (quiet plain_engine))
      100000 90000 (db_setup, 0)))) = [node_a\<lparr>node_status := NodeOffline\<rparr>]"
  by (rule heartbeat_lost_in_detection) (simp_all add: db_setup_eq node_a_def wrap64_def)

section \<open>Notifications\<close>

lemma run_alert_tasks_keys:
  assumes "\<forall>(t, x, y) \<in> set sched. has_key cr_id (ch_id (task_channel t)) (db_channels s)"
  shows "map delivery_key (stored_history (run_alert_tasks env (sqlite_store (quiet eng)) sched s))
    = map delivery_key (stored_history s) @ map (\<lambda>(t, x, y). task_key t) sched"
  using assms
proof (induction sched arbitrary: s)
  case (Cons p sched)
  obtain t x y where p: "p = (t, x, y)" by (metis surj_pair)
  let ?st = "sqlite_store (quiet eng)"
  let ?rec = "delivery_record (ch_id (task_channel t)) (inc_id (task_incident t)) (mon_id (task_monitor t))
    (task_event t) (sendToChannel env x (task_channel t) (task_incident t) (task_monitor t) (task_event t)) y"
  have key: "has_key cr_id (rec_channel_id ?rec) (db_channels s)"
    using Cons.prems p by (simp add: delivery_record_def)
  then obtain s1 where s1: "InsertAlertRecord ?st ?rec s = (Inr (), s1)"
    by (simp add: sqlite_InsertAlertRecord_def db_exec_def)
  note one = sqlite_alerts.run_task_history [OF s1]
  have "db_channels s1 = db_channels s"
    using s1 key by (auto simp: sqlite_InsertAlertRecord_def db_exec_def)
  with Cons.prems p have "\<forall>(t, x, y) \<in> set sched. has_key cr_id (ch_id (task_channel t)) (db_channels s1)"
    by auto
  from Cons.IH [OF this] one(1,3) p show ?case by simp
qed simp

text \<open>C20: the goroutines of one dispatch may run in any order and at any time; on a database that does not
  fail they add exactly one history record per enabled channel to the history, for the incident, the monitor and the
  event of the dispatch, and nothing else.\<close>

theorem deliveries_recorded_once:
  assumes "dispatch (sqlite_store (quiet eng)) inc mon ev s = (ts, s1)"
    and "mset (map fst sched) = mset ts"
  shows "mset (map delivery_key (stored_history (run_alert_tasks env (sqlite_store (quiet eng)) sched s1)))
    = mset (map delivery_key (stored_history s)) +
      mset (map (\<lambda>c. (ch_id c, inc_id inc, mon_id mon, ev)) (filter ch_enabled (stored_channels s)))"
proof -
  note d = sqlite_alerts.dispatch_channels [OF assms(1)]
  have chan: "has_key cr_id (ch_id (task_channel t)) (db_channels s1)" if "t \<in> set ts" for t
  proof -
    have "ts \<noteq> []" using that by auto
    with d(3) have "mset (map task_channel ts) = mset (filter ch_enabled (stored_channels s))" by blast
    from mset_eq_setD [OF this] that have "task_channel t \<in> set (stored_channels s1)"
      using d(1) by auto
    then show ?thesis by (auto simp: stored_channels_def has_key_iff)
  qed
  have "set (map fst sched) = set ts" using assms(2) by (rule mset_eq_setD)
  with chan have "\<forall>(t, x, y) \<in> set sched. has_key cr_id (ch_id (task_channel t)) (db_channels s1)"
    by force
  from run_alert_tasks_keys [OF this]
  have "mset (map delivery_key (stored_history (run_alert_tasks env (sqlite_store (quiet eng)) sched s1)))
      = mset (map delivery_key (stored_history s1)) + mset (map (\<lambda>(t, x, y). task_key t) sched)"
    by simp
  also have "mset (map (\<lambda>(t, x, y). task_key t) sched) = mset (map task_key (map fst sched))"
    by (simp add: comp_def split_def)
  also have "\<dots> = mset (map task_key ts)" using assms(2) by (metis mset_map)
  also have "map task_key ts = map (\<lambda>c. (ch_id c, inc_id inc, mon_id mon, ev)) (map task_channel ts)"
    using d(4) by (simp add: task_key_def)
  also have "mset \<dots> = mset (map (\<lambda>c. (ch_id c, inc_id inc, mon_id mon, ev)) (filter ch_enabled (stored_channels s)))"
    using sqlite_reliable.dispatch_total [OF assms(1)] by (metis mset_map)
  finally show ?thesis using d(2) by simp
qed

definition demo_env :: alert_env where
  "demo_env = \<lparr>ae_rfc3339 = (\<lambda>_. ''t''), ae_stamp = (\<lambda>_. ''t''), ae_duration = (\<lambda>_. ''d''),
     ae_parse_webhook = (\<lambda>_. Inr \<lparr>wh_url = ''u'', wh_secret = []\<rparr>), ae_parse_email = (\<lambda>_. Inl ''e''),
     ae_marshal = (\<lambda>_. Inr ''b''), ae_hmac = (\<lambda>_ _. ''s''), ae_request_error = (\<lambda>_. None),
     ae_post = (\<lambda>_. Inr 200), ae_smtp = (\<lambda>_. None), ae_error_text = (\<lambda>_. ''e'')\<rparr>"

definition demo_dispatch :: "alert_task list \<times> db" where
  "demo_dispatch = dispatch (sqlite_store (quiet plain_engine)) inc_i mon_m ''alert'' db_setup"

lemma deliveries_recorded_once_witness:
  "mset (map delivery_key (stored_history (run_alert_tasks demo_env (sqlite_store (quiet plain_engine))
      (map (\<lambda>t. (t, 1, 2)) (fst demo_dispatch)) (snd demo_dispatch))))
    = mset (map delivery_key (stored_history db_setup)) +
      mset (map (\<lambda>c. (ch_id c, inc_id inc_i, mon_id mon_m, ''alert'')) (filter ch_enabled (stored_channels db_setup)))"
  by (rule deliveries_recorded_once [of plain_engine inc_i mon_m "''alert''" db_setup])
    (simp_all add: demo_dispatch_def comp_def)

text \<open>A webhook delivery counts as a success exactly if the configuration parses, the payload is encoded,
  the request can be built and sent, and the answer's status is below 300; the signature header is there
  exactly if a secret is configured.\<close>

lemma webhook_success:
  "sendWebhook env now ch inc mon ev = None \<longleftrightarrow>
    (\<exists>cfg body code. ae_parse_webhook env (ch_config ch) = Inr cfg \<and>
      ae_marshal env \<lparr>pay_event = (if ev = ''recovery'' then ''incident.resolved'' else ''incident.confirmed''),
        pay_timestamp = ae_rfc3339 env now, pay_incident = buildIncidentDetail env inc,
        pay_monitor = buildMonitorSummary mon\<rparr> = Inr body \<and>
      ae_request_error env (wh_url cfg) = None \<and>
      ae_post env \<lparr>rq_url = wh_url cfg, rq_headers = [(''Content-Type'', ''application/json''),
          (''User-Agent'', ''PingMesh/1.0'')] @ (if wh_secret cfg = [] then []
            else [(''X-PingMesh-Signature'', ''sha256='' @ ae_hmac env (wh_secret cfg) body)]),
        rq_body = body\<rparr> = Inr code \<and> code < 300)"
  by (auto simp: sendWebhook_def webhook_headers_def Let_def split: sum.splits option.splits if_splits)

end
